(* ===== verification/Prelude.thy ===== *)
theory Prelude
  imports Main "HOL-Library.Word"
begin

text \<open>
  The shared base of the development: the names of the machine integer types the C++ code
  uses, the faults a C++ statement can have in the model, the little-endian memory image of
  an integer and the byte swaps behind \<open>MY_HTONS\<close> and \<open>MY_HTONL\<close>, reads of an integer out
  of a byte buffer, and the generic lemmas on lists and words the components share.
\<close>

unbundle bit_operations_syntax

section \<open>Types\<close>

type_synonym u8 = "8 word"
type_synonym u16 = "16 word"
type_synonym u32 = "32 word"

text \<open>
  A statement of the program whose behaviour C++ leaves undefined (a write past the end of an
  array, a read past the end of one) is a fault of the model, with the array it concerns.
\<close>

datatype fault =
    Overrun_rcvData    \<comment> \<open>\<^verbatim>\<open>handle->rcvData\<close> written past its allocation\<close>
  | Underrun_rcvData   \<comment> \<open>\<^verbatim>\<open>handle->rcvData\<close> written in front of its allocation\<close>
  | Uninitialised_read \<comment> \<open>an uninitialised local interpreted\<close>
  | Overrun_photo_id   \<comment> \<open>\<^verbatim>\<open>InfoForStore.photo_id\<close> written past its ten entries\<close>
  | Overrun_media      \<comment> \<open>\<^verbatim>\<open>s_media_begin\<close> written past its twenty entries\<close>
  | Overrun_outbuf     \<comment> \<open>the buffer given to \<^verbatim>\<open>ptr_queue_pop\<close> overrun\<close>
  | Use_after_free     \<comment> \<open>a heap block read or written after \<^verbatim>\<open>free\<close>\<close>
  | Double_free        \<comment> \<open>a heap block freed twice\<close>
  | Negative_length    \<comment> \<open>a negative length handed to \<^verbatim>\<open>write\<close>\<close>
  | Overrun_user       \<comment> \<open>a table of user names read behind its end\<close>
  | Overrun_filename   \<comment> \<open>the 32 byte arrays of \<^verbatim>\<open>parse_filename\<close> overrun\<close>
  | Overrun_bitrate    \<comment> \<open>a bit rate table of \<^verbatim>\<open>g_configini\<close> overrun\<close>
  | Overrun_json       \<comment> \<open>the buffer of the configuration file overrun\<close>
  | Null_pointer       \<comment> \<open>a null pointer written through\<close>
  | Overrun_status     \<comment> \<open>the table of status names of the log read behind its end\<close>
  | Overrun_rbname     \<comment> \<open>the 50 bytes for the name of a ring buffer overrun\<close>
  | Division_by_zero   \<comment> \<open>an integer division by zero\<close>
  | Bad_conversion     \<comment> \<open>a floating point number that does not fit converted to an integer\<close>
  | Uncaught_exception \<comment> \<open>an exception of the C++ library that nothing catches\<close>
  | Assert_failed      \<comment> \<open>an \<^verbatim>\<open>assert\<close> that does not hold\<close>

type_synonym 'a outcome = "fault + 'a"

definition bindE :: "'a outcome \<Rightarrow> ('a \<Rightarrow> 'b outcome) \<Rightarrow> 'b outcome" where
  "bindE m k = (case m of Inl e \<Rightarrow> Inl e | Inr x \<Rightarrow> k x)"

section \<open>Collections of rewrite rules\<close>

named_theorems struct_simps \<open>memory images of the packed structs\<close>
named_theorems queue_simps \<open>effect of the queue operations\<close>
named_theorems send_simps \<open>effect of queueing a message on the device state\<close>

lemma bindE_simps [simp]:
  "bindE (Inl e) k = Inl e"
  "bindE (Inr x) k = k x"
  by (simp_all add: bindE_def)

lemma bindE_Inr_iff: "bindE m k = Inr y \<longleftrightarrow> (\<exists>x. m = Inr x \<and> k x = Inr y)"
  by (cases m) auto

text \<open>A computation that reaches its result without a fault.\<close>

definition safe :: "'a outcome \<Rightarrow> bool" where
  "safe m \<longleftrightarrow> (\<exists>x. m = Inr x)"

named_theorems safe_intros \<open>rules that split a computation into its steps\<close>

lemma safe_Inr [safe_intros]: "safe (Inr x)"
  by (simp add: safe_def)

lemma safe_bindE [safe_intros]: "safe m \<Longrightarrow> (\<And>x. m = Inr x \<Longrightarrow> safe (k x)) \<Longrightarrow> safe (bindE m k)"
  by (auto simp: safe_def)

lemma safe_if [safe_intros]: "(c \<Longrightarrow> safe m) \<Longrightarrow> (\<not> c \<Longrightarrow> safe m') \<Longrightarrow> safe (if c then m else m')"
  by simp

section \<open>Little-endian memory images and byte order\<close>

definition lo16 :: "u16 \<Rightarrow> u8" where "lo16 x = ucast x"
definition hi16 :: "u16 \<Rightarrow> u8" where "hi16 x = ucast (drop_bit 8 x)"
definition by0 :: "u32 \<Rightarrow> u8" where "by0 x = ucast x"
definition by1 :: "u32 \<Rightarrow> u8" where "by1 x = ucast (drop_bit 8 x)"
definition by2 :: "u32 \<Rightarrow> u8" where "by2 x = ucast (drop_bit 16 x)"
definition by3 :: "u32 \<Rightarrow> u8" where "by3 x = ucast (drop_bit 24 x)"

definition le16 :: "u16 \<Rightarrow> u8 list" where
  "le16 x = [lo16 x, hi16 x]"

definition le32 :: "u32 \<Rightarrow> u8 list" where
  "le32 x = [by0 x, by1 x, by2 x, by3 x]"

definition of_le16 :: "u8 \<Rightarrow> u8 \<Rightarrow> u16" where
  "of_le16 a b = ucast a OR push_bit 8 (ucast b)"

definition of_le32 :: "u8 \<Rightarrow> u8 \<Rightarrow> u8 \<Rightarrow> u8 \<Rightarrow> u32" where
  "of_le32 a b c d =
     ucast a OR push_bit 8 (ucast b) OR push_bit 16 (ucast c) OR push_bit 24 (ucast d)"

text \<open>Reading an integer at an offset of a byte buffer, as a field access through a cast
  pointer does on the little-endian target.\<close>

definition u16_at :: "u8 list \<Rightarrow> nat \<Rightarrow> u16" where
  "u16_at bs i = of_le16 (bs ! i) (bs ! Suc i)"

definition u32_at :: "u8 list \<Rightarrow> nat \<Rightarrow> u32" where
  "u32_at bs i = of_le32 (bs ! i) (bs ! (i + 1)) (bs ! (i + 2)) (bs ! (i + 3))"

definition bytes_at :: "u8 list \<Rightarrow> nat \<Rightarrow> nat \<Rightarrow> u8 list" where
  "bytes_at bs i n = take n (drop i bs)"

lemma bit_u8_ge [simp]: "8 \<le> n \<Longrightarrow> \<not> bit (x :: u8) n"
  by (auto dest: bit_imp_le_length)

lemma length_le16 [simp]: "length (le16 x) = 2"
  by (simp add: le16_def)

lemma length_le32 [simp]: "length (le32 x) = 4"
  by (simp add: le32_def)

lemmas byte_defs = lo16_def hi16_def by0_def by1_def by2_def by3_def

lemma of_le16_image [simp]: "of_le16 (lo16 x) (hi16 x) = x"
  by (rule bit_word_eqI) (auto simp: of_le16_def byte_defs bit_simps)

lemma of_le16_parts [simp]: "lo16 (of_le16 a b) = a" "hi16 (of_le16 a b) = b"
  by (auto simp: byte_defs of_le16_def bit_simps intro!: bit_word_eqI)

lemma of_le32_image [simp]: "of_le32 (by0 x) (by1 x) (by2 x) (by3 x) = x"
proof (rule bit_word_eqI)
  fix n assume "n < LENGTH(32)"
  then consider "n < 8" | "8 \<le> n" "n < 16" | "16 \<le> n" "n < 24" | "24 \<le> n" "n < 32"
    by fastforce
  then show "bit (of_le32 (by0 x) (by1 x) (by2 x) (by3 x)) n = bit x n"
    by cases (auto simp: of_le32_def byte_defs bit_simps)
qed

lemma of_le32_parts [simp]:
  "by0 (of_le32 a b c d) = a" "by1 (of_le32 a b c d) = b"
  "by2 (of_le32 a b c d) = c" "by3 (of_le32 a b c d) = d"
  by (auto simp: byte_defs of_le32_def bit_simps intro!: bit_word_eqI)

lemma le16_of_le16 [simp]: "le16 (of_le16 a b) = [a, b]"
  by (simp add: le16_def)

lemma le32_of_le32 [simp]: "le32 (of_le32 a b c d) = [a, b, c, d]"
  by (simp add: le32_def)

text \<open>The byte swaps: \<open>htons\<close> and \<open>ntohs\<close> are the same function, and so are \<open>htonl\<close> and
  \<open>ntohl\<close>, on a little-endian host.\<close>

definition htons :: "u16 \<Rightarrow> u16" where
  "htons x = of_le16 (hi16 x) (lo16 x)"

definition htonl :: "u32 \<Rightarrow> u32" where
  "htonl x = of_le32 (by3 x) (by2 x) (by1 x) (by0 x)"

lemma htons_parts [simp]: "lo16 (htons x) = hi16 x" "hi16 (htons x) = lo16 x"
  by (simp_all add: htons_def)

lemma htonl_parts [simp]:
  "by0 (htonl x) = by3 x" "by1 (htonl x) = by2 x" "by2 (htonl x) = by1 x" "by3 (htonl x) = by0 x"
  by (simp_all add: htonl_def)

lemma le16_htons: "le16 (htons x) = rev (le16 x)"
  by (simp add: le16_def)

lemma le32_htonl: "le32 (htonl x) = rev (le32 x)"
  by (simp add: le32_def)

lemma htons_htons [simp]: "htons (htons x) = x"
  by (simp add: htons_def [of "htons x"])

lemma htonl_htonl [simp]: "htonl (htonl x) = x"
  by (simp add: htonl_def [of "htonl x"])

section \<open>Reads at an offset of a concatenation\<close>

lemma u16_at_append:
  "length xs = n \<Longrightarrow> u16_at (xs @ le16 x @ ys) n = x"
  by (auto simp: u16_at_def le16_def nth_append)

lemma u32_at_append:
  "length xs = n \<Longrightarrow> u32_at (xs @ le32 x @ ys) n = x"
  by (auto simp: u32_at_def le32_def nth_append)

lemma bytes_at_append:
  "length xs = n \<Longrightarrow> length bs = k \<Longrightarrow> bytes_at (xs @ bs @ ys) n k = bs"
  by (simp add: bytes_at_def)

lemma length_bytes_at [simp]: "i + n \<le> length bs \<Longrightarrow> length (bytes_at bs i n) = n"
  by (simp add: bytes_at_def)

section \<open>Lists\<close>

lemma nth_overwrite:
  "length ys \<le> length xs \<Longrightarrow>
   (ys @ drop (length ys) xs) ! i = (if i < length ys then ys ! i else xs ! i)"
  by (simp add: nth_append)

lemma length_overwrite [simp]:
  "length ys \<le> length xs \<Longrightarrow> length (ys @ drop (length ys) xs) = length xs"
  by simp

section \<open>The type \<open>int\<close>\<close>

text \<open>What an \<open>int\<close> of 32 bits keeps of a number. A sum or product that does not fit wraps around.\<close>

definition int32 :: "int \<Rightarrow> int" where
  "int32 x = sint (word_of_int x :: 32 word)"

lemma int32_id: "- (2 ^ 31) \<le> x \<Longrightarrow> x < 2 ^ 31 \<Longrightarrow> int32 x = x"
  by (simp add: int32_def signed_of_int signed_take_bit_int_eq_self)

end
