(* ===== verification/Prot.thy ===== *)
theory Prot
  imports Prelude
begin

text \<open>
  The data of the protocol, from \<open>prot.h\<close> and \<open>common.h\<close>: the constants, the packed structs
  as records, and the memory image of every struct the code copies with \<open>memcpy\<close>. A field
  keeps the source's name with a short prefix for its struct. Fields hold what is in memory:
  a field that the code fills with \<open>MY_HTONL\<close> holds the swapped value. Bit-field members
  that are only copied as a whole (\<open>CarStatus\<close>, the error bits of \<open>ModuleStatus\<close>) are one
  integer of the size of their unit.

  The interface \<open>packed_struct\<close> states what the code relies on when it casts a byte pointer
  to a struct pointer; every struct that is read out of a buffer is an instance.
\<close>

section \<open>Constants\<close>

abbreviation (input) SAMPLE_DEVICE_ID_BRDCST :: u8 where "SAMPLE_DEVICE_ID_BRDCST \<equiv> 0x0"
abbreviation (input) SAMPLE_DEVICE_ID_ADAS :: u8 where "SAMPLE_DEVICE_ID_ADAS \<equiv> 0x64"
abbreviation (input) SAMPLE_DEVICE_ID_DMS :: u8 where "SAMPLE_DEVICE_ID_DMS \<equiv> 0x65"

abbreviation (input) SAMPLE_CMD_QUERY :: u8 where "SAMPLE_CMD_QUERY \<equiv> 0x2F"
abbreviation (input) SAMPLE_CMD_FACTORY_RESET :: u8 where "SAMPLE_CMD_FACTORY_RESET \<equiv> 0x30"
abbreviation (input) SAMPLE_CMD_SPEED_INFO :: u8 where "SAMPLE_CMD_SPEED_INFO \<equiv> 0x31"
abbreviation (input) SAMPLE_CMD_DEVICE_INFO :: u8 where "SAMPLE_CMD_DEVICE_INFO \<equiv> 0x32"
abbreviation (input) SAMPLE_CMD_UPGRADE :: u8 where "SAMPLE_CMD_UPGRADE \<equiv> 0x33"
abbreviation (input) SAMPLE_CMD_GET_PARAM :: u8 where "SAMPLE_CMD_GET_PARAM \<equiv> 0x34"
abbreviation (input) SAMPLE_CMD_SET_PARAM :: u8 where "SAMPLE_CMD_SET_PARAM \<equiv> 0x35"
abbreviation (input) SAMPLE_CMD_WARNING_REPORT :: u8 where "SAMPLE_CMD_WARNING_REPORT \<equiv> 0x36"
abbreviation (input) SAMPLE_CMD_REQ_STATUS :: u8 where "SAMPLE_CMD_REQ_STATUS \<equiv> 0x37"
abbreviation (input) SAMPLE_CMD_UPLOAD_STATUS :: u8 where "SAMPLE_CMD_UPLOAD_STATUS \<equiv> 0x38"
abbreviation (input) SAMPLE_CMD_REQ_MM_DATA :: u8 where "SAMPLE_CMD_REQ_MM_DATA \<equiv> 0x50"
abbreviation (input) SAMPLE_CMD_UPLOAD_MM_DATA :: u8 where "SAMPLE_CMD_UPLOAD_MM_DATA \<equiv> 0x51"
abbreviation (input) SAMPLE_CMD_SNAP_SHOT :: u8 where "SAMPLE_CMD_SNAP_SHOT \<equiv> 0x52"

abbreviation (input) SAMPLE_PROT_MAGIC :: u8 where "SAMPLE_PROT_MAGIC \<equiv> 0x7E"
abbreviation (input) SAMPLE_PROT_ESC_CHAR :: u8 where "SAMPLE_PROT_ESC_CHAR \<equiv> 0x7D"

abbreviation (input) MM_PHOTO :: u8 where "MM_PHOTO \<equiv> 0"
abbreviation (input) MM_AUDIO :: u8 where "MM_AUDIO \<equiv> 1"
abbreviation (input) MM_VIDEO :: u8 where "MM_VIDEO \<equiv> 2"

abbreviation (input) VENDOR_ID :: u16 where "VENDOR_ID \<equiv> 0x1234"

abbreviation (input) SB_WARN_STATUS_NONE :: u8 where "SB_WARN_STATUS_NONE \<equiv> 0x0"
abbreviation (input) SB_WARN_STATUS_BEGIN :: u8 where "SB_WARN_STATUS_BEGIN \<equiv> 0x1"
abbreviation (input) SB_WARN_STATUS_END :: u8 where "SB_WARN_STATUS_END \<equiv> 0x2"

abbreviation (input) SB_WARN_TYPE_FCW :: u8 where "SB_WARN_TYPE_FCW \<equiv> 0x1"
abbreviation (input) SB_WARN_TYPE_LDW :: u8 where "SB_WARN_TYPE_LDW \<equiv> 0x2"
abbreviation (input) SB_WARN_TYPE_HW :: u8 where "SB_WARN_TYPE_HW \<equiv> 0x3"
abbreviation (input) SB_WARN_TYPE_PCW :: u8 where "SB_WARN_TYPE_PCW \<equiv> 0x4"
abbreviation (input) SB_WARN_TYPE_FLC :: u8 where "SB_WARN_TYPE_FLC \<equiv> 0x5"
abbreviation (input) SB_WARN_TYPE_TSRW :: u8 where "SB_WARN_TYPE_TSRW \<equiv> 0x6"
abbreviation (input) SB_WARN_TYPE_TSR :: u8 where "SB_WARN_TYPE_TSR \<equiv> 0x10"
abbreviation (input) SB_WARN_TYPE_SNAP :: u8 where "SB_WARN_TYPE_SNAP \<equiv> 0x11"

abbreviation (input) DMS_FATIGUE_WARN :: u8 where "DMS_FATIGUE_WARN \<equiv> 0x01"
abbreviation (input) DMS_CALLING_WARN :: u8 where "DMS_CALLING_WARN \<equiv> 0x02"
abbreviation (input) DMS_SMOKING_WARN :: u8 where "DMS_SMOKING_WARN \<equiv> 0x03"
abbreviation (input) DMS_DISTRACT_WARN :: u8 where "DMS_DISTRACT_WARN \<equiv> 0x04"
abbreviation (input) DMS_ABNORMAL_WARN :: u8 where "DMS_ABNORMAL_WARN \<equiv> 0x05"
abbreviation (input) DMS_SANPSHOT_EVENT :: u8 where "DMS_SANPSHOT_EVENT \<equiv> 0x10"
abbreviation (input) DMS_DRIVER_CHANGE :: u8 where "DMS_DRIVER_CHANGE \<equiv> 0x11"

abbreviation (input) MODULE_WORKING :: u8 where "MODULE_WORKING \<equiv> 0x02"

definition IMAGE_SIZE_PER_PACKET :: nat where "IMAGE_SIZE_PER_PACKET = 64 * 1024"
definition PTR_QUEUE_BUF_SIZE :: nat where "PTR_QUEUE_BUF_SIZE = 2 * (IMAGE_SIZE_PER_PACKET + 64)"
definition DATA_BUF_SIZE :: nat where "DATA_BUF_SIZE = IMAGE_SIZE_PER_PACKET"
definition SLIP_DATA_BUF_SIZE :: nat where "SLIP_DATA_BUF_SIZE = PTR_QUEUE_BUF_SIZE"
definition PTR_QUEUE_BUF_CNT :: nat where "PTR_QUEUE_BUF_CNT = 16"
definition WARN_SNAP_NUM_MAX :: nat where "WARN_SNAP_NUM_MAX = 10"
definition SAVE_MEDIA_NUM_MAX :: u32 where "SAVE_MEDIA_NUM_MAX = 1000"

lemmas size_defs =
  IMAGE_SIZE_PER_PACKET_def PTR_QUEUE_BUF_SIZE_def DATA_BUF_SIZE_def SLIP_DATA_BUF_SIZE_def

text \<open>The two ways the program is built (\<open>ENABLE_ADAS\<close>, \<open>ENABLE_DMS\<close>) and the two
  transports (\<open>TCP_INTERFACE\<close>, \<open>RS232_INTERFACE\<close>).\<close>

datatype build = ENABLE_ADAS | ENABLE_DMS
datatype transport = TCP_INTERFACE | RS232_INTERFACE

text \<open>Both are finite types, so that a statement about every build or transport computes.\<close>

instantiation build :: enum
begin
definition enum_build :: "build list" where "enum_build = [ENABLE_ADAS, ENABLE_DMS]"
definition enum_all_build :: "(build \<Rightarrow> bool) \<Rightarrow> bool" where "enum_all_build P \<longleftrightarrow> P ENABLE_ADAS \<and> P ENABLE_DMS"
definition enum_ex_build :: "(build \<Rightarrow> bool) \<Rightarrow> bool" where "enum_ex_build P \<longleftrightarrow> P ENABLE_ADAS \<or> P ENABLE_DMS"
instance
proof
  have all: "(UNIV :: build set) = {ENABLE_ADAS, ENABLE_DMS}" by (auto intro: build.exhaust)
  show "(UNIV :: build set) = set enum_class.enum" by (simp add: all enum_build_def)
  show "distinct (enum_class.enum :: build list)" by (simp add: enum_build_def)
  show "enum_class.enum_all P \<longleftrightarrow> Ball UNIV P" for P :: "build \<Rightarrow> bool" by (simp add: all enum_all_build_def)
  show "enum_class.enum_ex P \<longleftrightarrow> Bex UNIV P" for P :: "build \<Rightarrow> bool" by (simp add: all enum_ex_build_def)
qed
end

instantiation transport :: enum
begin
definition enum_transport :: "transport list" where "enum_transport = [TCP_INTERFACE, RS232_INTERFACE]"
definition enum_all_transport :: "(transport \<Rightarrow> bool) \<Rightarrow> bool" where
  "enum_all_transport P \<longleftrightarrow> P TCP_INTERFACE \<and> P RS232_INTERFACE"
definition enum_ex_transport :: "(transport \<Rightarrow> bool) \<Rightarrow> bool" where
  "enum_ex_transport P \<longleftrightarrow> P TCP_INTERFACE \<or> P RS232_INTERFACE"
instance
proof
  have all: "(UNIV :: transport set) = {TCP_INTERFACE, RS232_INTERFACE}" by (auto intro: transport.exhaust)
  show "(UNIV :: transport set) = set enum_class.enum" by (simp add: all enum_transport_def)
  show "distinct (enum_class.enum :: transport list)" by (simp add: enum_transport_def)
  show "enum_class.enum_all P \<longleftrightarrow> Ball UNIV P" for P :: "transport \<Rightarrow> bool" by (simp add: all enum_all_transport_def)
  show "enum_class.enum_ex P \<longleftrightarrow> Bex UNIV P" for P :: "transport \<Rightarrow> bool" by (simp add: all enum_ex_transport_def)
qed
end

definition own_device_id :: "build \<Rightarrow> u8" where
  "own_device_id b = (case b of ENABLE_ADAS \<Rightarrow> SAMPLE_DEVICE_ID_ADAS | ENABLE_DMS \<Rightarrow> SAMPLE_DEVICE_ID_DMS)"

section \<open>Structs\<close>

record SBProtHeader =
  hdr_magic :: u8
  hdr_checksum :: u8
  hdr_serial_num :: u16
  hdr_vendor_id :: u16
  hdr_device_id :: u8
  hdr_cmd :: u8

record SBMmHeader =
  mmh_type :: u8
  mmh_id :: u32

record SBMmHeader2 =
  mmh2_devid :: u8
  mmh2_type :: u8
  mmh2_id :: u32

record MmPacketIndex =
  pi_type :: u8
  pi_id :: u32
  pi_packet_total_num :: u16
  pi_packet_index :: u16

record MmAckInfo =
  ai_req_type :: u8
  ai_mm_id :: u32
  ai_packet_total_num :: u16
  ai_packet_index :: u16
  ai_ack :: u8

record RealTimeData =
  rt_car_speed :: u8
  rt_reserve1 :: u8
  rt_mileage :: u32
  rt_reserve2 :: "u8 list"
  rt_altitude :: u16
  rt_latitude :: u32
  rt_longitude :: u32
  rt_time :: "u8 list"
  rt_car_status :: u16

record ModuleStatus =
  ms_work_status :: u8
  ms_errors :: u32

record AdasWarnFrame =
  aw_warning_id :: u32
  aw_status_flag :: u8
  aw_sound_type :: u8
  aw_forward_car_speed :: u8
  aw_forward_car_distance :: u8
  aw_ldw_type :: u8
  aw_load_type :: u8
  aw_load_data :: u8
  aw_car_speed :: u8
  aw_altitude :: u16
  aw_latitude :: u32
  aw_longitude :: u32
  aw_time :: "u8 list"
  aw_car_status :: u16
  aw_mm_num :: u8
  aw_mm :: "SBMmHeader list"

record DsmWarnFrame =
  dw_warning_id :: u32
  dw_status_flag :: u8
  dw_sound_type :: u8
  dw_FatigueVal :: u8
  dw_resv :: "u8 list"
  dw_car_speed :: u8
  dw_altitude :: u16
  dw_latitude :: u32
  dw_longitude :: u32
  dw_time :: "u8 list"
  dw_car_status :: u16
  dw_mm_num :: u8
  dw_mm :: "SBMmHeader list"

record CAN760Info =
  can_byte0 :: u8
  can_byte1 :: u8
  can_speed :: u8

record M4DevInfo =
  di_vendor_name_len :: u8
  di_vendor_name :: "u8 list"
  di_prod_code_len :: u8
  di_prod_code :: "u8 list"
  di_hw_ver_len :: u8
  di_hw_ver :: "u8 list"
  di_sw_ver_len :: u8
  di_sw_ver :: "u8 list"
  di_dev_id_len :: u8
  di_dev_id :: "u8 list"
  di_custom_code_len :: u8
  di_custom_code :: "u8 list"

record MmInfo_node =
  node_rw_flag :: u8
  node_devid :: u8
  node_warn_type :: u8
  node_mm_type :: u8
  node_mm_id :: u32
  node_time :: "u8 list"

record InfoForStore =
  st_get_another_camera_video :: u8
  st_warn_type :: u8
  st_photo_enable :: u8
  st_sound_enable :: u8
  st_video_enable :: u8
  st_video_time :: u8
  st_photo_time_period :: u8
  st_photo_num :: u8
  st_photo_id :: "u32 list"
  st_video_id :: "u32 list"

text \<open>\<open>memset(&mm, 0, sizeof(mm))\<close>.\<close>

definition InfoForStore_zero :: InfoForStore where
  "InfoForStore_zero = \<lparr>st_get_another_camera_video = 0, st_warn_type = 0, st_photo_enable = 0,
     st_sound_enable = 0, st_video_enable = 0, st_video_time = 0, st_photo_time_period = 0,
     st_photo_num = 0, st_photo_id = replicate WARN_SNAP_NUM_MAX 0, st_video_id = replicate 2 0\<rparr>"

text \<open>The queue node of \<open>common.h\<close>. Its \<open>buf\<close> pointer is \<open>NULL\<close>, points to a live block
  (with the bytes of that block), or points to a block that has been freed. The send time and
  the media fields of \<open>SendStatus\<close> are never read.\<close>

datatype cptr = Null | Mem "u8 list" | Freed

abbreviation (input) MSG_ACK_READY :: u8 where "MSG_ACK_READY \<equiv> 0"
abbreviation (input) MSG_ACK_WAITING :: u8 where "MSG_ACK_WAITING \<equiv> 1"

record SendStatus =
  pkg_cmd :: u8
  pkg_index :: u8
  pkg_ack_status :: u8
  pkg_send_repeat :: u8

record ptr_queue_node =
  q_cmd :: u8
  q_mm_info :: SBMmHeader2
  q_pkg :: SendStatus
  q_mm :: InfoForStore
  q_len :: nat
  q_buf :: cptr

record pkg_repeat_status =
  ps_filepath :: string
  ps_mm :: MmPacketIndex
  ps_mm_data_trans_waiting :: bool
  ps_repeat_cnt :: u8
  ps_start_wait_ack :: bool

record LocalConfig =
  usingParaFile :: u8
  serverip :: string
  serverport :: u16
  clientip :: string
  clientport :: u16
  netdev_name :: string
  tty_name :: string
  baudrate :: int
  parity :: string
  databits :: int
  stopbit :: int
  jpeg_coder_fps :: u8
  speed_filter_enable :: u8
  alert_time_filter :: u8
  record_speed_enable :: u8
  record_period :: u32
  use_heart :: u8
  check_heart_period :: u32
  adasBitRate :: "u32 list"
  dmsBitRate :: "u32 list"

section \<open>Memory images\<close>

definition SBProtHeader_bytes :: "SBProtHeader \<Rightarrow> u8 list" where
  "SBProtHeader_bytes h = [hdr_magic h, hdr_checksum h] @ le16 (hdr_serial_num h)
     @ le16 (hdr_vendor_id h) @ [hdr_device_id h, hdr_cmd h]"

definition SBProtHeader_at :: "u8 list \<Rightarrow> SBProtHeader" where
  "SBProtHeader_at bs = \<lparr>hdr_magic = bs ! 0, hdr_checksum = bs ! 1, hdr_serial_num = u16_at bs 2,
     hdr_vendor_id = u16_at bs 4, hdr_device_id = bs ! 6, hdr_cmd = bs ! 7\<rparr>"

definition SBMmHeader_bytes :: "SBMmHeader \<Rightarrow> u8 list" where
  "SBMmHeader_bytes h = [mmh_type h] @ le32 (mmh_id h)"

definition SBMmHeader_at :: "u8 list \<Rightarrow> SBMmHeader" where
  "SBMmHeader_at bs = \<lparr>mmh_type = bs ! 0, mmh_id = u32_at bs 1\<rparr>"

definition MmPacketIndex_bytes :: "MmPacketIndex \<Rightarrow> u8 list" where
  "MmPacketIndex_bytes m = [pi_type m] @ le32 (pi_id m) @ le16 (pi_packet_total_num m)
     @ le16 (pi_packet_index m)"

definition MmPacketIndex_at :: "u8 list \<Rightarrow> MmPacketIndex" where
  "MmPacketIndex_at bs = \<lparr>pi_type = bs ! 0, pi_id = u32_at bs 1, pi_packet_total_num = u16_at bs 5,
     pi_packet_index = u16_at bs 7\<rparr>"

definition MmAckInfo_bytes :: "MmAckInfo \<Rightarrow> u8 list" where
  "MmAckInfo_bytes m = [ai_req_type m] @ le32 (ai_mm_id m) @ le16 (ai_packet_total_num m)
     @ le16 (ai_packet_index m) @ [ai_ack m]"

definition MmAckInfo_at :: "u8 list \<Rightarrow> MmAckInfo" where
  "MmAckInfo_at bs = \<lparr>ai_req_type = bs ! 0, ai_mm_id = u32_at bs 1,
     ai_packet_total_num = u16_at bs 5, ai_packet_index = u16_at bs 7, ai_ack = bs ! 9\<rparr>"

definition RealTimeData_bytes :: "RealTimeData \<Rightarrow> u8 list" where
  "RealTimeData_bytes r = [rt_car_speed r, rt_reserve1 r] @ le32 (rt_mileage r) @ rt_reserve2 r
     @ le16 (rt_altitude r) @ le32 (rt_latitude r) @ le32 (rt_longitude r) @ rt_time r
     @ le16 (rt_car_status r)"

definition RealTimeData_at :: "u8 list \<Rightarrow> RealTimeData" where
  "RealTimeData_at bs = \<lparr>rt_car_speed = bs ! 0, rt_reserve1 = bs ! 1, rt_mileage = u32_at bs 2,
     rt_reserve2 = bytes_at bs 6 2, rt_altitude = u16_at bs 8, rt_latitude = u32_at bs 10,
     rt_longitude = u32_at bs 14, rt_time = bytes_at bs 18 6, rt_car_status = u16_at bs 24\<rparr>"

definition RealTimeData_wf :: "RealTimeData \<Rightarrow> bool" where
  "RealTimeData_wf r \<longleftrightarrow> length (rt_reserve2 r) = 2 \<and> length (rt_time r) = 6"

definition ModuleStatus_bytes :: "ModuleStatus \<Rightarrow> u8 list" where
  "ModuleStatus_bytes m = [ms_work_status m] @ le32 (ms_errors m)"

definition CAN760Info_at :: "u8 list \<Rightarrow> CAN760Info" where
  "CAN760Info_at bs = \<lparr>can_byte0 = bs ! 0, can_byte1 = bs ! 1, can_speed = bs ! 2\<rparr>"

definition CAN760Info_bytes :: "CAN760Info \<Rightarrow> u8 list" where
  "CAN760Info_bytes c = [can_byte0 c, can_byte1 c, can_speed c]"

text \<open>A warning frame: the 31 fixed bytes and then the media entries.\<close>

definition AdasWarnFrame_bytes :: "AdasWarnFrame \<Rightarrow> u8 list" where
  "AdasWarnFrame_bytes f = le32 (aw_warning_id f)
     @ [aw_status_flag f, aw_sound_type f, aw_forward_car_speed f, aw_forward_car_distance f,
        aw_ldw_type f, aw_load_type f, aw_load_data f, aw_car_speed f]
     @ le16 (aw_altitude f) @ le32 (aw_latitude f) @ le32 (aw_longitude f) @ aw_time f
     @ le16 (aw_car_status f) @ [aw_mm_num f] @ concat (map SBMmHeader_bytes (aw_mm f))"

definition DsmWarnFrame_bytes :: "DsmWarnFrame \<Rightarrow> u8 list" where
  "DsmWarnFrame_bytes f = le32 (dw_warning_id f)
     @ [dw_status_flag f, dw_sound_type f, dw_FatigueVal f] @ dw_resv f @ [dw_car_speed f]
     @ le16 (dw_altitude f) @ le32 (dw_latitude f) @ le32 (dw_longitude f) @ dw_time f
     @ le16 (dw_car_status f) @ [dw_mm_num f] @ concat (map SBMmHeader_bytes (dw_mm f))"

definition M4DevInfo_bytes :: "M4DevInfo \<Rightarrow> u8 list" where
  "M4DevInfo_bytes d =
     [di_vendor_name_len d] @ di_vendor_name d @ [di_prod_code_len d] @ di_prod_code d
     @ [di_hw_ver_len d] @ di_hw_ver d @ [di_sw_ver_len d] @ di_sw_ver d
     @ [di_dev_id_len d] @ di_dev_id d @ [di_custom_code_len d] @ di_custom_code d"

lemma length_SBProtHeader_bytes [simp]: "length (SBProtHeader_bytes h) = 8"
  by (simp add: SBProtHeader_bytes_def)

lemma length_SBMmHeader_bytes [simp]: "length (SBMmHeader_bytes h) = 5"
  by (simp add: SBMmHeader_bytes_def)

lemma length_MmPacketIndex_bytes [simp]: "length (MmPacketIndex_bytes h) = 9"
  by (simp add: MmPacketIndex_bytes_def)

lemma length_ModuleStatus_bytes [simp]: "length (ModuleStatus_bytes h) = 5"
  by (simp add: ModuleStatus_bytes_def)

lemma length_concat_SBMmHeader_bytes [simp]:
  "length (concat (map SBMmHeader_bytes ms)) = 5 * length ms"
  by (induction ms) simp_all

section \<open>Casting a buffer to a struct\<close>

text \<open>What a cast of a byte pointer to a struct pointer gives: the struct occupies \<open>sz\<close>
  bytes, reading it back from any buffer that starts with its image returns it, and its image
  is the bytes it was read from.\<close>

locale packed_struct =
  fixes enc :: "'s \<Rightarrow> u8 list"
    and dec :: "u8 list \<Rightarrow> 's"
    and sz :: nat
    and wf :: "'s \<Rightarrow> bool"
  assumes length_enc: "wf s \<Longrightarrow> length (enc s) = sz"
    and dec_enc: "wf s \<Longrightarrow> dec (enc s @ rest) = s"
    and enc_dec: "sz \<le> length bs \<Longrightarrow> enc (dec bs) = take sz bs"
    and wf_dec: "sz \<le> length bs \<Longrightarrow> wf (dec bs)"
begin

lemma dec_enc_self: "wf s \<Longrightarrow> dec (enc s) = s"
  using dec_enc [of s "[]"] by simp

lemma enc_inject: "wf s \<Longrightarrow> wf t \<Longrightarrow> enc s = enc t \<longleftrightarrow> s = t"
  by (metis dec_enc_self)

lemma dec_at_offset: "wf s \<Longrightarrow> length pre = n \<Longrightarrow> dec (drop n (pre @ enc s @ rest)) = s"
  by (simp add: dec_enc)

lemma dec_prefix_cong:
  "sz \<le> length bs \<Longrightarrow> sz \<le> length cs \<Longrightarrow> take sz bs = take sz cs \<Longrightarrow> dec bs = dec cs"
  by (metis enc_dec enc_inject wf_dec)

end

lemma take_conv_nths: "n \<le> length bs \<Longrightarrow> take n bs = map ((!) bs) [0..<n]"
  by (rule nth_equalityI) auto

lemma bytes_at_conv_nths: "i + n \<le> length bs \<Longrightarrow> bytes_at bs i n = map ((!) bs) [i..<i + n]"
  by (rule nth_equalityI) (auto simp: bytes_at_def)

lemma le16_u16_at [simp]: "le16 (u16_at bs i) = [bs ! i, bs ! Suc i]"
  by (simp add: u16_at_def)

lemma le32_u32_at [simp]: "le32 (u32_at bs i) = [bs ! i, bs ! (i + 1), bs ! (i + 2), bs ! (i + 3)]"
  by (simp add: u32_at_def)

lemmas image_defs = u16_at_def u32_at_def le16_def le32_def bytes_at_def

interpretation SBProtHeader: packed_struct SBProtHeader_bytes SBProtHeader_at 8 "\<lambda>_. True"
  by unfold_locales
    (simp_all add: SBProtHeader_bytes_def SBProtHeader_at_def image_defs take_conv_nths upt_rec eval_nat_numeral)

interpretation SBMmHeader: packed_struct SBMmHeader_bytes SBMmHeader_at 5 "\<lambda>_. True"
  by unfold_locales
    (simp_all add: SBMmHeader_bytes_def SBMmHeader_at_def image_defs take_conv_nths upt_rec eval_nat_numeral)

interpretation MmPacketIndex: packed_struct MmPacketIndex_bytes MmPacketIndex_at 9 "\<lambda>_. True"
  by unfold_locales
    (simp_all add: MmPacketIndex_bytes_def MmPacketIndex_at_def image_defs take_conv_nths upt_rec eval_nat_numeral)

interpretation MmAckInfo: packed_struct MmAckInfo_bytes MmAckInfo_at 10 "\<lambda>_. True"
  by unfold_locales
    (simp_all add: MmAckInfo_bytes_def MmAckInfo_at_def image_defs take_conv_nths upt_rec eval_nat_numeral)

interpretation CAN760Info: packed_struct CAN760Info_bytes CAN760Info_at 3 "\<lambda>_. True"
  by unfold_locales
    (simp_all add: CAN760Info_bytes_def CAN760Info_at_def take_conv_nths upt_rec eval_nat_numeral)

interpretation RealTimeData: packed_struct RealTimeData_bytes RealTimeData_at 26 RealTimeData_wf
  by unfold_locales
    (simp_all add: RealTimeData_bytes_def RealTimeData_at_def RealTimeData_wf_def image_defs
      take_conv_nths upt_rec eval_nat_numeral nth_append)

end
