(* ===== verification/Queues.thy ===== *)
theory Queues
  imports Prot
begin

text \<open>
  The queues and the media list of \<open>common.cpp\<close>, and the two wrappers of \<open>process.cpp\<close> that
  use the queue for media descriptors. A queue of node pointers is the list of the nodes; the
  block a node's \<open>buf\<close> points to is owned by the node, so it is part of the node's value.
  Whether \<open>malloc\<close> succeeds is an argument. The guards on null \<open>in\<close>, \<open>out\<close> and queue
  pointers have no counterpart: every call passes the address of a variable. Each operation
  takes and releases the queue's mutex around the whole of its effect, so it is one step.
\<close>

section \<open>The pointer queue\<close>

definition ptr_queue_push ::
  "bool \<Rightarrow> bool \<Rightarrow> ptr_queue_node list \<Rightarrow> ptr_queue_node \<Rightarrow> int \<times> ptr_queue_node list" where
  "ptr_queue_push malloc1 malloc2 p inn =
     (if length p = PTR_QUEUE_BUF_CNT then (-1, p)
      else if \<not> malloc1 then (-1, p)
      else case q_buf inn of
          Null \<Rightarrow> (0, p @ [inn\<lparr>q_len := 0, q_buf := Null\<rparr>])
        | Mem b \<Rightarrow>
            (if \<not> malloc2 then (-1, p)
             else let n = (if q_len inn > PTR_QUEUE_BUF_SIZE then PTR_QUEUE_BUF_SIZE else q_len inn)
                  in (0, p @ [inn\<lparr>q_len := n, q_buf := Mem (take n b)\<rparr>]))
        | Freed \<Rightarrow> (-1, p))"

definition ptr_queue_pop ::
  "ptr_queue_node list \<Rightarrow> ptr_queue_node \<Rightarrow> (int \<times> ptr_queue_node \<times> ptr_queue_node list) outcome" where
  "ptr_queue_pop p out =
     (case p of
        [] \<Rightarrow> Inr (-1, out, [])
      | header # p' \<Rightarrow>
         (case q_buf header of
            Null \<Rightarrow> Inr (0, header, p')
          | Freed \<Rightarrow> Inl Use_after_free
          | Mem hb \<Rightarrow>
             (case q_buf out of
                Null \<Rightarrow> Inr (0, header\<lparr>q_buf := Freed\<rparr>, p')
              | Freed \<Rightarrow> Inl Use_after_free
              | Mem ub \<Rightarrow>
                 (let user_buflen = q_len out;
                      hlen = (if q_len header > PTR_QUEUE_BUF_SIZE then PTR_QUEUE_BUF_SIZE
                              else q_len header);
                      n = (if hlen > user_buflen then user_buflen else hlen)
                  in if n > length ub then Inl Overrun_outbuf
                     else Inr (0, header\<lparr>q_len := n, q_buf := Mem (take n hb @ drop n ub)\<rparr>, p')))))"

lemma ptr_queue_pop_shorter:
  "ptr_queue_pop q out = Inr (0, out', q') \<Longrightarrow> length q' < length q"
  by (auto simp: ptr_queue_pop_def Let_def split: list.splits cptr.splits if_splits)

text \<open>\<open>clear_queue\<close> pops into one local node, whose \<open>buf\<close> it sets to \<open>NULL\<close> before the loop
  only.\<close>

function clear_queue_loop ::
  "ptr_queue_node \<Rightarrow> ptr_queue_node list \<Rightarrow> ptr_queue_node list outcome" where
  "clear_queue_loop header q =
     (case ptr_queue_pop q header of
        Inl f \<Rightarrow> Inl f
      | Inr (ret, header', q') \<Rightarrow> if ret = 0 then clear_queue_loop header' q' else Inr q')"
  by pat_completeness auto
termination
  by (relation "measure (\<lambda>(header, q). length q)") (auto dest: ptr_queue_pop_shorter)

definition clear_queue :: "ptr_queue_node \<Rightarrow> ptr_queue_node list \<Rightarrow> ptr_queue_node list outcome" where
  "clear_queue stack_node q =
     clear_queue_loop (stack_node\<lparr>q_buf := Null, q_len := PTR_QUEUE_BUF_SIZE\<rparr>) q"

section \<open>Media descriptors\<close>

definition push_mm_queue ::
  "transport \<Rightarrow> bool \<Rightarrow> ptr_queue_node \<Rightarrow> InfoForStore \<Rightarrow> ptr_queue_node list \<Rightarrow> ptr_queue_node list" where
  "push_mm_queue tr malloc1 stack_node mm q =
     (case tr of
        RS232_INTERFACE \<Rightarrow> q
      | TCP_INTERFACE \<Rightarrow>
          snd (ptr_queue_push malloc1 True q (stack_node\<lparr>q_buf := Null, q_len := 0, q_mm := mm\<rparr>)))"

definition pull_mm_queue ::
  "ptr_queue_node \<Rightarrow> ptr_queue_node list \<Rightarrow> (InfoForStore \<times> ptr_queue_node list) option outcome" where
  "pull_mm_queue stack_node q =
     bindE (ptr_queue_pop q (stack_node\<lparr>q_buf := Null, q_len := 0\<rparr>))
       (\<lambda>(ret, header, q'). Inr (if ret = 0 then Some (q_mm header, q') else None))"

section \<open>The media list\<close>

fun find_mm_resource :: "u32 \<Rightarrow> MmInfo_node list \<Rightarrow> MmInfo_node option" where
  "find_mm_resource i [] = None"
| "find_mm_resource i (n # ns) = (if node_mm_id n = i then Some n else find_mm_resource i ns)"

fun delete_mm_resource :: "u32 \<Rightarrow> MmInfo_node list \<Rightarrow> int \<times> MmInfo_node list" where
  "delete_mm_resource i [] = (-1, [])"
| "delete_mm_resource i (n # ns) =
     (if node_mm_id n = i \<and> node_mm_type n = MM_PHOTO then (0, ns)
      else if node_mm_id n = i \<and> node_mm_type n = MM_VIDEO then (0, ns)
      else (let (ret, ns') = delete_mm_resource i ns in (ret, n # ns')))"

definition insert_mm_resouce :: "MmInfo_node \<Rightarrow> MmInfo_node list \<Rightarrow> MmInfo_node list" where
  "insert_mm_resouce m ns = ns @ [m]"

section \<open>Well-formed queues\<close>

text \<open>A queue the program can hold: at most \<open>PTR_QUEUE_BUF_CNT\<close> nodes, none with a dangling
  pointer, each block of at most \<open>PTR_QUEUE_BUF_SIZE\<close> bytes and as long as the node says.\<close>

fun node_ok :: "ptr_queue_node \<Rightarrow> bool" where
  "node_ok n = (case q_buf n of Null \<Rightarrow> q_len n = 0
     | Mem b \<Rightarrow> length b = q_len n \<and> q_len n \<le> PTR_QUEUE_BUF_SIZE | Freed \<Rightarrow> False)"

definition queue_ok :: "ptr_queue_node list \<Rightarrow> bool" where
  "queue_ok q \<longleftrightarrow> length q \<le> PTR_QUEUE_BUF_CNT \<and> (\<forall>n \<in> set q. node_ok n)"

definition data_node :: "ptr_queue_node \<Rightarrow> bool" where
  "data_node n \<longleftrightarrow> (\<exists>b. q_buf n = Mem b \<and> length b = q_len n \<and> q_len n \<le> PTR_QUEUE_BUF_SIZE)"

lemma queue_ok_Nil [simp]: "queue_ok []"
  by (simp add: queue_ok_def)

lemma data_node_ok: "data_node n \<Longrightarrow> node_ok n"
  by (auto simp: data_node_def)

lemma ptr_queue_push_full: "length q = PTR_QUEUE_BUF_CNT \<Longrightarrow> ptr_queue_push m1 m2 q n = (-1, q)"
  by (simp add: ptr_queue_push_def)

lemma ptr_queue_push_Mem [queue_simps]:
  "length q < PTR_QUEUE_BUF_CNT \<Longrightarrow> q_buf n = Mem b \<Longrightarrow> length b = q_len n \<Longrightarrow>
   q_len n \<le> PTR_QUEUE_BUF_SIZE \<Longrightarrow> ptr_queue_push True True q n = (0, q @ [n])"
  by (simp add: ptr_queue_push_def)

lemma ptr_queue_push_Null [queue_simps]:
  "length q < PTR_QUEUE_BUF_CNT \<Longrightarrow> q_buf n = Null \<Longrightarrow>
   ptr_queue_push True m2 q n = (0, q @ [n\<lparr>q_len := 0\<rparr>])"
  by (simp add: ptr_queue_push_def)

lemma ptr_queue_push_cases:
  "ptr_queue_push m1 m2 q n = (-1, q) \<or>
   (\<exists>n'. ptr_queue_push m1 m2 q n = (0, q @ [n']) \<and> length q \<noteq> PTR_QUEUE_BUF_CNT \<and>
      q_pkg n' = q_pkg n \<and> q_mm n' = q_mm n \<and>
      ((\<forall>b. q_buf n = Mem b \<longrightarrow> q_len n \<le> length b) \<longrightarrow> node_ok n'))"
  by (auto simp: ptr_queue_push_def Let_def split: cptr.split)

lemma queue_ok_push:
  assumes "queue_ok q" and "\<And>b. q_buf n = Mem b \<Longrightarrow> q_len n \<le> length b"
  shows "queue_ok (snd (ptr_queue_push m1 m2 q n))"
  using ptr_queue_push_cases [of m1 m2 q n] assms by (auto simp: queue_ok_def)

lemma queue_ok_pop:
  assumes "queue_ok q" and "ptr_queue_pop q out = Inr (ret, out', q')"
  shows "queue_ok q'"
  using assms
  by (auto simp: ptr_queue_pop_def queue_ok_def Let_def split: list.splits cptr.splits if_splits)

lemma clear_queue_loop_data:
  assumes "\<forall>n \<in> set q. data_node n" and "q_buf header \<noteq> Freed \<or> q = []"
    and "\<And>b. q_buf header \<noteq> Mem b"
  shows "clear_queue_loop header q = (if length q \<le> 1 then Inr [] else Inl Use_after_free)"
proof (cases q)
  case Nil
  then show ?thesis by (simp add: ptr_queue_pop_def)
next
  case (Cons n ns)
  with assms have "q_buf header = Null" by (cases "q_buf header") auto
  moreover obtain b where "q_buf n = Mem b" using assms(1) Cons by (auto simp: data_node_def)
  ultimately have first: "ptr_queue_pop q header = Inr (0, n\<lparr>q_buf := Freed\<rparr>, ns)"
    by (simp add: Cons ptr_queue_pop_def)
  show ?thesis
  proof (cases ns)
    case Nil
    then show ?thesis
      using first by (simp add: Cons ptr_queue_pop_def)
  next
    case (Cons n2 ns2)
    then obtain b2 where "q_buf n2 = Mem b2"
      using assms(1) \<open>q = n # ns\<close> by (auto simp: data_node_def)
    then have "ptr_queue_pop ns (n\<lparr>q_buf := Freed\<rparr>) = Inl Use_after_free"
      by (simp add: Cons ptr_queue_pop_def)
    then show ?thesis
      using first by (simp add: \<open>q = n # ns\<close> Cons del: clear_queue_loop.simps
          add: clear_queue_loop.simps [of header] clear_queue_loop.simps [of "n\<lparr>q_buf := Freed\<rparr>"])
  qed
qed

section \<open>The queue as a bounded first-in first-out buffer\<close>

text \<open>What the two users of the pointer queue rely on: a queue abstracts to the list of its
  items; an admissible item is appended while there is room and dropped when there is none; the
  oldest item comes out first.\<close>

locale bounded_fifo =
  fixes enq :: "'a \<Rightarrow> 'q \<Rightarrow> 'q"
    and deq :: "'q \<Rightarrow> ('a \<times> 'q) option"
    and contents :: "'q \<Rightarrow> 'a list"
    and invar :: "'q \<Rightarrow> bool"
    and adm :: "'a \<Rightarrow> bool"
    and cap :: nat
  assumes enq_room: "invar q \<Longrightarrow> adm x \<Longrightarrow> length (contents q) < cap \<Longrightarrow>
      contents (enq x q) = contents q @ [x]"
    and enq_full: "invar q \<Longrightarrow> length (contents q) = cap \<Longrightarrow> contents (enq x q) = contents q"
    and deq_empty: "invar q \<Longrightarrow> contents q = [] \<Longrightarrow> deq q = None"
    and deq_first: "invar q \<Longrightarrow> contents q = x # xs \<Longrightarrow> \<exists>q'. deq q = Some (x, q') \<and> contents q' = xs"
    and invar_enq: "invar q \<Longrightarrow> adm x \<Longrightarrow> invar (enq x q)"
    and invar_deq: "invar q \<Longrightarrow> deq q = Some (x, q') \<Longrightarrow> invar q'"
    and cap_bound: "invar q \<Longrightarrow> length (contents q) \<le> cap"
begin

primrec take_out :: "nat \<Rightarrow> 'q \<Rightarrow> 'a list" where
  "take_out 0 q = []"
| "take_out (Suc n) q = (case deq q of None \<Rightarrow> [] | Some (x, q') \<Rightarrow> x # take_out n q')"

lemma invar_enq_all: "invar q \<Longrightarrow> \<forall>x \<in> set xs. adm x \<Longrightarrow> invar (fold enq xs q)"
  by (induction xs arbitrary: q) (auto intro: invar_enq)

lemma contents_enq_all:
  "invar q \<Longrightarrow> \<forall>x \<in> set xs. adm x \<Longrightarrow> contents (fold enq xs q) = take cap (contents q @ xs)"
proof (induction xs arbitrary: q)
  case Nil
  then show ?case by (simp add: cap_bound)
next
  case (Cons x xs)
  have IH: "contents (fold enq xs (enq x q)) = take cap (contents (enq x q) @ xs)"
    using Cons by (auto intro: invar_enq)
  show ?case
  proof (cases "length (contents q) < cap")
    case True
    then show ?thesis using IH Cons.prems by (simp add: enq_room)
  next
    case False
    then have "length (contents q) = cap" using cap_bound [OF Cons.prems(1)] by simp
    then show ?thesis using IH Cons.prems by (simp add: enq_full)
  qed
qed

lemma take_out_contents: "invar q \<Longrightarrow> take_out n q = take n (contents q)"
proof (induction n arbitrary: q)
  case (Suc n)
  show ?case
  proof (cases "contents q")
    case Nil
    then show ?thesis using Suc.prems by (simp add: deq_empty)
  next
    case (Cons x xs)
    then obtain q' where q': "deq q = Some (x, q')" "contents q' = xs"
      using deq_first Suc.prems by blast
    then have "take_out n q' = take n xs"
      using Suc.IH invar_deq Suc.prems by fastforce
    then show ?thesis using q' Cons by simp
  qed
qed simp

theorem fifo:
  assumes "invar q" "contents q = []" "\<forall>x \<in> set xs. adm x"
  shows "take_out n (fold enq xs q) = take n (take cap xs)"
  using assms take_out_contents [OF invar_enq_all] contents_enq_all by simp

end

definition mm_queue_ok :: "ptr_queue_node list \<Rightarrow> bool" where
  "mm_queue_ok q \<longleftrightarrow> queue_ok q \<and> (\<forall>n \<in> set q. q_buf n = Null)"

definition mm_queue_get :: "ptr_queue_node \<Rightarrow> ptr_queue_node list \<Rightarrow> (InfoForStore \<times> ptr_queue_node list) option" where
  "mm_queue_get stk q = (case pull_mm_queue stk q of Inl _ \<Rightarrow> None | Inr r \<Rightarrow> r)"

lemma pull_mm_queue_Nil: "pull_mm_queue stk [] = Inr None"
  by (simp add: pull_mm_queue_def ptr_queue_pop_def)

lemma pull_mm_queue_Cons:
  "q_buf n = Null \<Longrightarrow> pull_mm_queue stk (n # q) = Inr (Some (q_mm n, q))"
  by (simp add: pull_mm_queue_def ptr_queue_pop_def)

interpretation mmq: bounded_fifo "push_mm_queue TCP_INTERFACE True stk" "mm_queue_get stk'"
  "map q_mm" mm_queue_ok "\<lambda>_. True" PTR_QUEUE_BUF_CNT for stk stk'
proof unfold_locales
  fix q x xs and x' :: InfoForStore and q'
  assume ok: "mm_queue_ok q"
  show "length (map q_mm q) < PTR_QUEUE_BUF_CNT \<Longrightarrow>
      map q_mm (push_mm_queue TCP_INTERFACE True stk x q) = map q_mm q @ [x]"
    by (simp add: push_mm_queue_def ptr_queue_push_Null)
  show "length (map q_mm q) = PTR_QUEUE_BUF_CNT \<Longrightarrow>
      map q_mm (push_mm_queue TCP_INTERFACE True stk x q) = map q_mm q"
    by (simp add: push_mm_queue_def ptr_queue_push_full)
  show "map q_mm q = [] \<Longrightarrow> mm_queue_get stk' q = None"
    by (simp add: mm_queue_get_def pull_mm_queue_Nil)
  show "map q_mm q = x # xs \<Longrightarrow> \<exists>q'. mm_queue_get stk' q = Some (x, q') \<and> map q_mm q' = xs"
    using ok by (auto simp: mm_queue_get_def pull_mm_queue_Cons mm_queue_ok_def)
  show "mm_queue_ok (push_mm_queue TCP_INTERFACE True stk x q)"
    using ok queue_ok_push [of q] by (auto simp: mm_queue_ok_def push_mm_queue_def ptr_queue_push_def)
  show "mm_queue_get stk' q = Some (x', q') \<Longrightarrow> mm_queue_ok q'"
    using ok by (cases q) (auto simp: mm_queue_get_def pull_mm_queue_Nil pull_mm_queue_Cons
        mm_queue_ok_def queue_ok_def)
  show "length (map q_mm q) \<le> PTR_QUEUE_BUF_CNT"
    using ok by (simp add: mm_queue_ok_def queue_ok_def)
qed

text \<open>The send queue carries a status block and the bytes of a frame. It is filled as
  \<open>message_queue_send\<close> fills it and emptied, into a buffer of \<open>PTR_QUEUE_BUF_SIZE\<close> bytes, as
  \<open>send_package\<close> empties it.\<close>

definition send_queue_put ::
  "ptr_queue_node \<Rightarrow> SendStatus \<times> u8 list \<Rightarrow> ptr_queue_node list \<Rightarrow> ptr_queue_node list" where
  "send_queue_put stk item q = snd (ptr_queue_push True True q
     (stk\<lparr>q_pkg := fst item, q_len := length (snd item), q_buf := Mem (snd item)\<rparr>))"

definition send_queue_get ::
  "ptr_queue_node \<Rightarrow> u8 list \<Rightarrow> ptr_queue_node list \<Rightarrow> ((SendStatus \<times> u8 list) \<times> ptr_queue_node list) option" where
  "send_queue_get stk sndData q =
     (case ptr_queue_pop q (stk\<lparr>q_buf := Mem sndData, q_len := PTR_QUEUE_BUF_SIZE\<rparr>) of
        Inr (ret, header, q') \<Rightarrow>
          (if ret = 0 then case q_buf header of
               Mem b \<Rightarrow> Some ((q_pkg header, take (q_len header) b), q')
             | _ \<Rightarrow> None
           else None)
      | Inl _ \<Rightarrow> None)"

definition node_item :: "ptr_queue_node \<Rightarrow> SendStatus \<times> u8 list" where
  "node_item n = (q_pkg n, case q_buf n of Mem b \<Rightarrow> b | _ \<Rightarrow> [])"

definition send_queue_ok :: "ptr_queue_node list \<Rightarrow> bool" where
  "send_queue_ok q \<longleftrightarrow> length q \<le> PTR_QUEUE_BUF_CNT \<and> (\<forall>n \<in> set q. data_node n)"

lemma ptr_queue_pop_data:
  assumes "data_node n" "length ub = PTR_QUEUE_BUF_SIZE"
    "q_buf out = Mem ub" "q_len out = PTR_QUEUE_BUF_SIZE"
  shows "ptr_queue_pop (n # q) out =
    Inr (0, n\<lparr>q_buf := Mem (snd (node_item n) @ drop (q_len n) ub)\<rparr>, q)"
  using assms by (auto simp: ptr_queue_pop_def data_node_def node_item_def)

lemma send_queue_get_data:
  assumes "data_node n"
  shows "send_queue_get stk (replicate PTR_QUEUE_BUF_SIZE z) (n # q) = Some (node_item n, q)"
proof -
  obtain b where "q_buf n = Mem b" "length b = q_len n" using assms by (auto simp: data_node_def)
  then show ?thesis
    by (simp add: send_queue_get_def ptr_queue_pop_data [OF assms, of "replicate PTR_QUEUE_BUF_SIZE z"]
        node_item_def)
qed

interpretation sendq: bounded_fifo "send_queue_put stk" "send_queue_get stk' (replicate PTR_QUEUE_BUF_SIZE z)"
  "map node_item" send_queue_ok "\<lambda>item. length (snd item) \<le> PTR_QUEUE_BUF_SIZE" PTR_QUEUE_BUF_CNT
  for stk stk' z
proof unfold_locales
  fix q and x x' :: "SendStatus \<times> u8 list" and xs q'
  assume ok: "send_queue_ok q"
  have adm_put: "send_queue_put stk x q = (if length q = PTR_QUEUE_BUF_CNT then q
      else q @ [stk\<lparr>q_pkg := fst x, q_len := length (snd x), q_buf := Mem (snd x)\<rparr>])"
    if "length (snd x) \<le> PTR_QUEUE_BUF_SIZE"
    using that by (simp add: send_queue_put_def ptr_queue_push_def)
  have get_Cons: "\<And>n ns. q = n # ns \<Longrightarrow>
      send_queue_get stk' (replicate PTR_QUEUE_BUF_SIZE z) q = Some (node_item n, ns)"
    using ok send_queue_get_data by (auto simp: send_queue_ok_def)
  show "length (snd x) \<le> PTR_QUEUE_BUF_SIZE \<Longrightarrow> length (map node_item q) < PTR_QUEUE_BUF_CNT \<Longrightarrow>
      map node_item (send_queue_put stk x q) = map node_item q @ [x]"
    using adm_put by (simp add: node_item_def)
  show "length (map node_item q) = PTR_QUEUE_BUF_CNT \<Longrightarrow>
      map node_item (send_queue_put stk x q) = map node_item q"
    by (simp add: send_queue_put_def ptr_queue_push_full)
  show "map node_item q = [] \<Longrightarrow> send_queue_get stk' (replicate PTR_QUEUE_BUF_SIZE z) q = None"
    by (simp add: send_queue_get_def ptr_queue_pop_def)
  show "map node_item q = x # xs \<Longrightarrow> \<exists>q'. send_queue_get stk' (replicate PTR_QUEUE_BUF_SIZE z) q
      = Some (x, q') \<and> map node_item q' = xs"
    using get_Cons by (cases q) auto
  show "length (snd x) \<le> PTR_QUEUE_BUF_SIZE \<Longrightarrow> send_queue_ok (send_queue_put stk x q)"
    using adm_put ok by (auto simp: send_queue_ok_def data_node_def)
  show "send_queue_get stk' (replicate PTR_QUEUE_BUF_SIZE z) q = Some (x', q') \<Longrightarrow> send_queue_ok q'"
    using get_Cons ok by (cases q) (auto simp: send_queue_get_def ptr_queue_pop_def send_queue_ok_def)
  show "length (map node_item q) \<le> PTR_QUEUE_BUF_CNT"
    using ok by (simp add: send_queue_ok_def)
qed


section \<open>Properties\<close>

text \<open>Taking up to \<open>n\<close> items out of a queue.\<close>

primrec drain :: "('q \<Rightarrow> ('a \<times> 'q) option) \<Rightarrow> nat \<Rightarrow> 'q \<Rightarrow> 'a list" where
  "drain deq 0 q = []"
| "drain deq (Suc n) q = (case deq q of None \<Rightarrow> [] | Some (x, q') \<Rightarrow> x # drain deq n q')"

definition blank_node :: ptr_queue_node where
  "blank_node = \<lparr>q_cmd = 0, q_mm_info = \<lparr>mmh2_devid = 0, mmh2_type = 0, mmh2_id = 0\<rparr>,
     q_pkg = \<lparr>pkg_cmd = 0, pkg_index = 0, pkg_ack_status = 0, pkg_send_repeat = 0\<rparr>,
     q_mm = InfoForStore_zero, q_len = 0, q_buf = Null\<rparr>"

lemma drain_sendq:
  "drain (send_queue_get stk' (replicate PTR_QUEUE_BUF_SIZE z)) n q = sendq.take_out stk' z n q"
  by (induction n arbitrary: q) (auto split: option.split)

lemma drain_mmq: "drain (mm_queue_get stk') n q = mmq.take_out stk' n q"
  by (induction n arbitrary: q) (auto split: option.split)

lemma find_mm_resource_None: "i \<notin> node_mm_id ` set ns \<Longrightarrow> find_mm_resource i ns = None"
  by (induction ns) auto

lemma delete_mm_resource_ids: "set (snd (delete_mm_resource i ns)) \<subseteq> set ns"
  by (induction ns) (auto split: prod.splits)

text \<open>C30: the send queue is a bounded first-in first-out buffer of whole frames. Frames pushed into the
  empty queue come out in order, each with its status block and all its bytes; those after the
  sixteenth are dropped, as \<open>ptr_queue_push\<close> refuses them.\<close>

theorem send_queue_fifo:
  assumes "\<forall>x \<in> set xs. length (snd x) \<le> PTR_QUEUE_BUF_SIZE"
  shows "drain (send_queue_get stk' (replicate PTR_QUEUE_BUF_SIZE z)) n (fold (send_queue_put stk) xs []) =
    take n (take PTR_QUEUE_BUF_CNT xs)"
  unfolding drain_sendq by (rule sendq.fifo) (use assms in \<open>simp_all add: send_queue_ok_def\<close>)

theorem send_queue_fifo_witness:
  "drain (send_queue_get blank_node (replicate PTR_QUEUE_BUF_SIZE 0)) 5 (fold (send_queue_put blank_node)
     [(q_pkg blank_node, [1, 2, 3]), (q_pkg blank_node, [4])] []) =
   [(q_pkg blank_node, [1, 2, 3]), (q_pkg blank_node, [4])]"
  using send_queue_fifo [of "[(q_pkg blank_node, [1, 2, 3]), (q_pkg blank_node, [4])]" blank_node 0 5 blank_node]
  by (simp add: size_defs PTR_QUEUE_BUF_CNT_def)

text \<open>the media queue, too, is a bounded first-in first-out buffer: the descriptors the alert
  handlers push are pulled by the recording thread in order, sixteen at most being held.\<close>

theorem mm_queue_fifo:
  "drain (mm_queue_get stk') n (fold (push_mm_queue TCP_INTERFACE True stk) xs []) =
    take n (take PTR_QUEUE_BUF_CNT xs)"
  unfolding drain_mmq by (rule mmq.fifo) (simp_all add: mm_queue_ok_def)

text \<open>the queue invariant (at most sixteen nodes, no dangling pointer, each block as long as its
  node says and at most \<open>PTR_QUEUE_BUF_SIZE\<close> bytes) is kept by a push, whether it is refused, fails
  in \<open>malloc\<close> or succeeds, and by a pop into any node.\<close>

theorem queue_invariant:
  assumes "queue_ok q" "\<And>b. q_buf n = Mem b \<Longrightarrow> q_len n \<le> length b"
  shows "queue_ok (snd (ptr_queue_push m1 m2 q n)) \<and>
    (case ptr_queue_pop q out of Inl _ \<Rightarrow> True | Inr (ret, out', q') \<Rightarrow> queue_ok q')"
  using queue_ok_push [OF assms] queue_ok_pop [OF assms(1)]
  by (auto split: sum.split prod.split)

theorem queue_invariant_witness:
  "queue_ok (snd (ptr_queue_push True True [blank_node] (blank_node\<lparr>q_len := 2, q_buf := Mem [7, 8]\<rparr>))) \<and>
    (case ptr_queue_pop [blank_node] blank_node of Inl _ \<Rightarrow> True | Inr (ret, out', q') \<Rightarrow> queue_ok q')"
  by (rule queue_invariant) (auto simp: queue_ok_def blank_node_def PTR_QUEUE_BUF_CNT_def)

text \<open>C31: clearing the send queue, as a reconnect does, is safe only while it holds at most one frame.
  The local node's \<open>buf\<close> is \<open>NULL\<close> for the first pop only: that pop leaves it pointing to the block it
  has just freed, and the second pop copies the next frame into the freed block.\<close>

theorem clear_queue_two_frames:
  assumes "\<forall>n \<in> set q. data_node n"
  shows "clear_queue stack_node q = (if length q \<le> 1 then Inr [] else Inl Use_after_free)"
  unfolding clear_queue_def by (rule clear_queue_loop_data) (use assms in simp_all)

theorem clear_queue_two_frames_witness:
  "clear_queue blank_node (replicate 2 (blank_node\<lparr>q_len := 1, q_buf := Mem [0x7E]\<rparr>)) = Inl Use_after_free"
  using clear_queue_two_frames [of "replicate 2 (blank_node\<lparr>q_len := 1, q_buf := Mem [0x7E]\<rparr>)" blank_node]
  by (simp add: data_node_def size_defs)

text \<open>the media list. Deleting an id of a list of photos and videos with distinct ids reports
  whether it was there, removes it, and leaves every other entry to be found as before; an inserted
  entry is found unless an older one has its id.\<close>

theorem media_list_correct:
  assumes "distinct (map node_mm_id ns)"
    "\<forall>n \<in> set ns. node_mm_type n = MM_PHOTO \<or> node_mm_type n = MM_VIDEO"
  shows "fst (delete_mm_resource i ns) = (if i \<in> node_mm_id ` set ns then 0 else -1) \<and>
    find_mm_resource j (snd (delete_mm_resource i ns)) = (if j = i then None else find_mm_resource j ns) \<and>
    find_mm_resource j (insert_mm_resouce m ns) =
      (case find_mm_resource j ns of None \<Rightarrow> if node_mm_id m = j then Some m else None | Some n \<Rightarrow> Some n)"
proof -
  have "fst (delete_mm_resource i ns) = (if i \<in> node_mm_id ` set ns then 0 else -1)"
    using assms(2) by (induction ns) (auto split: prod.splits)
  moreover have "find_mm_resource j (snd (delete_mm_resource i ns)) =
      (if j = i then None else find_mm_resource j ns)"
    using assms by (induction ns) (auto split: prod.splits simp: find_mm_resource_None)
  moreover have "find_mm_resource j (insert_mm_resouce m ns) =
      (case find_mm_resource j ns of None \<Rightarrow> if node_mm_id m = j then Some m else None | Some n \<Rightarrow> Some n)"
    unfolding insert_mm_resouce_def by (induction ns) auto
  ultimately show ?thesis by blast
qed

definition sample_node :: "u32 \<Rightarrow> MmInfo_node" where
  "sample_node i = \<lparr>node_rw_flag = 0, node_devid = 0x64, node_warn_type = 1, node_mm_type = MM_VIDEO,
     node_mm_id = i, node_time = replicate 6 0\<rparr>"

theorem media_list_correct_witness:
  "fst (delete_mm_resource 2 [sample_node 1, sample_node 2]) = 0 \<and>
   find_mm_resource 1 (snd (delete_mm_resource 2 [sample_node 1, sample_node 2])) = Some (sample_node 1) \<and>
   find_mm_resource 1 (insert_mm_resouce (sample_node 1) [sample_node 1, sample_node 2]) = Some (sample_node 1)"
  using media_list_correct [of "[sample_node 1, sample_node 2]" 2 1 "sample_node 1"]
  by (simp add: sample_node_def)

end
