(* ===== verification/Framing.thy ===== *)
theory Framing
  imports Prot
begin

text \<open>
  The framing layer of \<open>process.cpp\<close>: the checksum, the escaping of a frame in place, and the
  byte-by-byte decoder with its three static variables and its message buffer. The decoder's
  buffer is the block \<open>handle->rcvData\<close>; a write past its end is the fault
  \<open>Overrun_rcvData\<close>, one in front of it \<open>Underrun_rcvData\<close>. \<open>escape_body\<close> and \<open>frame_bytes\<close> are the specification the loops are
  compared with.
\<close>

section \<open>Checksum\<close>

text \<open>\<open>NON_CRC_LEN\<close> is 5: head, tail, serial number and the checksum itself. The sum starts at
  \<open>vendor_id\<close>, offset 4. A length below 5 gives a negative bound and an empty loop.\<close>

definition NON_CRC_LEN :: nat where "NON_CRC_LEN = 5"

definition sample_calc_sum :: "u8 list \<Rightarrow> nat \<Rightarrow> u8" where
  "sample_calc_sum bs msg_len =
     ucast (fold (\<lambda>b chksum. chksum + ucast b) (bytes_at bs 4 (msg_len - NON_CRC_LEN)) (0 :: u32)
            AND 0xFF)"

section \<open>Escaping in place\<close>

text \<open>\<open>memmove(&barray[i+1], &barray[i], escaped_len - i)\<close> on a buffer that holds exactly the
  \<open>escaped_len\<close> bytes of the message.\<close>

definition memmove_up :: "u8 list \<Rightarrow> nat \<Rightarrow> u8 list" where
  "memmove_up barray i = take (Suc i) barray @ drop i barray"

function escape_loop :: "nat \<Rightarrow> nat \<Rightarrow> u8 list \<Rightarrow> nat \<times> u8 list" where
  "escape_loop i escaped_len barray =
     (if i + 1 < escaped_len then
        if barray ! i = SAMPLE_PROT_MAGIC then
          escape_loop (i + 2) (escaped_len + 1)
            ((memmove_up barray i)[i := SAMPLE_PROT_ESC_CHAR, i + 1 := 0x2])
        else if barray ! i = SAMPLE_PROT_ESC_CHAR then
          escape_loop (i + 2) (escaped_len + 1)
            ((memmove_up barray i)[i := SAMPLE_PROT_ESC_CHAR, i + 1 := 0x1])
        else escape_loop (i + 1) escaped_len barray
      else (escaped_len, barray))"
  by pat_completeness auto
termination
  by (relation "measure (\<lambda>(i, n, b). n - i)") auto

declare escape_loop.simps [simp del]

definition sample_escaple_msg :: "u8 list \<Rightarrow> nat \<Rightarrow> nat \<times> u8 list" where
  "sample_escaple_msg barray msg_len = escape_loop 1 msg_len barray"

section \<open>The decoder\<close>

record decoder =
  get_head :: bool
  got_esc_char :: bool
  cnt :: nat
  rcv_msg :: "u8 list"

definition clear_frame_flag :: "decoder \<Rightarrow> decoder" where
  "clear_frame_flag d = d\<lparr>get_head := False, got_esc_char := False, cnt := 0\<rparr>"

text \<open>\<open>msg[i] = v\<close>. The index is an \<open>int\<close>: \<open>cnt - 1\<close> is negative when \<open>cnt\<close> is zero.\<close>

definition put_msg :: "int \<Rightarrow> u8 \<Rightarrow> decoder \<Rightarrow> decoder outcome" where
  "put_msg i v d =
     (if i < 0 then Inl Underrun_rcvData
      else if nat i < length (rcv_msg d) then Inr (d\<lparr>rcv_msg := (rcv_msg d)[nat i := v]\<rparr>)
      else Inl Overrun_rcvData)"

definition unescaple_msg :: "u8 \<Rightarrow> nat \<Rightarrow> decoder \<Rightarrow> (nat \<times> decoder) outcome" where
  "unescaple_msg ch msglen d =
     (if cnt d + 1 > msglen then Inr (0, clear_frame_flag d)
      else if \<not> get_head d then
        (if ch = SAMPLE_PROT_MAGIC \<and> cnt d = 0
         then bindE (put_msg (int (cnt d)) SAMPLE_PROT_MAGIC d)
                (\<lambda>d. Inr (0, d\<lparr>cnt := cnt d + 1, get_head := True\<rparr>))
         else Inr (0, d))
      else if ch = SAMPLE_PROT_MAGIC \<and> cnt d > 0 then
        (if cnt d < 6
         then bindE (put_msg 0 SAMPLE_PROT_MAGIC (d\<lparr>cnt := 0\<rparr>))
                (\<lambda>d. Inr (0, d\<lparr>cnt := cnt d + 1, get_head := True\<rparr>))
         else bindE (put_msg (int (cnt d)) SAMPLE_PROT_MAGIC d)
                (\<lambda>d. Inr (cnt d + 1, clear_frame_flag d)))
      else if ch = SAMPLE_PROT_ESC_CHAR \<and> \<not> got_esc_char d then
        bindE (put_msg (int (cnt d)) ch (d\<lparr>got_esc_char := True\<rparr>)) (\<lambda>d. Inr (0, d\<lparr>cnt := cnt d + 1\<rparr>))
      else if got_esc_char d \<and> ch = 0x02 then
        bindE (put_msg (int (cnt d) - 1) SAMPLE_PROT_MAGIC d) (\<lambda>d. Inr (0, d\<lparr>got_esc_char := False\<rparr>))
      else if got_esc_char d \<and> ch = 0x01 then
        bindE (put_msg (int (cnt d) - 1) SAMPLE_PROT_ESC_CHAR d) (\<lambda>d. Inr (0, d\<lparr>got_esc_char := False\<rparr>))
      else
        bindE (put_msg (int (cnt d)) ch d) (\<lambda>d. Inr (0, d\<lparr>cnt := cnt d + 1, got_esc_char := False\<rparr>)))"

lemma nat_Suc_int [simp]: "nat (1 + int n) = Suc n"
  by simp

text \<open>The receive loop of \<open>prot_parse\<close> as far as the decoder is concerned: the frames it hands
  on, in order.\<close>

fun feed :: "nat \<Rightarrow> u8 list \<Rightarrow> decoder \<Rightarrow> (u8 list list \<times> decoder) outcome" where
  "feed msglen [] d = Inr ([], d)"
| "feed msglen (ch # s) d =
     bindE (unescaple_msg ch msglen d) (\<lambda>(ret, d').
     bindE (feed msglen s d') (\<lambda>(fs, d'').
       Inr ((if ret > 0 then [take ret (rcv_msg d')] else []) @ fs, d'')))"

section \<open>Specification of the byte stuffing\<close>

definition escape_byte :: "u8 \<Rightarrow> u8 list" where
  "escape_byte b = (if b = SAMPLE_PROT_MAGIC then [SAMPLE_PROT_ESC_CHAR, 0x2]
     else if b = SAMPLE_PROT_ESC_CHAR then [SAMPLE_PROT_ESC_CHAR, 0x1] else [b])"

definition escape_body :: "u8 list \<Rightarrow> u8 list" where
  "escape_body bs = concat (map escape_byte bs)"

lemma escape_body_Nil [simp]: "escape_body [] = []"
  by (simp add: escape_body_def)

lemma escape_body_Cons [simp]: "escape_body (b # bs) = escape_byte b @ escape_body bs"
  by (simp add: escape_body_def)

lemma escape_body_append [simp]: "escape_body (bs @ cs) = escape_body bs @ escape_body cs"
  by (simp add: escape_body_def)

lemma escape_body_no_magic: "SAMPLE_PROT_MAGIC \<notin> set (escape_body bs)"
  by (induction bs) (auto simp: escape_byte_def)

lemma escape_body_plain:
  "SAMPLE_PROT_MAGIC \<notin> set bs \<Longrightarrow> SAMPLE_PROT_ESC_CHAR \<notin> set bs \<Longrightarrow> escape_body bs = bs"
  by (induction bs) (auto simp: escape_byte_def)

lemma length_escape_body: "length bs \<le> length (escape_body bs)" "length (escape_body bs) \<le> 2 * length bs"
  by (induction bs) (auto simp: escape_byte_def)

lemma escape_loop_done: "escape_loop (length pre) (Suc (length pre)) (pre @ [t]) = (Suc (length pre), pre @ [t])"
  by (simp add: escape_loop.simps)

lemma escape_loop_spec:
  "escape_loop (length pre) (length pre + length body + 1) (pre @ body @ [t]) =
     (length pre + length (escape_body body) + 1, pre @ escape_body body @ [t])"
proof (induction body arbitrary: pre)
  case Nil
  then show ?case by (simp add: escape_loop_done)
next
  case (Cons b body)
  have len: "length pre + 1 < length pre + length (b # body) + 1" by simp
  have nth: "(pre @ (b # body) @ [t]) ! length pre = b" by simp
  have move: "memmove_up (pre @ (b # body) @ [t]) (length pre) = pre @ b # b # body @ [t]"
    by (simp add: memmove_up_def)
  have put: "(pre @ b # b # body @ [t])[length pre := x, length pre + 1 := y] = (pre @ [x, y]) @ body @ [t]"
    for x y by (simp add: list_update_append)
  show ?case
    using Cons.IH [of "pre @ [SAMPLE_PROT_ESC_CHAR, 0x2]"] Cons.IH [of "pre @ [SAMPLE_PROT_ESC_CHAR, 0x1]"]
      Cons.IH [of "pre @ [b]"]
    by (subst escape_loop.simps, simp only: len nth move put if_True)
      (auto simp: escape_byte_def)
qed

theorem sample_escaple_msg_spec:
  "sample_escaple_msg (h # body @ [t]) (length body + 2) =
     (length (escape_body body) + 2, h # escape_body body @ [t])"
  using escape_loop_spec [of "[h]" body t] by (simp add: sample_escaple_msg_def)

section \<open>The decoder inverts the escaping\<close>

definition decoder_idle :: "decoder \<Rightarrow> bool" where
  "decoder_idle d \<longleftrightarrow> \<not> get_head d \<and> \<not> got_esc_char d \<and> cnt d = 0"

text \<open>The buffer after \<open>bs\<close> has been stored at offset \<open>n\<close>.\<close>

definition stored :: "nat \<Rightarrow> u8 list \<Rightarrow> u8 list \<Rightarrow> u8 list" where
  "stored n bs msg = take n msg @ bs @ drop (n + length bs) msg"

lemma stored_Nil [simp]: "stored n [] msg = msg"
  by (simp add: stored_def)

lemma length_stored [simp]: "n + length bs \<le> length msg \<Longrightarrow> length (stored n bs msg) = length msg"
  by (simp add: stored_def)

lemma stored_step:
  "n < length msg \<Longrightarrow> stored (Suc n) bs (msg[n := b]) = stored n (b # bs) msg"
  by (simp add: stored_def take_Suc_conv_app_nth)

lemma stored_escaped_step:
  "n < length msg \<Longrightarrow> stored (Suc n) bs ((msg[n := x])[n := b]) = stored n (b # bs) msg"
  using stored_step [of n msg bs b] by simp

lemma feed_append:
  "feed m (s @ t) d = bindE (feed m s d) (\<lambda>(fs, d'). bindE (feed m t d') (\<lambda>(gs, d''). Inr (fs @ gs, d'')))"
proof (induction s arbitrary: d)
  case Nil
  show ?case by (cases "feed m t d") auto
next
  case (Cons ch s)
  show ?case
  proof (cases "unescaple_msg ch m d")
    case (Inr r)
    then show ?thesis using Cons by (cases "feed m s (snd r)") (auto simp: split_beta bindE_def split: sum.splits)
  qed simp
qed

text \<open>Inside a frame, the escaped form of a byte stores that byte.\<close>

lemma feed_escape_byte:
  assumes "get_head d" "\<not> got_esc_char d" "cnt d = n" "0 < n" "n + 1 < m" "n < length (rcv_msg d)"
  shows "feed m (escape_byte b) d = Inr ([], d\<lparr>cnt := Suc n, rcv_msg := (rcv_msg d)[n := b]\<rparr>)"
  using assms by (auto simp: escape_byte_def unescaple_msg_def put_msg_def)

lemma feed_escape_body:
  assumes "get_head d" "\<not> got_esc_char d" "cnt d = n" "0 < n" "n + length bs < m"
    "n + length bs \<le> length (rcv_msg d)"
  shows "feed m (escape_body bs) d =
    Inr ([], d\<lparr>cnt := n + length bs, rcv_msg := stored n bs (rcv_msg d)\<rparr>)"
  using assms
proof (induction bs arbitrary: d n)
  case (Cons b bs)
  let ?d = "d\<lparr>cnt := Suc n, rcv_msg := (rcv_msg d)[n := b]\<rparr>"
  have "feed m (escape_byte b) d = Inr ([], ?d)"
    using Cons.prems by (intro feed_escape_byte) auto
  moreover have "feed m (escape_body bs) ?d =
      Inr ([], ?d\<lparr>cnt := Suc n + length bs, rcv_msg := stored (Suc n) bs (rcv_msg ?d)\<rparr>)"
    using Cons.prems by (intro Cons.IH) auto
  ultimately show ?case
    using Cons.prems by (simp add: feed_append stored_step)
qed simp

lemma take_stored_frame:
  assumes "hd msg = h" "Suc (length body) < length msg"
  shows "take (length body + 2) ((stored 1 body msg)[Suc (length body) := t]) = h # body @ [t]"
  using assms by (cases msg) (auto simp: stored_def take_Suc_conv_app_nth list_update_append
      upd_conv_take_nth_drop)

text \<open>A decoder that has just taken a head byte hands on the frame that follows.\<close>

lemma feed_frame_tail:
  assumes d: "get_head d" "\<not> got_esc_char d" "cnt d = 1" "hd (rcv_msg d) = SAMPLE_PROT_MAGIC"
    and len: "5 \<le> length body" "length body + 2 \<le> m" "length body + 2 \<le> length (rcv_msg d)"
  shows "\<exists>d'. feed m (escape_body body @ [SAMPLE_PROT_MAGIC]) d =
      Inr ([SAMPLE_PROT_MAGIC # body @ [SAMPLE_PROT_MAGIC]], d') \<and> decoder_idle d' \<and>
      length (rcv_msg d') = length (rcv_msg d)"
proof -
  let ?d = "d\<lparr>cnt := 1 + length body, rcv_msg := stored 1 body (rcv_msg d)\<rparr>"
  have "feed m (escape_body body) d = Inr ([], ?d)"
    using d len by (intro feed_escape_body) auto
  moreover have "\<exists>d'. feed m [SAMPLE_PROT_MAGIC] ?d =
      Inr ([SAMPLE_PROT_MAGIC # body @ [SAMPLE_PROT_MAGIC]], d') \<and> decoder_idle d' \<and>
      length (rcv_msg d') = length (rcv_msg d)"
    using d len take_stored_frame [of "rcv_msg d" SAMPLE_PROT_MAGIC body SAMPLE_PROT_MAGIC]
    by (auto simp: unescaple_msg_def put_msg_def clear_frame_flag_def decoder_idle_def)
  ultimately show ?thesis by (auto simp: feed_append)
qed

definition frame_fits :: "nat \<Rightarrow> decoder \<Rightarrow> u8 list \<Rightarrow> bool" where
  "frame_fits m d body \<longleftrightarrow> 5 \<le> length body \<and> length body + 2 \<le> m \<and> length body + 2 \<le> length (rcv_msg d)"

definition frame_bytes :: "u8 list \<Rightarrow> u8 list" where
  "frame_bytes body = SAMPLE_PROT_MAGIC # escape_body body @ [SAMPLE_PROT_MAGIC]"

lemma feed_frame:
  assumes "decoder_idle d" "frame_fits m d body"
  shows "\<exists>d'. feed m (frame_bytes body) d =
      Inr ([SAMPLE_PROT_MAGIC # body @ [SAMPLE_PROT_MAGIC]], d') \<and> decoder_idle d' \<and>
      length (rcv_msg d') = length (rcv_msg d)"
proof -
  let ?d = "d\<lparr>cnt := 1, get_head := True, rcv_msg := (rcv_msg d)[0 := SAMPLE_PROT_MAGIC]\<rparr>"
  have "unescaple_msg SAMPLE_PROT_MAGIC m d = Inr (0, ?d)"
    using assms by (auto simp: unescaple_msg_def put_msg_def decoder_idle_def frame_fits_def)
  moreover obtain d' where "feed m (escape_body body @ [SAMPLE_PROT_MAGIC]) ?d =
      Inr ([SAMPLE_PROT_MAGIC # body @ [SAMPLE_PROT_MAGIC]], d')" "decoder_idle d'"
      "length (rcv_msg d') = length (rcv_msg ?d)"
    using feed_frame_tail [of ?d body m] assms
    by (cases "rcv_msg d") (auto simp: frame_fits_def decoder_idle_def)
  ultimately show ?thesis by (simp add: frame_bytes_def)
qed

section \<open>Streams of frames\<close>

text \<open>What the transport relies on: a decoder that reads a byte stream piece by piece, whose
  pieces compose, and that is ready again after each frame.\<close>

locale frame_stream =
  fixes decode :: "'d \<Rightarrow> u8 list \<Rightarrow> ('f list \<times> 'd) outcome"
    and encode :: "'f \<Rightarrow> u8 list"
    and ready :: "'d \<Rightarrow> bool"
    and ok :: "'d \<Rightarrow> 'f \<Rightarrow> bool"
  assumes decode_nil: "decode d [] = Inr ([], d)"
    and decode_append: "decode d (s @ t) =
      bindE (decode d s) (\<lambda>(fs, d'). bindE (decode d' t) (\<lambda>(gs, d''). Inr (fs @ gs, d'')))"
    and decode_one: "ready d \<Longrightarrow> ok d f \<Longrightarrow>
      \<exists>d'. decode d (encode f) = Inr ([f], d') \<and> ready d' \<and> ok d' = ok d"
begin

lemma decode_all:
  "ready d \<Longrightarrow> \<forall>f \<in> set fs. ok d f \<Longrightarrow>
   \<exists>d'. decode d (concat (map encode fs)) = Inr (fs, d') \<and> ready d' \<and> ok d' = ok d"
proof (induction fs arbitrary: d)
  case Nil
  then show ?case by (simp add: decode_nil)
next
  case (Cons f fs)
  then obtain d' where "decode d (encode f) = Inr ([f], d')" "ready d'" "ok d' = ok d"
    using decode_one by (metis list.set_intros(1))
  moreover then obtain d'' where "decode d' (concat (map encode fs)) = Inr (fs, d'')"
      "ready d''" "ok d'' = ok d'"
    using Cons.IH [of d'] Cons.prems by auto
  ultimately show ?case by (auto simp: decode_append)
qed

text \<open>Reading the stream in any pieces gives the same frames as reading it at once.\<close>

fun decode_pieces :: "'d \<Rightarrow> u8 list list \<Rightarrow> ('f list \<times> 'd) outcome" where
  "decode_pieces d [] = Inr ([], d)"
| "decode_pieces d (p # ps) =
     bindE (decode d p) (\<lambda>(fs, d'). bindE (decode_pieces d' ps) (\<lambda>(gs, d''). Inr (fs @ gs, d'')))"

lemma decode_pieces_concat: "decode_pieces d ps = decode d (concat ps)"
  by (induction ps arbitrary: d) (simp_all add: decode_nil decode_append)

lemma decode_all_pieces:
  assumes "ready d" "\<forall>f \<in> set fs. ok d f" "concat ps = concat (map encode fs)"
  shows "\<exists>d'. decode_pieces d ps = Inr (fs, d') \<and> ready d'"
  using decode_all [OF assms(1,2)] assms(3) by (auto simp: decode_pieces_concat)

end

definition whole_frame :: "nat \<Rightarrow> decoder \<Rightarrow> u8 list \<Rightarrow> bool" where
  "whole_frame m d f \<longleftrightarrow> (\<exists>body. f = SAMPLE_PROT_MAGIC # body @ [SAMPLE_PROT_MAGIC] \<and> frame_fits m d body)"

definition transmit :: "u8 list \<Rightarrow> u8 list" where
  "transmit f = snd (sample_escaple_msg f (length f))"

lemma transmit_frame [simp]:
  "transmit (SAMPLE_PROT_MAGIC # body @ [SAMPLE_PROT_MAGIC]) = frame_bytes body"
  using sample_escaple_msg_spec [of SAMPLE_PROT_MAGIC body SAMPLE_PROT_MAGIC]
  by (simp add: transmit_def frame_bytes_def)

lemma whole_frame_cong: "length (rcv_msg d') = length (rcv_msg d) \<Longrightarrow> whole_frame m d' = whole_frame m d"
  by (auto simp: whole_frame_def frame_fits_def fun_eq_iff)

interpretation rx: frame_stream "\<lambda>d s. feed m s d" transmit decoder_idle "whole_frame m" for m
proof unfold_locales
  fix d f
  assume "decoder_idle d" "whole_frame m d f"
  then obtain body where f: "f = SAMPLE_PROT_MAGIC # body @ [SAMPLE_PROT_MAGIC]" "frame_fits m d body"
    by (auto simp: whole_frame_def)
  then obtain d' where "feed m (transmit f) d = Inr ([f], d')" "decoder_idle d'"
      "length (rcv_msg d') = length (rcv_msg d)"
    using feed_frame [OF \<open>decoder_idle d\<close>] by fastforce
  then show "\<exists>d'. feed m (transmit f) d = Inr ([f], d') \<and> decoder_idle d' \<and> whole_frame m d' = whole_frame m d"
    using whole_frame_cong by blast
qed (simp_all add: feed_append)

section \<open>Memory safety of the decoder\<close>

text \<open>Inside a frame the head byte has been stored, so \<open>msg[cnt-1]\<close> exists.\<close>

definition counted :: "decoder \<Rightarrow> bool" where
  "counted d \<longleftrightarrow> (get_head d \<longrightarrow> 0 < cnt d)"

lemma counted_idle [simp]: "decoder_idle d \<Longrightarrow> counted d"
  by (simp add: counted_def decoder_idle_def)

lemma counted_rcv_msg [simp]: "counted (d\<lparr>rcv_msg := b\<rparr>) = counted d"
  by (simp add: counted_def)

lemma unescaple_msg_safe:
  assumes "m \<le> length (rcv_msg d)" "counted d"
  shows "\<exists>ret d'. unescaple_msg ch m d = Inr (ret, d') \<and> length (rcv_msg d') = length (rcv_msg d) \<and> counted d'"
  using assms by (auto simp: unescaple_msg_def put_msg_def clear_frame_flag_def counted_def)

lemma feed_safe:
  "m \<le> length (rcv_msg d) \<Longrightarrow> counted d \<Longrightarrow>
   \<exists>fs d'. feed m s d = Inr (fs, d') \<and> length (rcv_msg d') = length (rcv_msg d) \<and> counted d'"
proof (induction s arbitrary: d)
  case (Cons ch s)
  obtain ret d1 where d1: "unescaple_msg ch m d = Inr (ret, d1)" "length (rcv_msg d1) = length (rcv_msg d)" "counted d1"
    using unescaple_msg_safe [OF Cons.prems] by blast
  then obtain fs d2 where "feed m s d1 = Inr (fs, d2)" "length (rcv_msg d2) = length (rcv_msg d1)" "counted d2"
    using Cons by (metis (no_types))
  then show ?case using d1 by auto
qed simp

lemma feed_junk:
  "decoder_idle d \<Longrightarrow> 0 < m \<Longrightarrow> SAMPLE_PROT_MAGIC \<notin> set s \<Longrightarrow> feed m s d = Inr ([], d)"
  by (induction s) (auto simp: unescaple_msg_def decoder_idle_def)


section \<open>Properties\<close>

text \<open>The bytes arrive in pieces, one per call of \<open>handle->rcv\<close>.\<close>

fun feed_pieces :: "nat \<Rightarrow> u8 list list \<Rightarrow> decoder \<Rightarrow> (u8 list list \<times> decoder) outcome" where
  "feed_pieces msglen [] d = Inr ([], d)"
| "feed_pieces msglen (p # ps) d =
     bindE (feed msglen p d) (\<lambda>(fs, d'). bindE (feed_pieces msglen ps d') (\<lambda>(gs, d''). Inr (fs @ gs, d'')))"

lemma feed_pieces_rx: "feed_pieces m ps d = rx.decode_pieces m d ps"
  by (induction ps arbitrary: d) (simp_all add: bindE_def split: sum.split)

lemma feed_quiet: "feed m s d = Inr ([], d1) \<Longrightarrow> feed m (s @ t) d = feed m t d1"
  by (simp add: feed_append) (simp add: bindE_def split: sum.split)

lemma feed_head:
  assumes "decoder_idle d" "0 < m" "rcv_msg d \<noteq> []"
  shows "feed m [SAMPLE_PROT_MAGIC] d =
    Inr ([], d\<lparr>cnt := 1, get_head := True, rcv_msg := (rcv_msg d)[0 := SAMPLE_PROT_MAGIC]\<rparr>)"
  using assms by (auto simp: unescaple_msg_def put_msg_def decoder_idle_def)

definition fresh_decoder :: "nat \<Rightarrow> decoder" where
  "fresh_decoder n = \<lparr>get_head = False, got_esc_char = False, cnt = 0, rcv_msg = replicate n 0\<rparr>"

lemma fresh_decoder_simps [simp]: "decoder_idle (fresh_decoder n)" "rcv_msg (fresh_decoder n) = replicate n 0"
  by (simp_all add: fresh_decoder_def decoder_idle_def)

text \<open>C34: the in-place escaping of a frame. Between the unchanged head and tail bytes every 0x7E becomes
  0x7D 0x02 and every 0x7D becomes 0x7D 0x01, so the escaped body contains no frame delimiter, and
  the returned length is the length of the escaped frame, at most twice that of the frame.\<close>

theorem escape_in_place_correct:
  "sample_escaple_msg (h # body @ [t]) (length body + 2) =
     (length (escape_body body) + 2, h # escape_body body @ [t]) \<and>
   SAMPLE_PROT_MAGIC \<notin> set (escape_body body) \<and>
   length body \<le> length (escape_body body) \<and> length (escape_body body) \<le> 2 * length body"
  by (intro conjI sample_escaple_msg_spec escape_body_no_magic length_escape_body)

text \<open>C1: sending and receiving are inverse on a stream. However the escaped frames are cut into pieces
  by the transport, an idle decoder hands on exactly the frames that were sent, in order, and is
  idle again. A frame is delimited by 0x7E, has at least five bytes in between, and fits the buffer
  and the limit given to the decoder.\<close>

theorem frames_roundtrip:
  assumes "decoder_idle d" "\<forall>f \<in> set fs. whole_frame m d f" "concat ps = concat (map transmit fs)"
  shows "\<exists>d'. feed_pieces m ps d = Inr (fs, d') \<and> decoder_idle d'"
  using rx.decode_all_pieces [OF assms] by (simp add: feed_pieces_rx)

theorem frames_roundtrip_witness:
  "\<exists>d'. feed_pieces 100 [[0x7E, 1, 0x7D], [2, 3, 4, 5, 6, 0x7E, 0x7E, 1], [2, 3, 4, 5, 0x7E]] (fresh_decoder 50)
     = Inr ([[0x7E, 1, 0x7E, 3, 4, 5, 6, 0x7E], [0x7E, 1, 2, 3, 4, 5, 0x7E]], d') \<and> decoder_idle d'"
proof (rule frames_roundtrip)
  have frames: "transmit [0x7E, 1, 0x7E, 3, 4, 5, 6, 0x7E] = [0x7E, 1, 0x7D, 2, 3, 4, 5, 6, 0x7E]"
      "transmit [0x7E, 1, 2, 3, 4, 5, 0x7E] = [0x7E, 1, 2, 3, 4, 5, 0x7E]"
    using transmit_frame [of "[1, 0x7E, 3, 4, 5, 6]"] transmit_frame [of "[1, 2, 3, 4, 5]"]
    by (simp_all add: frame_bytes_def escape_byte_def)
  show "concat [[0x7E, 1, 0x7D], [2, 3, 4, 5, 6, 0x7E, 0x7E, 1], [2, 3, 4, 5, 0x7E]] =
      concat (map transmit [[0x7E, 1, 0x7E, 3, 4, 5, 6, 0x7E], [0x7E, 1, 2, 3, 4, 5, 0x7E]])"
    by (simp add: frames)
  show "\<forall>f \<in> set [[0x7E, 1, 0x7E, 3, 4, 5, 6, 0x7E], [0x7E, 1, 2, 3, 4, 5, 0x7E]].
      whole_frame 100 (fresh_decoder 50) f"
    by (auto simp: whole_frame_def frame_fits_def
        intro: exI [of _ "[1, 0x7E, 3, 4, 5, 6]"] exI [of _ "[1, 2, 3, 4, 5]"])
qed simp

text \<open>bytes before a frame that are not a frame delimiter are skipped, and the frame after them is
  received.\<close>

theorem junk_is_skipped:
  assumes "decoder_idle d" "whole_frame m d f" "SAMPLE_PROT_MAGIC \<notin> set junk"
  shows "\<exists>d'. feed m (junk @ transmit f) d = Inr ([f], d') \<and> decoder_idle d'"
proof -
  have "feed m junk d = Inr ([], d)"
    using assms by (intro feed_junk) (auto simp: whole_frame_def frame_fits_def)
  moreover obtain d' where "feed m (transmit f) d = Inr ([f], d')" "decoder_idle d'"
    using rx.decode_one [OF assms(1,2)] by blast
  ultimately show ?thesis by (simp add: feed_append)
qed

theorem junk_is_skipped_witness:
  "\<exists>d'. feed 100 ([1, 0x7D, 2] @ transmit (0x7E # [1, 2, 3, 4, 5] @ [0x7E])) (fresh_decoder 50)
     = Inr ([0x7E # [1, 2, 3, 4, 5] @ [0x7E]], d') \<and> decoder_idle d'"
proof (rule junk_is_skipped)
  show "whole_frame 100 (fresh_decoder 50) (0x7E # [1, 2, 3, 4, 5] @ [0x7E])"
    unfolding whole_frame_def by (rule exI [of _ "[1, 2, 3, 4, 5]"]) (simp add: frame_fits_def)
qed simp_all

text \<open>C32: memory safety of the decoder. If the limit it is given does not exceed the size of the message
  buffer, no sequence of received bytes makes an idle decoder write past the end of that buffer or, with
  \<open>msg[cnt-1]\<close>, in front of it; it keeps the size of the buffer, and stays safe for every sequence that
  follows. The same holds for a decoder inside a frame whose head byte has been counted.\<close>

theorem decoder_memory_safe:
  assumes "m \<le> length (rcv_msg d)" "get_head d \<longrightarrow> 0 < cnt d"
  shows "\<exists>fs d'. feed m s d = Inr (fs, d') \<and> length (rcv_msg d') = length (rcv_msg d) \<and> (get_head d' \<longrightarrow> 0 < cnt d')"
  using feed_safe [OF assms(1), of s] assms(2) by (simp add: counted_def)

theorem decoder_memory_safe_witness:
  "\<exists>fs d'. feed 4 [0x7E, 0x7D, 0x7E, 2, 4, 5, 6] (fresh_decoder 4) = Inr (fs, d') \<and> length (rcv_msg d') = 4 \<and>
    (get_head d' \<longrightarrow> 0 < cnt d')"
  using decoder_memory_safe [of 4 "fresh_decoder 4" "[0x7E, 0x7D, 0x7E, 2, 4, 5, 6]"] by (simp add: fresh_decoder_def)

text \<open>C33: \<open>prot_parse\<close> does not meet that condition. \<open>prot_init_pre\<close> allocates \<open>DATA_BUF_SIZE\<close> bytes for the
  message while \<open>prot_parse\<close> passes \<open>SLIP_DATA_BUF_SIZE\<close> as the limit: a frame delimiter
  followed by \<open>DATA_BUF_SIZE\<close> bytes that are none makes the decoder write past the end of the block.\<close>

theorem long_frame_overruns_rcvData:
  assumes "decoder_idle d" "length (rcv_msg d) = DATA_BUF_SIZE"
  shows "feed SLIP_DATA_BUF_SIZE (SAMPLE_PROT_MAGIC # replicate DATA_BUF_SIZE 0) d = Inl Overrun_rcvData"
proof -
  let ?n = "DATA_BUF_SIZE - 1"
  let ?d = "d\<lparr>cnt := 1, get_head := True, rcv_msg := (rcv_msg d)[0 := SAMPLE_PROT_MAGIC]\<rparr>"
  let ?d' = "?d\<lparr>cnt := 1 + ?n, rcv_msg := stored 1 (replicate ?n 0) (rcv_msg ?d)\<rparr>"
  have "rcv_msg d \<noteq> []" using assms(2) by (auto simp: size_defs)
  then have head: "feed SLIP_DATA_BUF_SIZE [SAMPLE_PROT_MAGIC] d = Inr ([], ?d)"
    using feed_head [OF assms(1), of SLIP_DATA_BUF_SIZE] by (simp add: size_defs)
  have "feed SLIP_DATA_BUF_SIZE (escape_body (replicate ?n 0)) ?d = Inr ([], ?d')"
    using feed_escape_body [of ?d 1 "replicate ?n 0" SLIP_DATA_BUF_SIZE] assms
    by (simp add: size_defs decoder_idle_def)
  then have body: "feed SLIP_DATA_BUF_SIZE (replicate ?n 0) ?d = Inr ([], ?d')"
    by (simp add: escape_body_plain)
  have last: "feed SLIP_DATA_BUF_SIZE [0] ?d' = Inl Overrun_rcvData"
    using assms by (simp add: unescaple_msg_def put_msg_def size_defs decoder_idle_def)
  have "SAMPLE_PROT_MAGIC # replicate DATA_BUF_SIZE 0 = [SAMPLE_PROT_MAGIC] @ replicate ?n 0 @ [0]"
    by (simp add: replicate_append_same size_defs flip: replicate_Suc)
  then show ?thesis
    by (simp only: feed_quiet [OF head] feed_quiet [OF body] last)
qed

theorem long_frame_overruns_rcvData_witness:
  "feed SLIP_DATA_BUF_SIZE (0x7E # replicate DATA_BUF_SIZE 0) (fresh_decoder DATA_BUF_SIZE) = Inl Overrun_rcvData"
  using long_frame_overruns_rcvData [of "fresh_decoder DATA_BUF_SIZE"] by simp

text \<open>a delimiter inside the first six bytes restarts the frame but leaves \<open>got_esc_char\<close> set. After a
  cut-off escape sequence, a following frame whose first byte (its checksum) is 0x02 loses that byte,
  so the frame that is handed on is not the one that was sent.\<close>

theorem restart_keeps_escape_flag:
  assumes "decoder_idle d" "frame_fits m d (0x02 # rest)" "5 \<le> length rest"
  shows "\<exists>d'. feed m ([SAMPLE_PROT_MAGIC, SAMPLE_PROT_ESC_CHAR] @ frame_bytes (0x02 # rest)) d =
      Inr ([SAMPLE_PROT_MAGIC # rest @ [SAMPLE_PROT_MAGIC]], d')"
proof -
  have len: "3 < m" "3 < length (rcv_msg d)" "rcv_msg d \<noteq> []"
    using assms(2,3) by (auto simp: frame_fits_def)
  let ?msg = "(((rcv_msg d)[0 := SAMPLE_PROT_MAGIC])[1 := SAMPLE_PROT_ESC_CHAR])[0 := SAMPLE_PROT_MAGIC]"
  let ?d = "d\<lparr>cnt := 1, get_head := True, got_esc_char := False, rcv_msg := ?msg\<rparr>"
  have head: "feed m [SAMPLE_PROT_MAGIC, SAMPLE_PROT_ESC_CHAR, SAMPLE_PROT_MAGIC, 0x02] d = Inr ([], ?d)"
    using len assms(1) by (simp add: unescaple_msg_def put_msg_def decoder_idle_def)
  have "\<exists>d'. feed m (escape_body rest @ [SAMPLE_PROT_MAGIC]) ?d =
      Inr ([SAMPLE_PROT_MAGIC # rest @ [SAMPLE_PROT_MAGIC]], d') \<and> decoder_idle d' \<and>
      length (rcv_msg d') = length (rcv_msg ?d)"
    using assms len by (intro feed_frame_tail) (auto simp: frame_fits_def hd_conv_nth)
  moreover have "[SAMPLE_PROT_MAGIC, SAMPLE_PROT_ESC_CHAR] @ frame_bytes (0x02 # rest) =
      [SAMPLE_PROT_MAGIC, SAMPLE_PROT_ESC_CHAR, SAMPLE_PROT_MAGIC, 0x02] @ (escape_body rest @ [SAMPLE_PROT_MAGIC])"
    by (simp add: frame_bytes_def escape_byte_def)
  ultimately show ?thesis
    by (simp only: feed_quiet [OF head]) blast
qed

theorem restart_keeps_escape_flag_witness:
  "\<exists>d'. feed 100 ([0x7E, 0x7D] @ frame_bytes (0x02 # [1, 2, 3, 4, 5])) (fresh_decoder 50) =
      Inr ([0x7E # [1, 2, 3, 4, 5] @ [0x7E]], d')"
  by (rule restart_keeps_escape_flag) (simp_all add: frame_fits_def)

end
