(* ===== verification/Para.thy ===== *)
theory Para
  imports Prot
begin

text \<open>
  The device parameters of \<open>para.cpp\<close>: the two packed parameter structs of \<open>prot.h\<close> with their
  memory images, the range checks, the defaults, the byte-wise merge of \<open>write_dev_para\<close> (a
  byte 0xFF keeps the old value) and the parameter files. The two structs start with the same
  nine members, which are the record \<open>ParaBase\<close> here. The comparisons \<open>x < 0\<close> of the checks
  are on unsigned members and never hold; they are kept as written. The parameter mutex is
  held around the whole of each access, so an access is one step.
\<close>

section \<open>The parameter structs\<close>

record ParaBase =
  warning_speed_val :: u8
  warning_volume :: u8
  auto_photo_mode :: u8
  auto_photo_time_period :: u16
  auto_photo_distance_period :: u16
  photo_num :: u8
  photo_time_period :: u8
  image_Resolution :: u8
  video_Resolution :: u8

record AdasParaSetting = ParaBase +
  a_reserve :: "u8 list"
  obstacle_distance_threshold :: u8
  obstacle_video_time :: u8
  obstacle_photo_num :: u8
  obstacle_photo_time_period :: u8
  FLC_time_threshold :: u8
  FLC_times_threshold :: u8
  FLC_video_time :: u8
  FLC_photo_num :: u8
  FLC_photo_time_period :: u8
  LDW_video_time :: u8
  LDW_photo_num :: u8
  LDW_photo_time_period :: u8
  FCW_time_threshold :: u8
  FCW_video_time :: u8
  FCW_photo_num :: u8
  FCW_photo_time_period :: u8
  PCW_time_threshold :: u8
  PCW_video_time :: u8
  PCW_photo_num :: u8
  PCW_photo_time_period :: u8
  HW_time_threshold :: u8
  HW_video_time :: u8
  HW_photo_num :: u8
  HW_photo_time_period :: u8
  TSR_photo_num :: u8
  TSR_photo_time_period :: u8
  a_reserve2 :: "u8 list"

record DmsParaSetting = ParaBase +
  d_reserve :: "u8 list"
  Smoke_TimeIntervalThreshold :: u16
  Call_TimeIntervalThreshold :: u16
  FatigueDriv_VideoTime :: u8
  FatigueDriv_PhotoNum :: u8
  FatigueDriv_PhotoInterval :: u8
  FatigueDriv_resv :: u8
  CallingDriv_VideoTime :: u8
  CallingDriv_PhotoNum :: u8
  CallingDriv_PhotoInterval :: u8
  SmokingDriv_VideoTime :: u8
  SmokingDriv_PhotoNum :: u8
  SmokingDriv_PhotoInterval :: u8
  DistractionDriv_VideoTime :: u8
  DistractionDriv_PhotoNum :: u8
  DistractionDriv_PhotoInterval :: u8
  AbnormalDriv_VideoTime :: u8
  AbnormalDriv_PhotoNum :: u8
  AbnormalDriv_PhotoInterval :: u8
  d_reserve2 :: "u8 list"

definition ParaBase_bytes :: "'a ParaBase_scheme \<Rightarrow> u8 list" where
  "ParaBase_bytes p = [warning_speed_val p, warning_volume p, auto_photo_mode p]
     @ le16 (auto_photo_time_period p) @ le16 (auto_photo_distance_period p)
     @ [photo_num p, photo_time_period p, image_Resolution p, video_Resolution p]"

definition AdasParaSetting_bytes :: "AdasParaSetting \<Rightarrow> u8 list" where
  "AdasParaSetting_bytes p = ParaBase_bytes p @ a_reserve p
     @ [obstacle_distance_threshold p, obstacle_video_time p, obstacle_photo_num p,
        obstacle_photo_time_period p,
        FLC_time_threshold p, FLC_times_threshold p, FLC_video_time p, FLC_photo_num p,
        FLC_photo_time_period p,
        LDW_video_time p, LDW_photo_num p, LDW_photo_time_period p,
        FCW_time_threshold p, FCW_video_time p, FCW_photo_num p, FCW_photo_time_period p,
        PCW_time_threshold p, PCW_video_time p, PCW_photo_num p, PCW_photo_time_period p,
        HW_time_threshold p, HW_video_time p, HW_photo_num p, HW_photo_time_period p,
        TSR_photo_num p, TSR_photo_time_period p] @ a_reserve2 p"

definition AdasParaSetting_at :: "u8 list \<Rightarrow> AdasParaSetting" where
  "AdasParaSetting_at bs = \<lparr>
     warning_speed_val = bs ! 0, warning_volume = bs ! 1, auto_photo_mode = bs ! 2,
     auto_photo_time_period = u16_at bs 3, auto_photo_distance_period = u16_at bs 5,
     photo_num = bs ! 7, photo_time_period = bs ! 8, image_Resolution = bs ! 9,
     video_Resolution = bs ! 10, a_reserve = bytes_at bs 11 9,
     obstacle_distance_threshold = bs ! 20, obstacle_video_time = bs ! 21,
     obstacle_photo_num = bs ! 22, obstacle_photo_time_period = bs ! 23,
     FLC_time_threshold = bs ! 24, FLC_times_threshold = bs ! 25, FLC_video_time = bs ! 26,
     FLC_photo_num = bs ! 27, FLC_photo_time_period = bs ! 28,
     LDW_video_time = bs ! 29, LDW_photo_num = bs ! 30, LDW_photo_time_period = bs ! 31,
     FCW_time_threshold = bs ! 32, FCW_video_time = bs ! 33, FCW_photo_num = bs ! 34,
     FCW_photo_time_period = bs ! 35,
     PCW_time_threshold = bs ! 36, PCW_video_time = bs ! 37, PCW_photo_num = bs ! 38,
     PCW_photo_time_period = bs ! 39,
     HW_time_threshold = bs ! 40, HW_video_time = bs ! 41, HW_photo_num = bs ! 42,
     HW_photo_time_period = bs ! 43,
     TSR_photo_num = bs ! 44, TSR_photo_time_period = bs ! 45, a_reserve2 = bytes_at bs 46 4\<rparr>"

definition AdasPara_wf :: "AdasParaSetting \<Rightarrow> bool" where
  "AdasPara_wf p \<longleftrightarrow> length (a_reserve p) = 9 \<and> length (a_reserve2 p) = 4"

definition DmsParaSetting_bytes :: "DmsParaSetting \<Rightarrow> u8 list" where
  "DmsParaSetting_bytes p = ParaBase_bytes p @ d_reserve p
     @ le16 (Smoke_TimeIntervalThreshold p) @ le16 (Call_TimeIntervalThreshold p)
     @ [FatigueDriv_VideoTime p, FatigueDriv_PhotoNum p, FatigueDriv_PhotoInterval p,
        FatigueDriv_resv p,
        CallingDriv_VideoTime p, CallingDriv_PhotoNum p, CallingDriv_PhotoInterval p,
        SmokingDriv_VideoTime p, SmokingDriv_PhotoNum p, SmokingDriv_PhotoInterval p,
        DistractionDriv_VideoTime p, DistractionDriv_PhotoNum p, DistractionDriv_PhotoInterval p,
        AbnormalDriv_VideoTime p, AbnormalDriv_PhotoNum p, AbnormalDriv_PhotoInterval p]
     @ d_reserve2 p"

definition DmsParaSetting_at :: "u8 list \<Rightarrow> DmsParaSetting" where
  "DmsParaSetting_at bs = \<lparr>
     warning_speed_val = bs ! 0, warning_volume = bs ! 1, auto_photo_mode = bs ! 2,
     auto_photo_time_period = u16_at bs 3, auto_photo_distance_period = u16_at bs 5,
     photo_num = bs ! 7, photo_time_period = bs ! 8, image_Resolution = bs ! 9,
     video_Resolution = bs ! 10, d_reserve = bytes_at bs 11 10,
     Smoke_TimeIntervalThreshold = u16_at bs 21, Call_TimeIntervalThreshold = u16_at bs 23,
     FatigueDriv_VideoTime = bs ! 25, FatigueDriv_PhotoNum = bs ! 26,
     FatigueDriv_PhotoInterval = bs ! 27, FatigueDriv_resv = bs ! 28,
     CallingDriv_VideoTime = bs ! 29, CallingDriv_PhotoNum = bs ! 30,
     CallingDriv_PhotoInterval = bs ! 31,
     SmokingDriv_VideoTime = bs ! 32, SmokingDriv_PhotoNum = bs ! 33,
     SmokingDriv_PhotoInterval = bs ! 34,
     DistractionDriv_VideoTime = bs ! 35, DistractionDriv_PhotoNum = bs ! 36,
     DistractionDriv_PhotoInterval = bs ! 37,
     AbnormalDriv_VideoTime = bs ! 38, AbnormalDriv_PhotoNum = bs ! 39,
     AbnormalDriv_PhotoInterval = bs ! 40, d_reserve2 = bytes_at bs 41 2\<rparr>"

definition DmsPara_wf :: "DmsParaSetting \<Rightarrow> bool" where
  "DmsPara_wf p \<longleftrightarrow> length (d_reserve p) = 10 \<and> length (d_reserve2 p) = 2"

lemmas adas_image_defs = AdasParaSetting_bytes_def AdasParaSetting_at_def ParaBase_bytes_def
lemmas dms_image_defs = DmsParaSetting_bytes_def DmsParaSetting_at_def ParaBase_bytes_def

interpretation AdasPara: packed_struct AdasParaSetting_bytes AdasParaSetting_at 50 AdasPara_wf
  by unfold_locales
    (simp_all add: adas_image_defs AdasPara_wf_def image_defs nth_append take_conv_nths upt_rec
      eval_nat_numeral)

interpretation DmsPara: packed_struct DmsParaSetting_bytes DmsParaSetting_at 43 DmsPara_wf
  by unfold_locales
    (simp_all add: dms_image_defs DmsPara_wf_def image_defs nth_append take_conv_nths upt_rec
      eval_nat_numeral)

section \<open>Range checks\<close>

text \<open>\<open>if (x < lo || x > hi) x = d;\<close>\<close>

definition check_range :: "'a::linorder \<Rightarrow> 'a \<Rightarrow> 'a \<Rightarrow> 'a \<Rightarrow> 'a" where
  "check_range lo hi d x = (if x < lo \<or> x > hi then d else x)"

text \<open>The two functions start with the same checks on the common members.\<close>

definition para_check_base :: "'a ParaBase_scheme \<Rightarrow> 'a ParaBase_scheme" where
  "para_check_base p = p\<lparr>
     warning_speed_val := check_range 0 60 30 (warning_speed_val p),
     warning_volume := check_range 0 8 6 (warning_volume p),
     auto_photo_mode := check_range 0 3 0 (auto_photo_mode p),
     auto_photo_time_period := check_range 0 3600 1800 (auto_photo_time_period p),
     auto_photo_distance_period := check_range 0 60000 100 (auto_photo_distance_period p),
     photo_num := check_range 1 10 3 (photo_num p),
     photo_time_period := check_range 1 5 2 (photo_time_period p),
     image_Resolution := check_range 1 6 1 (image_Resolution p),
     video_Resolution := check_range 1 7 1 (video_Resolution p)\<rparr>"

definition adas_check_obstacle :: "AdasParaSetting \<Rightarrow> AdasParaSetting" where
  "adas_check_obstacle p = p\<lparr>
     obstacle_distance_threshold := check_range 10 50 30 (obstacle_distance_threshold p),
     obstacle_video_time := check_range 0 60 5 (obstacle_video_time p),
     obstacle_photo_num := check_range 0 10 3 (obstacle_photo_num p),
     obstacle_photo_time_period := check_range 1 10 2 (obstacle_photo_time_period p)\<rparr>"

definition adas_check_FLC :: "AdasParaSetting \<Rightarrow> AdasParaSetting" where
  "adas_check_FLC p = p\<lparr>
     FLC_time_threshold := check_range 30 120 60 (FLC_time_threshold p),
     FLC_times_threshold := check_range 3 10 5 (FLC_times_threshold p),
     FLC_video_time := check_range 0 60 5 (FLC_video_time p),
     FLC_photo_num := check_range 0 10 3 (FLC_photo_num p),
     FLC_photo_time_period := check_range 1 10 2 (FLC_photo_time_period p)\<rparr>"

definition adas_check_LDW :: "AdasParaSetting \<Rightarrow> AdasParaSetting" where
  "adas_check_LDW p = p\<lparr>
     LDW_video_time := check_range 0 60 5 (LDW_video_time p),
     LDW_photo_num := check_range 0 10 3 (LDW_photo_num p),
     LDW_photo_time_period := check_range 1 10 2 (LDW_photo_time_period p)\<rparr>"

definition adas_check_FCW :: "AdasParaSetting \<Rightarrow> AdasParaSetting" where
  "adas_check_FCW p = p\<lparr>
     FCW_time_threshold := check_range 10 50 27 (FCW_time_threshold p),
     FCW_video_time := check_range 0 60 5 (FCW_video_time p),
     FCW_photo_num := check_range 0 10 3 (FCW_photo_num p),
     FCW_photo_time_period := check_range 1 10 2 (FCW_photo_time_period p)\<rparr>"

definition adas_check_PCW :: "AdasParaSetting \<Rightarrow> AdasParaSetting" where
  "adas_check_PCW p = p\<lparr>
     PCW_time_threshold := check_range 0 50 30 (PCW_time_threshold p),
     PCW_video_time := check_range 0 60 5 (PCW_video_time p),
     PCW_photo_num := check_range 0 10 3 (PCW_photo_num p),
     PCW_photo_time_period := check_range 1 10 2 (PCW_photo_time_period p)\<rparr>"

definition adas_check_HMW :: "AdasParaSetting \<Rightarrow> AdasParaSetting" where
  "adas_check_HMW p = p\<lparr>
     HW_time_threshold := check_range 0 50 30 (HW_time_threshold p),
     HW_video_time := check_range 0 60 5 (HW_video_time p),
     HW_photo_num := check_range 0 10 3 (HW_photo_num p),
     HW_photo_time_period := check_range 1 10 2 (HW_photo_time_period p)\<rparr>"

definition adas_check_TSR :: "AdasParaSetting \<Rightarrow> AdasParaSetting" where
  "adas_check_TSR p = p\<lparr>
     TSR_photo_num := check_range 0 10 3 (TSR_photo_num p),
     TSR_photo_time_period := check_range 1 10 2 (TSR_photo_time_period p)\<rparr>"

definition adas_para_check :: "AdasParaSetting \<Rightarrow> AdasParaSetting" where
  "adas_para_check p = adas_check_TSR (adas_check_HMW (adas_check_PCW (adas_check_FCW (adas_check_LDW (adas_check_FLC
     (adas_check_obstacle (para_check_base p)))))))"

text \<open>No function of the program calls \<open>dms_para_check\<close>.\<close>

definition dms_para_check :: "DmsParaSetting \<Rightarrow> DmsParaSetting" where
  "dms_para_check q = (let p = para_check_base q in p\<lparr>
     Smoke_TimeIntervalThreshold := check_range 0 3600 180 (Smoke_TimeIntervalThreshold p),
     Call_TimeIntervalThreshold := check_range 0 3600 120 (Call_TimeIntervalThreshold p),
     FatigueDriv_VideoTime := check_range 0 60 5 (FatigueDriv_VideoTime p),
     FatigueDriv_PhotoNum := check_range 0 10 3 (FatigueDriv_PhotoNum p),
     FatigueDriv_PhotoInterval := check_range 1 5 2 (FatigueDriv_PhotoInterval p),
     CallingDriv_VideoTime := check_range 0 60 5 (CallingDriv_VideoTime p),
     CallingDriv_PhotoNum := check_range 0 10 3 (CallingDriv_PhotoNum p),
     CallingDriv_PhotoInterval := check_range 1 5 2 (CallingDriv_PhotoInterval p),
     SmokingDriv_VideoTime := check_range 0 60 5 (SmokingDriv_VideoTime p),
     SmokingDriv_PhotoNum := check_range 0 10 3 (SmokingDriv_PhotoNum p),
     SmokingDriv_PhotoInterval := check_range 1 5 2 (SmokingDriv_PhotoInterval p),
     DistractionDriv_VideoTime := check_range 0 60 5 (DistractionDriv_VideoTime p),
     DistractionDriv_PhotoNum := check_range 0 10 3 (DistractionDriv_PhotoNum p),
     DistractionDriv_PhotoInterval := check_range 1 5 2 (DistractionDriv_PhotoInterval p),
     AbnormalDriv_VideoTime := check_range 0 60 5 (AbnormalDriv_VideoTime p),
     AbnormalDriv_PhotoNum := check_range 0 10 3 (AbnormalDriv_PhotoNum p),
     AbnormalDriv_PhotoInterval := check_range 1 5 2 (AbnormalDriv_PhotoInterval p)\<rparr>)"

section \<open>Reading and writing the parameters\<close>

record paras =
  adas_para :: AdasParaSetting
  dms_para :: DmsParaSetting

text \<open>The copy into the caller's block \<open>out\<close>.\<close>

definition read_dev_para :: "u8 \<Rightarrow> paras \<Rightarrow> u8 list \<Rightarrow> u8 list" where
  "read_dev_para para_type ps out =
     (if para_type = SAMPLE_DEVICE_ID_ADAS then AdasParaSetting_bytes (adas_para ps)
      else if para_type = SAMPLE_DEVICE_ID_DMS then DmsParaSetting_bytes (dms_para ps)
      else out)"

text \<open>The byte loops. The two-byte members are skipped by moving the loop index.\<close>

function merge_adas_loop :: "nat \<Rightarrow> u8 list \<Rightarrow> u8 list \<Rightarrow> u8 list" where
  "merge_adas_loop i in8 out8 =
     (if i < 50 then
        let i = (if i = 3 then i + 4 else i)
        in merge_adas_loop (i + 1) in8 (if in8 ! i \<noteq> 0xFF then out8[i := in8 ! i] else out8)
      else out8)"
  by pat_completeness auto
termination
  by (relation "measure (\<lambda>(i, a, b). 50 - i)") auto

function merge_dms_loop :: "nat \<Rightarrow> u8 list \<Rightarrow> u8 list \<Rightarrow> u8 list" where
  "merge_dms_loop i in8 out8 =
     (if i < 43 then
        let i = (if i = 3 then i + 4 else i);
            i = (if i = 21 then i + 4 else i)
        in merge_dms_loop (i + 1) in8 (if in8 ! i \<noteq> 0xFF then out8[i := in8 ! i] else out8)
      else out8)"
  by pat_completeness auto
termination
  by (relation "measure (\<lambda>(i, a, b). 43 - i)") auto

declare merge_adas_loop.simps [simp del] merge_dms_loop.simps [simp del]

definition write_dev_para :: "u8 list \<Rightarrow> u8 \<Rightarrow> paras \<Rightarrow> paras" where
  "write_dev_para in8 para_type ps =
     (if para_type = SAMPLE_DEVICE_ID_ADAS then
        let new = AdasParaSetting_at in8;
            p = adas_para ps;
            p = (if auto_photo_time_period new \<noteq> 0xFFFF
                 then p\<lparr>auto_photo_time_period := auto_photo_time_period new\<rparr> else p);
            p = (if auto_photo_distance_period new \<noteq> 0xFFFF
                 then p\<lparr>auto_photo_distance_period := auto_photo_distance_period new\<rparr> else p);
            out8 = merge_adas_loop 0 in8 (AdasParaSetting_bytes p)
        in ps\<lparr>adas_para := adas_para_check (AdasParaSetting_at out8)\<rparr>
      else if para_type = SAMPLE_DEVICE_ID_DMS then
        let new = DmsParaSetting_at in8;
            p = dms_para ps;
            p = (if auto_photo_time_period new \<noteq> 0xFFFF
                 then p\<lparr>auto_photo_time_period := auto_photo_time_period new\<rparr> else p);
            p = (if auto_photo_distance_period new \<noteq> 0xFFFF
                 then p\<lparr>auto_photo_distance_period := auto_photo_distance_period new\<rparr> else p);
            p = (if Smoke_TimeIntervalThreshold new \<noteq> 0xFFFF
                 then p\<lparr>Smoke_TimeIntervalThreshold := Smoke_TimeIntervalThreshold new\<rparr> else p);
            p = (if Call_TimeIntervalThreshold new \<noteq> 0xFFFF
                 then p\<lparr>Call_TimeIntervalThreshold := Call_TimeIntervalThreshold new\<rparr> else p);
            out8 = merge_dms_loop 0 in8 (DmsParaSetting_bytes p)
        in ps\<lparr>dms_para := DmsParaSetting_at out8\<rparr>
      else ps)"

section \<open>Defaults and parameter files\<close>

definition adas_default :: AdasParaSetting where
  "adas_default = \<lparr>
     warning_speed_val = 30,
     warning_volume = 6,
     auto_photo_mode = 0,
     auto_photo_time_period = 1800,
     auto_photo_distance_period = 100,
     photo_num = 3,
     photo_time_period = 2,
     image_Resolution = 1,
     video_Resolution = 1, a_reserve = replicate 9 0,
     obstacle_distance_threshold = 30,
     obstacle_video_time = 5,
     obstacle_photo_num = 3,
     obstacle_photo_time_period = 2,
     FLC_time_threshold = 60,
     FLC_times_threshold = 5,
     FLC_video_time = 5,
     FLC_photo_num = 3,
     FLC_photo_time_period = 2,
     LDW_video_time = 5,
     LDW_photo_num = 3,
     LDW_photo_time_period = 2,
     FCW_time_threshold = 27,
     FCW_video_time = 5,
     FCW_photo_num = 3,
     FCW_photo_time_period = 2,
     PCW_time_threshold = 30,
     PCW_video_time = 5,
     PCW_photo_num = 3,
     PCW_photo_time_period = 2,
     HW_time_threshold = 30,
     HW_video_time = 5,
     HW_photo_num = 3,
     HW_photo_time_period = 2,
     TSR_photo_num = 3,
     TSR_photo_time_period = 2, a_reserve2 = replicate 4 0\<rparr>"

definition set_AdasParaSetting_default :: "paras \<Rightarrow> paras" where
  "set_AdasParaSetting_default ps =
     write_dev_para (AdasParaSetting_bytes adas_default) SAMPLE_DEVICE_ID_ADAS ps"

definition dms_default :: DmsParaSetting where
  "dms_default = \<lparr>
     warning_speed_val = 30,
     warning_volume = 6,
     auto_photo_mode = 0,
     auto_photo_time_period = 1800,
     auto_photo_distance_period = 100,
     photo_num = 3,
     photo_time_period = 2,
     image_Resolution = 1,
     video_Resolution = 1, d_reserve = replicate 10 0,
     Smoke_TimeIntervalThreshold = 180,
     Call_TimeIntervalThreshold = 120,
     FatigueDriv_VideoTime = 5,
     FatigueDriv_PhotoNum = 3,
     FatigueDriv_PhotoInterval = 2, FatigueDriv_resv = 0,
     CallingDriv_VideoTime = 5,
     CallingDriv_PhotoNum = 3,
     CallingDriv_PhotoInterval = 2,
     SmokingDriv_VideoTime = 5,
     SmokingDriv_PhotoNum = 3,
     SmokingDriv_PhotoInterval = 2,
     DistractionDriv_VideoTime = 5,
     DistractionDriv_PhotoNum = 3,
     DistractionDriv_PhotoInterval = 2,
     AbnormalDriv_VideoTime = 5,
     AbnormalDriv_PhotoNum = 3,
     AbnormalDriv_PhotoInterval = 2, d_reserve2 = replicate 2 0\<rparr>"

definition set_DmsParaSetting_default :: "paras \<Rightarrow> paras" where
  "set_DmsParaSetting_default ps =
     write_dev_para (DmsParaSetting_bytes dms_default) SAMPLE_DEVICE_ID_DMS ps"

text \<open>The file system: the regular files by path. Whether a file can be opened for writing and
  how many bytes a write accepts are arguments, collected in one record.\<close>

type_synonym files = "string \<rightharpoonup> u8 list"

record fsenv =
  fs_open :: "string \<Rightarrow> bool"
  fs_room :: nat

definition write_file :: "fsenv \<Rightarrow> string \<Rightarrow> u8 list \<Rightarrow> files \<Rightarrow> int \<times> files" where
  "write_file e filename data fs =
     (if \<not> fs_open e filename then (1, fs)
      else if fs_room e < length data then (2, fs(filename \<mapsto> take (fs_room e) data))
      else (0, fs(filename \<mapsto> data)))"

definition LOCAL_ADAS_PRAR_FILE :: string where "LOCAL_ADAS_PRAR_FILE = ''/data/adas_para''"
definition LOCAL_DMS_PRAR_FILE :: string where "LOCAL_DMS_PRAR_FILE = ''/data/dms_para''"

definition write_local_adas_para_file :: "fsenv \<Rightarrow> string \<Rightarrow> paras \<Rightarrow> files \<Rightarrow> int \<times> files" where
  "write_local_adas_para_file e filename ps fs =
     write_file e filename (read_dev_para SAMPLE_DEVICE_ID_ADAS ps []) fs"

definition write_local_dms_para_file :: "fsenv \<Rightarrow> string \<Rightarrow> paras \<Rightarrow> files \<Rightarrow> int \<times> files" where
  "write_local_dms_para_file e filename ps fs =
     write_file e filename (read_dev_para SAMPLE_DEVICE_ID_DMS ps []) fs"

definition read_local_adas_para_file ::
  "fsenv \<Rightarrow> string \<Rightarrow> paras \<Rightarrow> files \<Rightarrow> int \<times> paras \<times> files" where
  "read_local_adas_para_file e filename ps fs =
     (case fs filename of
        None \<Rightarrow>
          (if \<not> fs_open e filename then (1, ps, fs)
           else let ps' = set_AdasParaSetting_default ps
                in (0, ps', snd (write_local_adas_para_file e filename ps' (fs(filename \<mapsto> [])))))
      | Some content \<Rightarrow>
          (if min 50 (length content) \<noteq> 50 then (2, ps, fs)
           else (0, write_dev_para (take 50 content) SAMPLE_DEVICE_ID_ADAS ps, fs)))"

definition read_local_dms_para_file ::
  "fsenv \<Rightarrow> string \<Rightarrow> paras \<Rightarrow> files \<Rightarrow> int \<times> paras \<times> files" where
  "read_local_dms_para_file e filename ps fs =
     (case fs filename of
        None \<Rightarrow>
          (if \<not> fs_open e filename then (1, ps, fs)
           else let ps' = set_DmsParaSetting_default ps
                in (0, ps', snd (write_local_dms_para_file e filename ps' (fs(filename \<mapsto> [])))))
      | Some content \<Rightarrow>
          (if min 43 (length content) \<noteq> 43 then (2, ps, fs)
           else (0, write_dev_para (take 43 content) SAMPLE_DEVICE_ID_DMS ps, fs)))"

section \<open>The documented ranges\<close>

definition in_range :: "'a::linorder \<Rightarrow> 'a \<Rightarrow> 'a \<Rightarrow> bool" where
  "in_range lo hi x \<longleftrightarrow> lo \<le> x \<and> x \<le> hi"

definition base_para_ok :: "'a ParaBase_scheme \<Rightarrow> bool" where
  "base_para_ok p \<longleftrightarrow> in_range 0 60 (warning_speed_val p)
     \<and> in_range 0 8 (warning_volume p)
     \<and> in_range 0 3 (auto_photo_mode p)
     \<and> in_range 0 3600 (auto_photo_time_period p)
     \<and> in_range 0 60000 (auto_photo_distance_period p)
     \<and> in_range 1 10 (photo_num p)
     \<and> in_range 1 5 (photo_time_period p)
     \<and> in_range 1 6 (image_Resolution p)
     \<and> in_range 1 7 (video_Resolution p)"

definition adas_para_ok :: "AdasParaSetting \<Rightarrow> bool" where
  "adas_para_ok p \<longleftrightarrow> base_para_ok p
     \<and> in_range 10 50 (obstacle_distance_threshold p)
     \<and> in_range 0 60 (obstacle_video_time p)
     \<and> in_range 0 10 (obstacle_photo_num p)
     \<and> in_range 1 10 (obstacle_photo_time_period p)
     \<and> in_range 30 120 (FLC_time_threshold p)
     \<and> in_range 3 10 (FLC_times_threshold p)
     \<and> in_range 0 60 (FLC_video_time p)
     \<and> in_range 0 10 (FLC_photo_num p)
     \<and> in_range 1 10 (FLC_photo_time_period p)
     \<and> in_range 0 60 (LDW_video_time p)
     \<and> in_range 0 10 (LDW_photo_num p)
     \<and> in_range 1 10 (LDW_photo_time_period p)
     \<and> in_range 10 50 (FCW_time_threshold p)
     \<and> in_range 0 60 (FCW_video_time p)
     \<and> in_range 0 10 (FCW_photo_num p)
     \<and> in_range 1 10 (FCW_photo_time_period p)
     \<and> in_range 0 50 (PCW_time_threshold p)
     \<and> in_range 0 60 (PCW_video_time p)
     \<and> in_range 0 10 (PCW_photo_num p)
     \<and> in_range 1 10 (PCW_photo_time_period p)
     \<and> in_range 0 50 (HW_time_threshold p)
     \<and> in_range 0 60 (HW_video_time p)
     \<and> in_range 0 10 (HW_photo_num p)
     \<and> in_range 1 10 (HW_photo_time_period p)
     \<and> in_range 0 10 (TSR_photo_num p)
     \<and> in_range 1 10 (TSR_photo_time_period p)"

definition dms_para_ok :: "DmsParaSetting \<Rightarrow> bool" where
  "dms_para_ok p \<longleftrightarrow> base_para_ok p
     \<and> in_range 0 3600 (Smoke_TimeIntervalThreshold p)
     \<and> in_range 0 3600 (Call_TimeIntervalThreshold p)
     \<and> in_range 0 60 (FatigueDriv_VideoTime p)
     \<and> in_range 0 10 (FatigueDriv_PhotoNum p)
     \<and> in_range 1 5 (FatigueDriv_PhotoInterval p)
     \<and> in_range 0 60 (CallingDriv_VideoTime p)
     \<and> in_range 0 10 (CallingDriv_PhotoNum p)
     \<and> in_range 1 5 (CallingDriv_PhotoInterval p)
     \<and> in_range 0 60 (SmokingDriv_VideoTime p)
     \<and> in_range 0 10 (SmokingDriv_PhotoNum p)
     \<and> in_range 1 5 (SmokingDriv_PhotoInterval p)
     \<and> in_range 0 60 (DistractionDriv_VideoTime p)
     \<and> in_range 0 10 (DistractionDriv_PhotoNum p)
     \<and> in_range 1 5 (DistractionDriv_PhotoInterval p)
     \<and> in_range 0 60 (AbnormalDriv_VideoTime p)
     \<and> in_range 0 10 (AbnormalDriv_PhotoNum p)
     \<and> in_range 1 5 (AbnormalDriv_PhotoInterval p)"

section \<open>The merge, member by member\<close>

text \<open>The specification of \<open>write_dev_para\<close>: each one-byte member keeps its old value when the
  new one is 0xFF, each two-byte member when the new one is 0xFFFF.\<close>

definition keep8 :: "u8 \<Rightarrow> u8 \<Rightarrow> u8" where "keep8 old new = (if new \<noteq> 0xFF then new else old)"
definition keep16 :: "u16 \<Rightarrow> u16 \<Rightarrow> u16" where "keep16 old new = (if new \<noteq> 0xFFFF then new else old)"

definition adas_merge :: "AdasParaSetting \<Rightarrow> AdasParaSetting \<Rightarrow> AdasParaSetting" where
  "adas_merge old new = \<lparr>
     warning_speed_val = keep8 (warning_speed_val old) (warning_speed_val new),
     warning_volume = keep8 (warning_volume old) (warning_volume new),
     auto_photo_mode = keep8 (auto_photo_mode old) (auto_photo_mode new),
     auto_photo_time_period = keep16 (auto_photo_time_period old) (auto_photo_time_period new),
     auto_photo_distance_period = keep16 (auto_photo_distance_period old) (auto_photo_distance_period new),
     photo_num = keep8 (photo_num old) (photo_num new),
     photo_time_period = keep8 (photo_time_period old) (photo_time_period new),
     image_Resolution = keep8 (image_Resolution old) (image_Resolution new),
     video_Resolution = keep8 (video_Resolution old) (video_Resolution new), a_reserve = map2 keep8 (a_reserve old) (a_reserve new),
     obstacle_distance_threshold = keep8 (obstacle_distance_threshold old) (obstacle_distance_threshold new),
     obstacle_video_time = keep8 (obstacle_video_time old) (obstacle_video_time new),
     obstacle_photo_num = keep8 (obstacle_photo_num old) (obstacle_photo_num new),
     obstacle_photo_time_period = keep8 (obstacle_photo_time_period old) (obstacle_photo_time_period new),
     FLC_time_threshold = keep8 (FLC_time_threshold old) (FLC_time_threshold new),
     FLC_times_threshold = keep8 (FLC_times_threshold old) (FLC_times_threshold new),
     FLC_video_time = keep8 (FLC_video_time old) (FLC_video_time new),
     FLC_photo_num = keep8 (FLC_photo_num old) (FLC_photo_num new),
     FLC_photo_time_period = keep8 (FLC_photo_time_period old) (FLC_photo_time_period new),
     LDW_video_time = keep8 (LDW_video_time old) (LDW_video_time new),
     LDW_photo_num = keep8 (LDW_photo_num old) (LDW_photo_num new),
     LDW_photo_time_period = keep8 (LDW_photo_time_period old) (LDW_photo_time_period new),
     FCW_time_threshold = keep8 (FCW_time_threshold old) (FCW_time_threshold new),
     FCW_video_time = keep8 (FCW_video_time old) (FCW_video_time new),
     FCW_photo_num = keep8 (FCW_photo_num old) (FCW_photo_num new),
     FCW_photo_time_period = keep8 (FCW_photo_time_period old) (FCW_photo_time_period new),
     PCW_time_threshold = keep8 (PCW_time_threshold old) (PCW_time_threshold new),
     PCW_video_time = keep8 (PCW_video_time old) (PCW_video_time new),
     PCW_photo_num = keep8 (PCW_photo_num old) (PCW_photo_num new),
     PCW_photo_time_period = keep8 (PCW_photo_time_period old) (PCW_photo_time_period new),
     HW_time_threshold = keep8 (HW_time_threshold old) (HW_time_threshold new),
     HW_video_time = keep8 (HW_video_time old) (HW_video_time new),
     HW_photo_num = keep8 (HW_photo_num old) (HW_photo_num new),
     HW_photo_time_period = keep8 (HW_photo_time_period old) (HW_photo_time_period new),
     TSR_photo_num = keep8 (TSR_photo_num old) (TSR_photo_num new),
     TSR_photo_time_period = keep8 (TSR_photo_time_period old) (TSR_photo_time_period new), a_reserve2 = map2 keep8 (a_reserve2 old) (a_reserve2 new)\<rparr>"

definition dms_merge :: "DmsParaSetting \<Rightarrow> DmsParaSetting \<Rightarrow> DmsParaSetting" where
  "dms_merge old new = \<lparr>
     warning_speed_val = keep8 (warning_speed_val old) (warning_speed_val new),
     warning_volume = keep8 (warning_volume old) (warning_volume new),
     auto_photo_mode = keep8 (auto_photo_mode old) (auto_photo_mode new),
     auto_photo_time_period = keep16 (auto_photo_time_period old) (auto_photo_time_period new),
     auto_photo_distance_period = keep16 (auto_photo_distance_period old) (auto_photo_distance_period new),
     photo_num = keep8 (photo_num old) (photo_num new),
     photo_time_period = keep8 (photo_time_period old) (photo_time_period new),
     image_Resolution = keep8 (image_Resolution old) (image_Resolution new),
     video_Resolution = keep8 (video_Resolution old) (video_Resolution new), d_reserve = map2 keep8 (d_reserve old) (d_reserve new),
     Smoke_TimeIntervalThreshold = keep16 (Smoke_TimeIntervalThreshold old) (Smoke_TimeIntervalThreshold new),
     Call_TimeIntervalThreshold = keep16 (Call_TimeIntervalThreshold old) (Call_TimeIntervalThreshold new),
     FatigueDriv_VideoTime = keep8 (FatigueDriv_VideoTime old) (FatigueDriv_VideoTime new),
     FatigueDriv_PhotoNum = keep8 (FatigueDriv_PhotoNum old) (FatigueDriv_PhotoNum new),
     FatigueDriv_PhotoInterval = keep8 (FatigueDriv_PhotoInterval old) (FatigueDriv_PhotoInterval new),
     FatigueDriv_resv = keep8 (FatigueDriv_resv old) (FatigueDriv_resv new),
     CallingDriv_VideoTime = keep8 (CallingDriv_VideoTime old) (CallingDriv_VideoTime new),
     CallingDriv_PhotoNum = keep8 (CallingDriv_PhotoNum old) (CallingDriv_PhotoNum new),
     CallingDriv_PhotoInterval = keep8 (CallingDriv_PhotoInterval old) (CallingDriv_PhotoInterval new),
     SmokingDriv_VideoTime = keep8 (SmokingDriv_VideoTime old) (SmokingDriv_VideoTime new),
     SmokingDriv_PhotoNum = keep8 (SmokingDriv_PhotoNum old) (SmokingDriv_PhotoNum new),
     SmokingDriv_PhotoInterval = keep8 (SmokingDriv_PhotoInterval old) (SmokingDriv_PhotoInterval new),
     DistractionDriv_VideoTime = keep8 (DistractionDriv_VideoTime old) (DistractionDriv_VideoTime new),
     DistractionDriv_PhotoNum = keep8 (DistractionDriv_PhotoNum old) (DistractionDriv_PhotoNum new),
     DistractionDriv_PhotoInterval = keep8 (DistractionDriv_PhotoInterval old) (DistractionDriv_PhotoInterval new),
     AbnormalDriv_VideoTime = keep8 (AbnormalDriv_VideoTime old) (AbnormalDriv_VideoTime new),
     AbnormalDriv_PhotoNum = keep8 (AbnormalDriv_PhotoNum old) (AbnormalDriv_PhotoNum new),
     AbnormalDriv_PhotoInterval = keep8 (AbnormalDriv_PhotoInterval old) (AbnormalDriv_PhotoInterval new), d_reserve2 = map2 keep8 (d_reserve2 old) (d_reserve2 new)\<rparr>"


section \<open>Lemmas on the checks\<close>

lemma check_range_ok: "lo \<le> d \<Longrightarrow> d \<le> hi \<Longrightarrow> in_range lo hi (check_range lo hi d x)"
  by (auto simp: check_range_def in_range_def)

lemma check_range_id: "in_range lo hi x \<Longrightarrow> check_range lo hi d x = x"
  by (auto simp: check_range_def in_range_def)

lemmas adas_check_defs = adas_check_obstacle_def adas_check_FLC_def adas_check_LDW_def
  adas_check_FCW_def adas_check_PCW_def adas_check_HMW_def adas_check_TSR_def para_check_base_def

lemma adas_para_check_ok [simp]: "adas_para_ok (adas_para_check p)"
  by (simp add: adas_para_ok_def base_para_ok_def adas_para_check_def adas_check_defs check_range_ok)

lemma adas_para_check_id: "adas_para_ok p \<Longrightarrow> adas_para_check p = p"
  by (simp add: adas_para_ok_def base_para_ok_def adas_para_check_def adas_check_defs check_range_id)

lemma AdasPara_wf_check [simp]: "AdasPara_wf (adas_para_check p) = AdasPara_wf p"
  by (simp add: AdasPara_wf_def adas_para_check_def adas_check_defs)

lemma dms_para_check_ok: "dms_para_ok (dms_para_check p)"
  by (simp add: dms_para_ok_def base_para_ok_def dms_para_check_def para_check_base_def check_range_ok Let_def)

section \<open>Lemmas on the merge loops\<close>

lemma length_merge_adas_loop [simp]: "length (merge_adas_loop i in8 out8) = length out8"
  by (induction i in8 out8 rule: merge_adas_loop.induct) (subst merge_adas_loop.simps, auto simp: Let_def)

lemma length_merge_dms_loop [simp]: "length (merge_dms_loop i in8 out8) = length out8"
  by (induction i in8 out8 rule: merge_dms_loop.induct) (subst merge_dms_loop.simps, auto simp: Let_def)

lemma merge_adas_loop_nth:
  "length out8 = 50 \<Longrightarrow> j < 50 \<Longrightarrow> merge_adas_loop i in8 out8 ! j =
     (if i \<le> j \<and> \<not> (i \<le> 3 \<and> 3 \<le> j \<and> j < 7) then keep8 (out8 ! j) (in8 ! j) else out8 ! j)"
proof (induction i in8 out8 rule: merge_adas_loop.induct)
  case (1 i in8 out8)
  show ?case
  proof (cases "i < 50")
    case True
    let ?i = "if i = 3 then i + 4 else i"
    let ?o = "if in8 ! ?i \<noteq> 0xFF then out8[?i := in8 ! ?i] else out8"
    have "merge_adas_loop (?i + 1) in8 ?o ! j =
        (if ?i + 1 \<le> j \<and> \<not> (?i + 1 \<le> 3 \<and> 3 \<le> j \<and> j < 7) then keep8 (?o ! j) (in8 ! j) else ?o ! j)"
      using 1 True by (intro "1.IH") auto
    then show ?thesis
      using 1 True by (subst merge_adas_loop.simps) (auto simp: Let_def keep8_def nth_list_update)
  qed (use 1 in \<open>auto simp: merge_adas_loop.simps\<close>)
qed

lemma merge_dms_loop_nth:
  "length out8 = 43 \<Longrightarrow> j < 43 \<Longrightarrow> merge_dms_loop i in8 out8 ! j =
     (if i \<le> j \<and> \<not> (i \<le> 3 \<and> 3 \<le> j \<and> j < 7) \<and> \<not> (i \<le> 21 \<and> 21 \<le> j \<and> j < 25)
      then keep8 (out8 ! j) (in8 ! j) else out8 ! j)"
proof (induction i in8 out8 rule: merge_dms_loop.induct)
  case (1 i in8 out8)
  consider "i = 3" | "i = 21" | "i \<noteq> 3" "i \<noteq> 21" "i < 43" | "\<not> i < 43" by linarith
  then show ?case
  proof cases
    case 1
    then show ?thesis using "1.IH" "1.prems"
      by (subst merge_dms_loop.simps) (auto simp: keep8_def nth_list_update)
  next
    case 2
    then show ?thesis using "1.IH" "1.prems"
      by (subst merge_dms_loop.simps) (auto simp: keep8_def nth_list_update)
  next
    case 3
    then have "merge_dms_loop i in8 out8 =
        merge_dms_loop (i + 1) in8 (if in8 ! i \<noteq> 0xFF then out8[i := in8 ! i] else out8)"
      by (subst merge_dms_loop.simps) simp
    moreover have "i + 1 \<le> 3 \<longleftrightarrow> i \<le> 3" "i + 1 \<le> 21 \<longleftrightarrow> i \<le> 21" using 3 by auto
    moreover have "i \<le> j \<longleftrightarrow> i = j \<or> i + 1 \<le> j" by auto
    ultimately show ?thesis using "1.IH" "1.prems" 3
      by (cases "i = j") (auto simp: keep8_def)
  qed (use "1.prems" in \<open>auto simp: merge_dms_loop.simps\<close>)
qed

lemma merge_adas_loop_map:
  assumes "length out8 = 50"
  shows "merge_adas_loop 0 in8 out8 =
    map (\<lambda>j. if 3 \<le> j \<and> j < 7 then out8 ! j else keep8 (out8 ! j) (in8 ! j)) [0..<50]"
  using assms by (intro nth_equalityI) (auto simp: merge_adas_loop_nth)

lemma merge_dms_loop_map:
  assumes "length out8 = 43"
  shows "merge_dms_loop 0 in8 out8 =
    map (\<lambda>j. if (3 \<le> j \<and> j < 7) \<or> (21 \<le> j \<and> j < 25) then out8 ! j
              else keep8 (out8 ! j) (in8 ! j)) [0..<43]"
  using assms by (intro nth_equalityI) (auto simp: merge_dms_loop_nth)

end
