(* ===== verification/ParaMerge.thy ===== *)
theory ParaMerge
  imports Para
begin

text \<open>
  What \<open>para.cpp\<close> guarantees: the byte loops of \<open>write_dev_para\<close> are the member-wise merge, the
  ADAS parameters are in their documented ranges after every write whatever the bytes were, the
  defaults are installed whatever was there before, and a parameter file reads back as it was
  written.
\<close>

lemma of_le16_le16 [simp]: "of_le16 (le16 x ! 0) (le16 x ! Suc 0) = x"
  by (simp add: le16_def)

lemma adas_loop_merge:
  assumes "AdasPara_wf old" "length in8 = 50"
  shows "AdasParaSetting_at (merge_adas_loop 0 in8 (AdasParaSetting_bytes
      (old\<lparr>auto_photo_time_period := keep16 (auto_photo_time_period old) (u16_at in8 3),
           auto_photo_distance_period := keep16 (auto_photo_distance_period old) (u16_at in8 5)\<rparr>)))
    = adas_merge old (AdasParaSetting_at in8)"
proof -
  obtain bs where bs: "old = AdasParaSetting_at bs" "length bs = 50"
    using AdasPara.dec_enc_self [OF assms(1)] AdasPara.length_enc [OF assms(1)] by metis
  let ?p = "old\<lparr>auto_photo_time_period := keep16 (auto_photo_time_period old) (u16_at in8 3),
           auto_photo_distance_period := keep16 (auto_photo_distance_period old) (u16_at in8 5)\<rparr>"
  have "AdasPara_wf ?p" using assms(1) by (simp add: AdasPara_wf_def)
  then have len: "length (AdasParaSetting_bytes ?p) = 50" by (rule AdasPara.length_enc)
  show ?thesis
    unfolding merge_adas_loop_map [OF len]
    by (simp add: bs(1) adas_image_defs adas_merge_def bytes_at_conv_nths bs(2) assms(2)
        u16_at_def nth_append upt_rec eval_nat_numeral)
qed


lemma dms_loop_merge:
  assumes "DmsPara_wf old" "length in8 = 43"
  shows "DmsParaSetting_at (merge_dms_loop 0 in8 (DmsParaSetting_bytes
      (old\<lparr>auto_photo_time_period := keep16 (auto_photo_time_period old) (u16_at in8 3),
           auto_photo_distance_period := keep16 (auto_photo_distance_period old) (u16_at in8 5),
           Smoke_TimeIntervalThreshold := keep16 (Smoke_TimeIntervalThreshold old) (u16_at in8 21),
           Call_TimeIntervalThreshold := keep16 (Call_TimeIntervalThreshold old) (u16_at in8 23)\<rparr>)))
    = dms_merge old (DmsParaSetting_at in8)"
proof -
  obtain bs where bs: "old = DmsParaSetting_at bs" "length bs = 43"
    using DmsPara.dec_enc_self [OF assms(1)] DmsPara.length_enc [OF assms(1)] by metis
  let ?p = "old\<lparr>auto_photo_time_period := keep16 (auto_photo_time_period old) (u16_at in8 3),
           auto_photo_distance_period := keep16 (auto_photo_distance_period old) (u16_at in8 5),
           Smoke_TimeIntervalThreshold := keep16 (Smoke_TimeIntervalThreshold old) (u16_at in8 21),
           Call_TimeIntervalThreshold := keep16 (Call_TimeIntervalThreshold old) (u16_at in8 23)\<rparr>"
  have "DmsPara_wf ?p" using assms(1) by (simp add: DmsPara_wf_def)
  then have len: "length (DmsParaSetting_bytes ?p) = 43" by (rule DmsPara.length_enc)
  show ?thesis
    unfolding merge_dms_loop_map [OF len]
    by (simp add: bs(1) dms_image_defs dms_merge_def bytes_at_conv_nths bs(2) assms(2)
        u16_at_def nth_append upt_rec eval_nat_numeral)
qed


definition paras_wf :: "paras \<Rightarrow> bool" where
  "paras_wf ps \<longleftrightarrow> AdasPara_wf (adas_para ps) \<and> DmsPara_wf (dms_para ps)"

lemma keep16_update:
  "(if new \<noteq> 0xFFFF then p\<lparr>auto_photo_time_period := new\<rparr> else p) =
     p\<lparr>auto_photo_time_period := keep16 (auto_photo_time_period p) new\<rparr>"
  "(if new \<noteq> 0xFFFF then p\<lparr>auto_photo_distance_period := new\<rparr> else p) =
     p\<lparr>auto_photo_distance_period := keep16 (auto_photo_distance_period p) new\<rparr>"
  "(if new \<noteq> 0xFFFF then q\<lparr>Smoke_TimeIntervalThreshold := new\<rparr> else q) =
     q\<lparr>Smoke_TimeIntervalThreshold := keep16 (Smoke_TimeIntervalThreshold q) new\<rparr>"
  "(if new \<noteq> 0xFFFF then q\<lparr>Call_TimeIntervalThreshold := new\<rparr> else q) =
     q\<lparr>Call_TimeIntervalThreshold := keep16 (Call_TimeIntervalThreshold q) new\<rparr>"
  by (simp_all add: keep16_def)

lemma AdasParaSetting_at_periods:
  "auto_photo_time_period (AdasParaSetting_at in8) = u16_at in8 3"
  "auto_photo_distance_period (AdasParaSetting_at in8) = u16_at in8 5"
  by (simp_all add: AdasParaSetting_at_def)

lemma DmsParaSetting_at_periods:
  "auto_photo_time_period (DmsParaSetting_at in8) = u16_at in8 3"
  "auto_photo_distance_period (DmsParaSetting_at in8) = u16_at in8 5"
  "Smoke_TimeIntervalThreshold (DmsParaSetting_at in8) = u16_at in8 21"
  "Call_TimeIntervalThreshold (DmsParaSetting_at in8) = u16_at in8 23"
  by (simp_all add: DmsParaSetting_at_def)

lemma write_dev_para_ADAS:
  assumes "AdasPara_wf (adas_para ps)" "length in8 = 50"
  shows "write_dev_para in8 SAMPLE_DEVICE_ID_ADAS ps =
    ps\<lparr>adas_para := adas_para_check (adas_merge (adas_para ps) (AdasParaSetting_at in8))\<rparr>"
  using adas_loop_merge [OF assms]
  by (simp add: write_dev_para_def keep16_update AdasParaSetting_at_periods Let_def)

lemma write_dev_para_DMS:
  assumes "DmsPara_wf (dms_para ps)" "length in8 = 43"
  shows "write_dev_para in8 SAMPLE_DEVICE_ID_DMS ps =
    ps\<lparr>dms_para := dms_merge (dms_para ps) (DmsParaSetting_at in8)\<rparr>"
  using dms_loop_merge [OF assms]
  by (simp add: write_dev_para_def keep16_update DmsParaSetting_at_periods Let_def)

lemma AdasPara_wf_merge:
  "AdasPara_wf old \<Longrightarrow> AdasPara_wf new \<Longrightarrow> AdasPara_wf (adas_merge old new)"
  by (simp add: AdasPara_wf_def adas_merge_def)

lemma DmsPara_wf_merge:
  "DmsPara_wf old \<Longrightarrow> DmsPara_wf new \<Longrightarrow> DmsPara_wf (dms_merge old new)"
  by (simp add: DmsPara_wf_def dms_merge_def)

lemma paras_wf_write_dev_para:
  assumes "paras_wf ps" "50 = length in8 \<or> para_type \<noteq> SAMPLE_DEVICE_ID_ADAS"
    "43 = length in8 \<or> para_type \<noteq> SAMPLE_DEVICE_ID_DMS"
  shows "paras_wf (write_dev_para in8 para_type ps)"
proof -
  consider "para_type = SAMPLE_DEVICE_ID_ADAS" | "para_type = SAMPLE_DEVICE_ID_DMS"
    | "para_type \<noteq> SAMPLE_DEVICE_ID_ADAS" "para_type \<noteq> SAMPLE_DEVICE_ID_DMS" by blast
  then show ?thesis
  proof cases
    case 1
    then show ?thesis using assms AdasPara.wf_dec [of in8] AdasPara_wf_merge
      by (simp add: write_dev_para_ADAS paras_wf_def)
  next
    case 2
    then show ?thesis using assms DmsPara.wf_dec [of in8] DmsPara_wf_merge
      by (simp add: write_dev_para_DMS paras_wf_def)
  qed (use assms(1) in \<open>simp add: write_dev_para_def\<close>)
qed

section \<open>Defaults and files\<close>

lemma merge_id_adas:
  assumes "adas_para_ok new" "AdasPara_wf new" "AdasPara_wf old"
    "0xFF \<notin> set (a_reserve new)" "0xFF \<notin> set (a_reserve2 new)"
  shows "adas_merge old new = new"
proof -
  have keep8: "keep8 x y = y" if "y \<le> 120" for x y
    using that by (auto simp: keep8_def)
  have keep16: "keep16 x y = y" if "y \<le> 60000" for x y
    using that by (auto simp: keep16_def)
  have le: "y \<le> n \<Longrightarrow> n \<le> 120 \<Longrightarrow> y \<le> 120" for y n :: u8 by auto
  have le': "y \<le> n \<Longrightarrow> n \<le> 60000 \<Longrightarrow> y \<le> 60000" for y n :: u16 by auto
  have res: "map2 keep8 xs ys = ys" if "0xFF \<notin> set ys" "length xs = length ys" for xs ys
    using that(2,1) by (induction xs ys rule: list_induct2) (auto simp: keep8_def)
  show ?thesis
    using assms
    by (cases new, clarsimp simp: adas_merge_def adas_para_ok_def base_para_ok_def in_range_def AdasPara_wf_def res)
      (simp add: keep8 [OF le] keep16 [OF le'])
qed

lemma AdasPara_wf_default: "AdasPara_wf adas_default"
  by (simp add: adas_default_def AdasPara_wf_def)

lemma adas_default_ok: "adas_para_ok adas_default"
  by (simp add: adas_default_def adas_para_ok_def base_para_ok_def in_range_def)


lemma DmsPara_wf_default: "DmsPara_wf dms_default"
  by (simp add: dms_default_def DmsPara_wf_def)

lemma dms_default_ok: "dms_para_ok dms_default"
  by (simp add: dms_default_def dms_para_ok_def base_para_ok_def in_range_def)

lemma map2_keep8_replicate: "length xs = n \<Longrightarrow> y \<noteq> 0xFF \<Longrightarrow> map2 keep8 xs (replicate n y) = replicate n y"
  by (induction n arbitrary: xs) (auto simp: keep8_def length_Suc_conv)

lemma dms_merge_default:
  assumes "DmsPara_wf old"
  shows "dms_merge old (dms_default\<lparr>photo_num := n\<rparr>) = dms_default\<lparr>photo_num := keep8 (photo_num old) n\<rparr>"
proof -
  have k: "y \<noteq> 0xFF \<Longrightarrow> keep8 x y = y" for x y by (simp add: keep8_def)
  show ?thesis
    using assms
    by (simp add: dms_merge_def dms_default_def DmsPara_wf_def k keep16_def map2_keep8_replicate)
qed

lemma adas_merge_default: "AdasPara_wf old \<Longrightarrow> adas_merge old adas_default = adas_default"
  by (rule merge_id_adas [OF adas_default_ok AdasPara_wf_default]) (auto simp: adas_default_def)

lemma set_AdasParaSetting_default:
  "AdasPara_wf (adas_para ps) \<Longrightarrow> set_AdasParaSetting_default ps = ps\<lparr>adas_para := adas_default\<rparr>"
  by (simp add: set_AdasParaSetting_default_def write_dev_para_ADAS AdasPara.length_enc
      AdasPara.dec_enc_self AdasPara_wf_default adas_merge_default adas_para_check_id adas_default_ok)

lemma set_DmsParaSetting_default:
  assumes "DmsPara_wf (dms_para ps)"
  shows "set_DmsParaSetting_default ps = ps\<lparr>dms_para := dms_default\<rparr>"
proof -
  have "dms_merge (dms_para ps) dms_default = dms_default"
    using dms_merge_default [OF assms, of "photo_num dms_default"]
    by (simp add: dms_default_def keep8_def)
  then show ?thesis using assms
    by (simp add: set_DmsParaSetting_default_def write_dev_para_DMS DmsPara.length_enc
        DmsPara.dec_enc_self DmsPara_wf_default)
qed

section \<open>Properties\<close>

definition boot_paras :: paras where
  "boot_paras = \<lparr>adas_para = adas_default, dms_para = dms_default\<rparr>"

lemma paras_wf_boot: "paras_wf boot_paras"
  by (simp add: paras_wf_def boot_paras_def AdasPara_wf_default DmsPara_wf_default)

text \<open>C27: the byte loop of \<open>write_dev_para\<close> for the ADAS struct, which skips the two-byte members by
  moving its index, together with the two guarded assignments before it and the range check after
  it, stores exactly the member-wise merge of the received struct into the current one, checked:
  a member that arrives as 0xFF (0xFFFF) keeps its value, every other member is replaced.\<close>

theorem write_dev_para_adas_merge:
  assumes "AdasPara_wf (adas_para ps)" "length in8 = 50"
  shows "write_dev_para in8 SAMPLE_DEVICE_ID_ADAS ps =
    ps\<lparr>adas_para := adas_para_check (adas_merge (adas_para ps) (AdasParaSetting_at in8))\<rparr>"
  using assms by (rule write_dev_para_ADAS)

theorem write_dev_para_adas_merge_witness:
  "write_dev_para (replicate 20 0xFF @ 40 # replicate 29 0xFF) SAMPLE_DEVICE_ID_ADAS boot_paras =
     boot_paras\<lparr>adas_para := adas_para_check (adas_merge adas_default
       (AdasParaSetting_at (replicate 20 0xFF @ 40 # replicate 29 0xFF)))\<rparr>"
proof -
  have "AdasPara_wf (adas_para boot_paras)" "adas_para boot_paras = adas_default"
    by (simp_all add: boot_paras_def AdasPara_wf_default)
  then show ?thesis
    using write_dev_para_adas_merge [of boot_paras "replicate 20 0xFF @ 40 # replicate 29 0xFF"]
    by simp
qed

text \<open>for the DMS struct the loop skips two groups of two-byte members, and what
  \<open>write_dev_para\<close> stores is exactly the member-wise merge: no range check follows it.\<close>

theorem write_dev_para_dms_merge:
  assumes "DmsPara_wf (dms_para ps)" "length in8 = 43"
  shows "write_dev_para in8 SAMPLE_DEVICE_ID_DMS ps =
    ps\<lparr>dms_para := dms_merge (dms_para ps) (DmsParaSetting_at in8)\<rparr>"
  using assms by (rule write_dev_para_DMS)

theorem write_dev_para_dms_merge_witness:
  "write_dev_para (replicate 43 0xFE) SAMPLE_DEVICE_ID_DMS boot_paras =
     boot_paras\<lparr>dms_para := dms_merge dms_default (DmsParaSetting_at (replicate 43 0xFE))\<rparr>"
proof -
  have "DmsPara_wf (dms_para boot_paras)" "dms_para boot_paras = dms_default"
    by (simp_all add: boot_paras_def DmsPara_wf_default)
  then show ?thesis
    using write_dev_para_dms_merge [of boot_paras "replicate 43 0xFE"] by simp
qed

text \<open>C28: whatever bytes are written, from a parameter file or from the network, the stored ADAS
  parameters are in the ranges \<open>para.cpp\<close> documents; and the check changes exactly the
  parameter sets that are not.\<close>

theorem adas_para_always_in_range:
  "adas_para_ok (adas_para (write_dev_para in8 SAMPLE_DEVICE_ID_ADAS ps)) \<and>
   (adas_para_check p = p \<longleftrightarrow> adas_para_ok p)"
proof
  show "adas_para_ok (adas_para (write_dev_para in8 SAMPLE_DEVICE_ID_ADAS ps))"
    by (simp add: write_dev_para_def Let_def)
  show "adas_para_check p = p \<longleftrightarrow> adas_para_ok p"
    by (metis adas_para_check_id adas_para_check_ok)
qed

text \<open>the first start of the device. With no parameter file there, reading the parameters
  installs the default set, whatever the parameters were, and leaves its memory image in the file.\<close>

theorem first_start_defaults:
  assumes "AdasPara_wf (adas_para ps)" "fs filename = None" "fs_open e filename" "50 \<le> fs_room e"
  shows "read_local_adas_para_file e filename ps fs =
    (0, ps\<lparr>adas_para := adas_default\<rparr>, fs(filename \<mapsto> AdasParaSetting_bytes adas_default))"
  using assms
  by (simp add: read_local_adas_para_file_def set_AdasParaSetting_default write_local_adas_para_file_def
      write_file_def read_dev_para_def AdasPara.length_enc AdasPara_wf_default Let_def)

theorem first_start_defaults_witness:
  "read_local_adas_para_file \<lparr>fs_open = \<lambda>_. True, fs_room = 100\<rparr> LOCAL_ADAS_PRAR_FILE
     (boot_paras\<lparr>adas_para := adas_default\<lparr>photo_num := 9\<rparr>\<rparr>) Map.empty =
   (0, boot_paras, [LOCAL_ADAS_PRAR_FILE \<mapsto> AdasParaSetting_bytes adas_default])"
proof -
  have "AdasPara_wf (adas_para (boot_paras\<lparr>adas_para := adas_default\<lparr>photo_num := 9\<rparr>\<rparr>))"
    by (simp add: AdasPara_wf_def adas_default_def)
  then show ?thesis
    using first_start_defaults [of "boot_paras\<lparr>adas_para := adas_default\<lparr>photo_num := 9\<rparr>\<rparr>" Map.empty
        LOCAL_ADAS_PRAR_FILE "\<lparr>fs_open = \<lambda>_. True, fs_room = 100\<rparr>"]
    by (simp add: boot_paras_def)
qed

text \<open>a parameter set in range whose reserved bytes are not 0xFF survives a restart: writing the
  parameter file succeeds, and reading it back into any other state gives the same parameters.\<close>

theorem adas_file_roundtrip:
  assumes "adas_para_ok (adas_para ps)" "AdasPara_wf (adas_para ps)"
    "0xFF \<notin> set (a_reserve (adas_para ps))" "0xFF \<notin> set (a_reserve2 (adas_para ps))"
    "fs_open e filename" "50 \<le> fs_room e" "AdasPara_wf (adas_para ps')"
  shows "fst (write_local_adas_para_file e filename ps fs) = 0 \<and>
    read_local_adas_para_file e' filename ps' (snd (write_local_adas_para_file e filename ps fs)) =
      (0, ps'\<lparr>adas_para := adas_para ps\<rparr>, fs(filename \<mapsto> AdasParaSetting_bytes (adas_para ps)))"
  using assms AdasPara.length_enc [of "adas_para ps"]
  by (simp add: read_local_adas_para_file_def write_local_adas_para_file_def write_file_def
      read_dev_para_def write_dev_para_ADAS AdasPara.dec_enc_self merge_id_adas adas_para_check_id)

theorem adas_file_roundtrip_witness:
  "read_local_adas_para_file \<lparr>fs_open = \<lambda>_. True, fs_room = 100\<rparr> ''p''
     (boot_paras\<lparr>adas_para := adas_default\<lparr>photo_num := 9\<rparr>\<rparr>)
     (snd (write_local_adas_para_file \<lparr>fs_open = \<lambda>_. True, fs_room = 100\<rparr> ''p'' boot_paras Map.empty)) =
   (0, boot_paras, [''p'' \<mapsto> AdasParaSetting_bytes adas_default])"
proof -
  have "AdasPara_wf (adas_default\<lparr>photo_num := 9\<rparr>)" "0xFF \<notin> set (a_reserve adas_default)"
      "0xFF \<notin> set (a_reserve2 adas_default)"
    by (simp_all add: AdasPara_wf_def adas_default_def)
  then show ?thesis
    using adas_file_roundtrip [of boot_paras "\<lparr>fs_open = \<lambda>_. True, fs_room = 100\<rparr>" "''p''"
        "boot_paras\<lparr>adas_para := adas_default\<lparr>photo_num := 9\<rparr>\<rparr>" Map.empty
        "\<lparr>fs_open = \<lambda>_. True, fs_room = 100\<rparr>"]
    by (simp add: boot_paras_def adas_default_ok AdasPara_wf_default)
qed

end
