(* ===== verification/UpgradeScript.thy ===== *)
theory UpgradeScript
  imports ParaMerge
begin

text \<open>
  The script \<open>prot_upgrade.sh\<close>, which the program runs to its end when an upgrade image has arrived: what it
  does to the files. The image is a compressed archive; what \<open>tar\<close> finds in it, and what the
  installer of the algorithm packages does, are arguments. The commands of the script that touch no file of the model
  (\<open>mount\<close>, \<open>sync\<close>, \<open>chmod\<close>, \<open>echo\<close>) are left out, and the moves succeed.
\<close>

record upgrade_tools =
  up_untar :: "u8 list \<Rightarrow> (string \<times> u8 list) list option"   \<comment> \<open>the members of an archive, in order\<close>
  up_install_mpk :: "files \<Rightarrow> files"   \<comment> \<open>the loop over the algorithm packages\<close>

definition upgrade_dir :: string where "upgrade_dir = ''/mnt/obb/prot_upgrade/''"
definition target_bin :: string where "target_bin = upgrade_dir @ ''subiao_upgrade.bin''"
definition target_tgz :: string where "target_tgz = upgrade_dir @ ''subiao_upgrade.tar.gz''"

text \<open>\<open>busybox mv\<close>, which does nothing without the file.\<close>

definition mv :: "string \<Rightarrow> string \<Rightarrow> files \<Rightarrow> files" where
  "mv a b fs = (case fs a of None \<Rightarrow> fs | Some c \<Rightarrow> fs(a := None, b := Some c))"

text \<open>\<open>busybox tar xzf\<close> in the upgrade directory.\<close>

definition tar_xzf :: "upgrade_tools \<Rightarrow> string \<Rightarrow> files \<Rightarrow> files" where
  "tar_xzf tools archive fs =
     (case fs archive of None \<Rightarrow> fs
      | Some c \<Rightarrow> (case up_untar tools c of None \<Rightarrow> fs
          | Some members \<Rightarrow> fold (\<lambda>(name, content) fs. fs(upgrade_dir @ name \<mapsto> content)) members fs))"

text \<open>The body of the two loops: a file that was unpacked replaces the installed one.\<close>

definition install_file :: "string \<Rightarrow> string \<Rightarrow> files \<Rightarrow> files" where
  "install_file dir name fs =
     (if fs (upgrade_dir @ name) = None then fs
      else mv (dir @ name @ ''.new'') (dir @ name) (mv (upgrade_dir @ name) (dir @ name @ ''.new'') fs))"

definition upgrade_bin :: "string list" where
  "upgrade_bin = [''AdasProt'', ''DsmProt'', ''adasProt.sh'', ''dsmProt.sh'']"
definition upgrade_conf :: "string list" where
  "upgrade_conf = [''prot.json'', ''prot_upgrade.sh'']"

definition prot_upgrade_sh :: "upgrade_tools \<Rightarrow> files \<Rightarrow> files" where
  "prot_upgrade_sh tools fs =
     (let fs = mv target_bin target_tgz fs;
          fs = tar_xzf tools target_tgz fs;
          fs = fold (install_file ''/system/bin/'') upgrade_bin fs;
          fs = fold (install_file ''/data/'') upgrade_conf fs;
          fs = up_install_mpk tools fs
      in fs(target_tgz := None))"

definition no_tools :: upgrade_tools where
  "no_tools = \<lparr>up_untar = \<lambda>_. None, up_install_mpk = \<lambda>fs. fs\<rparr>"

section \<open>What an upgrade installs\<close>

lemma tar_members_other:
  "p \<notin> (\<lambda>m. upgrade_dir @ fst m) ` set ms \<Longrightarrow>
   fold (\<lambda>(name, content) fs. fs(upgrade_dir @ name \<mapsto> content)) ms fs p = fs p"
  by (induction ms arbitrary: fs) auto

lemma tar_members:
  "distinct (map fst ms) \<Longrightarrow> (n, c) \<in> set ms \<Longrightarrow>
   fold (\<lambda>(name, content) fs. fs(upgrade_dir @ name \<mapsto> content)) ms fs (upgrade_dir @ n) = Some c"
proof (induction ms arbitrary: fs)
  case (Cons m ms)
  show ?case
  proof (cases "m = (n, c)")
    case True
    then have "upgrade_dir @ n \<notin> (\<lambda>m. upgrade_dir @ fst m) ` set ms" using Cons.prems(1) by force
    then have "fold (\<lambda>(name, content) fs. fs(upgrade_dir @ name \<mapsto> content)) ms (fs(upgrade_dir @ n \<mapsto> c)) (upgrade_dir @ n) =
        (fs(upgrade_dir @ n \<mapsto> c)) (upgrade_dir @ n)" by (rule tar_members_other)
    then show ?thesis using True by (simp del: fun_upd_apply) simp
  qed (use Cons in \<open>auto simp: split_beta\<close>)
qed simp

lemma install_file_apply:
  assumes "dir \<in> {''/system/bin/'', ''/data/''}"
  shows "install_file dir name fs p =
    (if fs (upgrade_dir @ name) = None then fs p
     else if p = dir @ name then fs (upgrade_dir @ name)
     else if p = upgrade_dir @ name \<or> p = dir @ name @ ''.new'' then None else fs p)"
proof -
  have "upgrade_dir @ name \<noteq> dir @ name @ ''.new''" "dir @ name \<noteq> upgrade_dir @ name"
    using assms by (auto simp: upgrade_dir_def)
  then show ?thesis by (cases "fs (upgrade_dir @ name)") (auto simp: install_file_def mv_def)
qed

text \<open>The installer of the algorithm packages leaves the program and the image alone.\<close>

definition mpk_keeps :: "upgrade_tools \<Rightarrow> bool" where
  "mpk_keeps tools \<longleftrightarrow> (\<forall>fs p. p = target_bin \<or> p \<in> (\<lambda>n. ''/system/bin/'' @ n) ` set upgrade_bin
     \<or> p \<in> (\<lambda>n. ''/data/'' @ n) ` set upgrade_conf \<longrightarrow> up_install_mpk tools fs p = fs p)"

lemma installed_names:
  "''/system/bin/'' @ n \<noteq> target_tgz" "''/data/'' @ n \<noteq> target_tgz" "target_bin \<noteq> target_tgz"
  "''/system/bin/'' @ n \<noteq> upgrade_dir @ m" "''/data/'' @ n \<noteq> upgrade_dir @ m" "''/system/bin/'' @ n \<noteq> ''/data/'' @ m"
  "target_bin \<noteq> ''/system/bin/'' @ n" "target_bin \<noteq> ''/data/'' @ n"
  by (simp_all add: target_tgz_def target_bin_def upgrade_dir_def)

text \<open>What each loop leaves: the new file where there was one, the old one where there was none.\<close>

lemma install_loop:
  assumes "dir \<in> {''/system/bin/'', ''/data/''}" "distinct ns" "\<forall>n \<in> set ns. n @ ''.new'' \<notin> set ns"
  shows "p \<notin> (\<lambda>n. dir @ n) ` set ns \<Longrightarrow> p \<notin> (\<lambda>n. dir @ n @ ''.new'') ` set ns \<Longrightarrow> p \<notin> (\<lambda>n. upgrade_dir @ n) ` set ns \<Longrightarrow>
      fold (install_file dir) ns fs p = fs p"
    and "n \<in> set ns \<Longrightarrow> fs (upgrade_dir @ n) = Some c \<Longrightarrow> fold (install_file dir) ns fs (dir @ n) = Some c"
proof -
  have other: "fold (install_file dir) ms fs p = fs p"
    if "p \<notin> (\<lambda>n. dir @ n) ` set ms" "p \<notin> (\<lambda>n. dir @ n @ ''.new'') ` set ms" "p \<notin> (\<lambda>n. upgrade_dir @ n) ` set ms" for ms p fs
    using that by (induction ms arbitrary: fs) (auto simp: install_file_apply [OF assms(1)])
  then show "p \<notin> (\<lambda>n. dir @ n) ` set ns \<Longrightarrow> p \<notin> (\<lambda>n. dir @ n @ ''.new'') ` set ns \<Longrightarrow> p \<notin> (\<lambda>n. upgrade_dir @ n) ` set ns \<Longrightarrow>
      fold (install_file dir) ns fs p = fs p" .
  have up: "dir @ x \<noteq> upgrade_dir @ y" for x y using assms(1) by (auto simp: upgrade_dir_def)
  show "fold (install_file dir) ns fs (dir @ n) = Some c" if "n \<in> set ns" "fs (upgrade_dir @ n) = Some c"
    using that assms(2,3)
  proof (induction ns arbitrary: fs)
    case (Cons m ns)
    show ?case
    proof (cases "m = n")
      case True
      have "fold (install_file dir) ns (install_file dir n fs) (dir @ n) = install_file dir n fs (dir @ n)"
        using Cons.prems True up by (intro other) auto
      moreover have "install_file dir n fs (dir @ n) = Some c"
        using Cons.prems(2) True by (simp add: install_file_apply [OF assms(1)])
      ultimately show ?thesis using True by simp
    next
      case False
      then have "install_file dir m fs (upgrade_dir @ n) = Some c"
        using Cons.prems up by (simp add: install_file_apply [OF assms(1)] del: append_assoc) (metis append_assoc up)
      then show ?thesis using Cons False by simp
    qed
  qed simp
qed

lemma loop_names:
  "distinct upgrade_bin" "\<forall>n \<in> set upgrade_bin. n @ ''.new'' \<notin> set upgrade_bin"
  "distinct upgrade_conf" "\<forall>n \<in> set upgrade_conf. n @ ''.new'' \<notin> set upgrade_conf"
  "set upgrade_bin \<inter> set upgrade_conf = {}"
  "n \<in> set upgrade_bin \<union> set upgrade_conf \<Longrightarrow> upgrade_dir @ n \<noteq> target_bin \<and> upgrade_dir @ n \<noteq> target_tgz"
  by (auto simp: upgrade_bin_def upgrade_conf_def target_bin_def target_tgz_def)

lemma script_installs:
  assumes "fs target_bin = Some img" "up_untar tools img = Some members" "distinct (map fst members)"
    "mpk_keeps tools" "(n, c) \<in> set members"
  shows "n \<in> set upgrade_bin \<Longrightarrow> prot_upgrade_sh tools fs (''/system/bin/'' @ n) = Some c"
    and "n \<in> set upgrade_conf \<Longrightarrow> prot_upgrade_sh tools fs (''/data/'' @ n) = Some c"
proof -
  define fs1 where "fs1 = tar_xzf tools target_tgz (mv target_bin target_tgz fs)"
  have c: "fs1 (upgrade_dir @ n) = Some c"
    using assms tar_members [OF assms(3,5)] by (simp add: fs1_def tar_xzf_def mv_def installed_names)
  let ?fs2 = "fold (install_file ''/system/bin/'') upgrade_bin fs1"
  let ?fs3 = "fold (install_file ''/data/'') upgrade_conf ?fs2"
  have sh: "prot_upgrade_sh tools fs = (up_install_mpk tools ?fs3)(target_tgz := None)"
    by (simp add: prot_upgrade_sh_def fs1_def Let_def)
  show "prot_upgrade_sh tools fs (''/system/bin/'' @ n) = Some c" if n: "n \<in> set upgrade_bin"
  proof -
    have "?fs3 (''/system/bin/'' @ n) = ?fs2 (''/system/bin/'' @ n)"
      using loop_names(3,4) installed_names by (intro install_loop) auto
    also have "\<dots> = Some c" using loop_names(1,2) n c by (intro install_loop) auto
    finally show ?thesis using assms(4) n installed_names(1) by (simp add: sh mpk_keeps_def)
  qed
  show "prot_upgrade_sh tools fs (''/data/'' @ n) = Some c" if n: "n \<in> set upgrade_conf"
  proof -
    have "?fs2 (upgrade_dir @ n) = fs1 (upgrade_dir @ n)"
      using loop_names(1,2,5) n installed_names by (intro install_loop) (auto dest!: sym [of "upgrade_dir @ n"])
    then have "?fs3 (''/data/'' @ n) = Some c" using loop_names(3,4) n c by (intro install_loop) auto
    then show ?thesis using assms(4) n installed_names(2) by (simp add: sh mpk_keeps_def)
  qed
qed

text \<open>The image is moved away, unless the archive contains a file of its name.\<close>

lemma script_takes_image:
  assumes "fs target_bin = Some img" "up_untar tools img = Some members" "mpk_keeps tools"
    "''subiao_upgrade.bin'' \<notin> fst ` set members"
  shows "prot_upgrade_sh tools fs target_bin = None"
proof -
  define fs1 where "fs1 = tar_xzf tools target_tgz (mv target_bin target_tgz fs)"
  have "target_bin \<notin> (\<lambda>m. upgrade_dir @ fst m) ` set members" using assms(4) by (force simp: target_bin_def)
  then have "fs1 target_bin = None"
    using assms(1,2) by (simp add: fs1_def tar_xzf_def mv_def installed_names tar_members_other)
  moreover have outside: "target_bin \<notin> (\<lambda>n. upgrade_dir @ n) ` (set upgrade_bin \<union> set upgrade_conf)"
    using loop_names(6) by (metis (no_types, lifting) imageE)
  moreover have "fold (install_file ''/system/bin/'') upgrade_bin fs1 target_bin = fs1 target_bin"
    using outside loop_names(1,2) installed_names(7) by (intro install_loop) (simp_all add: image_iff image_Un)
  moreover have "fold (install_file ''/data/'') upgrade_conf fs2 target_bin = fs2 target_bin" for fs2
    using outside loop_names(3,4) installed_names(8) by (intro install_loop) (simp_all add: image_iff image_Un)
  ultimately show ?thesis
    using assms(3) installed_names(3) by (simp add: prot_upgrade_sh_def mpk_keeps_def flip: fs1_def)
qed

end
