(* ===== verification/Device.thy ===== *)
theory Device
  imports Queues Framing UpgradeScript
begin

text \<open>
  The state shared by the threads of \<open>process.cpp\<close> and the operations on it that the handlers
  call: the serial numbers, the id counters, the status cells behind their mutexes, the media file
  names, and \<open>message_queue_send\<close>, which builds a frame, escapes it in place and queues it. A
  global or function-static variable of the program is one field of the record \<open>device\<close>; what
  the program reads from outside (the build options, the clocks, whether \<open>malloc\<close> succeeds, the
  contents of uninitialised locals) is the record \<open>env\<close>.
\<close>

section \<open>State\<close>

datatype ack_state = WAIT_MSG | NOTICE_MSG | EXIT_MSG

record env =
  e_build :: build
  e_tr :: transport
  e_malloc1 :: bool
  e_malloc2 :: bool
  e_stack :: ptr_queue_node   \<comment> \<open>an uninitialised local node\<close>
  e_aframe :: AdasWarnFrame   \<comment> \<open>an uninitialised local \<^verbatim>\<open>msgbuf\<close> seen as a frame\<close>
  e_dframe :: DsmWarnFrame
  e_fs :: fsenv
  e_now :: int                \<comment> \<open>\<^verbatim>\<open>CLOCK_MONOTONIC\<close>, seconds\<close>
  e_localtime :: "u8 list"    \<comment> \<open>\<^verbatim>\<open>get_local_time\<close>: year, month, day, hour, minute, second\<close>
  e_upgrade :: upgrade_tools  \<comment> \<open>the programs the upgrade script calls\<close>

record upgrade_statics =
  up_sum :: u32
  up_sum_new :: u32
  up_packet_num :: u32
  up_packet_index :: u32
  up_offset :: u32

record can700_statics =
  hw_alert :: int
  fcw_alert :: int
  ldw_alert :: int
  s_start_flag :: bool
  g_last_warning_data :: "u8 list"
  g_last_can_msg :: "u8 list"
  g_last_trigger_warning :: "u8 list"

record dms_statics =
  dms_fatigue_warn :: int
  dms_distract_warn :: int
  dms_calling_warn :: int
  dms_smoking_warn :: int
  dms_abnormal_warn :: int
  dms_absence_release :: int
  dms_alert_last :: "u8 list"

record device =
  d_paras :: paras
  d_files :: files
  d_config :: LocalConfig
  s_mm_id :: u32
  s_warning_id :: u32
  send_serial_num :: u16
  recv_serial_num :: u16
  s_index :: u8
  send_q :: "ptr_queue_node list"
  image_q :: "ptr_queue_node list"
  send_data :: nat              \<comment> \<open>the semaphore\<close>
  recv_ack :: ack_state
  heart_beat_status :: bool     \<comment> \<open>\<^verbatim>\<open>HEART_BEAT_ALIVE\<close>\<close>
  connect_status :: bool        \<comment> \<open>\<^verbatim>\<open>CONNECT_ON\<close>\<close>
  hb_record_last :: int
  hb_count :: u32
  speed_record_last :: int
  rt_msg :: RealTimeData
  can760_msg :: CAN760Info
  pkg_status :: pkg_repeat_status
  mmlist :: "MmInfo_node list"
  s_media_begin :: "SBMmHeader list"
  s_media_num :: u8
  up :: upgrade_statics
  can700 :: can700_statics
  dms :: dms_statics
  d_rx :: decoder
  shell :: "string list"        \<comment> \<open>the commands given to \<^verbatim>\<open>system\<close>, latest first\<close>
  exited :: bool
  d_fd :: int                   \<comment> \<open>\<^verbatim>\<open>g_handle.fd\<close>\<close>
  d_closed :: "int list"        \<comment> \<open>the descriptors given to \<^verbatim>\<open>close\<close>, latest first\<close>

section \<open>Status cells\<close>

datatype cell_mode = WRITE_MSG | READ_MSG

definition heart_beat_process :: "bool \<Rightarrow> cell_mode \<Rightarrow> device \<Rightarrow> bool \<times> device" where
  "heart_beat_process status mode d =
     (case mode of WRITE_MSG \<Rightarrow> (status, d\<lparr>heart_beat_status := status\<rparr>)
        | READ_MSG \<Rightarrow> (heart_beat_status d, d))"

definition process_socket_status :: "bool \<Rightarrow> cell_mode \<Rightarrow> device \<Rightarrow> bool \<times> device" where
  "process_socket_status status mode d =
     (case mode of WRITE_MSG \<Rightarrow> (status, d\<lparr>connect_status := status\<rparr>)
        | READ_MSG \<Rightarrow> (connect_status d, d))"

definition RealTimeDdata_process :: "RealTimeData \<Rightarrow> cell_mode \<Rightarrow> device \<Rightarrow> RealTimeData \<times> device" where
  "RealTimeDdata_process data mode d =
     (case mode of WRITE_MSG \<Rightarrow> (data, d\<lparr>rt_msg := data\<rparr>) | READ_MSG \<Rightarrow> (rt_msg d, d))"

definition can760_message_process :: "CAN760Info \<Rightarrow> cell_mode \<Rightarrow> device \<Rightarrow> CAN760Info \<times> device" where
  "can760_message_process data mode d =
     (case mode of WRITE_MSG \<Rightarrow> (data, d\<lparr>can760_msg := data\<rparr>) | READ_MSG \<Rightarrow> (can760_msg d, d))"

definition notice_ack_msg :: "device \<Rightarrow> device" where
  "notice_ack_msg d = d\<lparr>recv_ack := NOTICE_MSG\<rparr>"

section \<open>Identifiers and serial numbers\<close>

datatype id_mode = WARNING_ID_MODE | MM_ID_MODE

fun next_mm_ids :: "nat \<Rightarrow> u32 \<Rightarrow> u32 list \<times> u32" where
  "next_mm_ids 0 s = ([], s)"
| "next_mm_ids (Suc n) s = (let s' = s + 1; (ids, s'') = next_mm_ids n s' in (s' # ids, s''))"

text \<open>The ids are returned as a list; the caller has them written from the start of its array.\<close>

definition get_next_id :: "id_mode \<Rightarrow> nat \<Rightarrow> device \<Rightarrow> u32 \<times> u32 list \<times> device" where
  "get_next_id mode num d =
     (case mode of
        WARNING_ID_MODE \<Rightarrow>
          (let w = s_warning_id d + 1 in (w, [], d\<lparr>s_warning_id := w\<rparr>))
      | MM_ID_MODE \<Rightarrow>
          (let (ids, s) = next_mm_ids num (s_mm_id d) in (0, ids, d\<lparr>s_mm_id := s\<rparr>)))"

datatype serial_mode = GET_NEXT_SEND_NUM | RECORD_RECV_NUM | GET_RECV_NUM

definition do_serial_num :: "u16 \<Rightarrow> serial_mode \<Rightarrow> device \<Rightarrow> u16 \<times> device" where
  "do_serial_num num mode d =
     (case mode of
        GET_NEXT_SEND_NUM \<Rightarrow>
          (if send_serial_num d = 0xFF then (num, d\<lparr>send_serial_num := 0\<rparr>)
           else (send_serial_num d + 1, d\<lparr>send_serial_num := send_serial_num d + 1\<rparr>))
      | RECORD_RECV_NUM \<Rightarrow>
          (let d' = d\<lparr>recv_serial_num := num\<rparr>
           in (num, if num > send_serial_num d' then d'\<lparr>send_serial_num := num\<rparr> else d'))
      | GET_RECV_NUM \<Rightarrow> (recv_serial_num d, d))"

section \<open>Time\<close>

definition time2BCD :: "u8 \<Rightarrow> u8" where
  "time2BCD ch0 = (let ch = ch0 mod 100; m = ch div 10; n = ch mod 10 in push_bit 4 m + n)"

definition buf2BCD :: "u8 list \<Rightarrow> u8 list" where
  "buf2BCD buf = map time2BCD buf"

section \<open>Media files\<close>

definition SNAP_SHOT_JPEG_PATH :: "build \<Rightarrow> string" where
  "SNAP_SHOT_JPEG_PATH b = (case b of ENABLE_ADAS \<Rightarrow> ''/data/snap/adas/'' | ENABLE_DMS \<Rightarrow> ''/data/snap/dms/'')"

definition digit_char :: "nat \<Rightarrow> char" where
  "digit_char n = char_of (48 + n)"

fun decimal :: "nat \<Rightarrow> string" where
  "decimal n = (if n < 10 then [digit_char n] else decimal (n div 10) @ [digit_char (n mod 10)])"

declare decimal.simps [simp del]

text \<open>\<open>sprintf(filepath, "%s%010u", SNAP_SHOT_JPEG_PATH, id)\<close>\<close>

definition format_010u :: "u32 \<Rightarrow> string" where
  "format_010u i = (let s = decimal (unat i) in replicate (10 - length s) CHR ''0'' @ s)"

definition mmid_to_filename :: "build \<Rightarrow> u32 \<Rightarrow> string" where
  "mmid_to_filename b i = SNAP_SHOT_JPEG_PATH b @ format_010u i"

definition is_digit :: "char \<Rightarrow> bool" where
  "is_digit c \<longleftrightarrow> 48 \<le> (of_char c :: nat) \<and> (of_char c :: nat) \<le> 57"

definition is_space :: "char \<Rightarrow> bool" where
  "is_space c \<longleftrightarrow> (of_char c :: nat) = 32 \<or> 9 \<le> (of_char c :: nat) \<and> (of_char c :: nat) \<le> 13"

definition digits_value :: "string \<Rightarrow> int" where
  "digits_value s = fold (\<lambda>c v. v * 10 + (of_char c - 48)) s 0"

text \<open>\<open>strtol(s, NULL, 10)\<close> on a 64-bit long.\<close>

definition strtol10 :: "string \<Rightarrow> int" where
  "strtol10 s0 =
     (let s = dropWhile is_space s0;
          neg = (s \<noteq> [] \<and> hd s = CHR ''-'');
          t = (if s \<noteq> [] \<and> (hd s = CHR ''-'' \<or> hd s = CHR ''+'') then tl s else s);
          v = digits_value (takeWhile is_digit t);
          v = (if neg then - v else v)
      in max (- (2 ^ 63)) (min (2 ^ 63 - 1) v))"

definition getFileId :: "string \<Rightarrow> u32" where
  "getFileId filename = word_of_int (strtol10 filename)"

text \<open>The names of the regular files of the directory, in the order \<open>readdir\<close> gives them;
  \<open>None\<close> when \<open>opendir\<close> fails.\<close>

definition getmmFileNumMax :: "string list option \<Rightarrow> u32" where
  "getmmFileNumMax entries =
     (case entries of None \<Rightarrow> - 1
      | Some names \<Rightarrow> fold (\<lambda>name maxid. let tmpid = getFileId name
                                  in if maxid > tmpid then maxid else tmpid) names 0)"

definition remove_file :: "string \<Rightarrow> device \<Rightarrow> device" where
  "remove_file path d = d\<lparr>d_files := (d_files d)(path := None)\<rparr>"

text \<open>\<open>filesize\<close> is an \<open>int\<close>: from two gigabytes on it has the low 32 bits of the size.\<close>

definition GetFileSize :: "string \<Rightarrow> device \<Rightarrow> int" where
  "GetFileSize filename d = (case d_files d filename of None \<Rightarrow> - 1 | Some c \<Rightarrow> int32 (int (length c)))"

section \<open>Queueing a message\<close>

definition MasterIsMe :: "u8 \<Rightarrow> bool" where
  "MasterIsMe cmd \<longleftrightarrow> cmd = SAMPLE_CMD_WARNING_REPORT \<or> cmd = SAMPLE_CMD_UPLOAD_MM_DATA
     \<or> cmd = SAMPLE_CMD_UPLOAD_STATUS"

text \<open>The frame before it is escaped: header, payload and tail, with the checksum filled in last.\<close>

definition build_frame :: "build \<Rightarrow> u16 \<Rightarrow> u8 \<Rightarrow> u8 list \<Rightarrow> u8 list" where
  "build_frame b serial_num cmd payload =
     (let hdr = \<lparr>hdr_magic = SAMPLE_PROT_MAGIC, hdr_checksum = 0, hdr_serial_num = htons serial_num,
                 hdr_vendor_id = htons VENDOR_ID, hdr_device_id = own_device_id b, hdr_cmd = cmd\<rparr>;
          frame = SBProtHeader_bytes hdr @ payload @ [SAMPLE_PROT_MAGIC]
      in frame[1 := sample_calc_sum frame (8 + 1 + length payload)])"

text \<open>The result is the bytes left in the caller's buffer, which are the escaped frame.\<close>

definition message_queue_send :: "env \<Rightarrow> u8 \<Rightarrow> u8 list \<Rightarrow> device \<Rightarrow> u8 list \<times> device" where
  "message_queue_send e cmd payload d =
     (let (serial_num, d) =
            do_serial_num 0 (if MasterIsMe cmd then GET_NEXT_SEND_NUM else GET_RECV_NUM) d;
          (msg_len, buf) = sample_escaple_msg (build_frame (e_build e) serial_num cmd payload)
                             (8 + 1 + length payload);
          msg = (e_stack e)\<lparr>
            q_pkg := \<lparr>pkg_cmd = cmd, pkg_index = s_index d mod 0xFF,
                      pkg_ack_status = (if MasterIsMe cmd then MSG_ACK_WAITING else MSG_ACK_READY),
                      pkg_send_repeat = 0\<rparr>,
            q_len := msg_len, q_buf := Mem buf\<rparr>
      in (buf, d\<lparr>s_index := s_index d + 1,
                 send_q := snd (ptr_queue_push (e_malloc1 e) (e_malloc2 e) (send_q d) msg),
                 send_data := send_data d + 1\<rparr>))"

section \<open>Connection state\<close>

text \<open>\<open>handle->close(handle)\<close>, which is \<open>socket_close\<close> or \<open>uart_close\<close>; the member \<open>fd\<close> keeps its value.\<close>

definition handle_close :: "device \<Rightarrow> device" where
  "handle_close d = (if d_fd d > 0 then d\<lparr>d_closed := d_fd d # d_closed d\<rparr> else d)"

definition tcp_socket_close :: "device \<Rightarrow> device" where
  "tcp_socket_close d =
     (if fst (process_socket_status False READ_MSG d)
      then snd (process_socket_status False WRITE_MSG (handle_close d)) else d)"

definition send_stat_pkg_init :: "device \<Rightarrow> device" where
  "send_stat_pkg_init d = d\<lparr>pkg_status := \<lparr>ps_filepath = [],
     ps_mm = \<lparr>pi_type = 0, pi_id = 0, pi_packet_total_num = 0, pi_packet_index = 0\<rparr>,
     ps_mm_data_trans_waiting = False, ps_repeat_cnt = 0, ps_start_wait_ack = False\<rparr>\<rparr>"

definition do_stat_reset :: "env \<Rightarrow> device \<Rightarrow> device outcome" where
  "do_stat_reset e d =
     (let d = d\<lparr>pkg_status := (pkg_status d)\<lparr>ps_mm_data_trans_waiting := False\<rparr>\<rparr>;
          d = send_stat_pkg_init d
      in bindE (clear_queue (e_stack e) (send_q d)) (\<lambda>q. Inr (d\<lparr>send_q := q\<rparr>)))"


section \<open>Lemmas: frames\<close>

definition frame_body :: "build \<Rightarrow> u16 \<Rightarrow> u8 \<Rightarrow> u8 list \<Rightarrow> u8 list" where
  "frame_body b serial_num cmd payload =
     sample_calc_sum (SAMPLE_PROT_MAGIC # 0 # rev (le16 serial_num) @ [0x12, 0x34, own_device_id b, cmd]
        @ payload @ [SAMPLE_PROT_MAGIC]) (9 + length payload)
     # rev (le16 serial_num) @ [0x12, 0x34, own_device_id b, cmd] @ payload"

lemma vendor_bytes: "le16 (htons VENDOR_ID) = [0x12, 0x34]"
  by (simp add: le16_htons) (simp add: le16_def lo16_def hi16_def)

lemma build_frame_body:
  "build_frame b s cmd payload = SAMPLE_PROT_MAGIC # frame_body b s cmd payload @ [SAMPLE_PROT_MAGIC]"
  by (simp add: build_frame_def frame_body_def SBProtHeader_bytes_def vendor_bytes) 
    (simp add: le16_def)

lemma length_frame_body [simp]: "length (frame_body b s cmd payload) = 7 + length payload"
  by (simp add: frame_body_def)

lemma length_build_frame [simp]: "length (build_frame b s cmd payload) = 9 + length payload"
  by (simp add: build_frame_body)

lemma sample_calc_sum_upd [simp]: "i < 4 \<Longrightarrow> sample_calc_sum (bs[i := v]) n = sample_calc_sum bs n"
  by (simp add: sample_calc_sum_def bytes_at_def)

lemma build_frame_checksum:
  "sample_calc_sum (build_frame b s cmd payload) (length (build_frame b s cmd payload)) =
     build_frame b s cmd payload ! 1"
  by (simp add: build_frame_def Let_def)

lemma build_frame_header:
  "SBProtHeader_at (build_frame b s cmd payload) =
     \<lparr>hdr_magic = SAMPLE_PROT_MAGIC, hdr_checksum = build_frame b s cmd payload ! 1,
      hdr_serial_num = htons s, hdr_vendor_id = htons VENDOR_ID, hdr_device_id = own_device_id b,
      hdr_cmd = cmd\<rparr>"
  by (simp add: SBProtHeader_at_def build_frame_def SBProtHeader_bytes_def u16_at_def le16_def Let_def
      flip: htons_def)

lemma build_frame_payload: "bytes_at (build_frame b s cmd payload) 8 (length payload) = payload"
  by (simp add: build_frame_body frame_body_def bytes_at_def le16_def)

definition send_serial :: "u8 \<Rightarrow> device \<Rightarrow> u16" where
  "send_serial cmd d =
     fst (do_serial_num 0 (if MasterIsMe cmd then GET_NEXT_SEND_NUM else GET_RECV_NUM) d)"

lemma escape_build_frame:
  "sample_escaple_msg (build_frame b s cmd payload) (9 + length payload) =
     (length (transmit (build_frame b s cmd payload)), transmit (build_frame b s cmd payload))"
  using sample_escaple_msg_spec [of SAMPLE_PROT_MAGIC "frame_body b s cmd payload" SAMPLE_PROT_MAGIC]
  by (simp add: build_frame_body transmit_def)

lemma length_transmit_build_frame:
  "9 + length payload \<le> length (transmit (build_frame b s cmd payload))"
  "length (transmit (build_frame b s cmd payload)) \<le> 16 + 2 * length payload"
  using length_escape_body [of "frame_body b s cmd payload"]
  by (simp_all add: build_frame_body frame_bytes_def)

definition queued_msg :: "env \<Rightarrow> u8 \<Rightarrow> u8 list \<Rightarrow> device \<Rightarrow> ptr_queue_node" where
  "queued_msg e cmd payload d =
     (let buf = transmit (build_frame (e_build e) (send_serial cmd d) cmd payload)
      in (e_stack e)\<lparr>
            q_pkg := \<lparr>pkg_cmd = cmd, pkg_index = s_index d mod 0xFF,
                      pkg_ack_status = (if MasterIsMe cmd then MSG_ACK_WAITING else MSG_ACK_READY),
                      pkg_send_repeat = 0\<rparr>,
            q_len := length buf, q_buf := Mem buf\<rparr>)"

lemma message_queue_send_eq:
  "message_queue_send e cmd payload d =
     (transmit (build_frame (e_build e) (send_serial cmd d) cmd payload),
      (snd (do_serial_num 0 (if MasterIsMe cmd then GET_NEXT_SEND_NUM else GET_RECV_NUM) d))
        \<lparr>s_index := s_index d + 1,
         send_q := snd (ptr_queue_push (e_malloc1 e) (e_malloc2 e) (send_q d) (queued_msg e cmd payload d)),
         send_data := send_data d + 1\<rparr>)"
proof -
  have same: "s_index (snd (do_serial_num 0 mode d)) = s_index d" "send_q (snd (do_serial_num 0 mode d)) = send_q d"
      "send_data (snd (do_serial_num 0 mode d)) = send_data d" for mode
    by (simp_all add: do_serial_num_def Let_def split: serial_mode.split)
  show ?thesis
    by (simp add: message_queue_send_def escape_build_frame [simplified] queued_msg_def send_serial_def same
        Let_def split_beta)
qed

text \<open>The fields a queued message leaves alone.\<close>

lemma message_queue_send_frame [send_simps, simp]:
  "d_paras (snd (message_queue_send e cmd payload d)) = d_paras d"
  "d_files (snd (message_queue_send e cmd payload d)) = d_files d"
  "d_config (snd (message_queue_send e cmd payload d)) = d_config d"
  "s_mm_id (snd (message_queue_send e cmd payload d)) = s_mm_id d"
  "s_warning_id (snd (message_queue_send e cmd payload d)) = s_warning_id d"
  "recv_serial_num (snd (message_queue_send e cmd payload d)) = recv_serial_num d"
  "image_q (snd (message_queue_send e cmd payload d)) = image_q d"
  "recv_ack (snd (message_queue_send e cmd payload d)) = recv_ack d"
  "heart_beat_status (snd (message_queue_send e cmd payload d)) = heart_beat_status d"
  "connect_status (snd (message_queue_send e cmd payload d)) = connect_status d"
  "hb_record_last (snd (message_queue_send e cmd payload d)) = hb_record_last d"
  "hb_count (snd (message_queue_send e cmd payload d)) = hb_count d"
  "speed_record_last (snd (message_queue_send e cmd payload d)) = speed_record_last d"
  "rt_msg (snd (message_queue_send e cmd payload d)) = rt_msg d"
  "can760_msg (snd (message_queue_send e cmd payload d)) = can760_msg d"
  "pkg_status (snd (message_queue_send e cmd payload d)) = pkg_status d"
  "mmlist (snd (message_queue_send e cmd payload d)) = mmlist d"
  "s_media_begin (snd (message_queue_send e cmd payload d)) = s_media_begin d"
  "s_media_num (snd (message_queue_send e cmd payload d)) = s_media_num d"
  "up (snd (message_queue_send e cmd payload d)) = up d"
  "can700 (snd (message_queue_send e cmd payload d)) = can700 d"
  "dms (snd (message_queue_send e cmd payload d)) = dms d"
  "d_rx (snd (message_queue_send e cmd payload d)) = d_rx d"
  "shell (snd (message_queue_send e cmd payload d)) = shell d"
  "exited (snd (message_queue_send e cmd payload d)) = exited d"
  "d_fd (snd (message_queue_send e cmd payload d)) = d_fd d"
  "d_closed (snd (message_queue_send e cmd payload d)) = d_closed d"
  by (simp_all add: message_queue_send_eq do_serial_num_def Let_def)

lemma queued_msg_buf [simp]:
  "q_buf (queued_msg e cmd payload d) = Mem (transmit (build_frame (e_build e) (send_serial cmd d) cmd payload))"
  "q_len (queued_msg e cmd payload d) = length (transmit (build_frame (e_build e) (send_serial cmd d) cmd payload))"
  by (simp_all add: queued_msg_def Let_def)

lemma queued_msg_pkg:
  "pkg_ack_status (q_pkg (queued_msg e cmd payload d)) = (if MasterIsMe cmd then MSG_ACK_WAITING else MSG_ACK_READY)"
  "pkg_send_repeat (q_pkg (queued_msg e cmd payload d)) = 0"
  by (simp_all add: queued_msg_def Let_def)

lemma send_q_room:
  assumes "length (send_q d) < PTR_QUEUE_BUF_CNT" "e_malloc1 e" "e_malloc2 e"
    "16 + 2 * length payload \<le> PTR_QUEUE_BUF_SIZE"
  shows "send_q (snd (message_queue_send e cmd payload d)) = send_q d @ [queued_msg e cmd payload d]"
  using assms length_transmit_build_frame(2) [of "e_build e" "send_serial cmd d" cmd payload]
  by (simp add: message_queue_send_eq ptr_queue_push_Mem)

lemma queue_ok_message_queue_send:
  "queue_ok (send_q d) \<Longrightarrow> queue_ok (send_q (snd (message_queue_send e cmd payload d)))"
  unfolding message_queue_send_eq by (simp, rule queue_ok_push) auto

lemma whole_frame_build_frame:
  "9 + length payload \<le> m \<Longrightarrow> 9 + length payload \<le> length (rcv_msg dec) \<Longrightarrow>
   whole_frame m dec (build_frame b s cmd payload)"
  by (auto simp: whole_frame_def build_frame_body frame_fits_def)

section \<open>Lemmas: identifiers and file names\<close>

lemma next_mm_ids_eq:
  "next_mm_ids n s = (map (\<lambda>i. s + of_nat (Suc i)) [0..<n], s + of_nat n)"
proof (induction n arbitrary: s)
  case (Suc n)
  have "map (\<lambda>i. s + 1 + of_nat (Suc i)) [0..<n] = map (\<lambda>i. s + of_nat (Suc i)) [Suc 0..<Suc n]"
    by (simp add: map_Suc_upt [symmetric] add_ac del: upt_Suc)
  then show ?case using Suc [of "s + 1"]
    by (simp add: upt_conv_Cons add_ac del: upt_Suc)
qed simp

lemma of_char_digit_char [simp]: "n < 10 \<Longrightarrow> (of_char (digit_char n) :: nat) = 48 + n"
  "n < 10 \<Longrightarrow> (of_char (digit_char n) :: int) = 48 + int n"
proof -
  assume n: "n < 10"
  show "(of_char (digit_char n) :: nat) = 48 + n"
    using n by (simp add: digit_char_def of_char_of)
  then have "int (of_char (digit_char n)) = 48 + int n" by simp
  then show "(of_char (digit_char n) :: int) = 48 + int n"
    by (simp add: of_char_def)
qed

lemma decimal_digits: "c \<in> set (decimal n) \<Longrightarrow> is_digit c"
proof (induction n rule: decimal.induct)
  case (1 n)
  then show ?case by (subst (asm) (2) decimal.simps) (auto simp: is_digit_def split: if_splits)
qed

lemma digits_value_snoc: "digits_value (s @ [c]) = digits_value s * 10 + (of_char c - 48)"
  by (simp add: digits_value_def)

lemma digits_value_decimal: "digits_value (decimal n) = int n"
proof (induction n rule: decimal.induct)
  case (1 n)
  show ?case
  proof (cases "n < 10")
    case True
    then show ?thesis by (simp add: decimal.simps [of n] digits_value_def)
  next
    case False
    then have "digits_value (decimal n) = int (n div 10) * 10 + int (n mod 10)"
      using 1 by (simp add: decimal.simps [of n] digits_value_snoc)
    also have "\<dots> = int n" by (metis div_mult_mod_eq of_nat_add of_nat_mult of_nat_numeral)
    finally show ?thesis .
  qed
qed

lemma digits_value_zeros: "digits_value (replicate k CHR ''0'' @ s) = digits_value s"
proof -
  have "fold (\<lambda>c v. v * 10 + (of_char c - 48)) (replicate k CHR ''0'') 0 = (0 :: int)"
    by (induction k) simp_all
  then show ?thesis by (simp add: digits_value_def)
qed

lemma decimal_nonempty: "decimal n \<noteq> []"
  by (subst decimal.simps) simp

lemma strtol10_digits:
  assumes "s \<noteq> []" "\<forall>c \<in> set s. is_digit c" "digits_value s < 2 ^ 63" "0 \<le> digits_value s"
  shows "strtol10 s = digits_value s"
proof -
  have "is_digit (hd s)" using assms(1,2) by simp
  then have "\<not> is_space (hd s)" "hd s \<noteq> CHR ''-''" "hd s \<noteq> CHR ''+''"
    by (auto simp: is_digit_def is_space_def)
  moreover then have "dropWhile is_space s = s" using assms(1) by (cases s) auto
  moreover have "takeWhile is_digit s = s" using assms(2) by (simp add: takeWhile_eq_all_conv)
  ultimately show ?thesis using assms by (simp add: strtol10_def del: takeWhile_eq_all_conv)
qed

lemma format_010u_value: "digits_value (format_010u i) = uint i"
  by (simp add: format_010u_def Let_def digits_value_zeros digits_value_decimal)

lemma getFileId_format: "getFileId (format_010u i) = i"
proof -
  have "\<forall>c \<in> set (format_010u i). is_digit c"
    by (auto simp: format_010u_def Let_def decimal_digits) (simp add: is_digit_def)
  moreover have "uint i < 2 ^ 63" using uint_lt2p [of i] by simp
  moreover have "format_010u i \<noteq> []" by (simp add: format_010u_def Let_def decimal_nonempty)
  ultimately show ?thesis
    by (simp add: getFileId_def strtol10_digits format_010u_value)
qed

lemma mmid_to_filename_inj [simp]: "mmid_to_filename b i = mmid_to_filename b j \<longleftrightarrow> i = j"
  by (metis mmid_to_filename_def getFileId_format same_append_eq)


section \<open>Properties\<close>

text \<open>C5: what \<open>message_queue_send\<close> queues. When there is room and memory for it, the message is appended to the
  send queue, the sending thread is woken, and the bytes in the queue, in one piece and whatever
  needed escaping, decode to one frame: the header and payload the caller gave, with the program's
  vendor and device ids and the serial number in network byte order, and the checksum that
  \<open>prot_parse\<close> recomputes. The message asks for an acknowledgement when the device is the one that
  starts the exchange. A message for which there is no room or no memory is lost, and the queue stays as it is.\<close>

theorem queued_frame_is_accepted:
  assumes "16 + 2 * length payload \<le> PTR_QUEUE_BUF_SIZE"
    and "decoder_idle dec" "9 + length payload \<le> m" "9 + length payload \<le> length (rcv_msg dec)"
    and "d' = snd (message_queue_send e cmd payload d)" "length (send_q d) \<le> PTR_QUEUE_BUF_CNT"
  shows "if length (send_q d) < PTR_QUEUE_BUF_CNT \<and> e_malloc1 e \<and> e_malloc2 e
    then \<exists>n bytes frame dec'. send_q d' = send_q d @ [n] \<and> q_buf n = Mem bytes \<and> q_len n = length bytes \<and>
      pkg_ack_status (q_pkg n) =
        (if cmd = SAMPLE_CMD_WARNING_REPORT \<or> cmd = SAMPLE_CMD_UPLOAD_MM_DATA \<or> cmd = SAMPLE_CMD_UPLOAD_STATUS
         then MSG_ACK_WAITING else MSG_ACK_READY) \<and>
      pkg_send_repeat (q_pkg n) = 0 \<and> send_data d' = send_data d + 1 \<and>
      feed m bytes dec = Inr ([frame], dec') \<and> decoder_idle dec' \<and> length frame = 9 + length payload \<and>
      sample_calc_sum frame (length frame) = hdr_checksum (SBProtHeader_at frame) \<and>
      hdr_serial_num (SBProtHeader_at frame) = htons (send_serial cmd d) \<and>
      hdr_vendor_id (SBProtHeader_at frame) = htons VENDOR_ID \<and>
      hdr_device_id (SBProtHeader_at frame) = own_device_id (e_build e) \<and>
      hdr_cmd (SBProtHeader_at frame) = cmd \<and> bytes_at frame 8 (length payload) = payload
    else send_q d' = send_q d"
proof (cases "length (send_q d) < PTR_QUEUE_BUF_CNT \<and> e_malloc1 e \<and> e_malloc2 e")
  case True
  let ?f = "build_frame (e_build e) (send_serial cmd d) cmd payload"
  obtain dec' where "feed m (transmit ?f) dec = Inr ([?f], dec')" "decoder_idle dec'"
    using rx.decode_one [OF assms(2) whole_frame_build_frame [OF assms(3,4)]] by blast
  moreover have "send_q d' = send_q d @ [queued_msg e cmd payload d]"
    using True assms(1,5) by (simp add: send_q_room)
  moreover have "send_data d' = send_data d + 1" unfolding assms(5) message_queue_send_eq by simp
  ultimately show ?thesis
    using True build_frame_checksum [of "e_build e" "send_serial cmd d" cmd payload]
    by (auto simp: queued_msg_pkg build_frame_header build_frame_payload MasterIsMe_def
        intro!: exI [of _ "queued_msg e cmd payload d"] exI [of _ "transmit ?f"] exI [of _ ?f] exI [of _ dec'])
next
  case False
  then show ?thesis
    using assms(5,6) by (auto simp: message_queue_send_eq ptr_queue_push_def Let_def split: cptr.splits)
qed

definition no_time :: "u8 list" where "no_time = replicate 6 0"

definition idle_env :: "build \<Rightarrow> env" where
  "idle_env b = \<lparr>e_build = b, e_tr = TCP_INTERFACE, e_malloc1 = True, e_malloc2 = True, e_stack = blank_node,
     e_aframe = \<lparr>aw_warning_id = 0, aw_status_flag = 0, aw_sound_type = 0, aw_forward_car_speed = 0,
       aw_forward_car_distance = 0, aw_ldw_type = 0, aw_load_type = 0, aw_load_data = 0, aw_car_speed = 0,
       aw_altitude = 0, aw_latitude = 0, aw_longitude = 0, aw_time = no_time, aw_car_status = 0,
       aw_mm_num = 0, aw_mm = []\<rparr>,
     e_dframe = \<lparr>dw_warning_id = 0, dw_status_flag = 0, dw_sound_type = 0, dw_FatigueVal = 0,
       dw_resv = replicate 4 0, dw_car_speed = 0, dw_altitude = 0, dw_latitude = 0, dw_longitude = 0,
       dw_time = no_time, dw_car_status = 0, dw_mm_num = 0, dw_mm = []\<rparr>,
     e_fs = \<lparr>fs_open = \<lambda>_. True, fs_room = 1000000\<rparr>, e_now = 1000, e_localtime = [24, 1, 2, 3, 4, 5],
     e_upgrade = no_tools\<rparr>"

definition idle_config :: LocalConfig where
  "idle_config = \<lparr>usingParaFile = 0, serverip = [], serverport = 0, clientip = [], clientport = 0,
     netdev_name = [], tty_name = [], baudrate = 0, parity = [], databits = 0, stopbit = 0,
     jpeg_coder_fps = 0, speed_filter_enable = 0, alert_time_filter = 0, record_speed_enable = 0,
     record_period = 0, use_heart = 0, check_heart_period = 0, adasBitRate = replicate 7 0,
     dmsBitRate = replicate 6 0\<rparr>"

text \<open>The state after the program has started with default parameters and connected: every static is
  zero, the queues are empty, the receive buffer has the size \<open>prot_init_pre\<close> gives it.\<close>

definition idle_device :: device where
  "idle_device = \<lparr>d_paras = boot_paras, d_files = Map.empty, d_config = idle_config, s_mm_id = 0,
     s_warning_id = 0, send_serial_num = 0, recv_serial_num = 0, s_index = 0, send_q = [], image_q = [],
     send_data = 0, recv_ack = WAIT_MSG, heart_beat_status = False, connect_status = True,
     hb_record_last = 0, hb_count = 0, speed_record_last = 0,
     rt_msg = \<lparr>rt_car_speed = 0, rt_reserve1 = 0, rt_mileage = 0, rt_reserve2 = [0, 0], rt_altitude = 0,
       rt_latitude = 0, rt_longitude = 0, rt_time = no_time, rt_car_status = 0\<rparr>,
     can760_msg = \<lparr>can_byte0 = 0, can_byte1 = 0, can_speed = 0\<rparr>,
     pkg_status = \<lparr>ps_filepath = [],
       ps_mm = \<lparr>pi_type = 0, pi_id = 0, pi_packet_total_num = 0, pi_packet_index = 0\<rparr>,
       ps_mm_data_trans_waiting = False, ps_repeat_cnt = 0, ps_start_wait_ack = False\<rparr>,
     mmlist = [], s_media_begin = replicate 20 \<lparr>mmh_type = 0, mmh_id = 0\<rparr>, s_media_num = 0,
     up = \<lparr>up_sum = 0, up_sum_new = 0, up_packet_num = 0, up_packet_index = 0, up_offset = 0\<rparr>,
     can700 = \<lparr>hw_alert = 0, fcw_alert = 0, ldw_alert = 0, s_start_flag = False,
       g_last_warning_data = replicate 8 0, g_last_can_msg = replicate 8 0,
       g_last_trigger_warning = replicate 8 0\<rparr>,
     dms = \<lparr>dms_fatigue_warn = 0, dms_distract_warn = 0, dms_calling_warn = 0, dms_smoking_warn = 0,
       dms_abnormal_warn = 0, dms_absence_release = 0, dms_alert_last = replicate 8 0\<rparr>,
     d_rx = fresh_decoder DATA_BUF_SIZE, shell = [], exited = False, d_fd = 3, d_closed = []\<rparr>"

theorem queued_frame_is_accepted_witness:
  "\<exists>n bytes frame dec'.
    send_q (snd (message_queue_send (idle_env ENABLE_ADAS) SAMPLE_CMD_SET_PARAM [0x7E] idle_device)) = [n] \<and>
    q_buf n = Mem bytes \<and> q_len n = length bytes \<and> feed 100 bytes (fresh_decoder 50) = Inr ([frame], dec') \<and>
    hdr_cmd (SBProtHeader_at frame) = SAMPLE_CMD_SET_PARAM \<and> bytes_at frame 8 1 = [0x7E]"
  using queued_frame_is_accepted [of "[0x7E]" "fresh_decoder 50" 100 _ "idle_env ENABLE_ADAS" SAMPLE_CMD_SET_PARAM idle_device, OF _ _ _ _ refl]
  by (auto simp: idle_device_def idle_env_def size_defs PTR_QUEUE_BUF_CNT_def)

text \<open>media ids. A request for \<open>num\<close> ids returns the \<open>num\<close> numbers after the last one given out
  and moves the counter past them, so the ids of one request are pairwise different, and none equals an
  id handed out by the request before it, as long as the two requests together stay below
  \<open>2^32\<close>.\<close>

theorem media_ids_unique:
  assumes "get_next_id MM_ID_MODE n d = (w, ids, d')" "get_next_id MM_ID_MODE k d' = (w', ids', d'')"
    "n + k < 2 ^ 32"
  shows "length ids = n \<and> length ids' = k \<and> distinct (ids @ ids') \<and> s_mm_id d'' = s_mm_id d + of_nat (n + k)"
proof -
  let ?f = "\<lambda>i. s_mm_id d + of_nat (Suc i)"
  have s: "s_mm_id d'' = s_mm_id d + of_nat (n + k)" "ids = map ?f [0..<n]"
      "ids' = map (\<lambda>i. s_mm_id d + of_nat n + of_nat (Suc i)) [0..<k]"
    using assms(1,2) by (auto simp: get_next_id_def next_mm_ids_eq)
  have "map ?f [n..<n + k] = map ?f (map (\<lambda>i. i + n) [0..<k])"
    by (simp add: map_add_upt add.commute)
  also have "\<dots> = ids'" by (simp add: s(3) add_ac)
  finally have all: "ids @ ids' = map ?f [0..<n + k]"
    by (simp add: s(2) upt_add_eq_append [of 0 n k])
  have "inj_on (\<lambda>i. s_mm_id d + of_nat (Suc i) :: u32) {0..<n + k}"
    using assms(3) by (auto simp: inj_on_def word_of_nat_eq_iff take_bit_nat_eq_self)
  then have "distinct (ids @ ids')" unfolding all distinct_map by simp
  then show ?thesis using s by simp
qed

theorem media_ids_unique_witness:
  "length [1, 2 :: u32] = 2 \<and> length [3 :: u32] = 1 \<and> distinct ([1, 2] @ [3 :: u32]) \<and>
   s_mm_id (idle_device\<lparr>s_mm_id := 3\<rparr>) = s_mm_id idle_device + of_nat (2 + 1)"
  by (rule media_ids_unique [where d = idle_device and d' = "idle_device\<lparr>s_mm_id := 2\<rparr>" and w = 0 and w' = 0])
    (simp_all add: get_next_id_def idle_device_def next_mm_ids_eq upt_rec)

text \<open>serial numbers of the messages the device sends on its own. The counter runs modulo 256 while
  the host's numbers stay below 256: after 0xFF the number is 0. Recording a larger number from the
  host moves the counter up to it, and beyond 0xFF it runs modulo 65536.\<close>

theorem send_serial_counter:
  "do_serial_num 0 GET_NEXT_SEND_NUM d =
     (let s = send_serial_num d;
          s' = (if s \<le> 0xFF then (s + 1) mod 256 else s + 1)
      in (s', d\<lparr>send_serial_num := s'\<rparr>)) \<and>
   send_serial_num (snd (do_serial_num n RECORD_RECV_NUM d)) = max n (send_serial_num d) \<and>
   fst (do_serial_num 0 GET_RECV_NUM (snd (do_serial_num n RECORD_RECV_NUM d))) = n"
proof -
  have "(s + 1) mod 256 = (if s = 0xFF then 0 else s + 1)" if "s \<le> 0xFF" for s :: u16
  proof (cases "s = 0xFF")
    case False
    then have "s < 0xFF" using that by simp
    then have "s + 1 < 256" by unat_arith
    then show ?thesis using False by (simp add: mod_word_less)
  qed simp
  moreover have "(0xFF :: u16) \<le> 0xFF" by simp
  ultimately show ?thesis
    by (auto simp: do_serial_num_def Let_def max_def not_less)
qed

text \<open>the media id survives in the file name. Reading the number back from the name the id was
  printed into gives the id, so different ids have different names; and after a restart the counter
  resumes at the largest id on disk.\<close>

theorem media_file_names:
  "getFileId (format_010u i) = i \<and> (mmid_to_filename b i = mmid_to_filename b j \<longleftrightarrow> i = j) \<and>
   getmmFileNumMax (Some (map format_010u (k # ks))) = Max (set (k # ks))"
proof -
  have "fold (\<lambda>name maxid. let tmpid = getFileId name in if maxid > tmpid then maxid else tmpid)
      (map format_010u is) a = fold max is a" for "is" a
    by (induction "is" arbitrary: a) (auto simp: getFileId_format max_def not_less intro!: arg_cong2 [of _ _ _ _ "fold max"])
  from this [of "k # ks" 0]
  have "getmmFileNumMax (Some (map format_010u (k # ks))) = fold max ks (max k 0)"
    by (simp add: getmmFileNumMax_def)
  also have "\<dots> = Max (set (k # ks))"
    by (simp add: Max.set_eq_fold max_def flip: list.set)
  finally have "getmmFileNumMax (Some (map format_010u (k # ks))) = Max (set (k # ks))" .
  then show ?thesis by (simp add: getFileId_format)
qed

text \<open>the packed decimal time. A value below 100 becomes the byte whose two nibbles are its decimal
  digits.\<close>

theorem time2BCD_nibbles:
  assumes "ch < 100"
  shows "time2BCD ch div 16 = ch div 10 \<and> time2BCD ch mod 16 = ch mod 10"
proof -
  have ch: "unat ch < 100" using assms by (simp add: word_less_nat_alt)
  then have val: "unat (time2BCD ch) = 16 * (unat ch div 10) + unat ch mod 10"
    by (simp add: time2BCD_def Let_def push_bit_eq_mult unat_word_ariths unat_mod unat_div)
  show ?thesis
    using ch by (simp add: word_unat_eq_iff unat_div unat_mod val)
qed

theorem time2BCD_nibbles_witness: "time2BCD 59 div 16 = 59 div 10 \<and> time2BCD 59 mod 16 = 59 mod 10"
  by (rule time2BCD_nibbles) simp

end
