(* ===== verification/Alerts.thy ===== *)
theory Alerts
  imports Device
begin

text \<open>
  The alert handlers of \<open>process.cpp\<close>: which photos and videos an alert asks for, the ids and
  the retention of old files, the warning frames of the two devices, the time and speed filters, the
  handlers of the CAN 0x700 message (lane departure, forward collision, headway) and of the driver
  monitor's alert bytes, the snapshots and the heart beat. A handler's early \<open>goto out\<close> is the
  flag its stages pass on.
\<close>

section \<open>What an alert records\<close>

definition get_adas_Info_for_store :: "AdasParaSetting \<Rightarrow> u8 \<Rightarrow> InfoForStore \<Rightarrow> InfoForStore" where
  "get_adas_Info_for_store para type mm0 =
     (let mm = mm0\<lparr>st_warn_type := type\<rparr> in
      if type = SB_WARN_TYPE_FCW \<or> type = SB_WARN_TYPE_LDW \<or> type = SB_WARN_TYPE_HW
         \<or> type = SB_WARN_TYPE_PCW \<or> type = SB_WARN_TYPE_FLC then
        let mm = (if type = SB_WARN_TYPE_FCW then
                    mm\<lparr>st_photo_num := FCW_photo_num para,
                       st_photo_time_period := FCW_photo_time_period para, st_video_time := FCW_video_time para\<rparr>
                  else if type = SB_WARN_TYPE_LDW then
                    mm\<lparr>st_photo_num := LDW_photo_num para,
                       st_photo_time_period := LDW_photo_time_period para, st_video_time := LDW_video_time para\<rparr>
                  else if type = SB_WARN_TYPE_HW then
                    mm\<lparr>st_photo_num := HW_photo_num para,
                       st_photo_time_period := HW_photo_time_period para, st_video_time := HW_video_time para\<rparr>
                  else if type = SB_WARN_TYPE_PCW then
                    mm\<lparr>st_photo_num := PCW_photo_num para,
                       st_photo_time_period := PCW_photo_time_period para, st_video_time := PCW_video_time para\<rparr>
                  else
                    mm\<lparr>st_photo_num := FLC_photo_num para,
                       st_photo_time_period := FLC_photo_time_period para, st_video_time := FLC_video_time para\<rparr>);
            mm = mm\<lparr>st_video_enable := (if st_video_time mm \<noteq> 0 then 1 else 0)\<rparr>
        in mm\<lparr>st_photo_enable := (if st_photo_num mm \<noteq> 0 \<and> unat (st_photo_num mm) < WARN_SNAP_NUM_MAX then 1 else 0)\<rparr>
      else if type = SB_WARN_TYPE_SNAP then
        mm\<lparr>st_photo_num := photo_num para, st_photo_time_period := photo_time_period para, st_photo_enable := 1\<rparr>
      else mm)"

definition get_dms_Info_for_store :: "DmsParaSetting \<Rightarrow> u8 \<Rightarrow> InfoForStore \<Rightarrow> InfoForStore" where
  "get_dms_Info_for_store para type mm0 =
     (let mm = mm0\<lparr>st_warn_type := type\<rparr> in
      if type = DMS_FATIGUE_WARN \<or> type = DMS_CALLING_WARN \<or> type = DMS_SMOKING_WARN
         \<or> type = DMS_DISTRACT_WARN \<or> type = DMS_ABNORMAL_WARN then
        let mm = (if type = DMS_FATIGUE_WARN then
                    mm\<lparr>st_photo_num := FatigueDriv_PhotoNum para,
                       st_photo_time_period := FatigueDriv_PhotoInterval para, st_video_time := FatigueDriv_VideoTime para\<rparr>
                  else if type = DMS_CALLING_WARN then
                    mm\<lparr>st_photo_num := CallingDriv_PhotoNum para,
                       st_photo_time_period := CallingDriv_PhotoInterval para, st_video_time := CallingDriv_VideoTime para\<rparr>
                  else if type = DMS_SMOKING_WARN then
                    mm\<lparr>st_photo_num := SmokingDriv_PhotoNum para,
                       st_photo_time_period := SmokingDriv_PhotoInterval para, st_video_time := SmokingDriv_VideoTime para\<rparr>
                  else if type = DMS_DISTRACT_WARN then
                    mm\<lparr>st_photo_num := DistractionDriv_PhotoNum para,
                       st_photo_time_period := DistractionDriv_PhotoInterval para, st_video_time := DistractionDriv_VideoTime para\<rparr>
                  else
                    mm\<lparr>st_photo_num := AbnormalDriv_PhotoNum para,
                       st_photo_time_period := AbnormalDriv_PhotoInterval para, st_video_time := AbnormalDriv_VideoTime para\<rparr>);
            mm = mm\<lparr>st_video_enable := (if st_video_time mm \<noteq> 0 then 1 else 0)\<rparr>
        in mm\<lparr>st_photo_enable := (if st_photo_num mm \<noteq> 0 \<and> unat (st_photo_num mm) < WARN_SNAP_NUM_MAX then 1 else 0)\<rparr>
      else if type = DMS_DRIVER_CHANGE \<or> type = DMS_SANPSHOT_EVENT then
        mm\<lparr>st_photo_num := photo_num para, st_photo_time_period := photo_time_period para, st_photo_enable := 1\<rparr>
      else mm)"

section \<open>Filters and timers\<close>

definition filter_alert_by_time :: "int \<Rightarrow> int \<Rightarrow> u32 \<Rightarrow> bool \<times> int" where
  "filter_alert_by_time now last_t secs = (if now - last_t < uint secs then (False, last_t) else (True, now))"

definition limit_record_time :: "int \<Rightarrow> int \<Rightarrow> u32 \<Rightarrow> bool \<times> int" where
  "limit_record_time now last_t secs = (if now - last_t < uint secs then (False, last_t) else (True, now))"

definition touch_time :: "int \<Rightarrow> int" where
  "touch_time now = now"

text \<open>The speed threshold is the ADAS one in both builds. \<open>USE_CAN760_MESSAGE\<close> is not defined.\<close>

definition filter_alert_by_speed :: "device \<Rightarrow> bool" where
  "filter_alert_by_speed d =
     (if speed_filter_enable (d_config d) = 0 then True
      else let para = adas_para (d_paras d); tmp = fst (RealTimeDdata_process (rt_msg d) READ_MSG d)
           in \<not> rt_car_speed tmp \<le> warning_speed_val para)"

definition RECORD_TIME_PERIOD_MIN :: u32 where "RECORD_TIME_PERIOD_MIN = 5"

text \<open>Apart from the log line, \<open>record_speed\<close> moves its own timer.\<close>

definition record_speed :: "env \<Rightarrow> device \<Rightarrow> device" where
  "record_speed e d =
     (if e_build e \<noteq> ENABLE_ADAS \<or> record_speed_enable (d_config d) = 0 then d
      else let period = (if record_period (d_config d) < RECORD_TIME_PERIOD_MIN
                         then RECORD_TIME_PERIOD_MIN else record_period (d_config d));
               (ret, last_t) = limit_record_time (e_now e) (speed_record_last d) period
           in d\<lparr>speed_record_last := last_t\<rparr>)"

definition check_heart_beat :: "env \<Rightarrow> device \<Rightarrow> device" where
  "check_heart_beat e d =
     (if use_heart (d_config d) = 0 then d
      else if \<not> fst (process_socket_status False READ_MSG d)
      then d\<lparr>hb_record_last := touch_time (e_now e)\<rparr>
      else let (ret, last_t) = limit_record_time (e_now e) (hb_record_last d) 1;
               d = d\<lparr>hb_record_last := last_t\<rparr>
           in if \<not> ret then d
              else if \<not> fst (heart_beat_process False READ_MSG d) then
                let d = d\<lparr>hb_count := hb_count d + 1\<rparr>
                in if hb_count d \<ge> check_heart_period (d_config d)
                   then tcp_socket_close (d\<lparr>hb_count := 0\<rparr>) else d
              else snd (heart_beat_process False WRITE_MSG (d\<lparr>hb_count := 0\<rparr>)))"

section \<open>Retention of media files\<close>

definition remove_old :: "build \<Rightarrow> u32 \<Rightarrow> device \<Rightarrow> device" where
  "remove_old b i d =
     (if i > SAVE_MEDIA_NUM_MAX then remove_file (mmid_to_filename b (i - SAVE_MEDIA_NUM_MAX)) d else d)"

definition clear_old_media_file :: "build \<Rightarrow> InfoForStore \<Rightarrow> device \<Rightarrow> device" where
  "clear_old_media_file b mm d =
     (let d = (if st_photo_enable mm \<noteq> 0 then
                 let ids = take (unat (st_photo_num mm)) (st_photo_id mm)
                 in fold (\<lambda>i. remove_file (mmid_to_filename b i)) ids (fold (remove_old b) ids d)
               else d)
      in if st_video_enable mm \<noteq> 0
         then remove_file (mmid_to_filename b (st_video_id mm ! 0)) (remove_old b (st_video_id mm ! 0) d)
         else d)"

section \<open>Media of a frame\<close>

definition mm_photo :: "u32 \<Rightarrow> SBMmHeader" where "mm_photo i = \<lparr>mmh_type = MM_PHOTO, mmh_id = htonl i\<rparr>"
definition mm_video :: "u32 \<Rightarrow> SBMmHeader" where "mm_video i = \<lparr>mmh_type = MM_VIDEO, mmh_id = htonl i\<rparr>"

definition add_photos ::
  "InfoForStore \<Rightarrow> device \<Rightarrow> (InfoForStore \<times> SBMmHeader list \<times> device) outcome" where
  "add_photos mm d =
     (if st_photo_enable mm \<noteq> 0 then
        let n = unat (st_photo_num mm) in
        if n > WARN_SNAP_NUM_MAX then Inl Overrun_photo_id
        else let (w, ids, d) = get_next_id MM_ID_MODE n d
             in Inr (mm\<lparr>st_photo_id := ids @ drop n (st_photo_id mm)\<rparr>, map mm_photo ids, d)
      else Inr (mm, [], d))"

definition add_video :: "InfoForStore \<Rightarrow> device \<Rightarrow> InfoForStore \<times> SBMmHeader list \<times> device" where
  "add_video mm d =
     (if st_video_enable mm \<noteq> 0 then
        let (w, ids, d) = get_next_id MM_ID_MODE 1 d
        in (mm\<lparr>st_video_id := (st_video_id mm)[0 := ids ! 0]\<rparr>, [mm_video (ids ! 0)], d)
      else (mm, [], d))"

definition record_media :: "env \<Rightarrow> InfoForStore \<Rightarrow> device \<Rightarrow> device" where
  "record_media e mm d =
     (let d = clear_old_media_file (e_build e) mm d
      in d\<lparr>image_q := push_mm_queue (e_tr e) (e_malloc1 e) (e_stack e) mm (image_q d)\<rparr>)"

text \<open>The branch of the alerts that record: photos, a video of this camera and, when there is one,
  a video of the other camera.\<close>

definition alert_media :: "env \<Rightarrow> InfoForStore \<Rightarrow> device \<Rightarrow> (SBMmHeader list \<times> device) outcome" where
  "alert_media e mm d =
     bindE (add_photos mm d) (\<lambda>(mm, ps, d).
       let (mm, vs, d) = add_video mm d;
           mm = mm\<lparr>st_get_another_camera_video := 0\<rparr>;
           d = record_media e mm d
       in if st_video_enable mm \<noteq> 0 then
            let mm = mm\<lparr>st_video_enable := 1, st_photo_enable := 0\<rparr>;
                (mm, ws, d) = add_video mm d;
                mm = mm\<lparr>st_get_another_camera_video := 1\<rparr>
            in Inr (ps @ vs @ ws, record_media e mm d)
          else Inr (ps @ vs, d))"

text \<open>The branch of the snapshots: photos only.\<close>

definition snap_media :: "env \<Rightarrow> InfoForStore \<Rightarrow> device \<Rightarrow> (SBMmHeader list \<times> device) outcome" where
  "snap_media e mm d =
     (if st_photo_enable mm \<noteq> 0 then
        bindE (add_photos mm d) (\<lambda>(mm, ps, d).
          Inr (ps, record_media e (mm\<lparr>st_get_another_camera_video := 0\<rparr>) d))
      else Inr ([], d))"

section \<open>Warning frames\<close>

definition get_real_time_msg :: "device \<Rightarrow> AdasWarnFrame \<Rightarrow> AdasWarnFrame" where
  "get_real_time_msg d f =
     (let tmp = fst (RealTimeDdata_process (rt_msg d) READ_MSG d)
      in f\<lparr>aw_altitude := rt_altitude tmp, aw_latitude := rt_latitude tmp, aw_longitude := rt_longitude tmp,
           aw_car_speed := rt_car_speed tmp, aw_time := rt_time tmp, aw_car_status := rt_car_status tmp\<rparr>)"

definition build_adas_warn_frame ::
  "env \<Rightarrow> u8 \<Rightarrow> u8 \<Rightarrow> AdasWarnFrame \<Rightarrow> device \<Rightarrow> (AdasWarnFrame \<times> device) outcome" where
  "build_adas_warn_frame e type status_flag f d =
     (let mm = get_adas_Info_for_store (adas_para (d_paras d)) type InfoForStore_zero;
          f = f\<lparr>aw_time := buf2BCD (e_localtime e)\<rparr>;
          (w, ids, d) = get_next_id WARNING_ID_MODE 0 d;
          f = f\<lparr>aw_status_flag := status_flag, aw_warning_id := htonl w, aw_sound_type := type, aw_mm_num := 0\<rparr>;
          f = get_real_time_msg d f
      in if status_flag = SB_WARN_STATUS_END then
           Inr (f\<lparr>aw_mm := take (unat (s_media_num d)) (s_media_begin d), aw_mm_num := s_media_num d\<rparr>, d)
         else
           bindE (if type = SB_WARN_TYPE_FCW \<or> type = SB_WARN_TYPE_LDW \<or> type = SB_WARN_TYPE_HW
                     \<or> type = SB_WARN_TYPE_PCW \<or> type = SB_WARN_TYPE_FLC
                  then alert_media e (mm\<lparr>st_warn_type := type\<rparr>) d
                  else if type = SB_WARN_TYPE_SNAP then snap_media e (mm\<lparr>st_warn_type := type\<rparr>) d
                  else Inr ([], d))
             (\<lambda>(ms, d).
               let f = f\<lparr>aw_mm := ms, aw_mm_num := of_nat (length ms)\<rparr> in
               if status_flag = SB_WARN_STATUS_BEGIN then
                 if length ms > 20 then Inl Overrun_media
                 else Inr (f, d\<lparr>s_media_begin := ms @ drop (length ms) (s_media_begin d),
                                s_media_num := aw_mm_num f\<rparr>)
               else Inr (f, d)))"

definition build_dms_warn_frame ::
  "env \<Rightarrow> u8 \<Rightarrow> u8 \<Rightarrow> DsmWarnFrame \<Rightarrow> device \<Rightarrow> (DsmWarnFrame \<times> device) outcome" where
  "build_dms_warn_frame e type status_flag f d =
     (let mm = get_dms_Info_for_store (dms_para (d_paras d)) type InfoForStore_zero;
          (w, ids, d) = get_next_id WARNING_ID_MODE 0 d;
          f = f\<lparr>dw_status_flag := status_flag, dw_warning_id := htonl w, dw_sound_type := type, dw_mm_num := 0\<rparr>;
          f = f\<lparr>dw_time := buf2BCD (e_localtime e)\<rparr>;
          tmp = fst (RealTimeDdata_process (rt_msg d) READ_MSG d);
          f = f\<lparr>dw_altitude := rt_altitude tmp, dw_latitude := rt_latitude tmp, dw_longitude := rt_longitude tmp,
                dw_car_speed := rt_car_speed tmp, dw_time := rt_time tmp, dw_car_status := rt_car_status tmp\<rparr>
      in if status_flag = SB_WARN_STATUS_BEGIN then Inr (f\<lparr>dw_mm := []\<rparr>, d)
         else
           bindE (if type = DMS_FATIGUE_WARN \<or> type = DMS_CALLING_WARN \<or> type = DMS_SMOKING_WARN
                     \<or> type = DMS_DISTRACT_WARN \<or> type = DMS_ABNORMAL_WARN
                  then alert_media e (mm\<lparr>st_warn_type := type\<rparr>) d
                  else if type = DMS_DRIVER_CHANGE \<or> type = DMS_SANPSHOT_EVENT
                  then snap_media e (mm\<lparr>st_warn_type := type\<rparr>) d
                  else Inr ([], d))
             (\<lambda>(ms, d). Inr (f\<lparr>dw_mm := ms, dw_mm_num := of_nat (length ms)\<rparr>, d)))"

definition send_adas_warn :: "env \<Rightarrow> AdasWarnFrame \<Rightarrow> device \<Rightarrow> device" where
  "send_adas_warn e f d = snd (message_queue_send e SAMPLE_CMD_WARNING_REPORT (AdasWarnFrame_bytes f) d)"

definition send_dms_warn :: "env \<Rightarrow> DsmWarnFrame \<Rightarrow> device \<Rightarrow> device" where
  "send_dms_warn e f d = snd (message_queue_send e SAMPLE_CMD_WARNING_REPORT (DsmWarnFrame_bytes f) d)"

definition do_snap_shot :: "env \<Rightarrow> device \<Rightarrow> device outcome" where
  "do_snap_shot e d =
     (case e_build e of
        ENABLE_DMS \<Rightarrow> bindE (build_dms_warn_frame e DMS_SANPSHOT_EVENT SB_WARN_STATUS_NONE (e_dframe e) d)
          (\<lambda>(f, d). Inr (send_dms_warn e f d))
      | ENABLE_ADAS \<Rightarrow> bindE (build_adas_warn_frame e SB_WARN_TYPE_SNAP SB_WARN_STATUS_NONE (e_aframe e) d)
          (\<lambda>(f, d). Inr (send_adas_warn e f d)))"


section \<open>The CAN 0x700 handler\<close>

abbreviation (input) HW_LEVEL_RED_CAR :: u8 where "HW_LEVEL_RED_CAR \<equiv> 2"
abbreviation (input) SOUND_TYPE_LLDW :: u8 where "SOUND_TYPE_LLDW \<equiv> 1"
abbreviation (input) SOUND_TYPE_RLDW :: u8 where "SOUND_TYPE_RLDW \<equiv> 2"

text \<open>The bit-fields of \<open>MECANWarningMessage\<close> that the handler reads.\<close>

definition left_ldw :: "u8 list \<Rightarrow> bool" where "left_ldw can = bit (can ! 4) 1"
definition right_ldw :: "u8 list \<Rightarrow> bool" where "right_ldw can = bit (can ! 4) 2"
definition fcw_on :: "u8 list \<Rightarrow> bool" where "fcw_on can = bit (can ! 4) 3"
definition headway_warning_level :: "u8 list \<Rightarrow> u8" where "headway_warning_level can = can ! 7 AND 3"

definition all_warning_masks :: "u8 list" where
  "all_warning_masks = [0x00, 0x00, 0x01, 0x00, 0x0E, 0x00, 0x00, 0x03]"
definition trigger_warning_masks :: "u8 list" where
  "trigger_warning_masks = [0x00, 0x00, 0x00, 0x00, 0x0E, 0x00, 0x00, 0x00]"

definition filter_time :: "u8 \<Rightarrow> device \<Rightarrow> u32" where
  "filter_time video_time d = ucast video_time + ucast (alert_time_filter (d_config d))"

text \<open>\<open>memset(uploadmsg, 0, sizeof( *uploadmsg))\<close>.\<close>

definition AdasWarnFrame_zero :: AdasWarnFrame where
  "AdasWarnFrame_zero = \<lparr>aw_warning_id = 0, aw_status_flag = 0, aw_sound_type = 0, aw_forward_car_speed = 0,
     aw_forward_car_distance = 0, aw_ldw_type = 0, aw_load_type = 0, aw_load_data = 0, aw_car_speed = 0,
     aw_altitude = 0, aw_latitude = 0, aw_longitude = 0, aw_time = replicate 6 0, aw_car_status = 0,
     aw_mm_num = 0, aw_mm = []\<rparr>"

text \<open>Each stage takes and returns whether the handler has jumped to \<open>out\<close>, the frame buffer and
  the state.\<close>

type_synonym adas_stage = "bool \<times> AdasWarnFrame \<times> device"

definition ldw_stage :: "env \<Rightarrow> u8 list \<Rightarrow> AdasWarnFrame \<Rightarrow> device \<Rightarrow> adas_stage outcome" where
  "ldw_stage e can f d =
     (if left_ldw can \<or> right_ldw can then
        let (pass, t) = filter_alert_by_time (e_now e) (ldw_alert (can700 d))
                          (filter_time (LDW_video_time (adas_para (d_paras d))) d);
            d = d\<lparr>can700 := (can700 d)\<lparr>ldw_alert := t\<rparr>\<rparr>
        in if \<not> pass then Inr (False, f, d)
           else if \<not> filter_alert_by_speed d then Inr (True, f, d)
           else bindE (build_adas_warn_frame e SB_WARN_TYPE_LDW SB_WARN_STATUS_NONE AdasWarnFrame_zero d) (\<lambda>(f, d).
             let f = (if left_ldw can then f\<lparr>aw_ldw_type := SOUND_TYPE_LLDW\<rparr> else f);
                 f = (if right_ldw can then f\<lparr>aw_ldw_type := SOUND_TYPE_RLDW\<rparr> else f)
             in Inr (False, f, send_adas_warn e f d))
      else Inr (False, f, d))"

definition fcw_stage :: "env \<Rightarrow> u8 list \<Rightarrow> AdasWarnFrame \<Rightarrow> device \<Rightarrow> adas_stage outcome" where
  "fcw_stage e can f d =
     (if fcw_on can then
        let (pass, t) = filter_alert_by_time (e_now e) (fcw_alert (can700 d))
                          (filter_time (FCW_video_time (adas_para (d_paras d))) d);
            d = d\<lparr>can700 := (can700 d)\<lparr>fcw_alert := t\<rparr>\<rparr>
        in if \<not> pass then Inr (False, f, d)
           else if \<not> filter_alert_by_speed d then Inr (True, f, d)
           else bindE (build_adas_warn_frame e SB_WARN_TYPE_FCW SB_WARN_STATUS_NONE f d) (\<lambda>(f, d).
             let f = f\<lparr>aw_sound_type := SB_WARN_TYPE_FCW\<rparr>
             in Inr (False, f, send_adas_warn e f d))
      else Inr (False, f, d))"

definition headway_stage :: "env \<Rightarrow> u8 list \<Rightarrow> AdasWarnFrame \<Rightarrow> device \<Rightarrow> adas_stage outcome" where
  "headway_stage e can f d =
     (let lastw = g_last_warning_data (can700 d) in
      if headway_warning_level lastw \<noteq> headway_warning_level can then
        if headway_warning_level can = HW_LEVEL_RED_CAR then
          let (pass, t) = filter_alert_by_time (e_now e) (hw_alert (can700 d))
                            (filter_time (HW_video_time (adas_para (d_paras d))) d);
              d = d\<lparr>can700 := (can700 d)\<lparr>hw_alert := t\<rparr>\<rparr>
          in if \<not> pass then Inr (False, f, d)
             else if \<not> filter_alert_by_speed d then Inr (True, f, d)
             else bindE (build_adas_warn_frame e SB_WARN_TYPE_HW SB_WARN_STATUS_BEGIN f d) (\<lambda>(f, d).
               let d = send_adas_warn e f d
               in Inr (False, f, d\<lparr>can700 := (can700 d)\<lparr>s_start_flag := True\<rparr>\<rparr>))
        else if headway_warning_level lastw = HW_LEVEL_RED_CAR \<and> s_start_flag (can700 d) then
          bindE (build_adas_warn_frame e SB_WARN_TYPE_HW SB_WARN_STATUS_END f d) (\<lambda>(f, d).
            let d = send_adas_warn e f d
            in Inr (False, f, d\<lparr>can700 := (can700 d)\<lparr>s_start_flag := False, hw_alert := touch_time (e_now e)\<rparr>\<rparr>))
        else Inr (False, f, d)
      else Inr (False, f, d))"

definition deal_wsi_adas_can700 :: "env \<Rightarrow> u8 list \<Rightarrow> device \<Rightarrow> device outcome" where
  "deal_wsi_adas_can700 e warning d =
     (let all_warning_data = map2 (AND) warning all_warning_masks;
          trigger_data = map2 (AND) warning trigger_warning_masks
      in if all_warning_data = g_last_warning_data (can700 d) then Inr d
         else
           bindE (if trigger_data \<noteq> g_last_trigger_warning (can700 d) \<and> trigger_data ! 4 \<noteq> 0
                  then bindE (ldw_stage e warning (e_aframe e) d) (\<lambda>(out, f, d).
                         if out then Inr (out, f, d) else fcw_stage e warning f d)
                  else Inr (False, e_aframe e, d)) (\<lambda>(out, f, d).
           bindE (if out then Inr (out, f, d) else headway_stage e warning f d) (\<lambda>(out, f, d).
           Inr (d\<lparr>can700 := (can700 d)\<lparr>g_last_can_msg := warning, g_last_warning_data := all_warning_data,
                                          g_last_trigger_warning := trigger_data\<rparr>\<rparr>))))"

definition deal_wsi_adas_can760 :: "u8 list \<Rightarrow> device \<Rightarrow> device" where
  "deal_wsi_adas_can760 warning d = snd (can760_message_process (CAN760Info_at warning) WRITE_MSG d)"

section \<open>The driver monitor handler\<close>

text \<open>The two-bit fields of \<open>DmsAlertInfo\<close>.\<close>

definition alert_eye_close1 :: "u8 list \<Rightarrow> bool" where "alert_eye_close1 a \<longleftrightarrow> a ! 0 AND 0x03 \<noteq> 0"
definition alert_eye_close2 :: "u8 list \<Rightarrow> bool" where "alert_eye_close2 a \<longleftrightarrow> a ! 0 AND 0x0C \<noteq> 0"
definition alert_look_around :: "u8 list \<Rightarrow> bool" where "alert_look_around a \<longleftrightarrow> a ! 0 AND 0x30 \<noteq> 0"
definition alert_yawn :: "u8 list \<Rightarrow> bool" where "alert_yawn a \<longleftrightarrow> a ! 0 AND 0xC0 \<noteq> 0"
definition alert_phone :: "u8 list \<Rightarrow> bool" where "alert_phone a \<longleftrightarrow> a ! 1 AND 0x03 \<noteq> 0"
definition alert_smoking :: "u8 list \<Rightarrow> bool" where "alert_smoking a \<longleftrightarrow> a ! 1 AND 0x0C \<noteq> 0"
definition alert_absence :: "u8 list \<Rightarrow> bool" where "alert_absence a \<longleftrightarrow> a ! 1 AND 0x30 \<noteq> 0"
definition alert_bow :: "u8 list \<Rightarrow> bool" where "alert_bow a \<longleftrightarrow> a ! 1 AND 0xC0 \<noteq> 0"
definition alert_faceId :: "u8 list \<Rightarrow> bool" where "alert_faceId a \<longleftrightarrow> a ! 2 AND 0x0C \<noteq> 0"

definition dms_alert_mask :: "u8 list" where
  "dms_alert_mask = [0xFF, 0xFF, 0x0F, 0, 0, 0, 0, 0]"

definition FILTER_DMS_ALERT_SET_TIME :: u32 where "FILTER_DMS_ALERT_SET_TIME = 10"

type_synonym dms_stage_result = "bool \<times> int \<times> DsmWarnFrame \<times> device"

text \<open>One of the five filtered alerts: on its rising edge it passes the speed filter (or the handler
  ends), then the time filter (or nothing is sent). The result has the new value of its timer.\<close>

definition dms_stage :: "env \<Rightarrow> bool \<Rightarrow> u8 \<Rightarrow> int \<Rightarrow> u8 \<Rightarrow> DsmWarnFrame \<Rightarrow> device \<Rightarrow> dms_stage_result outcome" where
  "dms_stage e rising alert_type timer video_time f d =
     (if rising then
        if \<not> filter_alert_by_speed d then Inr (True, timer, f, d)
        else let (pass, timer) = filter_alert_by_time (e_now e) timer (filter_time video_time d)
             in if pass then bindE (build_dms_warn_frame e alert_type SB_WARN_STATUS_NONE f d) (\<lambda>(f, d).
                  Inr (False, timer, f, send_dms_warn e f d))
                else Inr (False, timer, f, d)
      else Inr (False, timer, f, d))"

definition dms_five_alerts :: "env \<Rightarrow> u8 list \<Rightarrow> u8 list \<Rightarrow> device \<Rightarrow> (bool \<times> DsmWarnFrame \<times> device) outcome" where
  "dms_five_alerts e cur lst d0 =
     (let para = dms_para (d_paras d0) in
      bindE (dms_stage e ((alert_eye_close1 cur \<and> \<not> alert_eye_close1 lst) \<or> (alert_eye_close2 cur \<and> \<not> alert_eye_close2 lst)
               \<or> (alert_yawn cur \<and> \<not> alert_yawn lst)) DMS_FATIGUE_WARN (dms_fatigue_warn (dms d0))
               (FatigueDriv_VideoTime para) (e_dframe e) d0) (\<lambda>(out, t, f, d).
      let d = d\<lparr>dms := (dms d)\<lparr>dms_fatigue_warn := t\<rparr>\<rparr> in if out then Inr (True, f, d) else
      bindE (dms_stage e ((alert_look_around cur \<and> \<not> alert_look_around lst) \<or> (alert_bow cur \<and> \<not> alert_bow lst))
               DMS_DISTRACT_WARN (dms_distract_warn (dms d)) (DistractionDriv_VideoTime para) f d) (\<lambda>(out, t, f, d).
      let d = d\<lparr>dms := (dms d)\<lparr>dms_distract_warn := t\<rparr>\<rparr> in if out then Inr (True, f, d) else
      bindE (dms_stage e (alert_phone cur \<and> \<not> alert_phone lst) DMS_CALLING_WARN (dms_calling_warn (dms d))
               (CallingDriv_VideoTime para) f d) (\<lambda>(out, t, f, d).
      let d = d\<lparr>dms := (dms d)\<lparr>dms_calling_warn := t\<rparr>\<rparr> in if out then Inr (True, f, d) else
      bindE (dms_stage e (alert_smoking cur \<and> \<not> alert_smoking lst) DMS_SMOKING_WARN (dms_smoking_warn (dms d))
               (SmokingDriv_VideoTime para) f d) (\<lambda>(out, t, f, d).
      let d = d\<lparr>dms := (dms d)\<lparr>dms_smoking_warn := t\<rparr>\<rparr> in if out then Inr (True, f, d) else
      bindE (dms_stage e (alert_absence cur \<and> \<not> alert_absence lst) DMS_ABNORMAL_WARN (dms_abnormal_warn (dms d))
               (AbnormalDriv_VideoTime para) f d) (\<lambda>(out, t, f, d).
      Inr (out, f, d\<lparr>dms := (dms d)\<lparr>dms_abnormal_warn := t\<rparr>\<rparr>)))))))"

definition deal_wsi_dms_info :: "env \<Rightarrow> u8 list \<Rightarrow> device \<Rightarrow> device outcome" where
  "deal_wsi_dms_info e warning d =
     (let cur = map2 (AND) warning dms_alert_mask; lst = dms_alert_last (dms d) in
      bindE (if cur = lst then Inr d
             else bindE (dms_five_alerts e cur lst d) (\<lambda>(out, f, d).
               if out then Inr d
               else if alert_faceId cur \<and> \<not> alert_faceId lst then
                 bindE (build_dms_warn_frame e DMS_DRIVER_CHANGE SB_WARN_STATUS_NONE f d) (\<lambda>(f, d).
                   Inr (send_dms_warn e f d))
               else if \<not> alert_absence cur \<and> alert_absence lst then
                 if \<not> filter_alert_by_speed d then Inr d
                 else let (pass, t) = filter_alert_by_time (e_now e) (dms_absence_release (dms d)) FILTER_DMS_ALERT_SET_TIME;
                          d = d\<lparr>dms := (dms d)\<lparr>dms_absence_release := t\<rparr>\<rparr>
                      in if pass then do_snap_shot e d else Inr d
               else Inr d))
        (\<lambda>d. Inr (d\<lparr>dms := (dms d)\<lparr>dms_alert_last := cur\<rparr>\<rparr>)))"

section \<open>The snapshot thread\<close>

abbreviation (input) SNAP_SHOT_BY_TIME :: u8 where "SNAP_SHOT_BY_TIME \<equiv> 1"
abbreviation (input) SNAP_SHOT_BY_DISTANCE :: u8 where "SNAP_SHOT_BY_DISTANCE \<equiv> 2"

text \<open>The locals of \<open>pthread_snap_shot\<close>.\<close>

record snap_locals =
  mileage_last :: u32
  snap_last :: int

definition snap_common :: "env \<Rightarrow> device \<Rightarrow> u8 \<times> u16 \<times> u16" where
  "snap_common e d = (case e_build e of
     ENABLE_ADAS \<Rightarrow> (let p = adas_para (d_paras d) in (auto_photo_mode p, auto_photo_time_period p, auto_photo_distance_period p))
   | ENABLE_DMS \<Rightarrow> (let p = dms_para (d_paras d) in (auto_photo_mode p, auto_photo_time_period p, auto_photo_distance_period p)))"

text \<open>One pass of its loop.\<close>

definition pthread_snap_shot_step :: "env \<Rightarrow> snap_locals \<Rightarrow> device \<Rightarrow> (snap_locals \<times> device) outcome" where
  "pthread_snap_shot_step e l d =
     (let d = check_heart_beat e (record_speed e d);
          (auto_photo_mode, time_period, distance_period) = snap_common e d
      in if auto_photo_mode = SNAP_SHOT_BY_TIME then
           if time_period \<noteq> 0 then
             let (ret, t) = limit_record_time (e_now e) (snap_last l) (ucast time_period);
                 l = l\<lparr>snap_last := t\<rparr>
             in if ret then bindE (do_snap_shot e d) (\<lambda>d. Inr (l, d)) else Inr (l, d)
           else Inr (l, d)
         else if auto_photo_mode = SNAP_SHOT_BY_DISTANCE then
           let rt_data = fst (RealTimeDdata_process (rt_msg d) READ_MSG d) in
           if distance_period \<noteq> 0 then
             if (rt_mileage rt_data - mileage_last l) * 100 \<ge> ucast distance_period then
               bindE (if mileage_last l \<noteq> 0 then do_snap_shot e d else Inr d) (\<lambda>d.
                 Inr (l\<lparr>mileage_last := rt_mileage rt_data\<rparr>, d))
             else Inr (l, d)
           else Inr (l, d)
         else Inr (l, d))"

end
