(* ===== verification/AlertProps.thy ===== *)
theory AlertProps
  imports Alerts
begin

text \<open>
  What the alert handlers guarantee: no handler of the CAN messages overruns a buffer, the media ids
  of a frame are consecutive and its files make room for the new ones, the rate limit, the heart
  beat timeout; and where the handlers fall short.
\<close>

section \<open>Media of a frame\<close>

definition mm_ids :: "u32 \<Rightarrow> nat \<Rightarrow> u32 list" where
  "mm_ids s n = map (\<lambda>i. s + of_nat (Suc i)) [0..<n]"

lemma length_mm_ids [simp]: "length (mm_ids s n) = n"
  by (simp add: mm_ids_def)

lemma get_mm_ids: "get_next_id MM_ID_MODE n d = (0, mm_ids (s_mm_id d) n, d\<lparr>s_mm_id := s_mm_id d + of_nat n\<rparr>)"
  by (simp add: get_next_id_def next_mm_ids_eq mm_ids_def)

lemma get_warning_id:
  "get_next_id WARNING_ID_MODE n d = (s_warning_id d + 1, [], d\<lparr>s_warning_id := s_warning_id d + 1\<rparr>)"
  by (simp add: get_next_id_def Let_def)

lemma remove_file_frame [simp]: "d_files (remove_file p d) = (d_files d)(p := None)"
  "s_mm_id (remove_file p d) = s_mm_id d" "image_q (remove_file p d) = image_q d"
  "s_media_begin (remove_file p d) = s_media_begin d" "s_media_num (remove_file p d) = s_media_num d"
  "d_paras (remove_file p d) = d_paras d" "can700 (remove_file p d) = can700 d"
  "s_warning_id (remove_file p d) = s_warning_id d"
  by (simp_all add: remove_file_def)

lemma remove_old_frame [simp]: "s_mm_id (remove_old b i d) = s_mm_id d" "image_q (remove_old b i d) = image_q d"
  "s_media_begin (remove_old b i d) = s_media_begin d" "s_media_num (remove_old b i d) = s_media_num d"
  "d_paras (remove_old b i d) = d_paras d" "can700 (remove_old b i d) = can700 d"
  "s_warning_id (remove_old b i d) = s_warning_id d"
  by (simp_all add: remove_old_def)

lemma fold_frame:
  "(\<And>i d. fld (g i d) = fld d) \<Longrightarrow> fld (fold g is d) = fld d"
  by (induction "is" arbitrary: d) auto

lemma clear_old_media_file_frame [simp]:
  "s_mm_id (clear_old_media_file b mm d) = s_mm_id d"
  "image_q (clear_old_media_file b mm d) = image_q d"
  "s_media_begin (clear_old_media_file b mm d) = s_media_begin d"
  "s_media_num (clear_old_media_file b mm d) = s_media_num d"
  "d_paras (clear_old_media_file b mm d) = d_paras d"
  "can700 (clear_old_media_file b mm d) = can700 d"
  "s_warning_id (clear_old_media_file b mm d) = s_warning_id d"
  by (simp_all add: clear_old_media_file_def Let_def fold_frame [of s_mm_id] fold_frame [of image_q]
      fold_frame [of s_media_begin] fold_frame [of s_media_num] fold_frame [of d_paras] fold_frame [of can700]
      fold_frame [of s_warning_id])

lemma record_media_frame [simp]:
  "s_mm_id (record_media e mm d) = s_mm_id d" "d_paras (record_media e mm d) = d_paras d"
  "d_files (record_media e mm d) = d_files (clear_old_media_file (e_build e) mm d)"
  "s_media_begin (record_media e mm d) = s_media_begin d" "s_media_num (record_media e mm d) = s_media_num d"
  "can700 (record_media e mm d) = can700 d" "s_warning_id (record_media e mm d) = s_warning_id d"
  by (simp_all add: record_media_def Let_def)

definition photo_count :: "InfoForStore \<Rightarrow> nat" where
  "photo_count mm = (if st_photo_enable mm \<noteq> 0 then unat (st_photo_num mm) else 0)"

definition frame_media :: "u32 \<Rightarrow> InfoForStore \<Rightarrow> SBMmHeader list" where
  "frame_media s mm =
     (let n = photo_count mm; t = s + of_nat n
      in map mm_photo (mm_ids s n) @ (if st_video_enable mm \<noteq> 0 then [mm_video (t + 1), mm_video (t + 2)] else []))"

lemma add_photos_eq:
  "add_photos mm d =
     (if photo_count mm > WARN_SNAP_NUM_MAX then Inl Overrun_photo_id
      else Inr (if st_photo_enable mm \<noteq> 0
                then mm\<lparr>st_photo_id := mm_ids (s_mm_id d) (photo_count mm) @ drop (photo_count mm) (st_photo_id mm)\<rparr>
                else mm,
                map mm_photo (mm_ids (s_mm_id d) (photo_count mm)),
                d\<lparr>s_mm_id := s_mm_id d + of_nat (photo_count mm)\<rparr>))"
  by (auto simp: add_photos_def photo_count_def get_mm_ids Let_def mm_ids_def)

lemma alert_media_overrun: "photo_count mm > WARN_SNAP_NUM_MAX \<Longrightarrow> alert_media e mm d = Inl Overrun_photo_id"
  by (simp add: alert_media_def add_photos_eq)

lemma alert_media_eq:
  assumes "photo_count mm \<le> WARN_SNAP_NUM_MAX"
  shows "\<exists>d'. alert_media e mm d = Inr (frame_media (s_mm_id d) mm, d') \<and>
    s_mm_id d' = s_mm_id d + of_nat (length (frame_media (s_mm_id d) mm)) \<and>
    d_paras d' = d_paras d \<and> s_media_begin d' = s_media_begin d \<and> s_media_num d' = s_media_num d \<and>
    can700 d' = can700 d \<and> s_warning_id d' = s_warning_id d"
  using assms
  by (auto simp: alert_media_def add_photos_eq add_video_def get_mm_ids frame_media_def Let_def add_ac
      mm_ids_def [of _ "Suc 0"])

lemma snap_media_eq:
  assumes "photo_count mm \<le> WARN_SNAP_NUM_MAX" "st_photo_enable mm \<noteq> 0"
  shows "\<exists>d'. snap_media e mm d = Inr (map mm_photo (mm_ids (s_mm_id d) (photo_count mm)), d') \<and>
    s_mm_id d' = s_mm_id d + of_nat (photo_count mm) \<and> d_paras d' = d_paras d \<and> can700 d' = can700 d"
  using assms by (auto simp: snap_media_def add_photos_eq)

lemma length_frame_media: "length (frame_media s mm) \<le> photo_count mm + 2"
  by (simp add: frame_media_def Let_def)

definition alert_type :: "u8 \<Rightarrow> bool" where
  "alert_type type \<longleftrightarrow> type = SB_WARN_TYPE_FCW \<or> type = SB_WARN_TYPE_LDW \<or> type = SB_WARN_TYPE_HW
     \<or> type = SB_WARN_TYPE_PCW \<or> type = SB_WARN_TYPE_FLC"

definition adas_store :: "u8 \<Rightarrow> device \<Rightarrow> InfoForStore" where
  "adas_store type d =
     (get_adas_Info_for_store (adas_para (d_paras d)) type InfoForStore_zero)\<lparr>st_warn_type := type\<rparr>"

lemma photo_count_alert: "alert_type type \<Longrightarrow> photo_count (adas_store type d) < WARN_SNAP_NUM_MAX"
  by (auto simp: alert_type_def adas_store_def get_adas_Info_for_store_def photo_count_def Let_def
      InfoForStore_zero_def WARN_SNAP_NUM_MAX_def)

lemma photo_count_snap:
  "photo_count (adas_store SB_WARN_TYPE_SNAP d) = unat (photo_num (adas_para (d_paras d)))"
  "st_photo_enable (adas_store SB_WARN_TYPE_SNAP d) = 1"
  by (simp_all add: adas_store_def get_adas_Info_for_store_def photo_count_def Let_def)


section \<open>Warning frames\<close>

text \<open>The frame of an alert before its media are filled in.\<close>

definition adas_head :: "env \<Rightarrow> u8 \<Rightarrow> u8 \<Rightarrow> AdasWarnFrame \<Rightarrow> device \<Rightarrow> AdasWarnFrame" where
  "adas_head e type flag f d = get_real_time_msg d (f\<lparr>aw_time := buf2BCD (e_localtime e), aw_status_flag := flag,
     aw_warning_id := htonl (s_warning_id d + 1), aw_sound_type := type, aw_mm_num := 0\<rparr>)"

lemma get_real_time_msg_upd [simp]:
  "get_real_time_msg (d\<lparr>s_warning_id := w\<rparr>) f = get_real_time_msg d f"
  by (simp add: get_real_time_msg_def RealTimeDdata_process_def)

lemma build_adas_END:
  "build_adas_warn_frame e type SB_WARN_STATUS_END f d =
     Inr ((adas_head e type SB_WARN_STATUS_END f d)\<lparr>aw_mm := take (unat (s_media_num d)) (s_media_begin d),
            aw_mm_num := s_media_num d\<rparr>, d\<lparr>s_warning_id := s_warning_id d + 1\<rparr>)"
  by (simp add: build_adas_warn_frame_def get_warning_id adas_head_def Let_def)

lemma build_adas_alert:
  assumes "alert_type type" "flag = SB_WARN_STATUS_NONE \<or> flag = SB_WARN_STATUS_BEGIN"
  shows "\<exists>d'. build_adas_warn_frame e type flag f d =
      Inr ((adas_head e type flag f d)\<lparr>aw_mm := frame_media (s_mm_id d) (adas_store type d),
             aw_mm_num := of_nat (length (frame_media (s_mm_id d) (adas_store type d)))\<rparr>, d') \<and>
    s_mm_id d' = s_mm_id d + of_nat (length (frame_media (s_mm_id d) (adas_store type d))) \<and>
    can700 d' = can700 d \<and> d_paras d' = d_paras d \<and> s_warning_id d' = s_warning_id d + 1 \<and>
    (flag = SB_WARN_STATUS_BEGIN \<longrightarrow>
       take (unat (s_media_num d')) (s_media_begin d') = frame_media (s_mm_id d) (adas_store type d))"
proof -
  let ?d = "d\<lparr>s_warning_id := s_warning_id d + 1\<rparr>"
  let ?ms = "frame_media (s_mm_id d) (adas_store type d)"
  have len: "length ?ms \<le> 11"
    using length_frame_media [of "s_mm_id d" "adas_store type d"] photo_count_alert [OF assms(1), of d]
    by (simp add: WARN_SNAP_NUM_MAX_def)
  then have num: "unat (of_nat (length ?ms) :: u8) = length ?ms"
    by (simp add: unat_of_nat)
  obtain d' where d': "alert_media e (adas_store type d) ?d = Inr (?ms, d')"
      "s_mm_id d' = s_mm_id d + of_nat (length ?ms)" "d_paras d' = d_paras d" "can700 d' = can700 d"
      "s_warning_id d' = s_warning_id d + 1"
    using alert_media_eq [of "adas_store type d" e ?d] photo_count_alert [OF assms(1), of d] by auto
  show ?thesis
    using assms len d' num unfolding alert_type_def
    by (cases "flag = SB_WARN_STATUS_BEGIN")
      (simp_all add: build_adas_warn_frame_def get_warning_id adas_head_def Let_def
        adas_store_def [symmetric] )
qed

lemma build_adas_frame_shape:
  assumes "build_adas_warn_frame e type flag f d = Inr (f', d')"
  shows "\<exists>ms n. f' = (adas_head e type flag f d)\<lparr>aw_mm := ms, aw_mm_num := n\<rparr>"
proof (cases "flag = SB_WARN_STATUS_END")
  case True
  then show ?thesis using assms by (auto simp: build_adas_END)
next
  case False
  show ?thesis
    using assms False
    by (simp add: build_adas_warn_frame_def get_warning_id Let_def bindE_Inr_iff adas_head_def
        split: prod.splits if_split_asm) metis+
qed

lemma build_adas_snap:
  assumes "unat (photo_num (adas_para (d_paras d))) \<le> WARN_SNAP_NUM_MAX"
  shows "\<exists>f' d'. build_adas_warn_frame e SB_WARN_TYPE_SNAP SB_WARN_STATUS_NONE f d = Inr (f', d')"
  using snap_media_eq [of "adas_store SB_WARN_TYPE_SNAP d" e "d\<lparr>s_warning_id := s_warning_id d + 1\<rparr>"] assms
  by (auto simp: photo_count_snap build_adas_warn_frame_def get_warning_id Let_def adas_store_def [symmetric])

lemma send_adas_warn_frame [simp]:
  "can700 (send_adas_warn e f d) = can700 d" "d_paras (send_adas_warn e f d) = d_paras d"
  "d_config (send_adas_warn e f d) = d_config d" "s_mm_id (send_adas_warn e f d) = s_mm_id d"
  "rt_msg (send_adas_warn e f d) = rt_msg d"
  by (simp_all add: send_adas_warn_def)

section \<open>The CAN handler\<close>

lemma build_adas_alert_safe [safe_intros]:
  "alert_type type \<Longrightarrow> flag = SB_WARN_STATUS_NONE \<or> flag = SB_WARN_STATUS_BEGIN \<Longrightarrow>
   safe (build_adas_warn_frame e type flag f d)"
  using build_adas_alert [of type flag e f d] by (auto simp: safe_def)

lemma ldw_stage_safe [safe_intros]: "safe (ldw_stage e can f d)"
  unfolding ldw_stage_def Let_def split_beta by (intro safe_intros) (auto simp: alert_type_def)

lemma fcw_stage_safe [safe_intros]: "safe (fcw_stage e can f d)"
  unfolding fcw_stage_def Let_def split_beta by (intro safe_intros) (auto simp: alert_type_def)

lemma headway_stage_safe [safe_intros]: "safe (headway_stage e can f d)"
  unfolding headway_stage_def Let_def split_beta build_adas_END by (intro safe_intros) (auto simp: alert_type_def)


section \<open>Files, timers and snapshots\<close>

definition cleared_ids :: "InfoForStore \<Rightarrow> u32 list" where
  "cleared_ids mm = (if st_photo_enable mm \<noteq> 0 then take (unat (st_photo_num mm)) (st_photo_id mm) else [])
     @ (if st_video_enable mm \<noteq> 0 then [st_video_id mm ! 0] else [])"

definition cleared_names :: "build \<Rightarrow> InfoForStore \<Rightarrow> string set" where
  "cleared_names b mm = mmid_to_filename b ` (set (cleared_ids mm) \<union>
     {i - SAVE_MEDIA_NUM_MAX | i. i \<in> set (cleared_ids mm) \<and> SAVE_MEDIA_NUM_MAX < i})"

lemma fold_remove_file:
  "d_files (fold (\<lambda>i. remove_file (g i)) is d) p = (if p \<in> g ` set is then None else d_files d p)"
  by (induction "is" arbitrary: d) auto

lemma d_files_remove_old:
  "d_files (remove_old b i d) p =
     (if SAVE_MEDIA_NUM_MAX < i \<and> p = mmid_to_filename b (i - SAVE_MEDIA_NUM_MAX) then None else d_files d p)"
  by (simp add: remove_old_def)

lemma fold_remove_old:
  "d_files (fold (remove_old b) is d) p =
     (if p \<in> mmid_to_filename b ` {i - SAVE_MEDIA_NUM_MAX | i. i \<in> set is \<and> SAVE_MEDIA_NUM_MAX < i}
      then None else d_files d p)"
  by (induction "is" arbitrary: d) (auto simp: d_files_remove_old)

primrec heart_beats :: "env \<Rightarrow> int \<Rightarrow> nat \<Rightarrow> device \<Rightarrow> device" where
  "heart_beats e t 0 d = d"
| "heart_beats e t (Suc n) d = check_heart_beat (e\<lparr>e_now := t + int n + 1\<rparr>) (heart_beats e t n d)"

lemma heart_beats_waiting:
  assumes "use_heart (d_config d) \<noteq> 0" "connect_status d" "\<not> heart_beat_status d" "hb_count d = 0"
    "hb_record_last d = t" "n < unat (check_heart_period (d_config d))"
  shows "heart_beats e t n d = d\<lparr>hb_record_last := t + int n, hb_count := of_nat n\<rparr>"
  using assms(6)
proof (induction n)
  case 0
  then show ?case using assms by simp
next
  case (Suc n)
  moreover have "unat (check_heart_period (d_config d)) < 2 ^ 32"
    using unsigned_less [of "check_heart_period (d_config d)"] by simp
  ultimately have "unat (1 + of_nat n :: u32) = Suc n"
    by (simp add: unat_of_nat flip: of_nat_Suc)
  then have "1 + of_nat n < check_heart_period (d_config d)"
    using Suc.prems by (simp add: word_less_nat_alt)
  then show ?case
    using Suc assms
    by (simp add: check_heart_beat_def limit_record_time_def process_socket_status_def heart_beat_process_def
        Let_def add_ac not_le)
qed

lemma build_dms_snap:
  "(\<exists>r. build_dms_warn_frame e DMS_SANPSHOT_EVENT SB_WARN_STATUS_NONE f d = Inr r) \<longleftrightarrow>
     unat (photo_num (dms_para (d_paras d))) \<le> WARN_SNAP_NUM_MAX"
  "WARN_SNAP_NUM_MAX < unat (photo_num (dms_para (d_paras d))) \<Longrightarrow>
   build_dms_warn_frame e DMS_SANPSHOT_EVENT SB_WARN_STATUS_NONE f d = Inl Overrun_photo_id"
  by (auto simp: build_dms_warn_frame_def get_warning_id get_dms_Info_for_store_def snap_media_def
      add_photos_eq photo_count_def Let_def)

lemma do_snap_shot_dms:
  assumes "e_build e = ENABLE_DMS"
  shows "do_snap_shot e d = Inl Overrun_photo_id \<longleftrightarrow> WARN_SNAP_NUM_MAX < unat (photo_num (dms_para (d_paras d)))"
proof (cases "WARN_SNAP_NUM_MAX < unat (photo_num (dms_para (d_paras d)))")
  case True
  then show ?thesis using assms by (simp add: do_snap_shot_def build_dms_snap(2))
next
  case False
  then obtain r where "build_dms_warn_frame e DMS_SANPSHOT_EVENT SB_WARN_STATUS_NONE (e_dframe e) d = Inr r"
    using build_dms_snap(1) [of e "e_dframe e" d] by auto
  then show ?thesis using assms False by (simp add: do_snap_shot_def split_beta)
qed

lemma do_snap_shot_adas_safe:
  assumes "e_build e = ENABLE_ADAS" "adas_para_ok (adas_para (d_paras d))"
  shows "safe (do_snap_shot e d)"
proof -
  have "photo_num (adas_para (d_paras d)) \<le> 10"
    using assms(2) by (simp add: adas_para_ok_def base_para_ok_def in_range_def)
  then have "unat (photo_num (adas_para (d_paras d))) \<le> WARN_SNAP_NUM_MAX"
    by (simp add: WARN_SNAP_NUM_MAX_def word_le_nat_alt)
  then show ?thesis
    using build_adas_snap [of d e "e_aframe e"] assms(1) by (auto simp: do_snap_shot_def safe_def)
qed

section \<open>Properties\<close>

text \<open>no CAN 0x700 message, in no state of the device and for no parameters, makes its handler overrun
  the photo ids, the frame or the saved media of a headway alert: the alerts it raises record fewer
  than ten photos and two videos.\<close>

theorem can700_never_overruns: "\<exists>d'. deal_wsi_adas_can700 e warning d = Inr d'"
proof -
  have "safe (deal_wsi_adas_can700 e warning d)"
    unfolding deal_wsi_adas_can700_def Let_def split_beta by (intro safe_intros)
  then show ?thesis by (simp add: safe_def)
qed

lemma asked_for:
  assumes "p = adas_para (d_paras d)"
    and "(type, photos, video) \<in> {(SB_WARN_TYPE_FCW, FCW_photo_num p, FCW_video_time p),
      (SB_WARN_TYPE_LDW, LDW_photo_num p, LDW_video_time p), (SB_WARN_TYPE_HW, HW_photo_num p, HW_video_time p),
      (SB_WARN_TYPE_PCW, PCW_photo_num p, PCW_video_time p), (SB_WARN_TYPE_FLC, FLC_photo_num p, FLC_video_time p)}"
  shows "st_photo_num (adas_store type d) = photos"
    and "st_photo_enable (adas_store type d) \<noteq> 0 \<longleftrightarrow> photos \<noteq> 0 \<and> unat photos < 10"
    and "st_video_enable (adas_store type d) \<noteq> 0 \<longleftrightarrow> video \<noteq> 0"
proof -
  note defs = adas_store_def get_adas_Info_for_store_def Let_def InfoForStore_zero_def WARN_SNAP_NUM_MAX_def
  from assms(2) consider "type = SB_WARN_TYPE_FCW" "photos = FCW_photo_num p" "video = FCW_video_time p"
    | "type = SB_WARN_TYPE_LDW" "photos = LDW_photo_num p" "video = LDW_video_time p"
    | "type = SB_WARN_TYPE_HW" "photos = HW_photo_num p" "video = HW_video_time p"
    | "type = SB_WARN_TYPE_PCW" "photos = PCW_photo_num p" "video = PCW_video_time p"
    | "type = SB_WARN_TYPE_FLC" "photos = FLC_photo_num p" "video = FLC_video_time p"
    by auto
  note all = this
  show "st_photo_num (adas_store type d) = photos" by (cases rule: all) (simp_all add: defs assms(1))
  show "st_photo_enable (adas_store type d) \<noteq> 0 \<longleftrightarrow> photos \<noteq> 0 \<and> unat photos < 10"
    by (cases rule: all) (simp_all add: defs assms(1))
  show "st_video_enable (adas_store type d) \<noteq> 0 \<longleftrightarrow> video \<noteq> 0"
    by (cases rule: all) (simp_all add: defs assms(1))
qed

text \<open>C29: the contents of an alert frame, for each of the five alerts with the photo number and the video time
  that the parameters have for it. The alert gets the next warning id; its media are one photo entry per
  photo asked for (none for zero, and none from ten on), followed, when the video time is not zero, by two
  videos, with consecutive new ids in network byte order; a headway begin remembers exactly these entries;
  speed, position, time and status of the car are those of the last real-time message.\<close>

theorem alert_frame_contents:
  assumes "p = adas_para (d_paras d)"
    and "(type, photos, video) \<in> {(SB_WARN_TYPE_FCW, FCW_photo_num p, FCW_video_time p),
      (SB_WARN_TYPE_LDW, LDW_photo_num p, LDW_video_time p), (SB_WARN_TYPE_HW, HW_photo_num p, HW_video_time p),
      (SB_WARN_TYPE_PCW, PCW_photo_num p, PCW_video_time p), (SB_WARN_TYPE_FLC, FLC_photo_num p, FLC_video_time p)}"
    and "flag = SB_WARN_STATUS_NONE \<or> flag = SB_WARN_STATUS_BEGIN"
    and "n = (if unat photos < 10 then unat photos else 0)" "i = s_mm_id d"
  shows "\<exists>f' d'. build_adas_warn_frame e type flag f d = Inr (f', d') \<and>
    aw_warning_id f' = htonl (s_warning_id d + 1) \<and> s_warning_id d' = s_warning_id d + 1 \<and>
    aw_sound_type f' = type \<and> aw_status_flag f' = flag \<and>
    aw_mm f' = map (\<lambda>k. \<lparr>mmh_type = MM_PHOTO, mmh_id = htonl (i + of_nat (Suc k))\<rparr>) [0..<n] @
      (if video = 0 then [] else [\<lparr>mmh_type = MM_VIDEO, mmh_id = htonl (i + of_nat n + 1)\<rparr>,
        \<lparr>mmh_type = MM_VIDEO, mmh_id = htonl (i + of_nat n + 2)\<rparr>]) \<and>
    unat (aw_mm_num f') = length (aw_mm f') \<and> s_mm_id d' = i + of_nat (length (aw_mm f')) \<and>
    aw_time f' = rt_time (rt_msg d) \<and> aw_latitude f' = rt_latitude (rt_msg d) \<and>
    aw_longitude f' = rt_longitude (rt_msg d) \<and> aw_altitude f' = rt_altitude (rt_msg d) \<and>
    aw_car_speed f' = rt_car_speed (rt_msg d) \<and> aw_car_status f' = rt_car_status (rt_msg d) \<and>
    (flag = SB_WARN_STATUS_BEGIN \<longrightarrow> take (unat (s_media_num d')) (s_media_begin d') = aw_mm f')"
proof -
  have t: "alert_type type" using assms(2) by (auto simp: alert_type_def)
  have len: "length (frame_media (s_mm_id d) (adas_store type d)) \<le> 11"
    using length_frame_media [of "s_mm_id d" "adas_store type d"] photo_count_alert [OF t, of d]
    by (simp add: WARN_SNAP_NUM_MAX_def)
  have store: "photo_count (adas_store type d) = n" "st_video_enable (adas_store type d) \<noteq> 0 \<longleftrightarrow> video \<noteq> 0"
    using asked_for [OF assms(1,2)] assms(4) by (auto simp: photo_count_def)
  then have media: "frame_media i (adas_store type d) =
      map (\<lambda>k. \<lparr>mmh_type = MM_PHOTO, mmh_id = htonl (i + of_nat (Suc k))\<rparr>) [0..<n] @
      (if video = 0 then [] else [\<lparr>mmh_type = MM_VIDEO, mmh_id = htonl (i + of_nat n + 1)\<rparr>,
        \<lparr>mmh_type = MM_VIDEO, mmh_id = htonl (i + of_nat n + 2)\<rparr>])"
    by (simp add: frame_media_def mm_ids_def mm_photo_def mm_video_def assms(5) Let_def)
  show ?thesis
    using build_adas_alert [OF t assms(3), of e f d] len unfolding assms(5) [symmetric] media [symmetric]
    by (auto simp: adas_head_def get_real_time_msg_def RealTimeDdata_process_def unat_of_nat Let_def)
qed

theorem alert_frame_contents_witness:
  "\<exists>f' d'. build_adas_warn_frame (idle_env ENABLE_ADAS) SB_WARN_TYPE_HW SB_WARN_STATUS_BEGIN
      (e_aframe (idle_env ENABLE_ADAS)) idle_device = Inr (f', d') \<and>
    aw_mm f' = [mm_photo 1, mm_photo 2, mm_photo 3, mm_video 4, mm_video 5]"
proof -
  have p: "HW_photo_num (adas_para (d_paras idle_device)) = 3" "HW_video_time (adas_para (d_paras idle_device)) = 5"
      "s_mm_id idle_device = 0"
    by (simp_all add: idle_device_def boot_paras_def adas_default_def)
  show ?thesis
    using alert_frame_contents [of "adas_para (d_paras idle_device)" idle_device SB_WARN_TYPE_HW 3 5 SB_WARN_STATUS_BEGIN
        3 0 "idle_env ENABLE_ADAS" "e_aframe (idle_env ENABLE_ADAS)"] p
    by (auto simp: upt_rec mm_photo_def mm_video_def)
qed


text \<open>the end of a headway alert carries the same media entries as its begin, as long as no other
  headway begin came in between.\<close>

theorem headway_end_same_media:
  assumes "build_adas_warn_frame e SB_WARN_TYPE_HW SB_WARN_STATUS_BEGIN f d = Inr (f1, d1)"
    "s_media_begin d2 = s_media_begin d1" "s_media_num d2 = s_media_num d1"
  shows "\<exists>f2 d3. build_adas_warn_frame e' SB_WARN_TYPE_HW SB_WARN_STATUS_END g d2 = Inr (f2, d3) \<and>
    aw_mm f2 = aw_mm f1 \<and> unat (aw_mm_num f2) = length (aw_mm f1) \<and> aw_status_flag f2 = SB_WARN_STATUS_END"
proof -
  have t: "alert_type SB_WARN_TYPE_HW" by (simp add: alert_type_def)
  have len: "length (frame_media (s_mm_id d) (adas_store SB_WARN_TYPE_HW d)) \<le> 11"
    using length_frame_media [of "s_mm_id d" "adas_store SB_WARN_TYPE_HW d"] photo_count_alert [OF t, of d]
    by (simp add: WARN_SNAP_NUM_MAX_def)
  have f1: "aw_mm f1 = frame_media (s_mm_id d) (adas_store SB_WARN_TYPE_HW d)"
      "take (unat (s_media_num d1)) (s_media_begin d1) = aw_mm f1"
    using build_adas_alert [OF t, of SB_WARN_STATUS_BEGIN e f d] assms(1) by auto
  have "unat (s_media_num d1) = length (aw_mm f1)"
    using assms(1) len f1(1) alert_media_eq [of "adas_store SB_WARN_TYPE_HW d" e "d\<lparr>s_warning_id := s_warning_id d + 1\<rparr>"]
      photo_count_alert [OF t, of d]
    by (auto simp: build_adas_warn_frame_def get_warning_id Let_def adas_store_def [symmetric] unat_of_nat)
  then show ?thesis
    using f1 assms(2,3) by (simp add: build_adas_END adas_head_def get_real_time_msg_def Let_def)
qed

theorem headway_end_same_media_witness:
  "\<exists>f1 d1 f2 d3. build_adas_warn_frame (idle_env ENABLE_ADAS) SB_WARN_TYPE_HW SB_WARN_STATUS_BEGIN
      (e_aframe (idle_env ENABLE_ADAS)) idle_device = Inr (f1, d1) \<and>
    build_adas_warn_frame (idle_env ENABLE_ADAS) SB_WARN_TYPE_HW SB_WARN_STATUS_END f1 d1 = Inr (f2, d3) \<and>
    aw_mm f2 = aw_mm f1"
proof -
  obtain f1 d1 where b: "build_adas_warn_frame (idle_env ENABLE_ADAS) SB_WARN_TYPE_HW SB_WARN_STATUS_BEGIN
      (e_aframe (idle_env ENABLE_ADAS)) idle_device = Inr (f1, d1)"
    using build_adas_alert_safe [of SB_WARN_TYPE_HW SB_WARN_STATUS_BEGIN "idle_env ENABLE_ADAS"
        "e_aframe (idle_env ENABLE_ADAS)" idle_device]
    by (auto simp: alert_type_def safe_def)
  then show ?thesis using headway_end_same_media [OF b, of d1] by blast
qed

text \<open>C35: a comment in the handler promises an end for every begin, but the end can be lost. When the message
  that ends the headway alert also carries a lane departure that passes the time filter and is held
  back by the speed filter, the handler jumps to its exit: nothing is sent, the alert stays marked
  as begun, and the level it compares with next time has already moved on.\<close>

theorem headway_end_lost:
  assumes "s_start_flag (can700 d)" "headway_warning_level (g_last_warning_data (can700 d)) = HW_LEVEL_RED_CAR"
    "length warning = 8" "headway_warning_level warning \<noteq> HW_LEVEL_RED_CAR" "left_ldw warning"
    "map2 (AND) warning trigger_warning_masks \<noteq> g_last_trigger_warning (can700 d)"
    "\<not> e_now e - ldw_alert (can700 d) < uint (filter_time (LDW_video_time (adas_para (d_paras d))) d)"
    "\<not> filter_alert_by_speed d"
  shows "\<exists>d'. deal_wsi_adas_can700 e warning d = Inr d' \<and> send_q d' = send_q d \<and> s_start_flag (can700 d') \<and>
    headway_warning_level (g_last_warning_data (can700 d')) = headway_warning_level warning"
proof -
  obtain a b c x y z u v where w: "warning = [a, b, c, x, y, z, u, v]"
    using assms(3) by (auto simp: length_Suc_conv eval_nat_numeral)
  have lvl: "headway_warning_level (map2 (AND) warning all_warning_masks) = headway_warning_level warning"
    by (simp add: w headway_warning_level_def all_warning_masks_def and.assoc)
  have trig: "map2 (AND) warning trigger_warning_masks ! 4 \<noteq> 0"
  proof
    assume "map2 (AND) warning trigger_warning_masks ! 4 = 0"
    then have "bit (y AND 0x0E) 1 = bit (0 :: u8) 1" by (simp add: w trigger_warning_masks_def)
    then show False using assms(5) by (simp add: w left_ldw_def bit_simps)
  qed
  have "ldw_stage e warning (e_aframe e) d =
      Inr (True, e_aframe e, d\<lparr>can700 := (can700 d)\<lparr>ldw_alert := e_now e\<rparr>\<rparr>)"
    using assms(5,7,8)
    by (simp add: ldw_stage_def filter_alert_by_time_def filter_alert_by_speed_def RealTimeDdata_process_def
        Let_def split: if_splits)
  then show ?thesis
    using assms lvl trig by (auto simp: deal_wsi_adas_can700_def Let_def)
qed

lemma replicate_8: "replicate 8 x = [x, x, x, x, x, x, x, x]"
  by (simp add: eval_nat_numeral)

theorem headway_end_lost_witness:
  "\<exists>d'. deal_wsi_adas_can700 (idle_env ENABLE_ADAS) [0, 0, 0, 0, 2, 0, 0, 0]
     (idle_device\<lparr>can700 := (can700 idle_device)\<lparr>s_start_flag := True, g_last_warning_data := [0, 0, 0, 0, 0, 0, 0, 2]\<rparr>,
        d_config := idle_config\<lparr>speed_filter_enable := 1\<rparr>\<rparr>) = Inr d' \<and> send_q d' = [] \<and> s_start_flag (can700 d')"
proof -
  let ?d = "idle_device\<lparr>can700 := (can700 idle_device)\<lparr>s_start_flag := True, g_last_warning_data := [0, 0, 0, 0, 0, 0, 0, 2]\<rparr>,
        d_config := idle_config\<lparr>speed_filter_enable := 1\<rparr>\<rparr>"
  have "\<exists>d'. deal_wsi_adas_can700 (idle_env ENABLE_ADAS) [0, 0, 0, 0, 2, 0, 0, 0] ?d = Inr d' \<and>
      send_q d' = send_q ?d \<and> s_start_flag (can700 d') \<and>
      headway_warning_level (g_last_warning_data (can700 d')) = headway_warning_level [0, 0, 0, 0, 2, 0, 0, 0]"
    by (rule headway_end_lost)
      (simp_all add: headway_warning_level_def left_ldw_def trigger_warning_masks_def idle_device_def idle_env_def
        idle_config_def filter_time_def boot_paras_def adas_default_def filter_alert_by_speed_def
        RealTimeDdata_process_def bit_simps replicate_8)
  then show ?thesis by (auto simp: idle_device_def)
qed


text \<open>retention. Before an alert records its media, the files with its new ids and the files whose ids
  are exactly 1000 older are removed, and no other file is touched.\<close>

theorem retention_window:
  "d_files (clear_old_media_file b mm d) path =
     (if path \<in> cleared_names b mm then None else d_files d path)"
proof -
  let ?ph = "if st_photo_enable mm \<noteq> 0 then take (unat (st_photo_num mm)) (st_photo_id mm) else []"
  let ?vs = "if st_video_enable mm \<noteq> 0 then [st_video_id mm ! 0] else []"
  let ?new = "\<lambda>is. mmid_to_filename b ` set is"
  let ?old = "\<lambda>is. mmid_to_filename b ` {i - SAVE_MEDIA_NUM_MAX | i. i \<in> set is \<and> SAVE_MEDIA_NUM_MAX < i}"
  have "clear_old_media_file b mm d =
      fold (\<lambda>i. remove_file (mmid_to_filename b i)) ?vs (fold (remove_old b) ?vs
        (fold (\<lambda>i. remove_file (mmid_to_filename b i)) ?ph (fold (remove_old b) ?ph d)))"
    by (simp add: clear_old_media_file_def Let_def)
  moreover have "cleared_names b mm = ?new ?vs \<union> ?old ?vs \<union> ?new ?ph \<union> ?old ?ph"
    unfolding cleared_names_def cleared_ids_def set_append by blast
  ultimately show ?thesis by (simp only: fold_remove_file fold_remove_old) (simp only: Un_iff split: if_split, blast)
qed

text \<open>C36: the heart beat timeout. With the check enabled, while the device is connected and no heart beat
  arrives, the connection stays open for the first \<open>period - 1\<close> checks, one second apart. The check number
  \<open>period\<close> closes the descriptor of the connection, marks it as closed and restarts the count.\<close>

theorem heart_beat_timeout:
  assumes "use_heart (d_config d) \<noteq> 0" "connect_status d" "\<not> heart_beat_status d" "hb_count d = 0"
    "hb_record_last d = t" "0 < check_heart_period (d_config d)" "0 < d_fd d"
    and "d' = heart_beats e t (unat (check_heart_period (d_config d))) d"
  shows "(n < unat (check_heart_period (d_config d)) \<longrightarrow>
      connect_status (heart_beats e t n d) \<and> d_closed (heart_beats e t n d) = d_closed d) \<and>
    d_closed d' = d_fd d # d_closed d \<and> \<not> connect_status d' \<and> hb_count d' = 0"
proof -
  let ?p = "check_heart_period (d_config d)"
  obtain k where k: "unat ?p = Suc k" using assms(6) by (metis gr0_implies_Suc unat_gt_0 word_gt_0)
  have before: "heart_beats e t k d = d\<lparr>hb_record_last := t + int k, hb_count := of_nat k\<rparr>"
    using assms k by (intro heart_beats_waiting) auto
  have "?p = of_nat (unat ?p)" by simp
  then have "1 + of_nat k = ?p" unfolding k by simp
  then have "d_closed d' = d_fd d # d_closed d \<and> \<not> connect_status d' \<and> hb_count d' = 0"
    using assms(1-7) before unfolding assms(8) k
    by (simp add: check_heart_beat_def limit_record_time_def process_socket_status_def heart_beat_process_def
        tcp_socket_close_def handle_close_def Let_def add_ac)
  moreover have "n < unat ?p \<longrightarrow> connect_status (heart_beats e t n d) \<and> d_closed (heart_beats e t n d) = d_closed d"
    using heart_beats_waiting [OF assms(1-5), of n e] assms(2) by simp
  ultimately show ?thesis by simp
qed

theorem heart_beat_timeout_witness:
  "\<not> connect_status (heart_beats (idle_env ENABLE_ADAS) 0 3
     (idle_device\<lparr>d_config := idle_config\<lparr>use_heart := 1, check_heart_period := 3\<rparr>\<rparr>)) \<and>
   d_closed (heart_beats (idle_env ENABLE_ADAS) 0 3
     (idle_device\<lparr>d_config := idle_config\<lparr>use_heart := 1, check_heart_period := 3\<rparr>\<rparr>)) = [3]"
  using heart_beat_timeout [of "idle_device\<lparr>d_config := idle_config\<lparr>use_heart := 1, check_heart_period := 3\<rparr>\<rparr>"
      0 _ "idle_env ENABLE_ADAS" 0, OF _ _ _ _ _ _ _ refl]
  by (simp add: idle_device_def)

fun let_through :: "int \<Rightarrow> u32 \<Rightarrow> int list \<Rightarrow> int list" where
  "let_through t secs [] = []"
| "let_through t secs (now # ts) =
     (case filter_alert_by_time now t secs of (pass, t') \<Rightarrow>
        (if pass then now # let_through t' secs ts else let_through t' secs ts))"

text \<open>the rate limit of an alert. Of any sequence of alert times, those the time filter lets through are
  at least the configured number of seconds apart.\<close>

theorem alerts_spaced:
  "sorted_wrt (\<lambda>a b. b - a \<ge> uint secs) (t # let_through t secs ts)"
proof (induction ts arbitrary: t)
  case (Cons now ts)
  show ?case
  proof (cases "now - t < uint secs")
    case True
    then show ?thesis using Cons [of t] by (simp add: filter_alert_by_time_def)
  next
    case False
    moreover have "uint secs \<le> a - t" if "uint secs \<le> a - now" for a
      using that False uint_ge_0 [of secs] by linarith
    ultimately show ?thesis using Cons [of now] by (auto simp: filter_alert_by_time_def)
  qed
qed simp


text \<open>the speed filter of the driver monitor. \<open>filter_alert_by_speed\<close> compares with the ADAS threshold
  in both builds: no value of the DMS parameters, in particular of the DMS warning speed, has any
  effect on it.\<close>

theorem dms_speed_threshold_ignored:
  "filter_alert_by_speed (d\<lparr>d_paras := (d_paras d)\<lparr>dms_para := p\<rparr>\<rparr>) = filter_alert_by_speed d"
  by (simp add: filter_alert_by_speed_def RealTimeDdata_process_def)

text \<open>memory safety of a snapshot. With the ADAS parameters in their ranges, which \<open>write_dev_para\<close>
  ensures, a snapshot of the ADAS device stays within its arrays.\<close>

theorem adas_snapshot_safe:
  assumes "e_build e = ENABLE_ADAS" "adas_para_ok (adas_para (d_paras d))"
  shows "\<exists>d'. do_snap_shot e d = Inr d'"
  using do_snap_shot_adas_safe [OF assms] by (simp add: safe_def)

theorem adas_snapshot_safe_witness: "\<exists>d'. do_snap_shot (idle_env ENABLE_ADAS) idle_device = Inr d'"
  by (rule adas_snapshot_safe) (simp_all add: idle_env_def idle_device_def boot_paras_def adas_default_ok)

text \<open>the warning frame handed to \<open>message_queue_send\<close> has the length the builder computes, 31 bytes plus
  five per media entry, and once escaped it fits the 512 byte transmit buffer of the alert handlers.\<close>

theorem alert_frame_fits_txbuf:
  assumes "alert_type type" "flag = SB_WARN_STATUS_NONE \<or> flag = SB_WARN_STATUS_BEGIN"
    "build_adas_warn_frame e type flag f d = Inr (f', d')" "length (rt_time (rt_msg d)) = 6"
  shows "length (AdasWarnFrame_bytes f') = 31 + 5 * unat (aw_mm_num f') \<and>
    length (fst (message_queue_send e' cmd (AdasWarnFrame_bytes f') d'')) \<le> 512"
proof -
  have len: "length (frame_media (s_mm_id d) (adas_store type d)) \<le> 11"
    using length_frame_media [of "s_mm_id d" "adas_store type d"] photo_count_alert [OF assms(1), of d]
    by (simp add: WARN_SNAP_NUM_MAX_def)
  have f': "f' = (adas_head e type flag f d)\<lparr>aw_mm := frame_media (s_mm_id d) (adas_store type d),
      aw_mm_num := of_nat (length (frame_media (s_mm_id d) (adas_store type d)))\<rparr>"
    using build_adas_alert [OF assms(1,2), of e f d] assms(3) by auto
  have "length (AdasWarnFrame_bytes f') = 31 + 5 * length (aw_mm f')"
    using assms(4) by (simp add: f' AdasWarnFrame_bytes_def adas_head_def get_real_time_msg_def
        RealTimeDdata_process_def Let_def)
  then show ?thesis
    using len length_transmit_build_frame(2) [of "e_build e'" "send_serial cmd d''" cmd "AdasWarnFrame_bytes f'"]
    by (simp add: f' message_queue_send_eq unat_of_nat)
qed

theorem alert_frame_fits_txbuf_witness:
  "\<exists>f' d'. build_adas_warn_frame (idle_env ENABLE_ADAS) SB_WARN_TYPE_LDW SB_WARN_STATUS_NONE AdasWarnFrame_zero
      idle_device = Inr (f', d') \<and> length (AdasWarnFrame_bytes f') = 31 + 5 * unat (aw_mm_num f') \<and>
    length (fst (message_queue_send (idle_env ENABLE_ADAS) SAMPLE_CMD_WARNING_REPORT (AdasWarnFrame_bytes f') d')) \<le> 512"
proof -
  obtain f' d' where b: "build_adas_warn_frame (idle_env ENABLE_ADAS) SB_WARN_TYPE_LDW SB_WARN_STATUS_NONE
      AdasWarnFrame_zero idle_device = Inr (f', d')"
    using build_adas_alert_safe [of SB_WARN_TYPE_LDW SB_WARN_STATUS_NONE "idle_env ENABLE_ADAS"
        AdasWarnFrame_zero idle_device]
    by (auto simp: alert_type_def safe_def)
  then show ?thesis
    using alert_frame_fits_txbuf [OF _ _ b] by (auto simp: alert_type_def idle_device_def no_time_def)
qed

text \<open>bytes that no statement writes are transmitted. Of the caller's frame buffer the builder leaves
  the forward car's speed and distance, the lane departure type and the road sign fields as they are. The
  forward collision and headway handlers pass an uninitialised local buffer, or one with the previous
  lane departure in it, and send what it held.\<close>

theorem frame_keeps_buffer_bytes:
  assumes "build_adas_warn_frame e type flag f d = Inr (f', d')"
  shows "aw_forward_car_speed f' = aw_forward_car_speed f \<and>
    aw_forward_car_distance f' = aw_forward_car_distance f \<and> aw_ldw_type f' = aw_ldw_type f \<and>
    aw_load_type f' = aw_load_type f \<and> aw_load_data f' = aw_load_data f"
  using build_adas_frame_shape [OF assms]
  by (auto simp: adas_head_def get_real_time_msg_def Let_def)

theorem frame_keeps_buffer_bytes_witness:
  "\<exists>f' d'. build_adas_warn_frame (idle_env ENABLE_ADAS) SB_WARN_TYPE_FCW SB_WARN_STATUS_NONE
      (AdasWarnFrame_zero\<lparr>aw_ldw_type := 0xAA\<rparr>) idle_device = Inr (f', d') \<and> aw_ldw_type f' = 0xAA"
proof -
  obtain f' d' where b: "build_adas_warn_frame (idle_env ENABLE_ADAS) SB_WARN_TYPE_FCW SB_WARN_STATUS_NONE
      (AdasWarnFrame_zero\<lparr>aw_ldw_type := 0xAA\<rparr>) idle_device = Inr (f', d')"
    using build_adas_alert_safe [of SB_WARN_TYPE_FCW SB_WARN_STATUS_NONE "idle_env ENABLE_ADAS"
        "AdasWarnFrame_zero\<lparr>aw_ldw_type := 0xAA\<rparr>" idle_device]
    by (auto simp: alert_type_def safe_def)
  then show ?thesis using frame_keeps_buffer_bytes [OF b] by auto
qed


text \<open>The mileage is received in network byte order.\<close>

lemma of_le32_sum:
  "of_le32 a b c d = ucast a + 0x100 * ucast b + 0x10000 * ucast c + 0x1000000 * ucast d"
proof -
  have 1: "ucast a OR push_bit 8 (ucast b) = (ucast a + push_bit 8 (ucast b) :: u32)"
    by (rule disjunctive_add_eq_or [symmetric]) (auto simp: bit_eq_iff bit_simps)
  have 2: "(ucast a OR push_bit 8 (ucast b)) OR push_bit 16 (ucast c) =
      ((ucast a OR push_bit 8 (ucast b)) + push_bit 16 (ucast c) :: u32)"
    by (rule disjunctive_add_eq_or [symmetric]) (auto simp: bit_eq_iff bit_simps)
  have 3: "((ucast a OR push_bit 8 (ucast b)) OR push_bit 16 (ucast c)) OR push_bit 24 (ucast d) =
      (((ucast a OR push_bit 8 (ucast b)) OR push_bit 16 (ucast c)) + push_bit 24 (ucast d) :: u32)"
    by (rule disjunctive_add_eq_or [symmetric]) (auto simp: bit_eq_iff bit_simps)
  show ?thesis
    unfolding of_le32_def or.assoc [symmetric] 3 unfolding 2 unfolding 1 by (simp add: push_bit_eq_mult)
qed

lemma ucast_succ: "a \<noteq> 0xFF \<Longrightarrow> (ucast (a + 1 :: u8) :: u32) = ucast a + 1"
proof -
  assume "a \<noteq> 0xFF"
  then have "unat a \<noteq> 255" by (auto simp: word_unat_eq_iff)
  moreover have "unat a < 256" using unsigned_less [of a] by simp
  ultimately have "unat (a + 1) = unat a + 1" and "unat a < 255" by (simp_all add: unat_word_ariths)
  then show ?thesis by (simp add: word_unat_eq_iff unat_word_ariths unsigned_ucast_eq take_bit_nat_eq_self)
qed

lemma htonl_succ:
  assumes "by0 m \<noteq> 0xFF"
  shows "htonl (m + 1) = htonl m + 0x1000000"
proof -
  let ?a = "by0 m" and ?b = "by1 m" and ?c = "by2 m" and ?d = "by3 m"
  have "m + 1 = of_le32 (?a + 1) ?b ?c ?d"
    by (subst of_le32_image [of m, symmetric]) (simp only: of_le32_sum ucast_succ [OF assms], simp)
  then have "htonl (m + 1) = of_le32 ?d ?c ?b (?a + 1)"
    by (simp add: htonl_def)
  also have "\<dots> = of_le32 ?d ?c ?b ?a + 0x1000000"
    unfolding of_le32_sum ucast_succ [OF assms] by simp
  finally show ?thesis by (simp add: htonl_def)
qed


text \<open>snapshots by distance take the mileage as it lies in the message, in network byte order. A car that
  has moved on by one unit of the mileage (0.1 km) takes a snapshot whatever the configured
  distance is, up to its maximum of 60 km: the subtraction of the unswapped values gives 2^24.\<close>

theorem distance_snapshot_unswapped:
  assumes "e_build e = ENABLE_ADAS" "use_heart (d_config d) = 0" "record_speed_enable (d_config d) = 0"
    "auto_photo_mode (adas_para (d_paras d)) = SNAP_SHOT_BY_DISTANCE"
    "auto_photo_distance_period (adas_para (d_paras d)) \<noteq> 0"
    "rt_mileage (rt_msg d) = htonl (m + 1)" "mileage_last l = htonl m" "m \<noteq> 0" "by0 m \<noteq> 0xFF"
  shows "pthread_snap_shot_step e l d =
    bindE (do_snap_shot e d) (\<lambda>d'. Inr (l\<lparr>mileage_last := htonl (m + 1)\<rparr>, d'))"
proof -
  have "htonl m \<noteq> 0" using assms(8) by (metis htonl_htonl htonl_def by0_def by1_def by2_def by3_def
        drop_bit_of_0 of_le32_image ucast_0)
  moreover have "(htonl (m + 1) - htonl m) * 100 = 0x64000000" using htonl_succ [OF assms(9)] by simp
  moreover have "(ucast p :: u32) \<le> 0x64000000" for p :: u16
  proof -
    have "unat p < 65536" using unsigned_less [of p, where ?'a = nat] by simp
    then show ?thesis by (simp add: word_le_nat_alt unsigned_ucast_eq take_bit_nat_eq_self)
  qed
  ultimately show ?thesis
    using assms
    by (simp add: pthread_snap_shot_step_def snap_common_def record_speed_def check_heart_beat_def
        RealTimeDdata_process_def Let_def)
qed

theorem distance_snapshot_unswapped_witness:
  "pthread_snap_shot_step (idle_env ENABLE_ADAS) \<lparr>mileage_last = htonl 16, snap_last = 0\<rparr>
     (idle_device\<lparr>d_paras := boot_paras\<lparr>adas_para := adas_default\<lparr>auto_photo_mode := 2,
        auto_photo_distance_period := 60000\<rparr>\<rparr>, rt_msg := (rt_msg idle_device)\<lparr>rt_mileage := htonl (16 + 1)\<rparr>\<rparr>) =
   bindE (do_snap_shot (idle_env ENABLE_ADAS)
     (idle_device\<lparr>d_paras := boot_paras\<lparr>adas_para := adas_default\<lparr>auto_photo_mode := 2,
        auto_photo_distance_period := 60000\<rparr>\<rparr>, rt_msg := (rt_msg idle_device)\<lparr>rt_mileage := htonl (16 + 1)\<rparr>\<rparr>))
     (\<lambda>d'. Inr (\<lparr>mileage_last = htonl 16, snap_last = 0\<rparr>\<lparr>mileage_last := htonl (16 + 1)\<rparr>, d'))"
  by (rule distance_snapshot_unswapped)
    (simp_all add: idle_env_def idle_device_def idle_config_def by0_def)

end
