(* ===== verification/Commands.thy ===== *)
theory Commands
  imports Alerts "HOL-Library.Signed_Division"
begin

text \<open>
  The receive side of \<open>process.cpp\<close>: the handlers of the commands the host sends, the dispatcher
  \<open>sample_on_cmd\<close> and the parser loop \<open>prot_parse\<close>. A handler gets the whole receive buffer (a
  frame starts at its beginning, and what lies behind the frame is what earlier frames left there)
  and the length of the frame. Some replies are built in the receive buffer itself, so the dispatcher
  returns the buffer as well.
\<close>

definition overwrite :: "u8 list \<Rightarrow> u8 list \<Rightarrow> u8 list" where
  "overwrite buf bytes = bytes @ drop (length bytes) buf"

section \<open>Uploading a media file\<close>

definition set_filepath :: "string \<Rightarrow> device \<Rightarrow> device" where
  "set_filepath path d = d\<lparr>pkg_status := (pkg_status d)\<lparr>ps_filepath := path\<rparr>\<rparr>"

definition find_local_image_name :: "env \<Rightarrow> u32 \<Rightarrow> device \<Rightarrow> int \<times> device" where
  "find_local_image_name e i d =
     (let path = mmid_to_filename (e_build e) i in (GetFileSize path d, set_filepath path d))"

text \<open>\<open>fseek\<close> and \<open>fread\<close> on a file just opened. A negative offset is refused and the position stays at the
  beginning.\<close>

definition fread_at :: "u8 list \<Rightarrow> int \<Rightarrow> nat \<Rightarrow> u8 list" where
  "fread_at content offset count = take count (if offset < 0 then content else drop (nat offset) content)"

definition sample_send_image :: "env \<Rightarrow> device \<Rightarrow> int \<times> device" where
  "sample_send_image e d =
     (if \<not> e_malloc1 e then (1, d) else if \<not> e_malloc2 e then (1, d)
      else let mm = ps_mm (pkg_status d);
               path = mmid_to_filename (e_build e) (pi_id mm);
               d = set_filepath path d
           in case d_files d path of
                None \<Rightarrow> (- 1, d)
              | Some content \<Rightarrow>
                  (let trans_mm = \<lparr>pi_type = pi_type mm, pi_id = htonl (pi_id mm),
                                   pi_packet_total_num = htons (pi_packet_total_num mm),
                                   pi_packet_index = htons (pi_packet_index mm)\<rparr>;
                       offset = int32 (uint (pi_packet_index mm) * int IMAGE_SIZE_PER_PACKET);
                       chunk = fread_at content offset IMAGE_SIZE_PER_PACKET
                   in if length chunk > 0 then
                        let d = snd (message_queue_send e SAMPLE_CMD_UPLOAD_MM_DATA
                                       (MmPacketIndex_bytes trans_mm @ chunk) d)
                        in (0, d\<lparr>pkg_status := (pkg_status d)\<lparr>ps_mm :=
                             (ps_mm (pkg_status d))\<lparr>pi_packet_index := pi_packet_index mm + 1\<rparr>\<rparr>\<rparr>)
                      else (0, d)))"

definition send_mm_req_ack :: "env \<Rightarrow> u8 list \<Rightarrow> nat \<Rightarrow> device \<Rightarrow> int \<times> u8 list \<times> device" where
  "send_mm_req_ack e buf len d =
     (if hdr_cmd (SBProtHeader_at buf) = SAMPLE_CMD_REQ_MM_DATA \<and> \<not> ps_mm_data_trans_waiting (pkg_status d) then
        if len \<noteq> 5 + 8 + 1 then (- 1, buf, d)
        else let mm = SBMmHeader_at (drop 8 buf);
                 mm_id = htonl (mmh_id mm);
                 (filesize, d) = find_local_image_name e mm_id d
             in if filesize > 0 then
                  let (bytes, d) = message_queue_send e SAMPLE_CMD_REQ_MM_DATA [] d;
                      d = d\<lparr>pkg_status := (pkg_status d)\<lparr>ps_mm_data_trans_waiting := True,
                            ps_mm := \<lparr>pi_type = mmh_type mm, pi_id = mm_id,
                              pi_packet_total_num = word_of_int (int32 (filesize + int IMAGE_SIZE_PER_PACKET - 1) sdiv int IMAGE_SIZE_PER_PACKET),
                              pi_packet_index = 0\<rparr>\<rparr>\<rparr>;
                      (ret, d) = sample_send_image e d
                  in (0, overwrite buf bytes, d)
                else (0, buf, d)
      else (- 1, buf, d))"

definition recv_ack_and_send_image :: "env \<Rightarrow> u8 list \<Rightarrow> device \<Rightarrow> int \<times> device" where
  "recv_ack_and_send_image e buf d =
     (let mmack = MmAckInfo_at (drop 8 buf) in
      if ai_ack mmack \<noteq> 0 then (- 1, d)
      else if unat (pi_packet_index (ps_mm (pkg_status d))) = unat (htons (ai_packet_index mmack)) + 1 then
        let d = notice_ack_msg d in
        if pi_packet_total_num (ps_mm (pkg_status d)) = pi_packet_index (ps_mm (pkg_status d)) then
          let d = d\<lparr>pkg_status := (pkg_status d)\<lparr>ps_mm_data_trans_waiting := False\<rparr>\<rparr>
          in (0, d\<lparr>mmlist := snd (delete_mm_resource (pi_id (ps_mm (pkg_status d))) (mmlist d))\<rparr>)
        else (0, snd (sample_send_image e d))
      else (0, d))"

section \<open>Parameters, status and real-time data\<close>

definition write_RealTimeData :: "u8 list \<Rightarrow> nat \<Rightarrow> device \<Rightarrow> device" where
  "write_RealTimeData buf len d =
     (if len = 8 + 1 + 26 then snd (RealTimeDdata_process (RealTimeData_at (drop 8 buf)) WRITE_MSG d) else d)"

definition do_factory_reset :: "env \<Rightarrow> u8 \<Rightarrow> device \<Rightarrow> device" where
  "do_factory_reset e dev_id d =
     (if dev_id = SAMPLE_DEVICE_ID_ADAS then
        let d = d\<lparr>d_paras := set_AdasParaSetting_default (d_paras d)\<rparr>
        in d\<lparr>d_files := snd (write_local_adas_para_file (e_fs e) LOCAL_ADAS_PRAR_FILE (d_paras d) (d_files d))\<rparr>
      else if dev_id = SAMPLE_DEVICE_ID_DMS then
        let d = d\<lparr>d_paras := set_DmsParaSetting_default (d_paras d)\<rparr>
        in d\<lparr>d_files := snd (write_local_dms_para_file (e_fs e) LOCAL_DMS_PRAR_FILE (d_paras d) (d_files d))\<rparr>
      else d)"

text \<open>The swap of the two-byte members between the host's and the wire's byte order.\<close>

definition swap_adas :: "AdasParaSetting \<Rightarrow> AdasParaSetting" where
  "swap_adas p = p\<lparr>auto_photo_time_period := htons (auto_photo_time_period p),
     auto_photo_distance_period := htons (auto_photo_distance_period p)\<rparr>"

definition swap_dms :: "DmsParaSetting \<Rightarrow> DmsParaSetting" where
  "swap_dms p = p\<lparr>auto_photo_time_period := htons (auto_photo_time_period p),
     auto_photo_distance_period := htons (auto_photo_distance_period p),
     Smoke_TimeIntervalThreshold := htons (Smoke_TimeIntervalThreshold p),
     Call_TimeIntervalThreshold := htons (Call_TimeIntervalThreshold p)\<rparr>"

definition recv_para_setting :: "env \<Rightarrow> u8 list \<Rightarrow> nat \<Rightarrow> device \<Rightarrow> device" where
  "recv_para_setting e buf len d =
     (let device_id = hdr_device_id (SBProtHeader_at buf);
          (ret, d) =
            (if device_id = SAMPLE_DEVICE_ID_ADAS \<and> len = 8 + 1 + 50 then
               let para = swap_adas (AdasParaSetting_at (drop 8 buf));
                   d = d\<lparr>d_paras := write_dev_para (AdasParaSetting_bytes para) SAMPLE_DEVICE_ID_ADAS (d_paras d)\<rparr>;
                   (ret, fs) = write_local_adas_para_file (e_fs e) LOCAL_ADAS_PRAR_FILE (d_paras d) (d_files d)
               in (ret, d\<lparr>d_files := fs\<rparr>)
             else if device_id = SAMPLE_DEVICE_ID_DMS \<and> len = 8 + 1 + 43 then
               let para = swap_dms (DmsParaSetting_at (drop 8 buf));
                   d = d\<lparr>d_paras := write_dev_para (DmsParaSetting_bytes para) SAMPLE_DEVICE_ID_DMS (d_paras d)\<rparr>;
                   (ret, fs) = write_local_dms_para_file (e_fs e) LOCAL_DMS_PRAR_FILE (d_paras d) (d_files d)
               in (ret, d\<lparr>d_files := fs\<rparr>)
             else (- 1, d))
      in snd (message_queue_send e SAMPLE_CMD_SET_PARAM [if ret = 0 then 0 else 1] d))"

definition send_para_setting :: "env \<Rightarrow> u8 list \<Rightarrow> nat \<Rightarrow> device \<Rightarrow> device" where
  "send_para_setting e buf len d =
     (let device_id = hdr_device_id (SBProtHeader_at buf) in
      if len = 8 + 1 then
        if device_id = SAMPLE_DEVICE_ID_ADAS then
          snd (message_queue_send e SAMPLE_CMD_GET_PARAM (AdasParaSetting_bytes (swap_adas (adas_para (d_paras d)))) d)
        else if device_id = SAMPLE_DEVICE_ID_DMS then
          snd (message_queue_send e SAMPLE_CMD_GET_PARAM (DmsParaSetting_bytes (swap_dms (dms_para (d_paras d)))) d)
        else d
      else d)"

definition recv_warning_ack :: "nat \<Rightarrow> device \<Rightarrow> device" where
  "recv_warning_ack len d = (if len = 8 + 1 then notice_ack_msg d else d)"

definition recv_upload_status_cmd_ack :: "nat \<Rightarrow> device \<Rightarrow> device" where
  "recv_upload_status_cmd_ack len d = (if len = 8 + 1 then notice_ack_msg d else d)"

definition working_status :: ModuleStatus where
  "working_status = \<lparr>ms_work_status = MODULE_WORKING, ms_errors = 0\<rparr>"

definition reply_work_status :: "env \<Rightarrow> nat \<Rightarrow> device \<Rightarrow> device" where
  "reply_work_status e len d =
     (if len = 8 + 1 then snd (message_queue_send e SAMPLE_CMD_REQ_STATUS (ModuleStatus_bytes working_status) d) else d)"

definition auto_send_work_status :: "env \<Rightarrow> device \<Rightarrow> device" where
  "auto_send_work_status e d =
     snd (message_queue_send e SAMPLE_CMD_UPLOAD_STATUS (ModuleStatus_bytes working_status) d)"

definition send_snap_shot_ack :: "env \<Rightarrow> nat \<Rightarrow> device \<Rightarrow> device" where
  "send_snap_shot_ack e len d =
     (if len = 8 + 1 then snd (message_queue_send e SAMPLE_CMD_SNAP_SHOT [0] d) else d)"

section \<open>Upgrade\<close>

abbreviation (input) UPGRADE_CMD_START :: u8 where "UPGRADE_CMD_START \<equiv> 0x1"
abbreviation (input) UPGRADE_CMD_CLEAN :: u8 where "UPGRADE_CMD_CLEAN \<equiv> 0x2"
abbreviation (input) UPGRADE_CMD_TRANS :: u8 where "UPGRADE_CMD_TRANS \<equiv> 0x3"
abbreviation (input) UPGRADE_CMD_RUN :: u8 where "UPGRADE_CMD_RUN \<equiv> 0x4"

definition UPGRADE_FILE_NAME :: string where "UPGRADE_FILE_NAME = ''/mnt/obb/prot_upgrade/subiao_upgrade.bin''"
definition CLEAN_UPGRADE_BIN :: string where "CLEAN_UPGRADE_BIN = ''rm /mnt/obb/prot_upgrade/subiao_upgrade.bin''"
definition UPGRADE_FILE_CMD :: string where "UPGRADE_FILE_CMD = ''/data/prot_upgrade.sh''"

text \<open>\<open>system\<close>: the command is recorded; the two \<open>rm\<close> commands remove the upgrade file.\<close>

definition system :: "string \<Rightarrow> device \<Rightarrow> device" where
  "system cmd d = (let d = d\<lparr>shell := cmd # shell d\<rparr>
     in if cmd = CLEAN_UPGRADE_BIN then remove_file UPGRADE_FILE_NAME d else d)"

text \<open>\<open>system(UPGRADE_FILE_CMD)\<close> returns when the script has ended.\<close>

definition run_upgrade_script :: "env \<Rightarrow> device \<Rightarrow> device" where
  "run_upgrade_script e d =
     (let d = system UPGRADE_FILE_CMD d in d\<lparr>d_files := prot_upgrade_sh (e_upgrade e) (d_files d)\<rparr>)"

definition get_sum :: "u8 list \<Rightarrow> u32" where
  "get_sum buf = fold (\<lambda>b sum. sum + ucast b) buf 0"

text \<open>\<open>lseek\<close> and \<open>write\<close> on a file opened with \<open>O_RDWR | O_CREAT\<close>: a gap before the offset is
  filled with zeros.\<close>

definition write_at :: "u8 list \<Rightarrow> nat \<Rightarrow> u8 list \<Rightarrow> u8 list" where
  "write_at content off data =
     (let c = content @ replicate (off - length content) 0
      in take off c @ data @ drop (off + length data) c)"

definition upgrade_write :: "env \<Rightarrow> nat \<Rightarrow> u8 list \<Rightarrow> device \<Rightarrow> int \<times> device" where
  "upgrade_write e off data d =
     (if \<not> fs_open (e_fs e) UPGRADE_FILE_NAME then (- 1, d)
      else let old = (case d_files d UPGRADE_FILE_NAME of None \<Rightarrow> [] | Some c \<Rightarrow> c);
               data = take (fs_room (e_fs e)) data
           in (int (length data), d\<lparr>d_files := (d_files d)(UPGRADE_FILE_NAME \<mapsto> write_at old off data)\<rparr>))"

definition upgrade_ack :: "env \<Rightarrow> u8 list \<Rightarrow> device \<Rightarrow> device" where
  "upgrade_ack e data d = snd (message_queue_send e SAMPLE_CMD_UPGRADE data d)"

text \<open>A data packet: the bytes are written at the running offset, and the last packet compares the sums.\<close>

definition recv_upgrade_data :: "env \<Rightarrow> u8 list \<Rightarrow> nat \<Rightarrow> u32 \<Rightarrow> u32 \<Rightarrow> device \<Rightarrow> device outcome" where
  "recv_upgrade_data e pchar len packet_num packet_index d =
     (if len < 8 + 1 + 5 then Inl Negative_length
      else let data = take (len - (8 + 1 + 5)) (drop 5 pchar);
               (ret, d) = upgrade_write e (unat (up_offset (up d))) data d;
               d = (if ret > 0 then d\<lparr>up := (up d)\<lparr>up_offset := up_offset (up d) + word_of_int ret\<rparr>\<rparr> else d);
               d = d\<lparr>up := (up d)\<lparr>up_sum_new := up_sum_new (up d) + get_sum data\<rparr>\<rparr>
           in if packet_index + 1 = packet_num then
                if up_sum_new (up d) = up_sum (up d)
                then Inr (upgrade_ack e (take 5 pchar @ [0]) (run_upgrade_script e d))
                else Inr (upgrade_ack e (take 5 pchar @ [1]) d)
              else Inr (upgrade_ack e (take 5 pchar @ [0]) d))"

definition recv_upgrade_file :: "env \<Rightarrow> u8 list \<Rightarrow> nat \<Rightarrow> device \<Rightarrow> device outcome" where
  "recv_upgrade_file e buf len d =
     (let pchar = drop 8 buf; message_id = pchar ! 0 in
      if message_id = UPGRADE_CMD_START \<or> message_id = UPGRADE_CMD_CLEAN \<or> message_id = UPGRADE_CMD_RUN then
        let d = (if message_id = UPGRADE_CMD_CLEAN then system CLEAN_UPGRADE_BIN d else d)
        in if message_id = UPGRADE_CMD_RUN then
             let d = upgrade_ack e [message_id, 0] d;
                 d = system ''killall AdasProt'' (system ''killall DsmProt'' d)
             in Inr (d\<lparr>exited := True\<rparr>)
           else Inr (upgrade_ack e [message_id, 0] d)
      else if message_id = UPGRADE_CMD_TRANS then
        let packet_num = ucast (htons (u16_at pchar 1));
            packet_index = ucast (htons (u16_at pchar 3));
            d = d\<lparr>up := (up d)\<lparr>up_packet_num := packet_num, up_packet_index := packet_index\<rparr>\<rparr>
        in if packet_index = 0 then
             let d = system CLEAN_UPGRADE_BIN d;
                 d = d\<lparr>up := (up d)\<lparr>up_sum := htonl (u32_at pchar 5)\<rparr>\<rparr>
             in Inr (upgrade_ack e (take 5 pchar @ [0]) d)
           else recv_upgrade_data e pchar len packet_num packet_index d
      else Inr d)"

section \<open>Dispatch\<close>

definition str15 :: "string \<Rightarrow> u8 list" where
  "str15 s = map of_char s @ replicate (15 - length s) 0"

definition dev_info :: M4DevInfo where
  "dev_info = \<lparr>di_vendor_name_len = 15, di_vendor_name = str15 ''MINIEYE'', di_prod_code_len = 15,
     di_prod_code = str15 ''M4'', di_hw_ver_len = 15, di_hw_ver = str15 ''1.0.0'', di_sw_ver_len = 15,
     di_sw_ver = str15 ''1.2.0'', di_dev_id_len = 15, di_dev_id = str15 ''0xF0321564'',
     di_custom_code_len = 15, di_custom_code = str15 ''SAMPLE''\<rparr>"

definition sample_on_cmd :: "env \<Rightarrow> u8 list \<Rightarrow> nat \<Rightarrow> device \<Rightarrow> (u8 list \<times> device) outcome" where
  "sample_on_cmd e buf len d =
     (let h = SBProtHeader_at buf in
      if hdr_device_id h \<noteq> own_device_id (e_build e) \<and> hdr_device_id h \<noteq> SAMPLE_DEVICE_ID_BRDCST then Inr (buf, d)
      else
        let d = snd (do_serial_num (htons (hdr_serial_num h)) RECORD_RECV_NUM d); cmd = hdr_cmd h in
        if cmd = SAMPLE_CMD_QUERY then
          let (bytes, d) = message_queue_send e SAMPLE_CMD_QUERY [] d in Inr (overwrite buf bytes, d)
        else if cmd = SAMPLE_CMD_FACTORY_RESET then
          let (bytes, d) = message_queue_send e SAMPLE_CMD_FACTORY_RESET [] d;
              buf = overwrite buf bytes
          in Inr (buf, do_factory_reset e (hdr_device_id (SBProtHeader_at buf)) d)
        else if cmd = SAMPLE_CMD_SPEED_INFO then
          Inr (buf, snd (heart_beat_process True WRITE_MSG (write_RealTimeData buf len d)))
        else if cmd = SAMPLE_CMD_DEVICE_INFO then
          Inr (buf, snd (message_queue_send e SAMPLE_CMD_DEVICE_INFO (M4DevInfo_bytes dev_info) d))
        else if cmd = SAMPLE_CMD_UPGRADE then bindE (recv_upgrade_file e buf len d) (\<lambda>d. Inr (buf, d))
        else if cmd = SAMPLE_CMD_GET_PARAM then Inr (buf, send_para_setting e buf len d)
        else if cmd = SAMPLE_CMD_SET_PARAM then Inr (buf, recv_para_setting e buf len d)
        else if cmd = SAMPLE_CMD_WARNING_REPORT then Inr (buf, recv_warning_ack len d)
        else if cmd = SAMPLE_CMD_REQ_STATUS then Inr (buf, reply_work_status e len d)
        else if cmd = SAMPLE_CMD_UPLOAD_STATUS then Inr (buf, recv_upload_status_cmd_ack len d)
        else if cmd = SAMPLE_CMD_REQ_MM_DATA then
          let (ret, buf, d) = send_mm_req_ack e buf len d in Inr (buf, d)
        else if cmd = SAMPLE_CMD_UPLOAD_MM_DATA then Inr (buf, snd (recv_ack_and_send_image e buf d))
        else if cmd = SAMPLE_CMD_SNAP_SHOT then
          bindE (do_snap_shot e (send_snap_shot_ack e len d)) (\<lambda>d. Inr (buf, d))
        else Inr (buf, d))"

text \<open>The loop of \<open>prot_parse\<close> over the bytes of one read. It ends early only when the upgrade
  command has ended the process.\<close>

fun prot_parse :: "env \<Rightarrow> u8 list \<Rightarrow> device \<Rightarrow> device outcome" where
  "prot_parse e [] d = Inr d"
| "prot_parse e (ch # s) d =
     (if exited d then Inr d
      else bindE (unescaple_msg ch SLIP_DATA_BUF_SIZE (d_rx d)) (\<lambda>(ret, rx).
        let d = d\<lparr>d_rx := rx\<rparr>; buf = rcv_msg rx in
        bindE (if ret > 0 \<and> sample_calc_sum buf ret = hdr_checksum (SBProtHeader_at buf)
               then bindE (sample_on_cmd e buf ret d) (\<lambda>(buf, d). Inr (d\<lparr>d_rx := (d_rx d)\<lparr>rcv_msg := buf\<rparr>\<rparr>))
               else Inr d)
          (prot_parse e s)))"

end
