(* ===== verification/CommandProps.thy ===== *)
theory CommandProps
  imports Commands AlertProps
begin

text \<open>
  What the receive side guarantees: a valid frame is dispatched exactly once and an invalid one has no
  effect, parameters read back as they were set, a requested file arrives whole and in order, an upgrade
  image is assembled and checked; and the cases in which a reset, an upgrade or a snapshot goes wrong.
\<close>

section \<open>From bytes to commands\<close>

lemma prot_parse_quiet:
  "feed SLIP_DATA_BUF_SIZE s (d_rx d) = Inr ([], r) \<Longrightarrow> \<not> exited d \<Longrightarrow>
   prot_parse e (s @ t) d = prot_parse e t (d\<lparr>d_rx := r\<rparr>)"
proof (induction s arbitrary: d)
  case (Cons ch s)
  obtain ret r1 where u: "unescaple_msg ch SLIP_DATA_BUF_SIZE (d_rx d) = Inr (ret, r1)"
    using Cons.prems(1) by (cases "unescaple_msg ch SLIP_DATA_BUF_SIZE (d_rx d)") auto
  moreover obtain fs r2 where f: "feed SLIP_DATA_BUF_SIZE s r1 = Inr (fs, r2)"
    using Cons.prems(1) u by (cases "feed SLIP_DATA_BUF_SIZE s r1") auto
  ultimately have "ret = 0" "feed SLIP_DATA_BUF_SIZE s r1 = Inr ([], r)"
    using Cons.prems(1) by (auto split: if_splits)
  then show ?case
    using Cons.IH [of "d\<lparr>d_rx := r1\<rparr>"] Cons.prems(2) u by simp
qed auto

lemma sample_calc_sum_take: "n \<le> length bs \<Longrightarrow> sample_calc_sum (take n bs) n = sample_calc_sum bs n"
  by (cases "n < 5") (auto simp: sample_calc_sum_def bytes_at_def NON_CRC_LEN_def drop_take min_def)

definition run_frame :: "env \<Rightarrow> u8 list \<Rightarrow> nat \<Rightarrow> device \<Rightarrow> device outcome" where
  "run_frame e buf len d =
     bindE (sample_on_cmd e buf len d) (\<lambda>(buf, d). Inr (d\<lparr>d_rx := (d_rx d)\<lparr>rcv_msg := buf\<rparr>\<rparr>))"

lemma prot_parse_frame:
  assumes idle: "decoder_idle (d_rx d)" and fits: "frame_fits SLIP_DATA_BUF_SIZE (d_rx d) body"
    and run: "\<not> exited d" and f: "f = SAMPLE_PROT_MAGIC # body @ [SAMPLE_PROT_MAGIC]"
  shows "\<exists>r. decoder_idle r \<and> length (rcv_msg r) = length (rcv_msg (d_rx d)) \<and>
    take (length f) (rcv_msg r) = f \<and>
    prot_parse e (transmit f) d =
      (if sample_calc_sum f (length f) = f ! 1 then run_frame e (rcv_msg r) (length f) (d\<lparr>d_rx := r\<rparr>)
       else Inr (d\<lparr>d_rx := r\<rparr>))"
proof -
  let ?rx = "d_rx d" and ?n = "length body"
  let ?h = "?rx\<lparr>cnt := 1, get_head := True, rcv_msg := (rcv_msg ?rx)[0 := SAMPLE_PROT_MAGIC]\<rparr>"
  let ?b = "?h\<lparr>cnt := 1 + ?n, rcv_msg := stored 1 body (rcv_msg ?h)\<rparr>"
  let ?r = "clear_frame_flag (?b\<lparr>rcv_msg := (rcv_msg ?b)[Suc ?n := SAMPLE_PROT_MAGIC]\<rparr>)"
  have len: "5 \<le> ?n" "?n + 2 \<le> SLIP_DATA_BUF_SIZE" "?n + 2 \<le> length (rcv_msg ?rx)" "rcv_msg ?rx \<noteq> []"
    using fits by (auto simp: frame_fits_def)
  have head: "feed SLIP_DATA_BUF_SIZE [SAMPLE_PROT_MAGIC] ?rx = Inr ([], ?h)"
    using feed_head [OF idle, of SLIP_DATA_BUF_SIZE] len by auto
  have "feed SLIP_DATA_BUF_SIZE (escape_body body) ?h = Inr ([], ?b)"
    using len idle by (intro feed_escape_body) (auto simp: decoder_idle_def)
  then have before: "feed SLIP_DATA_BUF_SIZE ([SAMPLE_PROT_MAGIC] @ escape_body body) ?rx = Inr ([], ?b)"
    by (simp only: feed_quiet [OF head])
  have last: "unescaple_msg SAMPLE_PROT_MAGIC SLIP_DATA_BUF_SIZE ?b = Inr (?n + 2, ?r)"
    using len idle by (simp add: unescaple_msg_def put_msg_def clear_frame_flag_def decoder_idle_def)
  have frame: "take (length f) (rcv_msg ?r) = f"
    using take_stored_frame [of "rcv_msg ?h" SAMPLE_PROT_MAGIC body SAMPLE_PROT_MAGIC] len f
    by (cases "rcv_msg ?rx") (auto simp: clear_frame_flag_def)
  have flen: "length f = ?n + 2" "length f \<le> length (rcv_msg ?r)"
    using f len by (simp_all add: clear_frame_flag_def)
  have sum: "sample_calc_sum (rcv_msg ?r) (?n + 2) = sample_calc_sum f (length f)"
    using sample_calc_sum_take [OF flen(2)] frame flen(1) by simp
  have "rcv_msg ?r ! 1 = take (length f) (rcv_msg ?r) ! 1" using flen by (subst nth_take) auto
  then have chk: "hdr_checksum (SBProtHeader_at (rcv_msg ?r)) = f ! 1"
    using frame by (simp add: SBProtHeader_at_def)
  have "transmit f = ([SAMPLE_PROT_MAGIC] @ escape_body body) @ [SAMPLE_PROT_MAGIC]"
    by (simp add: f frame_bytes_def)
  then have "prot_parse e (transmit f) d = prot_parse e [SAMPLE_PROT_MAGIC] (d\<lparr>d_rx := ?b\<rparr>)"
    using prot_parse_quiet [OF before run] by simp
  also have "\<dots> = (if sample_calc_sum f (length f) = f ! 1 then run_frame e (rcv_msg ?r) (length f) (d\<lparr>d_rx := ?r\<rparr>)
       else Inr (d\<lparr>d_rx := ?r\<rparr>))"
  proof (cases "sample_calc_sum f (length f) = f ! 1")
    case True
    then show ?thesis
      using run sum chk flen(1) last by (cases "run_frame e (rcv_msg ?r) (length f) (d\<lparr>d_rx := ?r\<rparr>)")
        (auto simp: run_frame_def)
  next
    case False
    then show ?thesis using run sum chk last by simp
  qed
  finally show ?thesis
    using frame len by (intro exI [of _ ?r]) (simp add: clear_frame_flag_def decoder_idle_def)
qed


section \<open>Parameters over the wire\<close>

lemma swap_adas_swap [simp]: "swap_adas (swap_adas p) = p"
  by (simp add: swap_adas_def)

lemma swap_dms_swap [simp]: "swap_dms (swap_dms p) = p"
  by (simp add: swap_dms_def)

lemma swap_wf [simp]: "AdasPara_wf (swap_adas p) = AdasPara_wf p" "DmsPara_wf (swap_dms q) = DmsPara_wf q"
  by (simp_all add: swap_adas_def swap_dms_def AdasPara_wf_def DmsPara_wf_def)

lemma do_serial_num_frame [simp]:
  "d_paras (snd (do_serial_num n mode d)) = d_paras d" "d_files (snd (do_serial_num n mode d)) = d_files d"
  "send_q (snd (do_serial_num n mode d)) = send_q d" "pkg_status (snd (do_serial_num n mode d)) = pkg_status d"
  "s_index (snd (do_serial_num n mode d)) = s_index d" "exited (snd (do_serial_num n mode d)) = exited d"
  "d_rx (snd (do_serial_num n mode d)) = d_rx d" "rt_msg (snd (do_serial_num n mode d)) = rt_msg d"
  by (simp_all add: do_serial_num_def Let_def split: serial_mode.split)

lemma recv_para_setting_adas:
  assumes "hdr_device_id (SBProtHeader_at buf) = SAMPLE_DEVICE_ID_ADAS"
    "AdasParaSetting_at (drop 8 buf) = swap_adas p"
    "adas_para_ok p" "AdasPara_wf p" "0xFF \<notin> set (a_reserve p)" "0xFF \<notin> set (a_reserve2 p)"
    "AdasPara_wf (adas_para (d_paras d))" "fs_open (e_fs e) LOCAL_ADAS_PRAR_FILE" "50 \<le> fs_room (e_fs e)"
  shows "recv_para_setting e buf 59 d =
    snd (message_queue_send e SAMPLE_CMD_SET_PARAM [0] (d\<lparr>d_paras := (d_paras d)\<lparr>adas_para := p\<rparr>,
       d_files := (d_files d)(LOCAL_ADAS_PRAR_FILE \<mapsto> AdasParaSetting_bytes p)\<rparr>))"
proof -
  have "write_dev_para (AdasParaSetting_bytes p) SAMPLE_DEVICE_ID_ADAS (d_paras d) = (d_paras d)\<lparr>adas_para := p\<rparr>"
    using assms by (simp add: write_dev_para_ADAS AdasPara.length_enc AdasPara.dec_enc_self merge_id_adas
        adas_para_check_id)
  then show ?thesis
    using assms AdasPara.length_enc [OF assms(4)]
    by (simp add: recv_para_setting_def write_local_adas_para_file_def write_file_def read_dev_para_def)
qed

lemma recv_para_setting_dms:
  assumes "hdr_device_id (SBProtHeader_at buf) = SAMPLE_DEVICE_ID_DMS"
    "51 \<le> length buf" "DmsPara_wf (dms_para (d_paras d))"
  shows "d_paras (recv_para_setting e buf 52 d) =
    (d_paras d)\<lparr>dms_para := dms_merge (dms_para (d_paras d)) (swap_dms (DmsParaSetting_at (drop 8 buf)))\<rparr>"
proof -
  have wf: "DmsPara_wf (swap_dms (DmsParaSetting_at (drop 8 buf)))"
    using assms(2) by (simp add: DmsPara.wf_dec)
  then have "write_dev_para (DmsParaSetting_bytes (swap_dms (DmsParaSetting_at (drop 8 buf)))) SAMPLE_DEVICE_ID_DMS
      (d_paras d) = (d_paras d)\<lparr>dms_para := dms_merge (dms_para (d_paras d)) (swap_dms (DmsParaSetting_at (drop 8 buf)))\<rparr>"
    using assms(3) by (simp add: write_dev_para_DMS DmsPara.length_enc DmsPara.dec_enc_self)
  then show ?thesis using assms(1) by (simp add: recv_para_setting_def Let_def split_beta)
qed

lemma photo_num_dms_merge:
  "photo_num (dms_merge old new) = keep8 (photo_num old) (photo_num new)"
  "photo_num (swap_dms p) = photo_num p" "photo_num (DmsParaSetting_at bs) = bs ! 7"
  by (simp_all add: dms_merge_def swap_dms_def DmsParaSetting_at_def)

section \<open>The reply to a factory reset\<close>

definition needs_escape :: "u8 \<Rightarrow> bool" where
  "needs_escape b \<longleftrightarrow> b = SAMPLE_PROT_MAGIC \<or> b = SAMPLE_PROT_ESC_CHAR"

lemma frame_body_reset:
  "frame_body ENABLE_ADAS s SAMPLE_CMD_FACTORY_RESET [] = [0xDA, hi16 s, lo16 s, 0x12, 0x34, 0x64, 0x30]"
  by (simp add: frame_body_def le16_def sample_calc_sum_def bytes_at_def NON_CRC_LEN_def own_device_id_def)

lemma reset_reply_device_byte:
  "transmit (build_frame ENABLE_ADAS s SAMPLE_CMD_FACTORY_RESET []) ! 6 =
     (if needs_escape (hi16 s) \<or> needs_escape (lo16 s)
      then if needs_escape (hi16 s) \<and> needs_escape (lo16 s) then 0x12 else 0x34 else 0x64)"
  unfolding build_frame_body frame_body_reset transmit_frame
  by (auto simp: frame_bytes_def escape_byte_def needs_escape_def)


section \<open>Properties\<close>

text \<open>C6: receiving one frame. The bytes of an escaped frame, arriving at an idle decoder, lead to exactly one
  dispatch of exactly that frame when its checksum is right; when it is wrong, the frame has no effect
  beyond the receive buffer. Either way the decoder is idle again.\<close>

theorem valid_frame_dispatched_once:
  assumes "decoder_idle (d_rx d)" "frame_fits SLIP_DATA_BUF_SIZE (d_rx d) body" "\<not> exited d"
    "f = SAMPLE_PROT_MAGIC # body @ [SAMPLE_PROT_MAGIC]"
  shows "\<exists>r. decoder_idle r \<and> take (length f) (rcv_msg r) = f \<and>
    prot_parse e (transmit f) d =
      (if sample_calc_sum f (length f) = f ! 1 then
         bindE (sample_on_cmd e (rcv_msg r) (length f) (d\<lparr>d_rx := r\<rparr>))
           (\<lambda>(buf, d'). Inr (d'\<lparr>d_rx := (d_rx d')\<lparr>rcv_msg := buf\<rparr>\<rparr>))
       else Inr (d\<lparr>d_rx := r\<rparr>))"
  using prot_parse_frame [OF assms] unfolding run_frame_def by blast

theorem valid_frame_dispatched_once_witness:
  "\<exists>r. decoder_idle r \<and> take 9 (rcv_msg r) = [0x7E, 0, 0, 1, 0x12, 0x34, 0x64, 0x2F, 0x7E] \<and>
    prot_parse (idle_env ENABLE_ADAS) (transmit [0x7E, 0, 0, 1, 0x12, 0x34, 0x64, 0x2F, 0x7E]) idle_device =
      Inr (idle_device\<lparr>d_rx := r\<rparr>)"
proof -
  let ?f = "[0x7E, 0, 0, 1, 0x12, 0x34, 0x64, 0x2F, 0x7E] :: u8 list"
  have len: "length ?f = 9" by simp
  have bad: "\<not> sample_calc_sum ?f 9 = ?f ! 1"
    by (simp add: sample_calc_sum_def bytes_at_def NON_CRC_LEN_def)
  have "\<exists>r. decoder_idle r \<and> take (length ?f) (rcv_msg r) = ?f \<and>
    prot_parse (idle_env ENABLE_ADAS) (transmit ?f) idle_device =
      (if sample_calc_sum ?f (length ?f) = ?f ! 1 then
         bindE (sample_on_cmd (idle_env ENABLE_ADAS) (rcv_msg r) (length ?f) (idle_device\<lparr>d_rx := r\<rparr>))
           (\<lambda>(buf, d'). Inr (d'\<lparr>d_rx := (d_rx d')\<lparr>rcv_msg := buf\<rparr>\<rparr>))
       else Inr (idle_device\<lparr>d_rx := r\<rparr>))"
    by (rule valid_frame_dispatched_once [where body = "[0, 0, 1, 0x12, 0x34, 0x64, 0x2F]"])
      (simp_all add: idle_device_def frame_fits_def size_defs)
  then show ?thesis unfolding len using bad by (simp only: if_False)
qed

text \<open>What the protocol has a device answer to the commands that ask for something: nothing but the
  command itself to a query, its description, the working state without errors, its parameters in
  network byte order. The last two are only for frames of the right length.\<close>

definition answer :: "env \<Rightarrow> u8 \<Rightarrow> nat \<Rightarrow> device \<Rightarrow> u8 list option" where
  "answer e cmd len d =
     (if cmd = SAMPLE_CMD_QUERY then Some []
      else if cmd = SAMPLE_CMD_DEVICE_INFO then Some (M4DevInfo_bytes dev_info)
      else if cmd = SAMPLE_CMD_REQ_STATUS \<and> len = 9 then Some (MODULE_WORKING # le32 0)
      else if cmd = SAMPLE_CMD_GET_PARAM \<and> len = 9 then
        Some (case e_build e of ENABLE_ADAS \<Rightarrow> AdasParaSetting_bytes (swap_adas (adas_para (d_paras d)))
              | ENABLE_DMS \<Rightarrow> DmsParaSetting_bytes (swap_dms (dms_para (d_paras d))))
      else None)"

text \<open>Answers are replies and short.\<close>

lemma answer_reply:
  assumes "answer e cmd len d = Some payload" "paras_wf (d_paras d)"
  shows "\<not> MasterIsMe cmd" "length payload \<le> 96"
  using assms
  by (auto simp: paras_wf_def answer_def MasterIsMe_def M4DevInfo_bytes_def dev_info_def str15_def AdasPara.length_enc
      DmsPara.length_enc split: if_splits build.splits)

lemma send_para_setting_own:
  assumes "hdr_device_id (SBProtHeader_at buf) = own_device_id (e_build e)"
  shows "send_para_setting e buf 9 d = snd (message_queue_send e SAMPLE_CMD_GET_PARAM
    (case e_build e of ENABLE_ADAS \<Rightarrow> AdasParaSetting_bytes (swap_adas (adas_para (d_paras d)))
     | ENABLE_DMS \<Rightarrow> DmsParaSetting_bytes (swap_dms (dms_para (d_paras d)))) d)"
  using assms by (cases "e_build e") (simp_all add: send_para_setting_def own_device_id_def)

lemma sample_on_cmd_answer:
  fixes e :: env and buf :: "u8 list"
  defines "h \<equiv> SBProtHeader_at buf"
  assumes "hdr_device_id h = own_device_id (e_build e)" "answer e (hdr_cmd h) len d = Some payload"
  shows "\<exists>buf'. sample_on_cmd e buf len d = Inr (buf', snd (message_queue_send e (hdr_cmd h) payload
    (snd (do_serial_num (htons (hdr_serial_num h)) RECORD_RECV_NUM d))))"
proof -
  let ?d = "snd (do_serial_num (htons (hdr_serial_num h)) RECORD_RECV_NUM d)"
  note own = assms(2) [unfolded h_def]
  have paras: "d_paras ?d = d_paras d" by (simp add: do_serial_num_def Let_def)
  consider "hdr_cmd h = SAMPLE_CMD_QUERY" | "hdr_cmd h = SAMPLE_CMD_DEVICE_INFO"
    | "hdr_cmd h = SAMPLE_CMD_REQ_STATUS" "len = 9" | "hdr_cmd h = SAMPLE_CMD_GET_PARAM" "len = 9"
    using assms(3) by (auto simp: answer_def split: if_splits)
  then show ?thesis
  proof cases
    case 4
    then have "payload = (case e_build e of ENABLE_ADAS \<Rightarrow> AdasParaSetting_bytes (swap_adas (adas_para (d_paras ?d)))
     | ENABLE_DMS \<Rightarrow> DmsParaSetting_bytes (swap_dms (dms_para (d_paras ?d))))"
      unfolding paras using assms(3) by (simp add: answer_def)
    then have "send_para_setting e buf len ?d = snd (message_queue_send e SAMPLE_CMD_GET_PARAM payload ?d)"
      using 4 send_para_setting_own [OF own, of ?d] by simp
    then show ?thesis using 4 own by (simp add: sample_on_cmd_def h_def)
  qed (use assms(3) own in \<open>simp_all add: sample_on_cmd_def h_def answer_def split_beta Let_def
      reply_work_status_def working_status_def ModuleStatus_bytes_def\<close>)
qed

text \<open>C7: a frame for another device is ignored; a frame for this device with one of the commands that ask for
  something queues exactly one frame, which carries the command, the host's serial number and the
  answer.\<close>

theorem query_answered:
  assumes "length (send_q d) < PTR_QUEUE_BUF_CNT" "e_malloc1 e" "e_malloc2 e"
    "paras_wf (d_paras d)"
  shows "(hdr_device_id (SBProtHeader_at buf) \<notin> {own_device_id (e_build e), SAMPLE_DEVICE_ID_BRDCST} \<longrightarrow>
     sample_on_cmd e buf len d = Inr (buf, d)) \<and>
    (\<forall>payload. hdr_device_id (SBProtHeader_at buf) = own_device_id (e_build e) \<and>
     answer e (hdr_cmd (SBProtHeader_at buf)) len d = Some payload \<longrightarrow>
     (\<exists>buf' d' n. sample_on_cmd e buf len d = Inr (buf', d') \<and> send_q d' = send_q d @ [n] \<and>
        q_buf n = Mem (transmit (build_frame (e_build e) (htons (hdr_serial_num (SBProtHeader_at buf)))
                        (hdr_cmd (SBProtHeader_at buf)) payload))))"
proof (intro conjI allI impI)
  let ?h = "SBProtHeader_at buf"
  let ?d = "snd (do_serial_num (htons (hdr_serial_num ?h)) RECORD_RECV_NUM d)"
  fix payload
  assume own: "hdr_device_id ?h = own_device_id (e_build e) \<and> answer e (hdr_cmd ?h) len d = Some payload"
  then have slave: "\<not> MasterIsMe (hdr_cmd ?h)" and len: "length payload \<le> 96"
    using assms(4) answer_reply by blast+
  have "recv_serial_num ?d = htons (hdr_serial_num ?h)"
    by (simp add: do_serial_num_def Let_def)
  with slave have serial: "send_serial (hdr_cmd ?h) ?d = htons (hdr_serial_num ?h)"
    by (simp add: send_serial_def do_serial_num_def)
  have "send_q (snd (message_queue_send e (hdr_cmd ?h) payload ?d)) = send_q d @ [queued_msg e (hdr_cmd ?h) payload ?d]"
    using send_q_room [of ?d e payload "hdr_cmd ?h"] assms len by (simp add: size_defs)
  then show "\<exists>buf' d' n. sample_on_cmd e buf len d = Inr (buf', d') \<and> send_q d' = send_q d @ [n] \<and>
        q_buf n = Mem (transmit (build_frame (e_build e) (htons (hdr_serial_num ?h)) (hdr_cmd ?h) payload))"
    using sample_on_cmd_answer [of buf e len d payload] own serial by fastforce
qed (simp add: sample_on_cmd_def)

theorem query_answered_witness:
  "\<exists>buf' d' n. sample_on_cmd (idle_env ENABLE_ADAS) [0x7E, 0xD9, 0, 1, 0x12, 0x34, 0x64, 0x2F, 0x7E] 9 idle_device =
     Inr (buf', d') \<and> send_q d' = [n] \<and>
     q_buf n = Mem (transmit (build_frame ENABLE_ADAS 1 SAMPLE_CMD_QUERY []))"
proof -
  have "htons (u16_at [0x7E, 0xD9, 0, 1, 0x12, 0x34, 0x64, 0x2F, 0x7E] 2) = 1"
    by (simp add: u16_at_def htons_def) (simp add: of_le16_def)
  then show ?thesis
    using query_answered [of idle_device "idle_env ENABLE_ADAS" "[0x7E, 0xD9, 0, 1, 0x12, 0x34, 0x64, 0x2F, 0x7E]" 9]
    by (simp add: idle_device_def idle_env_def SBProtHeader_at_def own_device_id_def PTR_QUEUE_BUF_CNT_def answer_def paras_wf_boot)
qed

text \<open>C8: parameters set over the wire read back unchanged. A set command with parameters in range stores
  them, saves them to the parameter file and is acknowledged as successful; a get command after it
  answers with the very bytes that were received.\<close>

theorem set_get_parameters:
  assumes "hdr_device_id (SBProtHeader_at buf) = SAMPLE_DEVICE_ID_ADAS" "58 \<le> length buf"
    "AdasParaSetting_at (drop 8 buf) = swap_adas p"
    "adas_para_ok p" "AdasPara_wf p" "0xFF \<notin> set (a_reserve p)" "0xFF \<notin> set (a_reserve2 p)"
    "AdasPara_wf (adas_para (d_paras d))" "fs_open (e_fs e) LOCAL_ADAS_PRAR_FILE" "50 \<le> fs_room (e_fs e)"
    "hdr_device_id (SBProtHeader_at buf2) = SAMPLE_DEVICE_ID_ADAS"
    "e_malloc1 e" "e_malloc2 e" "length (send_q d) < PTR_QUEUE_BUF_CNT - 1"
  shows "let d1 = recv_para_setting e buf 59 d; d2 = send_para_setting e buf2 9 d1 in
    adas_para (d_paras d1) = p \<and> d_files d1 LOCAL_ADAS_PRAR_FILE = Some (AdasParaSetting_bytes p) \<and>
    (\<exists>n1 n2. send_q d2 = send_q d @ [n1, n2] \<and>
       q_buf n1 = Mem (transmit (build_frame (e_build e) (recv_serial_num d) SAMPLE_CMD_SET_PARAM [0])) \<and>
       q_buf n2 = Mem (transmit (build_frame (e_build e) (recv_serial_num d) SAMPLE_CMD_GET_PARAM
                        (take 50 (drop 8 buf)))))"
proof -
  let ?d = "d\<lparr>d_paras := (d_paras d)\<lparr>adas_para := p\<rparr>,
       d_files := (d_files d)(LOCAL_ADAS_PRAR_FILE \<mapsto> AdasParaSetting_bytes p)\<rparr>"
  let ?d1 = "snd (message_queue_send e SAMPLE_CMD_SET_PARAM [0] ?d)"
  have bytes: "AdasParaSetting_bytes (swap_adas p) = take 50 (drop 8 buf)"
    using AdasPara.enc_dec [of "drop 8 buf"] assms(2,3) by simp
  have q1: "send_q ?d1 = send_q d @ [queued_msg e SAMPLE_CMD_SET_PARAM [0] ?d]"
    using assms(12-14) by (subst send_q_room) (simp_all add: size_defs)
  have q2: "send_q (snd (message_queue_send e SAMPLE_CMD_GET_PARAM (take 50 (drop 8 buf)) ?d1)) =
      send_q ?d1 @ [queued_msg e SAMPLE_CMD_GET_PARAM (take 50 (drop 8 buf)) ?d1]"
    using assms(12-14) by (subst send_q_room) (simp_all add: size_defs q1)
  have recv: "recv_para_setting e buf 59 d = ?d1"
    using assms by (intro recv_para_setting_adas)
  show ?thesis
    using assms(11) bytes q1 q2
    by (simp add: recv send_para_setting_def send_serial_def MasterIsMe_def do_serial_num_def)
qed


theorem set_get_parameters_witness:
  "adas_para (d_paras (recv_para_setting (idle_env ENABLE_ADAS)
     ([0x7E, 0, 0, 1, 0x12, 0x34, 0x64, 0x35] @ AdasParaSetting_bytes (swap_adas (adas_default\<lparr>photo_num := 5\<rparr>)) @ [0x7E])
     59 idle_device)) = adas_default\<lparr>photo_num := 5\<rparr>"
proof -
  let ?p = "adas_default\<lparr>photo_num := 5\<rparr>"
  let ?h = "[0x7E, 0, 0, 1, 0x12, 0x34, 0x64, 0x35] :: u8 list"
  let ?buf = "?h @ AdasParaSetting_bytes (swap_adas ?p) @ [0x7E]"
  have wf: "AdasPara_wf ?p" "AdasPara_wf (swap_adas ?p)" by (simp_all add: AdasPara_wf_def adas_default_def swap_adas_def)
  then have len: "length ?buf = 59" by (simp add: AdasPara.length_enc)
  have "AdasParaSetting_at (drop 8 ?buf) = swap_adas ?p"
    using AdasPara.dec_enc [OF wf(2), of "[0x7E]"] by simp
  moreover have "hdr_device_id (SBProtHeader_at ?buf) = SAMPLE_DEVICE_ID_ADAS"
    by (simp add: SBProtHeader_at_def nth_append)
  moreover have "adas_para_ok ?p" using adas_default_ok by (simp add: adas_para_ok_def base_para_ok_def in_range_def)
  moreover have "0xFF \<notin> set (a_reserve ?p)" "0xFF \<notin> set (a_reserve2 ?p)" by (simp_all add: adas_default_def)
  moreover have "AdasPara_wf (adas_para (d_paras idle_device))"
    by (simp add: idle_device_def boot_paras_def AdasPara_wf_default)
  ultimately show ?thesis
    using set_get_parameters [of ?buf ?p idle_device "idle_env ENABLE_ADAS" ?buf] len wf
    unfolding Let_def by (simp add: idle_env_def idle_device_def PTR_QUEUE_BUF_CNT_def)
qed

text \<open>C26: a factory reset depends on the serial number of the request. The reply is built and escaped in the
  receive buffer before the device id is read from it again: when neither byte of the serial number
  needs escaping, the parameters are reset to the defaults and saved; when one does, the byte at the
  place of the device id is one of the vendor id, and nothing is reset, although the host has
  been told so.\<close>

theorem factory_reset_depends_on_serial:
  assumes "e_build e = ENABLE_ADAS" "hdr_device_id (SBProtHeader_at buf) = SAMPLE_DEVICE_ID_ADAS"
    "hdr_cmd (SBProtHeader_at buf) = SAMPLE_CMD_FACTORY_RESET" "s = htons (hdr_serial_num (SBProtHeader_at buf))"
    "AdasPara_wf (adas_para (d_paras d))"
  shows "\<exists>buf' d'. sample_on_cmd e buf len d = Inr (buf', d') \<and>
    d_paras d' = (if needs_escape (hi16 s) \<or> needs_escape (lo16 s) then d_paras d
                  else (d_paras d)\<lparr>adas_para := adas_default\<rparr>)"
proof -
  let ?d = "snd (do_serial_num s RECORD_RECV_NUM d)"
  let ?bytes = "transmit (build_frame ENABLE_ADAS s SAMPLE_CMD_FACTORY_RESET [])"
  have serial: "send_serial SAMPLE_CMD_FACTORY_RESET ?d = s"
    by (simp add: send_serial_def MasterIsMe_def do_serial_num_def Let_def)
  have "6 < length ?bytes" using length_transmit_build_frame(1) [of "[]" ENABLE_ADAS s SAMPLE_CMD_FACTORY_RESET] by simp
  then have dev: "hdr_device_id (SBProtHeader_at (overwrite buf ?bytes)) = ?bytes ! 6"
    by (simp add: SBProtHeader_at_def overwrite_def nth_append)
  show ?thesis
    using assms serial dev reset_reply_device_byte [of s]
    by (auto simp: sample_on_cmd_def own_device_id_def Let_def split_beta do_factory_reset_def
        set_AdasParaSetting_default message_queue_send_eq)
qed

theorem factory_reset_depends_on_serial_witness:
  "\<exists>buf' d'. sample_on_cmd (idle_env ENABLE_ADAS) [0x7E, 0xDA, 0, 0x7E, 0x12, 0x34, 0x64, 0x30, 0x7E] 9
      (idle_device\<lparr>d_paras := boot_paras\<lparr>adas_para := adas_default\<lparr>photo_num := 5\<rparr>\<rparr>\<rparr>) = Inr (buf', d') \<and>
    d_paras d' = boot_paras\<lparr>adas_para := adas_default\<lparr>photo_num := 5\<rparr>\<rparr>"
proof -
  let ?buf = "[0x7E, 0xDA, 0, 0x7E, 0x12, 0x34, 0x64, 0x30, 0x7E] :: u8 list"
  have s: "lo16 (htons (hdr_serial_num (SBProtHeader_at ?buf))) = 0x7E"
    by (simp add: SBProtHeader_at_def u16_at_def)
  have "AdasPara_wf (adas_default\<lparr>photo_num := 5\<rparr>)" by (simp add: AdasPara_wf_def adas_default_def)
  then show ?thesis
    using factory_reset_depends_on_serial [of "idle_env ENABLE_ADAS" ?buf _
        "idle_device\<lparr>d_paras := boot_paras\<lparr>adas_para := adas_default\<lparr>photo_num := 5\<rparr>\<rparr>\<rparr>" 9, OF _ _ _ refl] s
    by (simp add: idle_env_def needs_escape_def SBProtHeader_at_def)
qed

text \<open>parameters of the driver monitor are not checked, and one of them is the length of a write. A set
  command with a photo number between 11 and 254 is accepted; the snapshot command after it writes that
  many ids into an array of ten.\<close>

theorem dms_photo_num_overrun:
  assumes "e_build e = ENABLE_DMS" "51 \<le> length buf" "DmsPara_wf (dms_para (d_paras d))"
    "hdr_device_id (SBProtHeader_at buf) = SAMPLE_DEVICE_ID_DMS" "hdr_cmd (SBProtHeader_at buf) = SAMPLE_CMD_SET_PARAM"
    "10 < buf ! 15" "buf ! 15 \<noteq> 0xFF"
    "hdr_device_id (SBProtHeader_at buf2) = SAMPLE_DEVICE_ID_DMS" "hdr_cmd (SBProtHeader_at buf2) = SAMPLE_CMD_SNAP_SHOT"
  shows "\<exists>d'. sample_on_cmd e buf 52 d = Inr (buf, d') \<and> sample_on_cmd e buf2 9 d' = Inl Overrun_photo_id"
proof -
  let ?d = "snd (do_serial_num (htons (hdr_serial_num (SBProtHeader_at buf))) RECORD_RECV_NUM d)"
  let ?d1 = "recv_para_setting e buf 52 ?d"
  have set: "sample_on_cmd e buf 52 d = Inr (buf, ?d1)"
    using assms(1,4,5) by (simp add: sample_on_cmd_def own_device_id_def Let_def)
  have "photo_num (dms_para (d_paras ?d1)) = buf ! 15"
    using recv_para_setting_dms [OF assms(4,2), of ?d e] assms(2,3,7)
    by (simp add: photo_num_dms_merge keep8_def)
  then have big: "WARN_SNAP_NUM_MAX < unat (photo_num (dms_para (d_paras d2)))" if "d_paras d2 = d_paras ?d1" for d2
    using assms(6) that by (simp add: WARN_SNAP_NUM_MAX_def word_less_nat_alt)
  let ?d2 = "send_snap_shot_ack e 9 (snd (do_serial_num (htons (hdr_serial_num (SBProtHeader_at buf2))) RECORD_RECV_NUM ?d1))"
  have "d_paras ?d2 = d_paras ?d1" by (simp add: send_snap_shot_ack_def)
  then have "do_snap_shot e ?d2 = Inl Overrun_photo_id"
    using do_snap_shot_dms [OF assms(1)] big by blast
  then show ?thesis
    using set assms(1,8,9) by (simp add: sample_on_cmd_def own_device_id_def Let_def)
qed

theorem dms_photo_num_overrun_witness:
  "\<exists>d'. sample_on_cmd (idle_env ENABLE_DMS) ([0x7E, 0, 0, 1, 0x12, 0x34, 0x65, 0x35] @ replicate 7 0xFF @ [200] @
      replicate 35 0xFF @ [0x7E]) 52 idle_device = Inr ([0x7E, 0, 0, 1, 0x12, 0x34, 0x65, 0x35] @ replicate 7 0xFF @ [200] @
      replicate 35 0xFF @ [0x7E], d') \<and>
    sample_on_cmd (idle_env ENABLE_DMS) [0x7E, 0, 0, 2, 0x12, 0x34, 0x65, 0x52, 0x7E] 9 d' = Inl Overrun_photo_id"
  by (rule dms_photo_num_overrun)
    (simp_all add: idle_env_def SBProtHeader_at_def nth_append idle_device_def boot_paras_def DmsPara_wf_default)

end
