(* ===== verification/TransferProps.thy ===== *)
theory TransferProps
  imports CommandProps
begin

text \<open>
  The two file transfers of the protocol: a media file uploaded to the host packet by packet, each sent
  when the packet before it has been acknowledged, and an upgrade image received from the host.
\<close>

section \<open>Cutting a file into packets\<close>

definition chunk :: "u8 list \<Rightarrow> nat \<Rightarrow> u8 list" where
  "chunk c k = take IMAGE_SIZE_PER_PACKET (drop (k * IMAGE_SIZE_PER_PACKET) c)"

definition packet_count :: "u8 list \<Rightarrow> nat" where
  "packet_count c = (length c + IMAGE_SIZE_PER_PACKET - 1) div IMAGE_SIZE_PER_PACKET"

lemma IMAGE_SIZE_pos: "0 < IMAGE_SIZE_PER_PACKET"
  by (simp add: IMAGE_SIZE_PER_PACKET_def)

lemma chunk_nonempty: "k < packet_count c \<longleftrightarrow> chunk c k \<noteq> []"
proof -
  have "k < packet_count c \<longleftrightarrow> Suc k * IMAGE_SIZE_PER_PACKET \<le> length c + IMAGE_SIZE_PER_PACKET - 1"
    unfolding packet_count_def by (metis IMAGE_SIZE_pos Suc_le_eq less_eq_div_iff_mult_less_eq)
  also have "\<dots> \<longleftrightarrow> k * IMAGE_SIZE_PER_PACKET < length c" using IMAGE_SIZE_pos by auto
  finally show ?thesis using IMAGE_SIZE_pos by (auto simp: chunk_def)
qed

lemma concat_chunks: "concat (map (chunk c) [0..<n]) = take (n * IMAGE_SIZE_PER_PACKET) c"
proof (induction n)
  case (Suc n)
  have "Suc n * IMAGE_SIZE_PER_PACKET = n * IMAGE_SIZE_PER_PACKET + IMAGE_SIZE_PER_PACKET" by simp
  then show ?case using Suc by (simp only: upt_Suc map_append concat_append take_add) (simp add: chunk_def)
qed simp

lemma concat_all_chunks: "concat (map (chunk c) [0..<packet_count c]) = c"
proof -
  have "\<not> packet_count c * IMAGE_SIZE_PER_PACKET < length c"
    using chunk_nonempty [of "packet_count c" c] IMAGE_SIZE_pos by (auto simp: chunk_def)
  then show ?thesis by (simp add: concat_chunks)
qed

lemma sdiv_nonneg: "0 \<le> a \<Longrightarrow> 0 < b \<Longrightarrow> (a :: int) sdiv b = a div b"
  by (simp add: signed_divide_int_def sgn_if)

lemma packet_total_div:
  assumes "c \<noteq> []"
  shows "(int (length c) + int IMAGE_SIZE_PER_PACKET - 1) div int IMAGE_SIZE_PER_PACKET = int (packet_count c)"
proof -
  have "1 \<le> length c + IMAGE_SIZE_PER_PACKET" using assms by (cases c) auto
  then have "int (length c) + int IMAGE_SIZE_PER_PACKET - 1 = int (length c + IMAGE_SIZE_PER_PACKET - 1)"
    by (simp add: of_nat_diff)
  then show ?thesis by (simp only: packet_count_def zdiv_int)
qed

text \<open>A file whose size, rounded up to packets, is an \<open>int\<close>: less than two gigabytes by about a packet.\<close>

definition uploadable :: "u8 list \<Rightarrow> bool" where
  "uploadable c \<longleftrightarrow> c \<noteq> [] \<and> length c + IMAGE_SIZE_PER_PACKET \<le> 2 ^ 31"

lemma packet_count_bound:
  assumes "uploadable c"
  shows "packet_count c < 2 ^ 15"
proof -
  have "length c + IMAGE_SIZE_PER_PACKET - 1 < 2 ^ 15 * IMAGE_SIZE_PER_PACKET"
    using assms by (simp add: uploadable_def IMAGE_SIZE_PER_PACKET_def)
  then show ?thesis unfolding packet_count_def using IMAGE_SIZE_pos by (simp only: div_less_iff_less_mult)
qed

lemma packet_count_16: "uploadable c \<Longrightarrow> packet_count c < 2 ^ 16"
  using packet_count_bound [of c] by simp

lemma packet_total:
  assumes "uploadable c"
  shows "int32 (int32 (int (length c)) + int IMAGE_SIZE_PER_PACKET - 1) sdiv int IMAGE_SIZE_PER_PACKET = int (packet_count c)"
    "0 < int32 (int (length c))"
proof -
  have c: "c \<noteq> []" "int (length c) + int IMAGE_SIZE_PER_PACKET \<le> 2 ^ 31"
    using assms by (simp_all add: uploadable_def IMAGE_SIZE_PER_PACKET_def)
  have size: "int32 (int (length c)) = int (length c)" using c(2) by (intro int32_id) (simp_all add: IMAGE_SIZE_PER_PACKET_def)
  then show "0 < int32 (int (length c))" using c(1) by simp
  have "int32 (int (length c) + int IMAGE_SIZE_PER_PACKET - 1) = int (length c) + int IMAGE_SIZE_PER_PACKET - 1"
    using c(2) by (intro int32_id) simp_all
  moreover have "0 \<le> int (length c) + int IMAGE_SIZE_PER_PACKET - 1" using IMAGE_SIZE_pos by simp
  ultimately show "int32 (int32 (int (length c)) + int IMAGE_SIZE_PER_PACKET - 1) sdiv int IMAGE_SIZE_PER_PACKET = int (packet_count c)"
    using packet_total_div [OF c(1)] IMAGE_SIZE_pos by (simp add: size sdiv_nonneg)
qed

text \<open>The offset of a packet.\<close>

lemma packet_offset:
  assumes "uploadable c" "k < packet_count c"
  shows "fread_at c (int32 (int k * int IMAGE_SIZE_PER_PACKET)) IMAGE_SIZE_PER_PACKET = chunk c k"
proof -
  have "k < 2 ^ 15" using packet_count_bound [OF assms(1)] assms(2) by simp
  then have "int32 (int k * int IMAGE_SIZE_PER_PACKET) = int (k * IMAGE_SIZE_PER_PACKET)"
    by (subst int32_id) (simp_all add: IMAGE_SIZE_PER_PACKET_def)
  then show ?thesis by (simp add: fread_at_def chunk_def del: of_nat_mult)
qed


section \<open>Uploading\<close>

definition packet :: "u8 \<Rightarrow> u32 \<Rightarrow> u8 list \<Rightarrow> nat \<Rightarrow> u8 list" where
  "packet ty i c k = MmPacketIndex_bytes \<lparr>pi_type = ty, pi_id = htonl i,
     pi_packet_total_num = htons (of_nat (packet_count c)), pi_packet_index = htons (of_nat k)\<rparr> @ chunk c k"

text \<open>The transfer of the file \<open>c\<close> with id \<open>i\<close> is under way and \<open>k\<close> packets have been sent. Acknowledgements
  are served whether or not \<open>mm_data_trans_waiting\<close> is still set.\<close>

definition uploading :: "env \<Rightarrow> u8 \<Rightarrow> u32 \<Rightarrow> u8 list \<Rightarrow> nat \<Rightarrow> device \<Rightarrow> bool" where
  "uploading e ty i c k d \<longleftrightarrow>
     d_files d (mmid_to_filename (e_build e) i) = Some c \<and>
     ps_mm (pkg_status d) = \<lparr>pi_type = ty, pi_id = i, pi_packet_total_num = of_nat (packet_count c),
       pi_packet_index = of_nat k\<rparr>"

definition carries :: "env \<Rightarrow> u8 list \<Rightarrow> ptr_queue_node \<Rightarrow> bool" where
  "carries e payload n \<longleftrightarrow> (\<exists>d. n = queued_msg e SAMPLE_CMD_UPLOAD_MM_DATA payload d)"

lemma send_q_set_filepath [simp]: "send_q (set_filepath p d) = send_q d"
  "d_files (set_filepath p d) = d_files d" "ps_mm (pkg_status (set_filepath p d)) = ps_mm (pkg_status d)"
  "ps_mm_data_trans_waiting (pkg_status (set_filepath p d)) = ps_mm_data_trans_waiting (pkg_status d)"
  by (simp_all add: set_filepath_def)

lemma length_chunk: "length (chunk c k) \<le> IMAGE_SIZE_PER_PACKET"
  by (simp add: chunk_def)

lemma sample_send_image_step:
  assumes "uploading e ty i c k d" "k < packet_count c" "uploadable c"
    "e_malloc1 e" "e_malloc2 e" "length (send_q d) < PTR_QUEUE_BUF_CNT"
  shows "\<exists>d' n. sample_send_image e d = (0, d') \<and> uploading e ty i c (Suc k) d' \<and>
    send_q d' = send_q d @ [n] \<and> carries e (packet ty i c k) n"
proof -
  let ?path = "mmid_to_filename (e_build e) i"
  let ?d = "set_filepath ?path d"
  let ?send = "message_queue_send e SAMPLE_CMD_UPLOAD_MM_DATA (packet ty i c k) ?d"
  have "k < 2 ^ 16" using packet_count_16 [OF assms(3)] assms(2) by simp
  then have k: "uint (of_nat k :: u16) = int k" by (simp add: uint_nat unat_of_nat)
  have "16 + 2 * length (packet ty i c k) \<le> PTR_QUEUE_BUF_SIZE"
    using length_chunk [of c k] by (simp add: packet_def size_defs)
  then have q: "send_q (snd ?send) = send_q d @ [queued_msg e SAMPLE_CMD_UPLOAD_MM_DATA (packet ty i c k) ?d]"
    using assms(4-6) by (simp add: send_q_room)
  note chunk = packet_offset [OF assms(3,2)]
  have "chunk c k \<noteq> []" using assms(2) chunk_nonempty by simp
  then have "sample_send_image e d = (0, (snd ?send)\<lparr>pkg_status := (pkg_status (snd ?send))\<lparr>ps_mm :=
      (ps_mm (pkg_status (snd ?send)))\<lparr>pi_packet_index := of_nat k + 1\<rparr>\<rparr>\<rparr>)"
    using assms(1,4,5) k by (simp add: sample_send_image_def uploading_def chunk packet_def Let_def)
  then show ?thesis
    using assms(1) q by (auto simp: uploading_def carries_def add.commute)
qed

text \<open>The host's acknowledgement of packet \<open>k\<close>.\<close>

definition acks_packet :: "nat \<Rightarrow> u8 list \<Rightarrow> bool" where
  "acks_packet k buf \<longleftrightarrow> ai_ack (MmAckInfo_at (drop 8 buf)) = 0 \<and>
     htons (ai_packet_index (MmAckInfo_at (drop 8 buf))) = of_nat k"

text \<open>Any other one is for a packet that has been acknowledged before, and nothing is done.\<close>

lemma recv_ack_again:
  assumes "uploading e ty i c m d" "acks_packet j buf" "j + 1 < m" "m < 2 ^ 16"
  shows "recv_ack_and_send_image e buf d = (0, d)"
proof -
  have "unat (of_nat j :: u16) = j" "unat (of_nat m :: u16) = m" using assms(3,4) by (simp_all add: unat_of_nat)
  then show ?thesis using assms by (simp add: recv_ack_and_send_image_def acks_packet_def uploading_def Let_def)
qed

text \<open>Between two acknowledgements the send thread empties the queue; what it takes out is
  collected.\<close>

fun serve_acks :: "env \<Rightarrow> u8 list list \<Rightarrow> device \<Rightarrow> ptr_queue_node list \<times> device" where
  "serve_acks e [] d = ([], d)"
| "serve_acks e (b # bs) d =
     (let d1 = snd (recv_ack_and_send_image e b (d\<lparr>send_q := []\<rparr>));
          (ns, d2) = serve_acks e bs d1 in (send_q d1 @ ns, d2))"

lemma uploading_upd [simp]: "uploading e ty i c k (d\<lparr>send_q := q\<rparr>) = uploading e ty i c k d"
  "uploading e ty i c k (notice_ack_msg d) = uploading e ty i c k d"
  by (simp_all add: uploading_def notice_ack_msg_def)

lemma notice_ack_msg_frame [simp]: "send_q (notice_ack_msg d) = send_q d"
  "pkg_status (notice_ack_msg d) = pkg_status d" "mmlist (notice_ack_msg d) = mmlist d"
  "d_files (notice_ack_msg d) = d_files d"
  by (simp_all add: notice_ack_msg_def)

lemma recv_ack_next:
  assumes "uploading e ty i c (Suc k) d" "acks_packet k buf" "Suc k < packet_count c" "uploadable c"
    "e_malloc1 e" "e_malloc2 e" "send_q d = []"
  shows "\<exists>d' n. recv_ack_and_send_image e buf d = (0, d') \<and> uploading e ty i c (Suc (Suc k)) d' \<and>
    send_q d' = [n] \<and> carries e (packet ty i c (Suc k)) n"
proof -
  have k: "unat (of_nat k :: u16) = k" "unat (of_nat (Suc k) :: u16) = Suc k"
      "(of_nat (packet_count c) :: u16) \<noteq> of_nat (Suc k)"
    using assms(3) packet_count_16 [OF assms(4)] by (simp_all add: unat_of_nat word_of_nat_eq_iff take_bit_nat_eq_self del: of_nat_Suc)
  obtain d' n where "sample_send_image e (notice_ack_msg d) = (0, d')" "uploading e ty i c (Suc (Suc k)) d'"
      "send_q d' = [n]" "carries e (packet ty i c (Suc k)) n"
    using sample_send_image_step [of e ty i c "Suc k" "notice_ack_msg d"] assms
    by (auto simp: PTR_QUEUE_BUF_CNT_def)
  then show ?thesis
    using assms(1,2) k
    by (simp add: recv_ack_and_send_image_def acks_packet_def uploading_def Let_def del: of_nat_Suc)
qed

lemma recv_ack_last:
  assumes "uploading e ty i c (Suc k) d" "acks_packet k buf" "Suc k = packet_count c" "uploadable c"
  shows "send_q (snd (recv_ack_and_send_image e buf d)) = send_q d \<and>
    uploading e ty i c (Suc k) (snd (recv_ack_and_send_image e buf d)) \<and>
    \<not> ps_mm_data_trans_waiting (pkg_status (snd (recv_ack_and_send_image e buf d)))"
proof -
  have k: "unat (of_nat k :: u16) = k" "unat (of_nat (Suc k) :: u16) = Suc k"
    using assms(3) packet_count_16 [OF assms(4)] by (simp_all add: unat_of_nat del: of_nat_Suc)
  then show ?thesis
    using assms
    by (simp add: recv_ack_and_send_image_def acks_packet_def uploading_def Let_def del: of_nat_Suc)
qed

lemma serve_acks_upload:
  assumes "uploading e ty i c (Suc k) d" "length bufs = packet_count c - k" "k < packet_count c"
    "uploadable c" "e_malloc1 e" "e_malloc2 e"
    "\<And>j. j < length bufs \<Longrightarrow> acks_packet (k + j) (bufs ! j)"
  shows "list_all2 (carries e) (map (packet ty i c) [Suc k..<packet_count c]) (fst (serve_acks e bufs d)) \<and>
    \<not> ps_mm_data_trans_waiting (pkg_status (snd (serve_acks e bufs d)))"
  using assms
proof (induction bufs arbitrary: k d)
  case (Cons b bs)
  have b: "acks_packet k b" using Cons.prems(7) [of 0] by simp
  show ?case
  proof (cases "Suc k = packet_count c")
    case True
    then have "bs = []" using Cons.prems(2) by (simp flip: True)
    then show ?thesis
      using recv_ack_last [of e ty i c k "d\<lparr>send_q := []\<rparr>" b] Cons.prems(1,4) b True by simp
  next
    case False
    then have more: "Suc k < packet_count c" using Cons.prems(3) by simp
    obtain d' n where d': "recv_ack_and_send_image e b (d\<lparr>send_q := []\<rparr>) = (0, d')"
        "uploading e ty i c (Suc (Suc k)) d'" "send_q d' = [n]" "carries e (packet ty i c (Suc k)) n"
      using recv_ack_next [of e ty i c k "d\<lparr>send_q := []\<rparr>" b] Cons.prems b more by auto
    have acks: "acks_packet (Suc (k + j)) (bs ! j)" if "j < length bs" for j
      using Cons.prems(7) [of "Suc j"] that by simp
    have "list_all2 (carries e) (map (packet ty i c) [Suc (Suc k)..<packet_count c]) (fst (serve_acks e bs d')) \<and>
        \<not> ps_mm_data_trans_waiting (pkg_status (snd (serve_acks e bs d')))"
      using d'(2) Cons.prems more
      by (intro Cons.IH) (auto simp: acks)
    then show ?thesis
      using d' more by (auto simp: upt_conv_Cons [of "Suc k"] split_beta)
  qed
qed simp


section \<open>Upgrading\<close>

definition sum_packet :: "u16 \<Rightarrow> u32 \<Rightarrow> u8 list" where
  "sum_packet num S = replicate 8 0 @ [UPGRADE_CMD_TRANS] @ rev (le16 num) @ [0, 0] @ rev (le32 S) @ [SAMPLE_PROT_MAGIC]"

definition data_packet :: "u16 \<Rightarrow> nat \<Rightarrow> u8 list \<Rightarrow> u8 list" where
  "data_packet num k x =
     replicate 8 0 @ [UPGRADE_CMD_TRANS] @ rev (le16 num) @ rev (le16 (of_nat k)) @ x @ [SAMPLE_PROT_MAGIC]"

fun upgrade_data :: "env \<Rightarrow> u16 \<Rightarrow> nat \<Rightarrow> u8 list list \<Rightarrow> device \<Rightarrow> device outcome" where
  "upgrade_data e num k [] d = Inr d"
| "upgrade_data e num k (x # xs) d =
     bindE (recv_upgrade_file e (data_packet num k x) (14 + length x) d) (upgrade_data e num (Suc k) xs)"

text \<open>A whole transfer: the packet with the sum, then the data packets.\<close>

definition upgrade_transfer :: "env \<Rightarrow> u32 \<Rightarrow> u8 list list \<Rightarrow> device \<Rightarrow> device outcome" where
  "upgrade_transfer e S xs d =
     bindE (recv_upgrade_file e (sum_packet (of_nat (length xs + 1)) S) 18 d)
       (upgrade_data e (of_nat (length xs + 1)) 1 xs)"

definition upgrade_file :: "device \<Rightarrow> u8 list" where
  "upgrade_file d = (case d_files d UPGRADE_FILE_NAME of None \<Rightarrow> [] | Some c \<Rightarrow> c)"

text \<open>The device has assembled \<open>L\<close>, expects the sum \<open>S\<close> and has added up \<open>s\<close>.\<close>

definition receiving :: "u8 list \<Rightarrow> u32 \<Rightarrow> u32 \<Rightarrow> device \<Rightarrow> bool" where
  "receiving L S s d \<longleftrightarrow> unat (up_offset (up d)) = length L \<and> up_sum (up d) = S \<and> up_sum_new (up d) = s \<and>
     (\<forall>x. write_at (upgrade_file d) (length L) x = L @ x)"

lemma get_sum_append: "get_sum (a @ b) = get_sum a + get_sum b"
proof -
  have "fold (\<lambda>b sum. sum + ucast b) bs s = s + (\<Sum>b\<leftarrow>bs. ucast b)" for bs :: "u8 list" and s :: u32
    by (induction bs arbitrary: s) (simp_all add: add.assoc)
  then show ?thesis by (simp add: get_sum_def)
qed

lemma write_at_end: "write_at L (length L) x = L @ x"
  by (simp add: write_at_def)

lemma write_at_empty: "write_at [] n x = replicate n 0 @ x"
  by (simp add: write_at_def)

lemma upgrade_ack_frame [simp]: "up (upgrade_ack e x d) = up d" "d_files (upgrade_ack e x d) = d_files d"
  "shell (upgrade_ack e x d) = shell d" "exited (upgrade_ack e x d) = exited d"
  by (simp_all add: upgrade_ack_def)

lemma remove_file_up [simp]: "up (remove_file p d) = up d" "shell (remove_file p d) = shell d"
  by (simp_all add: remove_file_def)

lemma receiving_upgrade_ack [simp]: "receiving L S s (upgrade_ack e x d) = receiving L S s d"
  by (simp add: receiving_def upgrade_file_def)

text \<open>The files once the last packet has arrived: when the sums agree, the script has run.\<close>

definition upgraded :: "env \<Rightarrow> bool \<Rightarrow> files \<Rightarrow> files" where
  "upgraded e ok fs = (if ok then prot_upgrade_sh (e_upgrade e) fs else fs)"

lemma upgraded_False [simp]: "upgraded e False fs = fs"
  by (simp add: upgraded_def)

lemma sum_packet_received:
  "\<exists>d'. recv_upgrade_file e (sum_packet num S) 18 d = Inr d' \<and>
    receiving (replicate (unat (up_offset (up d))) 0) S (up_sum_new (up d)) d' \<and>
    shell d' = CLEAN_UPGRADE_BIN # shell d \<and> d_files d' = (d_files d)(UPGRADE_FILE_NAME := None)"
proof -
  have p: "drop 8 (sum_packet num S) = [3, hi16 num, lo16 num, 0, 0, by3 S, by2 S, by1 S, by0 S, SAMPLE_PROT_MAGIC]"
    by (simp add: sum_packet_def le16_def le32_def)
  have z: "htons (u16_at [3, hi16 num, lo16 num, 0, 0, by3 S, by2 S, by1 S, by0 S, SAMPLE_PROT_MAGIC] 3) = 0"
    by (simp add: u16_at_def htons_def) (simp add: of_le16_def)
  have s: "htonl (u32_at [3, hi16 num, lo16 num, 0, 0, by3 S, by2 S, by1 S, by0 S, SAMPLE_PROT_MAGIC] 5) = S"
    by (simp add: u32_at_def htonl_def)
  show ?thesis
    unfolding recv_upgrade_file_def p
    by (simp add: s z system_def receiving_def upgrade_file_def write_at_empty Let_def)
qed

lemma data_packet_received:
  assumes "receiving L S s d" "0 < k" "k < 2 ^ 16" "fs_open (e_fs e) UPGRADE_FILE_NAME" "length x \<le> fs_room (e_fs e)"
    "length L + length x < 2 ^ 32"
  shows "\<exists>d' ok. recv_upgrade_file e (data_packet num k x) (14 + length x) d = Inr d' \<and>
    ok = (k + 1 = unat num \<and> s + get_sum x = S) \<and> (\<not> ok \<longrightarrow> receiving (L @ x) S (s + get_sum x) d') \<and>
    unat (up_offset (up d')) = length (L @ x) \<and> up_sum_new (up d') = s + get_sum x \<and>
    d_files d' = upgraded e ok ((d_files d)(UPGRADE_FILE_NAME \<mapsto> L @ x)) \<and>
    shell d' = (if ok then UPGRADE_FILE_CMD # shell d else shell d)"
proof -
  have p: "drop 8 (data_packet num k x) =
      [3, hi16 num, lo16 num, hi16 (of_nat k), lo16 (of_nat k)] @ x @ [SAMPLE_PROT_MAGIC]"
    by (simp add: data_packet_def le16_def)
  have idx: "htons (u16_at ([3, hi16 num, lo16 num, hi16 (of_nat k), lo16 (of_nat k)] @ x @ [SAMPLE_PROT_MAGIC]) 1) = num"
      "htons (u16_at ([3, hi16 num, lo16 num, hi16 (of_nat k), lo16 (of_nat k)] @ x @ [SAMPLE_PROT_MAGIC]) 3) = of_nat k"
    by (simp_all add: u16_at_def htons_def)
  have k: "unat (of_nat k :: u16) = k" using assms(3) by (simp add: unat_of_nat)
  have "unat num < 2 ^ 16" using unsigned_less [of num, where ?'a = nat] by simp
  then have nz: "(ucast (of_nat k :: u16) :: u32) \<noteq> 0" and
    last: "((ucast (of_nat k :: u16) :: u32) + 1 = ucast num) = (Suc k = unat num)"
    using assms(2,3) k by (simp_all add: word_unat_eq_iff unat_word_ariths unsigned_ucast_eq take_bit_nat_eq_self)
  let ?d0 = "d\<lparr>up := (up d)\<lparr>up_packet_num := ucast num, up_packet_index := ucast (of_nat k :: u16)\<rparr>\<rparr>"
  have old: "(case d_files d UPGRADE_FILE_NAME of None \<Rightarrow> [] | Some c \<Rightarrow> c) = upgrade_file d"
    by (simp add: upgrade_file_def)
  have wr: "upgrade_write e (unat (up_offset (up ?d0))) x ?d0 =
      (int (length x), ?d0\<lparr>d_files := (d_files d)(UPGRADE_FILE_NAME \<mapsto> L @ x)\<rparr>)"
    using assms(1,4,5) by (simp add: upgrade_write_def receiving_def old)
  let ?off = "if 0 < length x then up_offset (up d) + of_nat (length x) else up_offset (up d)"
  let ?d1 = "?d0\<lparr>d_files := (d_files d)(UPGRADE_FILE_NAME \<mapsto> L @ x),
      up := (up ?d0)\<lparr>up_offset := ?off, up_sum_new := s + get_sum x\<rparr>\<rparr>"
  have off: "unat ?off = length L + length x"
    using assms(1,6) by (simp add: receiving_def unat_word_ariths unat_of_nat)
  have rec: "receiving (L @ x) S (s + get_sum x) ?d1"
    using assms(1) off write_at_end [of "L @ x"] by (simp add: receiving_def upgrade_file_def)
  let ?pchar = "[3, hi16 num, lo16 num, hi16 (of_nat k), lo16 (of_nat k)] @ x @ [SAMPLE_PROT_MAGIC]"
  have "recv_upgrade_file e (data_packet num k x) (14 + length x) d =
      recv_upgrade_data e ?pchar (14 + length x) (ucast num) (ucast (of_nat k :: u16)) ?d0"
    using nz idx unfolding recv_upgrade_file_def p Let_def by simp
  also have "\<dots> = (if Suc k = unat num then
         if s + get_sum x = S
         then Inr (upgrade_ack e (take 5 ?pchar @ [0]) (run_upgrade_script e ?d1))
         else Inr (upgrade_ack e (take 5 ?pchar @ [1]) ?d1)
       else Inr (upgrade_ack e (take 5 ?pchar @ [0]) ?d1))"
    using assms(1) last wr by (simp add: recv_upgrade_data_def receiving_def Let_def)
  finally show ?thesis
    using rec off assms(1)
    by (auto simp: run_upgrade_script_def system_def receiving_def upgrade_file_def upgraded_def
        CLEAN_UPGRADE_BIN_def UPGRADE_FILE_CMD_def)
qed

lemma upgrade_data_received:
  assumes "receiving L S s d" "0 < k" "xs \<noteq> []" "k + length xs = unat num"
    "fs_open (e_fs e) UPGRADE_FILE_NAME" "\<forall>x \<in> set xs. length x \<le> fs_room (e_fs e)"
    "length L + length (concat xs) < 2 ^ 32"
  shows "\<exists>d' ok. upgrade_data e num k xs d = Inr d' \<and> ok = (s + get_sum (concat xs) = S) \<and>
    unat (up_offset (up d')) = length (L @ concat xs) \<and> up_sum_new (up d') = s + get_sum (concat xs) \<and>
    d_files d' = upgraded e ok ((d_files d)(UPGRADE_FILE_NAME \<mapsto> L @ concat xs)) \<and>
    shell d' = (if ok then UPGRADE_FILE_CMD # shell d else shell d)"
  using assms
proof (induction xs arbitrary: L s d k)
  case (Cons x xs)
  have "unat num < 2 ^ 16" using unsigned_less [of num, where ?'a = nat] by simp
  then have "k < 2 ^ 16" using Cons.prems(4) by simp
  then obtain d1 ok where d1: "recv_upgrade_file e (data_packet num k x) (14 + length x) d = Inr d1"
      "ok = (k + 1 = unat num \<and> s + get_sum x = S)" "\<not> ok \<longrightarrow> receiving (L @ x) S (s + get_sum x) d1"
      "unat (up_offset (up d1)) = length (L @ x)" "up_sum_new (up d1) = s + get_sum x"
      "d_files d1 = upgraded e ok ((d_files d)(UPGRADE_FILE_NAME \<mapsto> L @ x))"
      "shell d1 = (if ok then UPGRADE_FILE_CMD # shell d else shell d)"
    using data_packet_received [OF Cons.prems(1,2) _ Cons.prems(5), of x num] Cons.prems(6,7) by auto
  show ?case
  proof (cases "xs = []")
    case True
    then show ?thesis using d1 Cons.prems(4) by (intro exI [of _ d1] exI [of _ ok]) (simp del: fun_upd_apply)
  next
    case False
    then have ok: "ok = False" using Cons.prems(4) d1(2) by (cases xs) auto
    then have d1': "receiving (L @ x) S (s + get_sum x) d1" "d_files d1 = (d_files d)(UPGRADE_FILE_NAME \<mapsto> L @ x)"
        "shell d1 = shell d"
      using d1(3,6,7) unfolding ok by simp_all
    have "\<exists>d' ok. upgrade_data e num (Suc k) xs d1 = Inr d' \<and> ok = ((s + get_sum x) + get_sum (concat xs) = S) \<and>
        unat (up_offset (up d')) = length ((L @ x) @ concat xs) \<and>
        up_sum_new (up d') = (s + get_sum x) + get_sum (concat xs) \<and>
        d_files d' = upgraded e ok ((d_files d1)(UPGRADE_FILE_NAME \<mapsto> (L @ x) @ concat xs)) \<and>
        shell d' = (if ok then UPGRADE_FILE_CMD # shell d1 else shell d1)"
      using Cons.prems d1'(1) False by (intro Cons.IH) auto
    then show ?thesis using d1(1) d1'(2,3) by (simp add: get_sum_append add.assoc del: fun_upd_apply split del: if_split cong del: if_weak_cong)
  qed
qed simp

lemma upgrade_transfer_received:
  assumes "xs \<noteq> []" "length xs + 1 < 2 ^ 16" "fs_open (e_fs e) UPGRADE_FILE_NAME"
    "\<forall>x \<in> set xs. length x \<le> fs_room (e_fs e)" "unat (up_offset (up d)) + length (concat xs) < 2 ^ 32"
  shows "\<exists>d' ok. upgrade_transfer e S xs d = Inr d' \<and> ok = (up_sum_new (up d) + get_sum (concat xs) = S) \<and>
    d_files d' = upgraded e ok ((d_files d)(UPGRADE_FILE_NAME \<mapsto> replicate (unat (up_offset (up d))) 0 @ concat xs)) \<and>
    shell d' = (if ok then [UPGRADE_FILE_CMD] else []) @ CLEAN_UPGRADE_BIN # shell d \<and>
    unat (up_offset (up d')) = unat (up_offset (up d)) + length (concat xs) \<and>
    up_sum_new (up d') = up_sum_new (up d) + get_sum (concat xs)"
proof -
  let ?num = "of_nat (length xs + 1) :: u16"
  obtain d1 where d1: "recv_upgrade_file e (sum_packet ?num S) 18 d = Inr d1"
      "receiving (replicate (unat (up_offset (up d))) 0) S (up_sum_new (up d)) d1"
      "shell d1 = CLEAN_UPGRADE_BIN # shell d" "d_files d1 = (d_files d)(UPGRADE_FILE_NAME := None)"
    using sum_packet_received [of e ?num S d] by blast
  have num: "unat ?num = length xs + 1" using assms(2) by (simp add: unat_of_nat del: of_nat_add of_nat_Suc)
  show ?thesis
    using upgrade_data_received [OF d1(2) _ assms(1) _ assms(3,4), of 1 ?num] d1(1,3,4) num assms(5)
    by (auto simp: upgrade_transfer_def)
qed

text \<open>A request for a file that is there queues the acknowledgement and the first packet.\<close>

lemma mm_req_served:
  assumes "hdr_cmd (SBProtHeader_at buf) = SAMPLE_CMD_REQ_MM_DATA" "SBMmHeader_at (drop 8 buf) = \<lparr>mmh_type = ty, mmh_id = htonl i\<rparr>"
    "\<not> ps_mm_data_trans_waiting (pkg_status d)" "d_files d (mmid_to_filename (e_build e) i) = Some c" "uploadable c"
    "e_malloc1 e" "e_malloc2 e" "send_q d = []"
  shows "\<exists>buf' d0 d1 n1. send_mm_req_ack e buf 14 d = (0, buf', d1) \<and> uploading e ty i c (Suc 0) d1 \<and>
    send_q d1 = [queued_msg e SAMPLE_CMD_REQ_MM_DATA [] d0, n1] \<and> carries e (packet ty i c 0) n1 \<and>
    send_serial SAMPLE_CMD_REQ_MM_DATA d0 = recv_serial_num d \<and> 0 < packet_count c"
proof -
  let ?d = "set_filepath (mmid_to_filename (e_build e) i) d"
  let ?send = "snd (message_queue_send e SAMPLE_CMD_REQ_MM_DATA [] ?d)"
  let ?d1 = "?send\<lparr>pkg_status := (pkg_status ?send)\<lparr>ps_mm_data_trans_waiting := True,
      ps_mm := \<lparr>pi_type = ty, pi_id = i, pi_packet_total_num = of_nat (packet_count c), pi_packet_index = 0\<rparr>\<rparr>\<rparr>"
  have pos: "0 < packet_count c" using chunk_nonempty [of 0 c] assms(5) IMAGE_SIZE_pos by (auto simp: chunk_def uploadable_def)
  have up0: "uploading e ty i c 0 ?d1" using assms(4) by (simp add: uploading_def)
  have q: "send_q ?d1 = [queued_msg e SAMPLE_CMD_REQ_MM_DATA [] ?d]"
    using send_q_room [of ?d e "[]" SAMPLE_CMD_REQ_MM_DATA] assms(6-8) by (simp add: size_defs PTR_QUEUE_BUF_CNT_def)
  obtain d1 n1 where d1: "sample_send_image e ?d1 = (0, d1)" "uploading e ty i c (Suc 0) d1"
      "send_q d1 = [queued_msg e SAMPLE_CMD_REQ_MM_DATA [] ?d, n1]" "carries e (packet ty i c 0) n1"
    using sample_send_image_step [OF up0 pos assms(5-7)] q by (auto simp: PTR_QUEUE_BUF_CNT_def)
  have req: "send_mm_req_ack e buf 14 d = (0, overwrite buf (fst (message_queue_send e SAMPLE_CMD_REQ_MM_DATA [] ?d)), d1)"
    using assms(1-4) d1(1) packet_total [OF assms(5)]
    by (simp add: send_mm_req_ack_def find_local_image_name_def GetFileSize_def split_beta)
  have "send_serial SAMPLE_CMD_REQ_MM_DATA ?d = recv_serial_num d"
    by (simp add: send_serial_def MasterIsMe_def do_serial_num_def set_filepath_def)
  then show ?thesis using req d1 pos by blast
qed

section \<open>Properties\<close>

text \<open>a requested file arrives whole. The request is acknowledged and answered with the first packet;
  each acknowledgement of the host brings the next one; after the last acknowledgement the device is
  ready for another request. The packets carry their number and the total, in network byte order, and
  the pieces of the file, which put together are the file.\<close>

theorem media_upload_complete:
  assumes "hdr_cmd (SBProtHeader_at buf) = SAMPLE_CMD_REQ_MM_DATA" "SBMmHeader_at (drop 8 buf) = \<lparr>mmh_type = ty, mmh_id = htonl i\<rparr>"
    "\<not> ps_mm_data_trans_waiting (pkg_status d)" "d_files d (mmid_to_filename (e_build e) i) = Some c" "uploadable c"
    "e_malloc1 e" "e_malloc2 e" "send_q d = []"
    "length acks = packet_count c" "\<And>j. j < packet_count c \<Longrightarrow> acks_packet j (acks ! j)"
  shows "\<exists>ret buf' d1 n0 n1 ns d2. send_mm_req_ack e buf 14 d = (ret, buf', d1) \<and> send_q d1 = [n0, n1] \<and>
    q_buf n0 = Mem (transmit (build_frame (e_build e) (recv_serial_num d) SAMPLE_CMD_REQ_MM_DATA [])) \<and>
    serve_acks e acks d1 = (ns, d2) \<and>
    list_all2 (carries e) (map (packet ty i c) [0..<packet_count c]) (n1 # ns) \<and>
    concat (map (chunk c) [0..<packet_count c]) = c \<and> \<not> ps_mm_data_trans_waiting (pkg_status d2)"
proof -
  obtain buf' d0 d1 n1 where d1: "send_mm_req_ack e buf 14 d = (0, buf', d1)" "uploading e ty i c (Suc 0) d1"
      "send_q d1 = [queued_msg e SAMPLE_CMD_REQ_MM_DATA [] d0, n1]" "carries e (packet ty i c 0) n1"
      "send_serial SAMPLE_CMD_REQ_MM_DATA d0 = recv_serial_num d" "0 < packet_count c"
    using mm_req_served [OF assms(1-8)] by blast
  have rest: "list_all2 (carries e) (map (packet ty i c) [Suc 0..<packet_count c]) (fst (serve_acks e acks d1))"
      "\<not> ps_mm_data_trans_waiting (pkg_status (snd (serve_acks e acks d1)))"
    using serve_acks_upload [OF d1(2) _ d1(6) assms(5-7), of acks] assms(9,10) by auto
  obtain ns d2 where sa: "serve_acks e acks d1 = (ns, d2)" by (cases "serve_acks e acks d1")
  have l: "list_all2 (carries e) (map (packet ty i c) [0..<packet_count c]) (n1 # ns)"
    using rest(1) sa d1(4,6) by (simp add: upt_conv_Cons [of 0])
  show ?thesis
    by (intro exI conjI, rule d1(1), rule d1(3), simp add: d1(5), rule sa, rule l, rule concat_all_chunks)
      (use rest(2) sa in simp)
qed

theorem media_upload_complete_witness:
  "\<exists>ret buf' d1 n0 n1 ns d2.
    send_mm_req_ack (idle_env ENABLE_ADAS) ([0x7E, 0, 0, 1, 0x12, 0x34, 0x64, 0x50, 2] @ le32 (htonl 7) @ [0x7E]) 14
      (idle_device\<lparr>d_files := [mmid_to_filename ENABLE_ADAS 7 \<mapsto> [1, 2, 3]]\<rparr>) = (ret, buf', d1) \<and>
    serve_acks (idle_env ENABLE_ADAS) [replicate 18 0] d1 = (ns, d2) \<and>
    list_all2 (carries (idle_env ENABLE_ADAS)) [packet 2 7 [1, 2, 3] 0] (n1 # ns) \<and>
    \<not> ps_mm_data_trans_waiting (pkg_status d2)"
proof -
  let ?buf = "[0x7E, 0, 0, 1, 0x12, 0x34, 0x64, 0x50, 2] @ le32 (htonl 7) @ [0x7E]"
  let ?d = "idle_device\<lparr>d_files := [mmid_to_filename ENABLE_ADAS 7 \<mapsto> [1, 2, 3]]\<rparr>"
  have n: "packet_count [1, 2, 3 :: u8] = 1" by (simp add: packet_count_def IMAGE_SIZE_PER_PACKET_def)
  have id: "SBMmHeader_at (drop 8 ?buf) = \<lparr>mmh_type = 2, mmh_id = htonl 7\<rparr>"
    by (simp add: SBMmHeader_at_def u32_at_def le32_def htonl_def)
  have ack: "acks_packet 0 (replicate 18 0)"
    by (simp add: acks_packet_def MmAckInfo_at_def u16_at_def htons_def) (simp add: of_le16_def)
  have "\<exists>ret buf' d1 n0 n1 ns d2. send_mm_req_ack (idle_env ENABLE_ADAS) ?buf 14 ?d = (ret, buf', d1) \<and> send_q d1 = [n0, n1] \<and>
    q_buf n0 = Mem (transmit (build_frame (e_build (idle_env ENABLE_ADAS)) (recv_serial_num ?d) SAMPLE_CMD_REQ_MM_DATA [])) \<and>
    serve_acks (idle_env ENABLE_ADAS) [replicate 18 0] d1 = (ns, d2) \<and>
    list_all2 (carries (idle_env ENABLE_ADAS)) (map (packet 2 7 [1, 2, 3]) [0..<packet_count [1, 2, 3]]) (n1 # ns) \<and>
    concat (map (chunk [1, 2, 3]) [0..<packet_count [1, 2, 3]]) = [1, 2, 3] \<and>
    \<not> ps_mm_data_trans_waiting (pkg_status d2)"
    by (rule media_upload_complete)
      (simp_all only: id n, simp_all add: SBProtHeader_at_def idle_env_def idle_device_def ack uploadable_def IMAGE_SIZE_PER_PACKET_def)
  then show ?thesis by (auto simp: n)
qed

text \<open>C15: the first upgrade after a start works. While it arrives, the data packets are written one after the
  other at the running offset. When the image has not the announced sum, it is left in the upgrade file and
  nothing is run. When it has, the script runs on exactly that image, which it moves away, and the programs
  and configuration files found in it are those of the device afterwards.\<close>

theorem first_upgrade_correct:
  assumes "up_offset (up d) = 0" "up_sum_new (up d) = 0" "xs \<noteq> []" "length xs + 1 < 2 ^ 16"
    "fs_open (e_fs e) UPGRADE_FILE_NAME" "\<forall>x \<in> set xs. length x \<le> fs_room (e_fs e)" "length (concat xs) < 2 ^ 32"
    and "up_untar (e_upgrade e) (concat xs) = Some members" "distinct (map fst members)"
    and "''subiao_upgrade.bin'' \<notin> fst ` set members" "mpk_keeps (e_upgrade e)"
  shows "\<exists>d'. upgrade_transfer e S xs d = Inr d' \<and>
    (if get_sum (concat xs) = S
     then shell d' = UPGRADE_FILE_CMD # CLEAN_UPGRADE_BIN # shell d \<and>
       d_files d' = prot_upgrade_sh (e_upgrade e) ((d_files d)(UPGRADE_FILE_NAME \<mapsto> concat xs)) \<and>
       d_files d' UPGRADE_FILE_NAME = None \<and>
       (\<forall>(name, content) \<in> set members.
          (name \<in> {''AdasProt'', ''DsmProt'', ''adasProt.sh'', ''dsmProt.sh''} \<longrightarrow>
             d_files d' (''/system/bin/'' @ name) = Some content) \<and>
          (name \<in> {''prot.json'', ''prot_upgrade.sh''} \<longrightarrow> d_files d' (''/data/'' @ name) = Some content))
     else shell d' = CLEAN_UPGRADE_BIN # shell d \<and> d_files d' = (d_files d)(UPGRADE_FILE_NAME \<mapsto> concat xs))"
proof -
  have name: "UPGRADE_FILE_NAME = target_bin"
    by (simp add: UPGRADE_FILE_NAME_def target_bin_def upgrade_dir_def)
  let ?fs = "(d_files d)(UPGRADE_FILE_NAME \<mapsto> concat xs)"
  have img: "?fs target_bin = Some (concat xs)" by (simp add: name)
  obtain d' where d': "upgrade_transfer e S xs d = Inr d'" "d_files d' = upgraded e (get_sum (concat xs) = S) ?fs"
      "shell d' = (if get_sum (concat xs) = S then [UPGRADE_FILE_CMD] else []) @ CLEAN_UPGRADE_BIN # shell d"
    using upgrade_transfer_received [OF assms(3-6), of d S] assms(1,2,7) by auto
  have sh: "d_files d' = prot_upgrade_sh (e_upgrade e) ?fs" if "get_sum (concat xs) = S"
    using d'(2) that by (simp add: upgraded_def)
  have names: "set upgrade_bin = {''AdasProt'', ''DsmProt'', ''adasProt.sh'', ''dsmProt.sh''}"
      "set upgrade_conf = {''prot.json'', ''prot_upgrade.sh''}"
    by (simp_all add: upgrade_bin_def upgrade_conf_def)
  note installs = script_installs [where fs = ?fs and img = "concat xs", OF img assms(8,9,11), unfolded names]
  note taken = script_takes_image [where fs = ?fs and img = "concat xs", OF img assms(8,11,10)]
  show ?thesis
  proof (cases "get_sum (concat xs) = S")
    case True
    have files: "(n \<in> {''AdasProt'', ''DsmProt'', ''adasProt.sh'', ''dsmProt.sh''} \<longrightarrow> d_files d' (''/system/bin/'' @ n) = Some c) \<and>
        (n \<in> {''prot.json'', ''prot_upgrade.sh''} \<longrightarrow> d_files d' (''/data/'' @ n) = Some c)" if "(n, c) \<in> set members" for n c
      unfolding sh [OF True] using installs [OF that] by blast
    have all: "\<forall>(n, c) \<in> set members.
        (n \<in> {''AdasProt'', ''DsmProt'', ''adasProt.sh'', ''dsmProt.sh''} \<longrightarrow> d_files d' (''/system/bin/'' @ n) = Some c) \<and>
        (n \<in> {''prot.json'', ''prot_upgrade.sh''} \<longrightarrow> d_files d' (''/data/'' @ n) = Some c)"
      by (intro ballI case_prodI2) (rule files, simp)
    have "shell d' = UPGRADE_FILE_CMD # CLEAN_UPGRADE_BIN # shell d" using d'(3) True by simp
    moreover have "d_files d' UPGRADE_FILE_NAME = None" unfolding sh [OF True] using taken name by simp
    ultimately show ?thesis
      unfolding if_P [OF True] using d'(1) sh [OF True] all by (intro exI [of _ d'] conjI)
  qed (use d' in auto)
qed

definition plain_tools :: upgrade_tools where
  "plain_tools = \<lparr>up_untar = \<lambda>c. Some [(''AdasProt'', c)], up_install_mpk = \<lambda>fs. fs\<rparr>"

theorem first_upgrade_correct_witness:
  "\<exists>d'. upgrade_transfer ((idle_env ENABLE_ADAS)\<lparr>e_upgrade := plain_tools\<rparr>) 6 [[1, 2], [3]] idle_device = Inr d' \<and>
    d_files d' (''/system/bin/'' @ ''AdasProt'') = Some [1, 2, 3] \<and> d_files d' UPGRADE_FILE_NAME = None \<and>
    shell d' = [UPGRADE_FILE_CMD, CLEAN_UPGRADE_BIN]"
proof -
  have "mpk_keeps plain_tools" by (simp add: mpk_keeps_def plain_tools_def)
  moreover have "up_untar plain_tools (concat [[1, 2], [3]]) = Some [(''AdasProt'', [1, 2, 3])]" by (simp add: plain_tools_def)
  moreover have "get_sum (concat [[1, 2], [3]]) = 6" by (simp add: get_sum_def)
  ultimately show ?thesis
    using first_upgrade_correct [of idle_device "[[1, 2], [3]]" "(idle_env ENABLE_ADAS)\<lparr>e_upgrade := plain_tools\<rparr>"
        "[(''AdasProt'', [1, 2, 3])]" 6]
    by (auto simp: idle_device_def idle_env_def)
qed

text \<open>C20: a second upgrade fails. The offset and the sum are not reset, so after one image has been
  received, a correct second one is written behind a gap of zeros as long as the first and is rejected,
  unless the sum of the first was zero.\<close>

theorem second_upgrade_fails:
  assumes "up_offset (up d) = 0" "up_sum_new (up d) = 0" "upgrade_transfer e S xs d = Inr d1" "get_sum (concat xs) \<noteq> 0"
    "xs \<noteq> []" "length xs + 1 < 2 ^ 16" "ys \<noteq> []" "length ys + 1 < 2 ^ 16"
    "fs_open (e_fs e) UPGRADE_FILE_NAME" "\<forall>x \<in> set xs \<union> set ys. length x \<le> fs_room (e_fs e)"
    "length (concat xs) + length (concat ys) < 2 ^ 32"
  shows "\<exists>d2. upgrade_transfer e (get_sum (concat ys)) ys d1 = Inr d2 \<and> shell d2 = CLEAN_UPGRADE_BIN # shell d1 \<and>
    d_files d2 UPGRADE_FILE_NAME = Some (replicate (length (concat xs)) 0 @ concat ys)"
proof -
  have d1: "unat (up_offset (up d1)) = length (concat xs)" "up_sum_new (up d1) = get_sum (concat xs)"
    using upgrade_transfer_received [of xs e d S] assms by auto
  then show ?thesis
    using upgrade_transfer_received [of ys e d1 "get_sum (concat ys)"] assms by auto
qed

theorem second_upgrade_fails_witness:
  "\<exists>d1 d2. upgrade_transfer (idle_env ENABLE_ADAS) 6 [[1, 2], [3]] idle_device = Inr d1 \<and>
    upgrade_transfer (idle_env ENABLE_ADAS) (get_sum (concat [[1, 2], [3]])) [[1, 2], [3]] d1 = Inr d2 \<and>
    shell d2 = CLEAN_UPGRADE_BIN # shell d1"
proof -
  obtain d1 where d1: "upgrade_transfer (idle_env ENABLE_ADAS) 6 [[1, 2], [3]] idle_device = Inr d1"
    using upgrade_transfer_received [of "[[1, 2], [3]]" "idle_env ENABLE_ADAS" idle_device 6]
    by (auto simp: idle_device_def idle_env_def)
  then show ?thesis
    using second_upgrade_fails [of idle_device "idle_env ENABLE_ADAS" 6 "[[1, 2], [3]]" d1 "[[1, 2], [3]]"]
    by (auto simp: idle_device_def idle_env_def get_sum_def)
qed

end
