(* ===== verification/Net.thy ===== *)
theory Net
  imports CommandProps
begin

text \<open>
  The byte transports: \<open>net.cpp\<close> (TCP) and \<open>uart.cpp\<close> (RS232). What the kernel does with one
  \<open>read\<close>, \<open>write\<close> or \<open>select\<close> is an argument: a write is given as the number of bytes the
  kernel has room for or as the error it reports, a read as the bytes that have arrived or as the
  error. A sending loop takes the list of these outcomes; where the list ends before the loop does,
  the thread is still waiting, which is the value \<open>None\<close>. On the target \<open>EWOULDBLOCK\<close> is
  \<open>EAGAIN\<close>.
\<close>

section \<open>System calls\<close>

datatype errno = EINTR | EAGAIN | ENOBUFS | EBADF | EPIPE | ETIMEDOUT | OTHER_ERRNO

datatype write_result = Room nat | Write_error errno
datatype read_result = Bytes "u8 list" | Read_error errno
datatype select_result = Select_error errno | Select_timeout | Select_ready read_result

text \<open>The members of \<open>prot_handle\<close> the sending side uses; the receive buffer \<open>rcvData\<close> is the
  decoder's.\<close>

record prot_handle =
  h_fd :: int
  h_sndData_s :: "u8 list"
  h_sndlen :: int

section \<open>TCP\<close>

text \<open>The loop of \<open>tcp_snd\<close>: the return value, the bytes put on the wire and the outcomes not
  used. The test of \<open>ret <= 0\<close> reads \<open>errno\<close> also after a write of zero bytes, which leaves the
  value of the last error in it.\<close>

fun tcp_snd_loop ::
  "u8 list \<Rightarrow> nat \<Rightarrow> nat \<Rightarrow> errno \<Rightarrow> write_result list \<Rightarrow> (int \<times> u8 list \<times> write_result list) option" where
  "tcp_snd_loop buf len offset err [] = (if offset < len then None else Some (0, [], []))"
| "tcp_snd_loop buf len offset err (w # ws) =
     (if offset < len then
        let (ret, err) = (case w of Room n \<Rightarrow> (int (min n (len - offset)), err) | Write_error x \<Rightarrow> (- 1, x))
        in if ret \<le> 0 then
             if err = EINTR \<or> err = EAGAIN then tcp_snd_loop buf len offset err ws
             else Some (- 1, [], ws)
           else map_option (\<lambda>(r, wire, ws'). (r, bytes_at buf offset (nat ret) @ wire, ws'))
                  (tcp_snd_loop buf len (offset + nat ret) err ws)
      else Some (0, [], w # ws))"

definition tcp_snd :: "prot_handle \<Rightarrow> errno \<Rightarrow> write_result list \<Rightarrow> (int \<times> u8 list \<times> write_result list) option" where
  "tcp_snd handle err ws =
     (if h_fd handle < 0 \<or> h_sndlen handle < 0 then Some (- 1, [], ws)
      else tcp_snd_loop (h_sndData_s handle) (nat (h_sndlen handle)) 0 err ws)"

text \<open>One call of \<open>tcp_rcv\<close>. On an error or the end of the stream it closes the socket, and says so in the
  second component.\<close>

definition tcp_rcv :: "env \<Rightarrow> select_result \<Rightarrow> device \<Rightarrow> (int \<times> bool \<times> device) outcome" where
  "tcp_rcv e sel d =
     (case sel of
        Select_error x \<Rightarrow> Inr (if x \<noteq> EINTR then - 1 else 0, False, d)
      | Select_timeout \<Rightarrow> Inr (0, False, d)
      | Select_ready r \<Rightarrow>
         (case r of
            Read_error x \<Rightarrow> if x = EINTR \<or> x = EAGAIN then Inr (0, False, d) else Inr (- 1, True, handle_close d)
          | Bytes bs \<Rightarrow>
              (if bs = [] then Inr (- 1, True, handle_close d)
               else bindE (prot_parse e (take SLIP_DATA_BUF_SIZE bs) d) (\<lambda>d. Inr (0, False, d)))))"

section \<open>RS232\<close>

text \<open>\<open>uart_snd\<close> gives up at the first error and returns how much was sent; \<open>Nwrite\<close> has the same
  loop over its own arguments. \<open>buf\<close> is the part not yet sent.\<close>

fun write_loop :: "nat \<Rightarrow> u8 list \<Rightarrow> nat \<Rightarrow> write_result list \<Rightarrow> (int \<times> u8 list \<times> write_result list) option" where
  "write_loop count buf nleft [] = (if nleft > 0 then None else Some (int count, [], []))"
| "write_loop count buf nleft (w # ws) =
     (if nleft > 0 then
        case w of
          Write_error x \<Rightarrow>
            if x = EINTR \<or> x = EAGAIN then Some (int count - int nleft, [], ws) else Some (- 1, [], ws)
        | Room n \<Rightarrow>
            (let r = min n nleft in
             if r = 0 then Some (- 2, [], ws)
             else map_option (\<lambda>(ret, wire, ws'). (ret, take r buf @ wire, ws'))
                    (write_loop count (drop r buf) (nleft - r) ws))
      else Some (int count, [], w # ws))"

definition Nwrite :: "u8 list \<Rightarrow> nat \<Rightarrow> write_result list \<Rightarrow> (int \<times> u8 list \<times> write_result list) option" where
  "Nwrite buf count ws = write_loop count buf count ws"

definition uart_snd :: "prot_handle \<Rightarrow> write_result list \<Rightarrow> (int \<times> u8 list \<times> write_result list) option" where
  "uart_snd handle ws =
     (let count = nat (h_sndlen handle) in write_loop count (h_sndData_s handle) count ws)"

text \<open>One call of \<open>uart_rcv\<close>. A read of no bytes is not an error on a serial line.\<close>

definition uart_rcv :: "env \<Rightarrow> select_result \<Rightarrow> device \<Rightarrow> (int \<times> bool \<times> device) outcome" where
  "uart_rcv e sel d =
     (case sel of
        Select_error x \<Rightarrow> Inr (if x \<noteq> EINTR then - 1 else 0, False, d)
      | Select_timeout \<Rightarrow> Inr (0, False, d)
      | Select_ready r \<Rightarrow>
         (case r of
            Read_error x \<Rightarrow> if x = EINTR \<or> x = EAGAIN then Inr (0, False, d) else Inr (- 1, False, d)
          | Bytes bs \<Rightarrow>
              (if bs = [] then Inr (0, False, d)
               else bindE (prot_parse e (take SLIP_DATA_BUF_SIZE bs) d) (\<lambda>d. Inr (0, False, d)))))"

text \<open>\<open>Nread\<close>: what a read finds beyond the bytes asked for stays for the next one.\<close>

fun read_fd :: "nat \<Rightarrow> read_result list \<Rightarrow> (read_result \<times> read_result list) option" where
  "read_fd n [] = None"
| "read_fd n (Read_error x # rs) = Some (Read_error x, rs)"
| "read_fd n (Bytes bs # rs) =
     Some (Bytes (take n bs), if length bs \<le> n then rs else Bytes (drop n bs) # rs)"

function Nread :: "nat \<Rightarrow> read_result list \<Rightarrow> (int \<times> u8 list) option" where
  "Nread nleft rs =
     (if nleft > 0 then
        case read_fd nleft rs of
          None \<Rightarrow> None
        | Some (Read_error x, rs') \<Rightarrow> if x = EINTR \<or> x = EAGAIN then Some (0, []) else Some (- 1, [])
        | Some (Bytes bs, rs') \<Rightarrow>
            (if bs = [] then Some (0, [])
             else map_option (\<lambda>(r, data). (if r < 0 then r else int (length bs) + r, bs @ data))
                    (Nread (nleft - length bs) rs'))
      else Some (0, []))"
  by pat_completeness auto
termination
  by (relation "measure fst") auto

declare Nread.simps [simp del]

section \<open>The interface of \<open>prot_handle\<close>\<close>

definition handle_snd ::
  "transport \<Rightarrow> prot_handle \<Rightarrow> errno \<Rightarrow> write_result list \<Rightarrow> (int \<times> u8 list \<times> write_result list) option" where
  "handle_snd tr handle err ws =
     (case tr of TCP_INTERFACE \<Rightarrow> tcp_snd handle err ws | RS232_INTERFACE \<Rightarrow> uart_snd handle ws)"

definition handle_rcv :: "env \<Rightarrow> select_result \<Rightarrow> device \<Rightarrow> (int \<times> bool \<times> device) outcome" where
  "handle_rcv e sel d =
     (case e_tr e of TCP_INTERFACE \<Rightarrow> tcp_rcv e sel d | RS232_INTERFACE \<Rightarrow> uart_rcv e sel d)"

section \<open>What a sender promises\<close>

text \<open>The kernel takes all of \<open>n\<close> bytes in the end: each write makes progress or fails with an
  error after which the loop tries again.\<close>

fun takes_all :: "(errno \<Rightarrow> bool) \<Rightarrow> nat \<Rightarrow> write_result list \<Rightarrow> bool" where
  "takes_all retry n [] \<longleftrightarrow> n = 0"
| "takes_all retry n (Room k # ws) \<longleftrightarrow> n = 0 \<or> 0 < k \<and> takes_all retry (n - k) ws"
| "takes_all retry n (Write_error x # ws) \<longleftrightarrow> n = 0 \<or> retry x \<and> takes_all retry n ws"

abbreviation transient :: "errno \<Rightarrow> bool" where
  "transient x \<equiv> x = EINTR \<or> x = EAGAIN"

locale sender =
  fixes send :: "u8 list \<Rightarrow> nat \<Rightarrow> write_result list \<Rightarrow> (int \<times> u8 list \<times> write_result list) option"
    and all_sent :: "nat \<Rightarrow> int"
    and retry :: "errno \<Rightarrow> bool"
  assumes in_order: "send buf len ws = Some (r, wire, ws') \<Longrightarrow> len \<le> length buf \<Longrightarrow>
            \<exists>n \<le> len. wire = take n buf \<and> (r = all_sent len \<longrightarrow> n = len)"
    and delivers: "takes_all retry len ws \<Longrightarrow> len \<le> length buf \<Longrightarrow>
            \<exists>ws'. send buf len ws = Some (all_sent len, take len buf, ws')"
begin

lemma complete_iff:
  assumes "send buf len ws = Some (r, wire, ws')" "len \<le> length buf" "r = all_sent len"
  shows "wire = take len buf"
  using in_order [OF assms(1,2)] assms(3) by auto

lemma never_more: "send buf len ws = Some (r, wire, ws') \<Longrightarrow> len \<le> length buf \<Longrightarrow> length wire \<le> len"
  using in_order by fastforce

end

lemma bytes_at_more:
  "bytes_at buf off k @ bytes_at buf (off + k) n = bytes_at buf off (k + n)"
  by (simp add: bytes_at_def take_add drop_drop add.commute)

lemma tcp_snd_loop_in_order:
  assumes "tcp_snd_loop buf len off err ws = Some (r, wire, ws')" "off \<le> len" "len \<le> length buf"
  shows "\<exists>n \<le> len - off. wire = bytes_at buf off n \<and> (r = 0 \<longrightarrow> n = len - off)"
  using assms
proof (induction buf len off err ws arbitrary: wire rule: tcp_snd_loop.induct)
  case (1 buf len offset err)
  then show ?case by (auto simp: bytes_at_def split: if_splits)
next
  case (2 buf len off err w ws)
  define ret where "ret = (case w of Room n \<Rightarrow> int (min n (len - off)) | Write_error x \<Rightarrow> - 1)"
  define err' where "err' = (case w of Room n \<Rightarrow> err | Write_error x \<Rightarrow> x)"
  have pair: "(ret, err') = (case w of Room n \<Rightarrow> (int (min n (len - off)), err) | Write_error x \<Rightarrow> (- 1, x))"
    by (simp add: ret_def err'_def split: write_result.split)
  have le: "nat ret \<le> len - off" by (simp add: ret_def split: write_result.split)
  consider (fin) "off = len" | (stop) "off < len" "ret \<le> 0" "\<not> transient err'"
    | (again) "off < len" "ret \<le> 0" "transient err'" | (more) "off < len" "0 < ret"
    using 2(4) by linarith
  then show ?case
  proof cases
    case fin then show ?thesis using 2(3) by (auto simp: bytes_at_def)
  next
    case stop then show ?thesis using 2(3) by (auto simp: bytes_at_def simp flip: pair)
  next
    case again
    then show ?thesis using 2(1) [OF again(1) pair refl again(2,3)] 2(3-5) by (simp flip: pair)
  next
    case more
    then obtain wire' where rest: "tcp_snd_loop buf len (off + nat ret) err' ws = Some (r, wire', ws')"
        and wire: "wire = bytes_at buf off (nat ret) @ wire'"
      using 2(3) by (auto simp flip: pair)
    have "\<exists>n \<le> len - (off + nat ret). wire' = bytes_at buf (off + nat ret) n \<and> (r = 0 \<longrightarrow> n = len - (off + nat ret))"
      using 2(2) [OF more(1) pair refl _ rest] more(2) le 2(4,5) by simp
    then obtain n where n: "n \<le> len - (off + nat ret)" "wire' = bytes_at buf (off + nat ret) n"
        "r = 0 \<longrightarrow> n = len - (off + nat ret)" by blast
    then show ?thesis
      using le more by (intro exI [of _ "nat ret + n"]) (auto simp: wire bytes_at_more)
  qed
qed

lemma tcp_snd_loop_delivers:
  assumes "takes_all transient (len - off) ws" "off \<le> len" "len \<le> length buf"
  shows "\<exists>ws'. tcp_snd_loop buf len off err ws = Some (0, bytes_at buf off (len - off), ws')"
  using assms
proof (induction ws arbitrary: off err)
  case Nil
  then show ?case by (simp add: bytes_at_def)
next
  case (Cons w ws)
  show ?case
  proof (cases "off = len")
    case True then show ?thesis by (simp add: bytes_at_def)
  next
    case False
    then have lt: "off < len" using Cons.prems by simp
    show ?thesis
    proof (cases w)
      case (Room k)
      define m where "m = min k (len - off)"
      have m: "0 < m" "off + m \<le> len" "len - off - k = len - (off + m)"
        using Cons.prems lt Room by (auto simp: m_def)
      then obtain ws' where "tcp_snd_loop buf len (off + m) err ws = Some (0, bytes_at buf (off + m) (len - (off + m)), ws')"
        using Cons.IH [of "off + m" err] Cons.prems lt Room by auto
      then show ?thesis
        using lt m bytes_at_more [of buf off m "len - (off + m)"] Room by (simp flip: m_def)
    next
      case (Write_error x)
      then show ?thesis using Cons.IH [of off x] Cons.prems lt by auto
    qed
  qed
qed

lemma write_loop_in_order:
  assumes "write_loop count buf nleft ws = Some (r, wire, ws')" "nleft \<le> length buf" "nleft \<le> count"
  shows "\<exists>n \<le> nleft. wire = take n buf \<and> (r = int count \<longrightarrow> n = nleft)"
  using assms
proof (induction ws arbitrary: buf nleft wire)
  case Nil
  then show ?case by (auto split: if_splits)
next
  case (Cons w ws)
  consider (fin) "nleft = 0" | (err) x where "0 < nleft" "w = Write_error x" | (none) "0 < nleft" "w = Room 0"
    | (more) k where "0 < nleft" "w = Room k" "0 < k"
    by (cases w) auto
  then show ?case
  proof cases
    case more
    define m where "m = min k nleft"
    have m: "0 < m" "m \<le> nleft" using more by (auto simp: m_def)
    obtain wire' where rest: "write_loop count (drop m buf) (nleft - m) ws = Some (r, wire', ws')"
        and wire: "wire = take m buf @ wire'"
      using Cons.prems more m by (auto simp: m_def Let_def split: if_splits)
    obtain n where "n \<le> nleft - m" "wire' = take n (drop m buf)" "r = int count \<longrightarrow> n = nleft - m"
      using Cons.IH [OF rest] Cons.prems by fastforce
    then show ?thesis using m by (intro exI [of _ "m + n"]) (auto simp: wire take_add)
  qed (use Cons.prems in \<open>auto split: if_splits\<close>)
qed

lemma write_loop_delivers:
  assumes "takes_all (\<lambda>x. False) nleft ws" "nleft \<le> length buf"
  shows "\<exists>ws'. write_loop count buf nleft ws = Some (int count, take nleft buf, ws')"
  using assms
proof (induction ws arbitrary: buf nleft)
  case Nil
  then show ?case by simp
next
  case (Cons w ws)
  show ?case
  proof (cases "nleft = 0")
    case False
    then obtain k where k: "w = Room k" "0 < k" "takes_all (\<lambda>x. False) (nleft - k) ws"
      using Cons.prems by (cases w) auto
    define m where "m = min k nleft"
    have m: "0 < m" "m \<le> nleft" "nleft - k = nleft - m" using False k by (auto simp: m_def)
    obtain ws' where "write_loop count (drop m buf) (nleft - m) ws = Some (int count, take (nleft - m) (drop m buf), ws')"
      using Cons.IH [of "nleft - m" "drop m buf"] Cons.prems k m by (auto intro: diff_le_mono)
    then show ?thesis
      using False m k take_add [of m "nleft - m" buf] by (simp add: Let_def flip: m_def)
  qed simp
qed

interpretation tcp: sender "\<lambda>buf len. tcp_snd_loop buf len 0 err" "\<lambda>_. 0" transient for err
proof (unfold_locales, goal_cases)
  case (1 buf len ws r wire ws')
  then show ?case using tcp_snd_loop_in_order [of buf len 0 err ws r wire ws'] by (auto simp: bytes_at_def)
next
  case (2 len ws buf)
  then show ?case using tcp_snd_loop_delivers [of len 0 ws buf err] by (auto simp: bytes_at_def)
qed

interpretation uart: sender "\<lambda>buf len. write_loop len buf len" int "\<lambda>_. False"
proof (unfold_locales, goal_cases)
  case (1 buf len ws r wire ws')
  then show ?case using write_loop_in_order [of len buf len ws r wire ws'] by auto
next
  case (2 len ws buf)
  then show ?case using write_loop_delivers [of len ws buf len] by auto
qed

section \<open>What a receiver promises\<close>

text \<open>A parser of a byte stream that keeps all it needs between two calls in its state.\<close>

locale stream_parser =
  fixes parse :: "u8 list \<Rightarrow> 's \<Rightarrow> 's outcome"
  assumes parse_Nil: "parse [] s = Inr s"
    and parse_append: "parse (bs @ cs) s = bindE (parse bs s) (parse cs)"
begin

lemma split_safe: "safe (parse (bs @ cs) s) \<Longrightarrow> safe (parse bs s)"
  unfolding parse_append by (auto simp: safe_def bindE_Inr_iff)

end

lemma prot_parse_exited: "exited d \<Longrightarrow> prot_parse e s d = Inr d"
  by (cases s) auto

lemma bindE_assoc: "bindE (bindE m f) g = bindE m (\<lambda>x. bindE (f x) g)"
  by (cases m) auto

lemma prot_parse_append: "prot_parse e (s @ t) d = bindE (prot_parse e s d) (prot_parse e t)"
proof (induction s arbitrary: d)
  case (Cons ch s)
  then have "prot_parse e (s @ t) = (\<lambda>d. bindE (prot_parse e s d) (prot_parse e t))" by blast
  then show ?case by (simp add: prot_parse_exited bindE_assoc Let_def case_prod_unfold)
qed simp

interpretation host: stream_parser "prot_parse e" for e
  by unfold_locales (simp_all add: prot_parse_append)

text \<open>Successive calls of \<open>handle_rcv\<close> that each find some bytes.\<close>

fun rcv_chunks :: "env \<Rightarrow> u8 list list \<Rightarrow> device \<Rightarrow> device outcome" where
  "rcv_chunks e [] d = Inr d"
| "rcv_chunks e (c # cs) d =
     bindE (handle_rcv e (Select_ready (Bytes c)) d) (\<lambda>(ret, closed, d). rcv_chunks e cs d)"

lemma handle_rcv_Bytes:
  assumes "c \<noteq> []" "length c \<le> SLIP_DATA_BUF_SIZE"
  shows "handle_rcv e (Select_ready (Bytes c)) d = bindE (prot_parse e c d) (\<lambda>d. Inr (0, False, d))"
  using assms by (simp add: handle_rcv_def tcp_rcv_def uart_rcv_def split: transport.split)

lemma rcv_chunks_parse:
  assumes "\<forall>c \<in> set cs. c \<noteq> [] \<and> length c \<le> SLIP_DATA_BUF_SIZE"
  shows "rcv_chunks e cs d = prot_parse e (concat cs) d"
  using assms
proof (induction cs arbitrary: d)
  case (Cons c cs)
  then have "rcv_chunks e cs = prot_parse e (concat cs)" by auto
  then show ?case using Cons.prems by (simp add: handle_rcv_Bytes host.parse_append bindE_assoc)
qed simp

section \<open>Properties\<close>

text \<open>C22: \<open>tcp_snd\<close> is insensitive to how the kernel fragments the writes: whenever each write makes
  progress or is interrupted (\<open>EINTR\<close>, \<open>EAGAIN\<close>), the loop ends with 0 and the wire has exactly
  the message; and on every other outcome the wire has a prefix of the message, all of it if the
  function returns 0.\<close>

theorem tcp_snd_exact:
  assumes "0 \<le> h_fd handle" "0 \<le> h_sndlen handle" "nat (h_sndlen handle) \<le> length (h_sndData_s handle)"
  shows "(takes_all transient (nat (h_sndlen handle)) ws \<longrightarrow>
            (\<exists>ws'. tcp_snd handle err ws = Some (0, take (nat (h_sndlen handle)) (h_sndData_s handle), ws'))) \<and>
         (\<forall>r wire ws'. tcp_snd handle err ws = Some (r, wire, ws') \<longrightarrow>
            (\<exists>n \<le> nat (h_sndlen handle). wire = take n (h_sndData_s handle) \<and>
               (r = 0 \<longrightarrow> n = nat (h_sndlen handle))))"
  using assms tcp.delivers tcp.in_order by (simp add: tcp_snd_def)

theorem tcp_snd_exact_witness:
  "\<exists>ws'. tcp_snd \<lparr>h_fd = 4, h_sndData_s = [1, 2, 3], h_sndlen = 3\<rparr> EPIPE
     [Room 1, Write_error EAGAIN, Room 5] = Some (0, [1, 2, 3], ws')"
  using tcp_snd_exact [of "\<lparr>h_fd = 4, h_sndData_s = [1, 2, 3], h_sndlen = 3\<rparr>"
      "[Room 1, Write_error EAGAIN, Room 5]" EPIPE]
  by simp

text \<open>On the serial line a message is cut off: the port is opened with \<open>O_NDELAY\<close>, and when its
  buffer is full after \<open>k\<close> bytes, \<open>uart_snd\<close> returns \<open>k\<close> without trying again, so the wire has
  the first \<open>k\<close> bytes only. Without a full buffer the whole message is sent.\<close>

theorem uart_snd_cut_off:
  assumes "0 < k" "int k < h_sndlen handle" "nat (h_sndlen handle) \<le> length (h_sndData_s handle)"
  shows "uart_snd handle (Room k # Write_error EAGAIN # ws) = Some (int k, take k (h_sndData_s handle), ws) \<and>
         uart_snd handle (Room (nat (h_sndlen handle)) # ws) =
           Some (h_sndlen handle, take (nat (h_sndlen handle)) (h_sndData_s handle), ws)"
proof -
  have "min k (nat (h_sndlen handle)) = k" "nat (h_sndlen handle) \<noteq> 0" using assms by auto
  then show ?thesis using assms by (cases ws) (simp_all add: uart_snd_def Let_def)
qed

theorem uart_snd_cut_off_witness:
  "uart_snd \<lparr>h_fd = 4, h_sndData_s = [0x7E, 2, 3, 0x7E], h_sndlen = 4\<rparr> [Room 2, Write_error EAGAIN] =
     Some (2, [0x7E, 2], []) \<and>
   uart_snd \<lparr>h_fd = 4, h_sndData_s = [0x7E, 2, 3, 0x7E], h_sndlen = 4\<rparr> [Room 4] =
     Some (4, [0x7E, 2, 3, 0x7E], [])"
  using uart_snd_cut_off [where handle = "\<lparr>h_fd = 4, h_sndData_s = [0x7E, 2, 3, 0x7E], h_sndlen = 4\<rparr>"
      and k = 2 and ws = "[]"]
  by (simp add: numeral_eq_Suc)

text \<open>C21: Reception does not depend on how the stream is cut into reads: calls of the receive function
  that find the chunks \<open>cs\<close>, on either transport, have together the effect of parsing the
  concatenation of the chunks in one go, including the frames that span two reads.\<close>

theorem reception_independent_of_chunks:
  assumes "\<forall>c \<in> set cs. c \<noteq> [] \<and> length c \<le> SLIP_DATA_BUF_SIZE"
  shows "rcv_chunks e cs d = prot_parse e (concat cs) d"
  using assms by (rule rcv_chunks_parse)

theorem reception_independent_of_chunks_witness:
  "rcv_chunks (idle_env ENABLE_ADAS) [[0x7E], [0x7E]] idle_device = prot_parse (idle_env ENABLE_ADAS) [0x7E, 0x7E] idle_device"
  using reception_independent_of_chunks [of "[[0x7E], [0x7E]]" "idle_env ENABLE_ADAS" idle_device] by (simp add: size_defs)

end
