(* ===== verification/Transport.thy ===== *)
theory Transport
  imports Net
begin

text \<open>
  Opening the two transports: \<open>uart_init\<close> with the line settings of \<open>set_opt\<close> (\<open>uart.cpp\<close>),
  \<open>socket_init\<close>, \<open>try_connect\<close> and the close functions (\<open>net.cpp\<close>). The results of the system
  calls are arguments; what the program asks of the system is part of the results. The flag bits are
  those of the Linux headers, where the speed is kept in \<open>c_cflag\<close>.
\<close>

section \<open>Serial line\<close>

record termios =
  c_iflag :: u32
  c_cflag :: u32
  c_VTIME :: u8
  c_VMIN :: u8

abbreviation (input) CSIZE :: u32 where "CSIZE \<equiv> 0x30"
abbreviation (input) CS7 :: u32 where "CS7 \<equiv> 0x20"
abbreviation (input) CS8 :: u32 where "CS8 \<equiv> 0x30"
abbreviation (input) CSTOPB :: u32 where "CSTOPB \<equiv> 0x40"
abbreviation (input) CREAD :: u32 where "CREAD \<equiv> 0x80"
abbreviation (input) PARENB :: u32 where "PARENB \<equiv> 0x100"
abbreviation (input) PARODD :: u32 where "PARODD \<equiv> 0x200"
abbreviation (input) CLOCAL :: u32 where "CLOCAL \<equiv> 0x800"
abbreviation (input) CBAUD :: u32 where "CBAUD \<equiv> 0x100F"
abbreviation (input) INPCK :: u32 where "INPCK \<equiv> 0x10"
abbreviation (input) ISTRIP :: u32 where "ISTRIP \<equiv> 0x20"

definition baud_code :: "int \<Rightarrow> u32" where
  "baud_code nSpeed =
     (if nSpeed = 2400 then 0xB else if nSpeed = 4800 then 0xC else if nSpeed = 9600 then 0xD
      else if nSpeed = 19200 then 0xE else if nSpeed = 38400 then 0xF else if nSpeed = 115200 then 0x1002
      else if nSpeed = 230400 then 0x1003 else if nSpeed = 460800 then 0x1004
      else if nSpeed = 921600 then 0x1007 else 0xD)"

text \<open>\<open>cfsetispeed\<close> and \<open>cfsetospeed\<close> set the one speed field.\<close>

definition cfsetospeed :: "u32 \<Rightarrow> termios \<Rightarrow> termios" where
  "cfsetospeed speed t = t\<lparr>c_cflag := c_cflag t AND NOT CBAUD OR speed\<rparr>"

text \<open>The result, and the settings given to \<open>tcsetattr\<close>, if it is called.\<close>

definition set_opt :: "bool \<Rightarrow> bool \<Rightarrow> int \<Rightarrow> int \<Rightarrow> char \<Rightarrow> int \<Rightarrow> int \<times> termios option" where
  "set_opt tcgetattr_ok tcsetattr_ok nSpeed nBits nEvent nStop =
     (if \<not> tcgetattr_ok then (- 1, None)
      else let t = \<lparr>c_iflag = 0, c_cflag = 0, c_VTIME = 0, c_VMIN = 0\<rparr>;
               t = t\<lparr>c_cflag := c_cflag t OR (CLOCAL OR CREAD)\<rparr>;
               t = t\<lparr>c_cflag := c_cflag t AND NOT CSIZE\<rparr>;
               t = (if nBits = 7 then t\<lparr>c_cflag := c_cflag t OR CS7\<rparr>
                    else if nBits = 8 then t\<lparr>c_cflag := c_cflag t OR CS8\<rparr> else t);
               t = (if nEvent = CHR ''O'' \<or> nEvent = CHR ''o'' then
                      t\<lparr>c_cflag := c_cflag t OR PARENB OR PARODD, c_iflag := c_iflag t OR (INPCK OR ISTRIP)\<rparr>
                    else if nEvent = CHR ''E'' \<or> nEvent = CHR ''e'' then
                      t\<lparr>c_iflag := c_iflag t OR (INPCK OR ISTRIP), c_cflag := (c_cflag t OR PARENB) AND NOT PARODD\<rparr>
                    else if nEvent = CHR ''N'' \<or> nEvent = CHR ''n'' then t\<lparr>c_cflag := c_cflag t AND NOT PARENB\<rparr>
                    else t);
               t = cfsetospeed (baud_code nSpeed) t;
               t = (if nStop = 1 then t\<lparr>c_cflag := c_cflag t AND NOT CSTOPB\<rparr>
                    else if nStop = 2 then t\<lparr>c_cflag := c_cflag t OR CSTOPB\<rparr> else t);
               t = t\<lparr>c_VTIME := 0, c_VMIN := 0\<rparr>
           in (if tcsetattr_ok then 0 else - 1, Some t))"

text \<open>\<open>tty_fd\<close> is the result of \<open>open\<close>.\<close>

definition uart_init ::
  "int \<Rightarrow> bool \<Rightarrow> bool \<Rightarrow> LocalConfig \<Rightarrow> prot_handle \<Rightarrow> int \<times> termios option \<times> prot_handle" where
  "uart_init tty_fd tcgetattr_ok tcsetattr_ok config handle =
     (if tty_fd < 0 then (- 1, None, handle)
      else let parity0 = (case parity config of [] \<Rightarrow> CHR 0x00 | c # _ \<Rightarrow> c);
               (err, t) = set_opt tcgetattr_ok tcsetattr_ok (baudrate config) (databits config) parity0 (stopbit config)
           in if err \<noteq> 0 then (- 1, t, handle) else (0, t, handle\<lparr>h_fd := tty_fd\<rparr>))"

text \<open>The result and the descriptors that were closed.\<close>

definition uart_close :: "int \<Rightarrow> prot_handle \<Rightarrow> int \<times> int list" where
  "uart_close ret handle = (if h_fd handle > 0 then (ret, [h_fd handle]) else (- 1, []))"

section \<open>TCP socket\<close>

datatype sock_option =
    SO_REUSEADDR
  | SO_RCVBUF int
  | SO_SNDBUF int
  | SO_BINDTODEVICE string

definition bond_net_device :: "string \<Rightarrow> sock_option" where
  "bond_net_device device = SO_BINDTODEVICE (take 16 (device @ replicate 16 (CHR 0x00)))"

text \<open>\<open>sock\<close> is the result of \<open>socket\<close>; the two flags say whether setting a buffer size
  succeeds. The options that were set are listed in order.\<close>

definition socket_init ::
  "int \<Rightarrow> bool \<Rightarrow> bool \<Rightarrow> LocalConfig \<Rightarrow> prot_handle \<Rightarrow> int \<times> sock_option list \<times> prot_handle" where
  "socket_init sock rcvbuf_ok sndbuf_ok config handle =
     (if sock < 0 then (- 1, [], handle)
      else let handle = handle\<lparr>h_fd := sock\<rparr>; opts = [SO_REUSEADDR] in
           if \<not> rcvbuf_ok then (- 1, opts, handle)
           else let opts = opts @ [SO_RCVBUF (64 * 1024)] in
                if \<not> sndbuf_ok then (- 1, opts, handle)
                else (sock, opts @ [SO_SNDBUF (64 * 1024), bond_net_device (netdev_name config)], handle))"

text \<open>\<open>inet_aton\<close> is an argument; \<open>connect_ret\<close> is what \<open>connect\<close> returns. The second component is
  the address it is called with, as the members \<open>sin_addr\<close> and \<open>sin_port\<close>.\<close>

definition try_connect ::
  "(string \<Rightarrow> u32 option) \<Rightarrow> int \<Rightarrow> LocalConfig \<Rightarrow> int \<times> (u32 \<times> u16) option" where
  "try_connect inet_aton connect_ret config =
     (case inet_aton (serverip config) of
        None \<Rightarrow> (- 1, None)
      | Some addr \<Rightarrow> (connect_ret, Some (addr, htons (serverport config))))"

definition socket_close :: "int \<Rightarrow> prot_handle \<Rightarrow> int \<times> int list" where
  "socket_close ret handle = (if h_fd handle > 0 then (ret, [h_fd handle]) else (- 1, []))"

section \<open>What the line is set to\<close>

datatype line_parity = No_parity | Odd_parity | Even_parity

record line_settings =
  ls_speed :: int
  ls_bits :: nat
  ls_parity :: line_parity
  ls_stop :: nat

text \<open>What the kernel makes of the flags.\<close>

definition speed_of_code :: "u32 \<Rightarrow> int" where
  "speed_of_code c =
     (if c = 0xB then 2400 else if c = 0xC then 4800 else if c = 0xD then 9600 else if c = 0xE then 19200
      else if c = 0xF then 38400 else if c = 0x1002 then 115200 else if c = 0x1003 then 230400
      else if c = 0x1004 then 460800 else if c = 0x1007 then 921600 else 0)"

definition line_of :: "termios \<Rightarrow> line_settings" where
  "line_of t = \<lparr>ls_speed = speed_of_code (c_cflag t AND CBAUD),
     ls_bits = (let c = c_cflag t AND CSIZE in if c = CS8 then 8 else if c = CS7 then 7 else if c = 0x10 then 6 else 5),
     ls_parity = (if c_cflag t AND PARENB = 0 then No_parity
                  else if c_cflag t AND PARODD = 0 then Even_parity else Odd_parity),
     ls_stop = (if c_cflag t AND CSTOPB = 0 then 1 else 2)\<rparr>"

text \<open>What the configuration asks for.\<close>

definition parity_of :: "char \<Rightarrow> line_parity" where
  "parity_of c = (if c = CHR ''O'' \<or> c = CHR ''o'' then Odd_parity
     else if c = CHR ''E'' \<or> c = CHR ''e'' then Even_parity else No_parity)"

definition supported_speeds :: "int set" where
  "supported_speeds = {2400, 4800, 9600, 19200, 38400, 115200, 230400, 460800, 921600}"

definition requested_line :: "int \<Rightarrow> int \<Rightarrow> char \<Rightarrow> int \<Rightarrow> line_settings" where
  "requested_line nSpeed nBits nEvent nStop = \<lparr>
     ls_speed = (if nSpeed \<in> supported_speeds then nSpeed else 9600),
     ls_bits = (if nBits = 8 then 8 else if nBits = 7 then 7 else 5),
     ls_parity = parity_of nEvent, ls_stop = (if nStop = 2 then 2 else 1)\<rparr>"

text \<open>With \<open>ISTRIP\<close> the line discipline clears the eighth bit of each byte it passes on.\<close>

definition tty_input :: "termios \<Rightarrow> u8 list \<Rightarrow> u8 list" where
  "tty_input t bs = (if c_iflag t AND ISTRIP = 0 then bs else map (\<lambda>b. b AND 0x7F) bs)"

lemma baud_code_cases:
  "baud_code n \<in> {0xB, 0xC, 0xD, 0xE, 0xF, 0x1002, 0x1003, 0x1004, 0x1007}"
  by (simp add: baud_code_def)

lemma speed_of_baud_code: "speed_of_code (baud_code n) = (if n \<in> supported_speeds then n else 9600)"
  by (simp add: speed_of_code_def baud_code_def supported_speeds_def)

text \<open>The flags as a union of the parts the members of the configuration contribute, which do not
  overlap.\<close>

definition bits_flag :: "int \<Rightarrow> u32" where
  "bits_flag n = (if n = 7 then CS7 else if n = 8 then CS8 else 0)"

definition parity_flag :: "line_parity \<Rightarrow> u32" where
  "parity_flag p = (case p of No_parity \<Rightarrow> 0 | Even_parity \<Rightarrow> PARENB | Odd_parity \<Rightarrow> PARENB OR PARODD)"

definition stop_flag :: "int \<Rightarrow> u32" where
  "stop_flag n = (if n = 2 then CSTOPB else 0)"

definition line_flags :: "int \<Rightarrow> int \<Rightarrow> char \<Rightarrow> int \<Rightarrow> u32" where
  "line_flags nSpeed nBits nEvent nStop =
     (0x880 OR bits_flag nBits OR parity_flag (parity_of nEvent) OR stop_flag nStop) OR baud_code nSpeed"

lemma baud_code_NOT_CSTOPB: "baud_code n AND NOT CSTOPB = baud_code n"
  by (simp add: baud_code_def)

lemma or_CSTOPB: "(a OR baud_code n) OR CSTOPB = (a OR CSTOPB) OR baud_code n"
  by (metis or.assoc or.commute)

lemma set_opt_flags:
  "set_opt True ok nSpeed nBits nEvent nStop = (if ok then 0 else - 1,
     Some \<lparr>c_iflag = (if parity_of nEvent = No_parity then 0 else INPCK OR ISTRIP),
           c_cflag = line_flags nSpeed nBits nEvent nStop, c_VTIME = 0, c_VMIN = 0\<rparr>)"
  using baud_code_NOT_CSTOPB [of nSpeed] or_CSTOPB
  by (simp add: set_opt_def Let_def cfsetospeed_def line_flags_def bits_flag_def parity_flag_def stop_flag_def
      parity_of_def bit.conj_disj_distrib2)

lemma line_flags_parts:
  "line_flags nSpeed nBits nEvent nStop AND CBAUD = baud_code nSpeed"
  "line_flags nSpeed nBits nEvent nStop AND CSIZE = bits_flag nBits"
  "line_flags nSpeed nBits nEvent nStop AND PARENB = parity_flag (parity_of nEvent) AND PARENB"
  "line_flags nSpeed nBits nEvent nStop AND PARODD = parity_flag (parity_of nEvent) AND PARODD"
  "line_flags nSpeed nBits nEvent nStop AND CSTOPB = stop_flag nStop"
proof -
  have "baud_code n AND CBAUD = baud_code n" "baud_code n AND CSIZE = 0" "baud_code n AND PARENB = 0"
    "baud_code n AND PARODD = 0" "baud_code n AND CSTOPB = 0" for n
    by (simp_all add: baud_code_def)
  moreover have "bits_flag n AND CBAUD = 0" "bits_flag n AND CSIZE = bits_flag n" "bits_flag n AND PARENB = 0"
    "bits_flag n AND PARODD = 0" "bits_flag n AND CSTOPB = 0" for n
    by (simp_all add: bits_flag_def)
  moreover have "parity_flag q AND CBAUD = 0" "parity_flag q AND CSIZE = 0" "parity_flag q AND CSTOPB = 0" for q
    by (simp_all add: parity_flag_def split: line_parity.split)
  moreover have "stop_flag n AND CBAUD = 0" "stop_flag n AND CSIZE = 0" "stop_flag n AND PARENB = 0"
    "stop_flag n AND PARODD = 0" "stop_flag n AND CSTOPB = stop_flag n" for n
    by (simp_all add: stop_flag_def)
  ultimately show
    "line_flags nSpeed nBits nEvent nStop AND CBAUD = baud_code nSpeed"
    "line_flags nSpeed nBits nEvent nStop AND CSIZE = bits_flag nBits"
    "line_flags nSpeed nBits nEvent nStop AND PARENB = parity_flag (parity_of nEvent) AND PARENB"
    "line_flags nSpeed nBits nEvent nStop AND PARODD = parity_flag (parity_of nEvent) AND PARODD"
    "line_flags nSpeed nBits nEvent nStop AND CSTOPB = stop_flag nStop"
    by (simp_all add: line_flags_def bit.conj_disj_distrib2)
qed

section \<open>Properties\<close>

text \<open>C39: \<open>set_opt\<close> sets the line to what the configuration asks for: the speed, with 9600 for one that is
  not in the table, the parity, one or two stop bits and seven or eight data bits; any other number of
  data bits gives five. Reads do not block.\<close>

theorem set_opt_line:
  assumes "set_opt get_ok set_ok nSpeed nBits nEvent nStop = (ret, Some t)"
  shows "line_of t = requested_line nSpeed nBits nEvent nStop \<and> c_VMIN t = 0 \<and> c_VTIME t = 0 \<and> (ret = 0 \<longleftrightarrow> set_ok)"
proof -
  have "get_ok" using assms by (cases get_ok) (simp_all add: set_opt_def)
  then have t: "t = \<lparr>c_iflag = (if parity_of nEvent = No_parity then 0 else INPCK OR ISTRIP),
      c_cflag = line_flags nSpeed nBits nEvent nStop, c_VTIME = 0, c_VMIN = 0\<rparr>" "ret = (if set_ok then 0 else - 1)"
    using assms by (simp_all add: set_opt_flags)
  have "line_of t = requested_line nSpeed nBits nEvent nStop"
    unfolding t line_of_def requested_line_def
    by (simp add: line_flags_parts speed_of_baud_code) 
      (simp add: bits_flag_def parity_flag_def stop_flag_def split: line_parity.split)
  then show ?thesis using t by simp
qed

theorem set_opt_line_witness:
  "\<exists>t. set_opt True True 115200 8 CHR ''n'' 1 = (0, Some t) \<and>
     line_of t = \<lparr>ls_speed = 115200, ls_bits = 8, ls_parity = No_parity, ls_stop = 1\<rparr>"
  using set_opt_line [of True True 115200 8 "CHR ''n''" 1 0] set_opt_flags [of True 115200 8 "CHR ''n''" 1]
  by (simp add: requested_line_def parity_of_def supported_speeds_def)

text \<open>With parity the receive line loses data: \<open>ISTRIP\<close> comes with it, also for eight data bits, so
  exactly the byte sequences without a byte from 0x80 on arrive unchanged.\<close>

theorem parity_strips_bytes:
  assumes "uart_init fd True True config handle = (0, Some t, handle')" "parity config = c # cs"
  shows "tty_input t bs = bs \<longleftrightarrow> parity_of c = No_parity \<or> (\<forall>b \<in> set bs. b < 0x80)"
proof -
  have t: "c_iflag t = (if parity_of c = No_parity then 0 else INPCK OR ISTRIP)"
    using assms by (auto simp: uart_init_def set_opt_flags Let_def split: if_splits)
  have strip: "b AND 0x7F = b \<longleftrightarrow> b < 0x80" for b :: u8
  proof -
    have "(0x7F :: u8) = mask 7" by (simp add: mask_eq_exp_minus_1)
    then have "b AND 0x7F = take_bit 7 b" by (simp only: take_bit_eq_mask)
    then have "b AND 0x7F = b \<longleftrightarrow> unat b < 128"
      by (simp add: word_unat_eq_iff unsigned_take_bit_eq take_bit_nat_eq_self_iff)
    then show ?thesis by (simp add: word_less_nat_alt)
  qed
  have "map (\<lambda>b. b AND 0x7F) bs = bs \<longleftrightarrow> (\<forall>b \<in> set bs. b < 0x80)"
    by (induction bs) (simp_all add: strip)
  then show ?thesis by (simp add: tty_input_def t)
qed

theorem parity_strips_bytes_witness:
  "\<exists>t. uart_init 3 True True (idle_config\<lparr>parity := ''even''\<rparr>) \<lparr>h_fd = 0, h_sndData_s = [], h_sndlen = 0\<rparr> =
       (0, Some t, \<lparr>h_fd = 3, h_sndData_s = [], h_sndlen = 0\<rparr>) \<and> tty_input t [0x7E, 0xFE] \<noteq> [0x7E, 0xFE]"
proof -
  obtain t where "uart_init 3 True True (idle_config\<lparr>parity := ''even''\<rparr>) \<lparr>h_fd = 0, h_sndData_s = [], h_sndlen = 0\<rparr> =
       (0, Some t, \<lparr>h_fd = 3, h_sndData_s = [], h_sndlen = 0\<rparr>)"
    by (simp add: uart_init_def set_opt_flags Let_def)
  with parity_strips_bytes [OF this, of "CHR ''e''" "''ven''" "[0x7E, 0xFE]"] show ?thesis
    by (auto simp: parity_of_def)
qed

end
