(* ===== verification/Send.thy ===== *)
theory Send
  imports Net
begin

text \<open>
  The two communication threads of \<open>process.cpp\<close>: \<open>send_package\<close> and \<open>pthread_process_send\<close>, which
  take the queued messages to the host and wait for its acknowledgements, and
  \<open>pthread_process_recv\<close>, which connects, receives and reconnects.

  What the other threads do while the sender waits reaches it in two ways only: they set
  \<open>recv_ack\<close> (an acknowledgement arrives) and the condition variable wakes it. Both are the
  argument \<open>attempt\<close> of a transmission: the outcomes of its writes, whether an acknowledgement
  came before the wait began, and how each \<open>pthread_cond_timedwait\<close> ended. A timeout can coincide
  with an acknowledgement, since the mutex is taken again after the timer has run out. An empty list
  of wake-ups stands for the timeout.
\<close>

section \<open>Waiting for an acknowledgement\<close>

datatype wake = SIGNALLED | SPURIOUS | TIMED_OUT bool | WAIT_FAILED bool

record attempt =
  at_writes :: "write_result list"
  at_errno :: errno
  at_acked :: bool
  at_wakes :: "wake list"

text \<open>The inner loop: the return code (0, or the error the wait ended with) and \<open>recv_ack\<close>.\<close>

fun wait_ack :: "wake list \<Rightarrow> ack_state \<Rightarrow> errno option \<times> ack_state" where
  "wait_ack [] ack = (if ack \<noteq> NOTICE_MSG then (Some ETIMEDOUT, ack) else (None, ack))"
| "wait_ack (w # ws) ack =
     (if ack \<noteq> NOTICE_MSG then
        case w of
          SIGNALLED \<Rightarrow> wait_ack ws NOTICE_MSG
        | SPURIOUS \<Rightarrow> wait_ack ws ack
        | TIMED_OUT acked \<Rightarrow> (Some ETIMEDOUT, if acked then NOTICE_MSG else ack)
        | WAIT_FAILED acked \<Rightarrow> (Some OTHER_ERRNO, if acked then NOTICE_MSG else ack)
      else (None, ack))"

section \<open>Sending one message\<close>

definition stop_waiting :: "device \<Rightarrow> device" where
  "stop_waiting d = d\<lparr>pkg_status := (pkg_status d)\<lparr>ps_mm_data_trans_waiting := False\<rparr>\<rparr>"

text \<open>The loop over the transmissions: what each of them put on the wire.\<close>

function send_attempts ::
  "transport \<Rightarrow> prot_handle \<Rightarrow> (nat \<Rightarrow> attempt) \<Rightarrow> nat \<Rightarrow> u8 \<Rightarrow> device \<Rightarrow> (u8 list list \<times> device) option" where
  "send_attempts tr handle att i send_repeat d =
     (if i < 3 then
        case handle_snd tr handle (at_errno (att i)) (at_writes (att i)) of
          None \<Rightarrow> None
        | Some (ret, wire, ws) \<Rightarrow>
            (let send_repeat = send_repeat + 1;
                 d = (if at_acked (att i) then notice_ack_msg d else d);
                 (rc, ack) = wait_ack (at_wakes (att i)) (recv_ack d);
                 d = d\<lparr>recv_ack := (if rc = None then WAIT_MSG else ack)\<rparr>
             in if rc = None then Some ([wire], d)
                else if send_repeat \<ge> 3 then Some ([wire], stop_waiting d)
                else map_option (\<lambda>(wires, d). (wire # wires, d))
                       (send_attempts tr handle att (i + 1) send_repeat d))
      else Some ([], d))"
  by pat_completeness auto
termination
  by (relation "measure (\<lambda>(tr, handle, att, i, n, d). 3 - i)") auto

declare send_attempts.simps [simp del]

definition send_package ::
  "env \<Rightarrow> (nat \<Rightarrow> attempt) \<Rightarrow> prot_handle \<Rightarrow> device
     \<Rightarrow> (int \<times> u8 list list \<times> prot_handle \<times> device) option outcome" where
  "send_package e att handle d =
     (if \<not> fst (process_socket_status False READ_MSG d) then Inr (Some (- 1, [], handle, d))
      else bindE (ptr_queue_pop (send_q d)
                    ((e_stack e)\<lparr>q_buf := Mem (h_sndData_s handle), q_len := PTR_QUEUE_BUF_SIZE\<rparr>))
        (\<lambda>(ret, header, q).
           if ret \<noteq> 0 then Inr (Some (0, [], handle, d))
           else let d = d\<lparr>send_q := q\<rparr>;
                    buf = (case q_buf header of Mem b \<Rightarrow> b | _ \<Rightarrow> h_sndData_s handle);
                    handle = handle\<lparr>h_sndData_s := buf, h_sndlen := int (q_len header)\<rparr>
                in if pkg_ack_status (q_pkg header) = MSG_ACK_READY then
                     Inr (map_option (\<lambda>(r, wire, ws). (0, [wire], handle, d))
                       (handle_snd (e_tr e) handle (at_errno (att 0)) (at_writes (att 0))))
                   else if pkg_ack_status (q_pkg header) = MSG_ACK_WAITING then
                     Inr (map_option (\<lambda>(wires, d). (0, wires, handle, d))
                       (send_attempts (e_tr e) handle att 0 (pkg_send_repeat (q_pkg header)) d))
                   else Inr (Some (0, [], handle, d))))"

text \<open>One turn of \<open>pthread_process_send\<close>: \<open>None\<close> while the thread is blocked on the semaphore or
  in a write.\<close>

definition pthread_process_send ::
  "env \<Rightarrow> (nat \<Rightarrow> attempt) \<Rightarrow> prot_handle \<Rightarrow> device
     \<Rightarrow> (int \<times> u8 list list \<times> prot_handle \<times> device) option outcome" where
  "pthread_process_send e att handle d =
     (if send_data d = 0 then Inr None
      else send_package e att handle (d\<lparr>send_data := send_data d - 1\<rparr>))"

definition notice_tcp_send_exit :: "device \<Rightarrow> device" where
  "notice_tcp_send_exit d = d\<lparr>send_data := send_data d + 1\<rparr>"

section \<open>The receive thread\<close>

datatype recv_phase = R_start | R_init | R_loop | R_serve | R_out | R_end
datatype sock_state = No_socket | Unconnected | Connected | Closed

record recv_thread =
  r_phase :: recv_phase
  r_sock :: sock_state
  r_force_exit :: bool
  r_dev :: device

text \<open>After a successful connect: reset, mark the connection, report the status.\<close>

definition on_connected :: "env \<Rightarrow> device \<Rightarrow> device outcome" where
  "on_connected e d =
     bindE (do_stat_reset e d) (\<lambda>d.
       Inr (auto_send_work_status e (snd (process_socket_status True WRITE_MSG d))))"

text \<open>The steps of \<open>pthread_process_recv\<close>, one per statement that can wait, and the two events the
  other threads contribute: the request to exit and the socket closed by the heartbeat timeout. The
  descriptor \<open>fd\<close> is what \<open>handle->init\<close> gets; it is in the handle even if \<open>init\<close> fails afterwards. On the
  serial line there is no \<open>on_connect\<close>. The upgrade command ends the process from within
  \<open>serve\<close>.\<close>

inductive recv_step :: "env \<Rightarrow> recv_thread \<Rightarrow> recv_thread outcome \<Rightarrow> bool" for e where
  start: "r_phase s = R_start \<Longrightarrow>
    recv_step e s (bindE (do_stat_reset e (r_dev s)) (\<lambda>d. Inr (s\<lparr>r_dev := d, r_phase := R_init\<rparr>)))"
| init_ok: "r_phase s = R_init \<Longrightarrow> 0 \<le> fd \<Longrightarrow>
    recv_step e s (Inr (s\<lparr>r_phase := R_loop, r_sock := Unconnected, r_dev := (r_dev s)\<lparr>d_fd := fd\<rparr>\<rparr>))"
| init_error: "r_phase s = R_init \<Longrightarrow> fd = d_fd (r_dev s) \<or> 0 \<le> fd \<Longrightarrow>
    recv_step e s (Inr (s\<lparr>r_phase := R_out, r_dev := (r_dev s)\<lparr>d_fd := fd\<rparr>\<rparr>))"
| leave: "r_phase s = R_loop \<Longrightarrow> r_force_exit s \<Longrightarrow> recv_step e s (Inr (s\<lparr>r_phase := R_out\<rparr>))"
| connect_badf: "r_phase s = R_loop \<Longrightarrow> \<not> r_force_exit s \<Longrightarrow> e_tr e = TCP_INTERFACE \<Longrightarrow>
    recv_step e s (Inr (s\<lparr>r_phase := R_init\<rparr>))"
| connect_error: "r_phase s = R_loop \<Longrightarrow> \<not> r_force_exit s \<Longrightarrow> e_tr e = TCP_INTERFACE \<Longrightarrow>
    recv_step e s (Inr s)"
| connected: "r_phase s = R_loop \<Longrightarrow> \<not> r_force_exit s \<Longrightarrow>
    recv_step e s (bindE (on_connected e (r_dev s))
      (\<lambda>d. Inr (s\<lparr>r_dev := d, r_phase := R_serve, r_sock := Connected\<rparr>)))"
| stop_serving: "r_phase s = R_serve \<Longrightarrow> r_force_exit s \<Longrightarrow> recv_step e s (Inr (s\<lparr>r_phase := R_loop\<rparr>))"
| serve: "r_phase s = R_serve \<Longrightarrow> \<not> r_force_exit s \<Longrightarrow>
    recv_step e s (bindE (handle_rcv e sel (r_dev s)) (\<lambda>(ret, closed, d).
      Inr (s\<lparr>r_dev := d, r_sock := (if closed then Closed else r_sock s),
             r_phase := (if exited d then R_end else if ret < 0 then R_init else R_serve)\<rparr>)))"
| finish: "r_phase s = R_out \<Longrightarrow>
    recv_step e s (Inr (s\<lparr>r_phase := R_end, r_sock := Closed, r_dev := handle_close (r_dev s)\<rparr>))"
| force_exit: "recv_step e s (Inr (s\<lparr>r_force_exit := True\<rparr>))"
| heartbeat_lost: "connect_status (r_dev s) \<Longrightarrow>
    recv_step e s (Inr (s\<lparr>r_dev := tcp_socket_close (r_dev s), r_sock := Closed\<rparr>))"

end
