(* ===== verification/SendProps.thy ===== *)
theory SendProps
  imports Send
begin

text \<open>
  The properties of the communication threads: how often a message is transmitted, what the host
  receives of it, the acknowledgement that is left over from an earlier message, and the states a
  connection goes through.
\<close>

section \<open>One transmission\<close>

definition retries :: "transport \<Rightarrow> errno \<Rightarrow> bool" where
  "retries tr x \<longleftrightarrow> tr = TCP_INTERFACE \<and> transient x"

lemma retries_simps: "retries TCP_INTERFACE = transient" "retries RS232_INTERFACE = (\<lambda>_. False)"
  by (simp_all add: retries_def fun_eq_iff)

lemma handle_snd_delivers:
  assumes "0 \<le> h_fd handle" "h_sndlen handle = int n" "n \<le> length (h_sndData_s handle)"
    and "takes_all (retries tr) n ws"
  shows "\<exists>r ws'. handle_snd tr handle err ws = Some (r, take n (h_sndData_s handle), ws')"
  using assms tcp.delivers [of n ws "h_sndData_s handle" err] uart.delivers [of n ws "h_sndData_s handle"]
  by (cases tr) (auto simp: handle_snd_def tcp_snd_def uart_snd_def retries_simps)

section \<open>Waiting\<close>

text \<open>The state of \<open>recv_ack\<close> when the wait of a transmission begins.\<close>

definition ack_before :: "attempt \<Rightarrow> ack_state \<Rightarrow> ack_state" where
  "ack_before a ack = (if at_acked a then NOTICE_MSG else ack)"

lemma wait_ack_NOTICE [simp]: "wait_ack ws NOTICE_MSG = (None, NOTICE_MSG)"
  by (cases ws) auto

lemma wait_ack_None: "wait_ack ws ack = (None, ack') \<Longrightarrow> ack' = NOTICE_MSG"
  by (induction ws ack rule: wait_ack.induct) (auto split: if_splits wake.splits)

text \<open>A wake-up that brings no acknowledgement.\<close>

fun silent_wake :: "wake \<Rightarrow> bool" where
  "silent_wake SIGNALLED = False"
| "silent_wake SPURIOUS = True"
| "silent_wake (TIMED_OUT acked) = (\<not> acked)"
| "silent_wake (WAIT_FAILED acked) = (\<not> acked)"

definition silent :: "attempt \<Rightarrow> bool" where
  "silent a \<longleftrightarrow> \<not> at_acked a \<and> list_all silent_wake (at_wakes a)"

lemma wait_ack_silent:
  "list_all silent_wake ws \<Longrightarrow> ack \<noteq> NOTICE_MSG \<Longrightarrow> \<exists>x. wait_ack ws ack = (Some x, ack)"
  by (induction ws) (auto split: wake.splits)

lemma send_attempts_step:
  assumes "handle_snd tr handle (at_errno (att i)) (at_writes (att i)) = Some (r, wire, ws)" "i < 3"
    "wait_ack (at_wakes (att i)) (ack_before (att i) (recv_ack d)) = (rc, ack)"
  shows "send_attempts tr handle att i (of_nat i) d =
     (if rc = None then Some ([wire], d\<lparr>recv_ack := WAIT_MSG\<rparr>)
      else if i = 2 then Some ([wire], stop_waiting (d\<lparr>recv_ack := ack\<rparr>))
      else map_option (\<lambda>(wires, d). (wire # wires, d))
             (send_attempts tr handle att (Suc i) (of_nat (Suc i)) (d\<lparr>recv_ack := ack\<rparr>)))"
proof -
  have ack: "recv_ack (if at_acked (att i) then notice_ack_msg d else d) = ack_before (att i) (recv_ack d)"
    by (simp add: ack_before_def notice_ack_msg_def)
  have upd: "notice_ack_msg d\<lparr>recv_ack := a\<rparr> = d\<lparr>recv_ack := a\<rparr>" for a
    by (simp add: notice_ack_msg_def)
  consider "i = 0" | "i = 1" | "i = 2" using assms(2) by linarith
  then have "(3 \<le> (of_nat i + 1 :: u8)) = (i = 2)" by cases (simp_all add: word_le_nat_alt)
  then show ?thesis
    by (subst send_attempts.simps) (simp add: assms Let_def ack upd add.commute)
qed

section \<open>The transmissions of one message\<close>

definition all_delivered :: "transport \<Rightarrow> nat \<Rightarrow> (nat \<Rightarrow> attempt) \<Rightarrow> bool" where
  "all_delivered tr n att \<longleftrightarrow> (\<forall>i < 3. takes_all (retries tr) n (at_writes (att i)))"

lemma send_attempts_delivered:
  assumes snd: "\<And>i. i < 3 \<Longrightarrow> \<exists>r ws. handle_snd tr handle (at_errno (att i)) (at_writes (att i)) = Some (r, wire, ws)"
    and "i < 3"
  shows "\<exists>n d'. send_attempts tr handle att i (of_nat i) d = Some (replicate n wire, d') \<and>
    1 \<le> n \<and> i + n \<le> 3 \<and>
    (d' = d\<lparr>recv_ack := WAIT_MSG\<rparr> \<or> i + n = 3 \<and> (\<exists>ack. d' = stop_waiting (d\<lparr>recv_ack := ack\<rparr>)))"
  using assms(2)
proof (induction "2 - i" arbitrary: i d)
  case 0
  then have i: "i = 2" by simp
  obtain r ws where w: "handle_snd tr handle (at_errno (att i)) (at_writes (att i)) = Some (r, wire, ws)"
    using snd [of i] 0 by blast
  obtain rc ack where "wait_ack (at_wakes (att i)) (ack_before (att i) (recv_ack d)) = (rc, ack)" by fastforce
  from send_attempts_step [where att = att and i = i, OF w _ this] show ?case using i by (intro exI [of _ 1]) auto
next
  case (Suc k)
  then have i: "i < 2" and k: "k = 2 - Suc i" by simp_all
  obtain r ws where w: "handle_snd tr handle (at_errno (att i)) (at_writes (att i)) = Some (r, wire, ws)"
    using snd [of i] Suc by blast
  obtain rc ack where wait: "wait_ack (at_wakes (att i)) (ack_before (att i) (recv_ack d)) = (rc, ack)" by fastforce
  note step = send_attempts_step [where att = att and i = i, OF w _ wait]
  show ?case
  proof (cases rc)
    case None
    then show ?thesis using step i by (intro exI [of _ 1]) auto
  next
    case (Some x)
    obtain n d' where "send_attempts tr handle att (Suc i) (of_nat (Suc i)) (d\<lparr>recv_ack := ack\<rparr>) = Some (replicate n wire, d')"
      "1 \<le> n" "Suc i + n \<le> 3"
      "d' = d\<lparr>recv_ack := WAIT_MSG\<rparr> \<or> Suc i + n = 3 \<and> (\<exists>ack'. d' = stop_waiting (d\<lparr>recv_ack := ack'\<rparr>))"
      using Suc.hyps(1) [OF k, of "d\<lparr>recv_ack := ack\<rparr>"] i by auto
    then show ?thesis using step i Some by (intro exI [of _ "Suc n"] exI [of _ d']) auto
  qed
qed

lemma send_attempts_silent:
  assumes snd: "\<And>i. i < 3 \<Longrightarrow> \<exists>r ws. handle_snd tr handle (at_errno (att i)) (at_writes (att i)) = Some (r, wire, ws)"
    and silent: "\<And>i. i < 3 \<Longrightarrow> silent (att i)" and ack: "recv_ack d \<noteq> NOTICE_MSG" and "i < 3"
  shows "send_attempts tr handle att i (of_nat i) d = Some (replicate (3 - i) wire, stop_waiting d)"
  using assms(4)
proof (induction "2 - i" arbitrary: i)
  case (Suc k)
  obtain r ws where w: "handle_snd tr handle (at_errno (att i)) (at_writes (att i)) = Some (r, wire, ws)"
    using snd [of i] Suc by blast
  obtain x where wait: "wait_ack (at_wakes (att i)) (ack_before (att i) (recv_ack d)) = (Some x, recv_ack d)"
    using wait_ack_silent [of "at_wakes (att i)" "recv_ack d"] silent [of i] ack Suc
    by (auto simp: silent_def ack_before_def)
  have "3 - i = Suc (3 - Suc i)" using Suc by simp
  then show ?case using send_attempts_step [where att = att and i = i, OF w _ wait] Suc.hyps(1) [of "Suc i"] Suc.hyps(2) by simp
next
  case 0
  then have i: "i = 2" by simp
  obtain r ws where w: "handle_snd tr handle (at_errno (att i)) (at_writes (att i)) = Some (r, wire, ws)"
    using snd [of i] 0 by blast
  obtain x where wait: "wait_ack (at_wakes (att i)) (ack_before (att i) (recv_ack d)) = (Some x, recv_ack d)"
    using wait_ack_silent [of "at_wakes (att i)" "recv_ack d"] silent [of i] ack 0
    by (auto simp: silent_def ack_before_def)
  show ?case using send_attempts_step [where att = att and i = i, OF w _ wait] i by simp
qed

section \<open>Sending from the queue\<close>

text \<open>The sender's handle: an open descriptor, and a buffer of the size \<open>prot_init_pre\<close> gives it.\<close>

definition handle_ok :: "prot_handle \<Rightarrow> bool" where
  "handle_ok handle \<longleftrightarrow> 0 \<le> h_fd handle \<and> length (h_sndData_s handle) = SLIP_DATA_BUF_SIZE"

definition loaded :: "prot_handle \<Rightarrow> u8 list \<Rightarrow> prot_handle" where
  "loaded handle frame = handle\<lparr>h_sndData_s := frame @ drop (length frame) (h_sndData_s handle),
     h_sndlen := int (length frame)\<rparr>"

lemma loaded_delivers:
  assumes "handle_ok handle" "takes_all (retries tr) (length frame) ws"
  shows "\<exists>r ws'. handle_snd tr (loaded handle frame) err ws = Some (r, frame, ws')"
  using handle_snd_delivers [of "loaded handle frame" "length frame" tr ws err] assms
  by (simp add: handle_ok_def loaded_def)

lemma pop_into_sndData:
  fixes e :: env
  assumes "send_q d = m # q" "data_node m" "q_buf m = Mem frame" "handle_ok handle"
  shows "ptr_queue_pop (send_q d) ((e_stack e)\<lparr>q_buf := Mem (h_sndData_s handle), q_len := PTR_QUEUE_BUF_SIZE\<rparr>) =
      Inr (0, m\<lparr>q_buf := Mem (frame @ drop (length frame) (h_sndData_s handle))\<rparr>, q)"
    and "q_len m = length frame"
proof -
  show len: "q_len m = length frame" using assms by (auto simp: data_node_def)
  have "length (h_sndData_s handle) = PTR_QUEUE_BUF_SIZE"
    using assms by (simp add: handle_ok_def SLIP_DATA_BUF_SIZE_def)
  from ptr_queue_pop_data [OF assms(2) this, of
      "(e_stack e)\<lparr>q_buf := Mem (h_sndData_s handle), q_len := PTR_QUEUE_BUF_SIZE\<rparr>" q]
  show "ptr_queue_pop (send_q d) ((e_stack e)\<lparr>q_buf := Mem (h_sndData_s handle), q_len := PTR_QUEUE_BUF_SIZE\<rparr>) =
      Inr (0, m\<lparr>q_buf := Mem (frame @ drop (length frame) (h_sndData_s handle))\<rparr>, q)"
    by (simp add: assms(1,3) node_item_def len)
qed

lemma send_package_waiting:
  assumes "connect_status d" "send_q d = m # q" "data_node m" "q_buf m = Mem frame"
    "pkg_ack_status (q_pkg m) = MSG_ACK_WAITING" "pkg_send_repeat (q_pkg m) = 0" "handle_ok handle"
  shows "send_package e att handle d =
     Inr (map_option (\<lambda>(wires, d). (0, wires, loaded handle frame, d))
       (send_attempts (e_tr e) (loaded handle frame) att 0 0 (d\<lparr>send_q := q\<rparr>)))"
  using assms(1,5,6) pop_into_sndData(1) [OF assms(2-4,7), where e = e] pop_into_sndData(2) [OF assms(2-4,7)]
  by (simp add: send_package_def process_socket_status_def loaded_def Let_def)

lemma send_package_ready:
  assumes "connect_status d" "send_q d = m # q" "data_node m" "q_buf m = Mem frame"
    "pkg_ack_status (q_pkg m) = MSG_ACK_READY" "handle_ok handle"
  shows "send_package e att handle d =
     Inr (map_option (\<lambda>(r, wire, ws). (0, [wire], loaded handle frame, d\<lparr>send_q := q\<rparr>))
       (handle_snd (e_tr e) (loaded handle frame) (at_errno (att 0)) (at_writes (att 0))))"
  using assms(1,5) pop_into_sndData(1) [OF assms(2-4,6), where e = e] pop_into_sndData(2) [OF assms(2-4,6)]
  by (simp add: send_package_def process_socket_status_def loaded_def Let_def)

section \<open>From the queue to the host\<close>

text \<open>The frame of a message that has just been queued in an empty queue, and its node.\<close>

lemma queued_alone:
  assumes "send_q d = []" "e_malloc1 e" "e_malloc2 e" "16 + 2 * length payload \<le> PTR_QUEUE_BUF_SIZE"
  shows "send_q (snd (message_queue_send e cmd payload d)) = [queued_msg e cmd payload d]"
    and "data_node (queued_msg e cmd payload d)"
proof -
  show "send_q (snd (message_queue_send e cmd payload d)) = [queued_msg e cmd payload d]"
    using send_q_room [of d e payload cmd] assms by (simp add: PTR_QUEUE_BUF_CNT_def)
  show "data_node (queued_msg e cmd payload d)"
    using length_transmit_build_frame(2) [of "e_build e" "send_serial cmd d" cmd payload] assms(4)
    by (simp add: data_node_def)
qed

lemma queued_delivered:
  assumes "connect_status d" "send_q d = []" "e_malloc1 e" "e_malloc2 e" "handle_ok handle"
    and "16 + 2 * length payload \<le> PTR_QUEUE_BUF_SIZE"
    and "all_delivered (e_tr e') (length (transmit (build_frame (e_build e) (send_serial cmd d) cmd payload))) att"
    and "decoder_idle dec" "9 + length payload \<le> msglen" "9 + length payload \<le> length (rcv_msg dec)"
  shows "\<exists>n wires h' d' dec'.
    pthread_process_send e' att handle (snd (message_queue_send e cmd payload d)) = Inr (Some (0, wires, h', d')) \<and>
    feed msglen (concat wires) dec =
      Inr (replicate n (build_frame (e_build e) (send_serial cmd d) cmd payload), dec') \<and>
    1 \<le> n \<and> n \<le> 3 \<and> (\<not> MasterIsMe cmd \<longrightarrow> n = 1) \<and> send_q d' = []"
proof -
  define f where "f = build_frame (e_build e) (send_serial cmd d) cmd payload"
  define d1 where "d1 = (snd (message_queue_send e cmd payload d))\<lparr>send_data := send_data d\<rparr>"
  define m where "m = queued_msg e cmd payload d"
  have d1: "connect_status d1" "send_q d1 = [m]" "data_node m" "q_buf m = Mem (transmit f)"
      "pkg_send_repeat (q_pkg m) = 0" "pkg_ack_status (q_pkg m) = (if MasterIsMe cmd then MSG_ACK_WAITING else MSG_ACK_READY)"
    using assms queued_alone [OF assms(2,3,4,6)]
    by (simp_all add: d1_def m_def f_def) (simp_all add: queued_msg_def Let_def)
  have turn: "pthread_process_send e' att handle (snd (message_queue_send e cmd payload d)) = send_package e' att handle d1"
    by (simp add: pthread_process_send_def d1_def message_queue_send_eq)
  have decode: "\<exists>dec'. feed msglen (concat (replicate n (transmit f))) dec = Inr (replicate n f, dec')" for n
    using rx.decode_all [of dec "replicate n f" msglen] assms(8-10) whole_frame_build_frame
    by (fastforce simp: f_def)
  show ?thesis
  proof (cases "MasterIsMe cmd")
    case True
    then obtain n d' where "send_package e' att handle d1 = Inr (Some (0, replicate n (transmit f), loaded handle (transmit f), d'))"
        "1 \<le> n" "n \<le> 3" "send_q d' = []"
      using send_attempts_delivered [of "e_tr e'" "loaded handle (transmit f)" att "transmit f" 0 "d1\<lparr>send_q := []\<rparr>"]
        send_package_waiting [OF d1(1-4) _ d1(5) assms(5)] d1(6) loaded_delivers [OF assms(5)] assms(7)
      by (fastforce simp: all_delivered_def f_def stop_waiting_def)
    then show ?thesis using turn decode [of n] True by (auto simp: f_def)
  next
    case False
    then obtain r ws where "handle_snd (e_tr e') (loaded handle (transmit f)) (at_errno (att 0)) (at_writes (att 0)) = Some (r, transmit f, ws)"
      using loaded_delivers [OF assms(5)] assms(7) by (fastforce simp: all_delivered_def f_def)
    then show ?thesis
      using turn send_package_ready [OF d1(1-4) _ assms(5)] d1(6) False decode [of 1]
      by (fastforce simp: f_def)
  qed
qed

section \<open>A concrete run\<close>

definition test_handle :: prot_handle where
  "test_handle = \<lparr>h_fd = 5, h_sndData_s = replicate SLIP_DATA_BUF_SIZE 0, h_sndlen = 0\<rparr>"

definition test_attempt :: attempt where
  "test_attempt = \<lparr>at_writes = [Room 4, Write_error EAGAIN, Room 1000], at_errno = EPIPE, at_acked = False,
     at_wakes = [SPURIOUS]\<rparr>"

definition test_msg :: ptr_queue_node where
  "test_msg = blank_node\<lparr>q_pkg := \<lparr>pkg_cmd = SAMPLE_CMD_WARNING_REPORT, pkg_index = 0,
     pkg_ack_status = MSG_ACK_WAITING, pkg_send_repeat = 0\<rparr>, q_len := 6, q_buf := Mem [0x7E, 1, 2, 3, 4, 0x7E]\<rparr>"

lemma test_facts:
  "handle_ok test_handle" "silent test_attempt" "data_node test_msg"
  "q_buf test_msg = Mem [0x7E, 1, 2, 3, 4, 0x7E]" "pkg_ack_status (q_pkg test_msg) = MSG_ACK_WAITING"
  "pkg_send_repeat (q_pkg test_msg) = 0" "connect_status (idle_device\<lparr>send_q := [test_msg]\<rparr>)"
  "n \<le> 1004 \<Longrightarrow> all_delivered (e_tr (idle_env b)) n (\<lambda>_. test_attempt)"
  by (simp_all add: test_handle_def test_attempt_def test_msg_def handle_ok_def silent_def data_node_def
      size_defs idle_device_def idle_env_def all_delivered_def retries_simps)

section \<open>Properties\<close>

text \<open>A message that asks for an acknowledgement. Where the transport takes the writes,
  \<open>send_package\<close> removes it from the queue and transmits exactly its bytes, once, twice or three
  times; it ends with \<open>recv_ack\<close> cleared and the upload state untouched, or after the third
  transmission with the upload given up.\<close>

theorem message_sent_at_most_three_times:
  assumes "connect_status d" "send_q d = m # q" "data_node m" "q_buf m = Mem frame"
    and "pkg_ack_status (q_pkg m) = MSG_ACK_WAITING" "pkg_send_repeat (q_pkg m) = 0"
    and "handle_ok handle" "all_delivered (e_tr e) (length frame) att"
  shows "\<exists>n d'. send_package e att handle d = Inr (Some (0, replicate n frame, loaded handle frame, d')) \<and>
    1 \<le> n \<and> n \<le> 3 \<and> send_q d' = q \<and>
    (recv_ack d' = WAIT_MSG \<and> pkg_status d' = pkg_status d \<or>
     n = 3 \<and> \<not> ps_mm_data_trans_waiting (pkg_status d'))"
proof -
  have "\<exists>r ws. handle_snd (e_tr e) (loaded handle frame) (at_errno (att i)) (at_writes (att i)) = Some (r, frame, ws)"
    if "i < 3" for i
    using loaded_delivers [OF assms(7)] assms(8) that by (simp add: all_delivered_def)
  from send_attempts_delivered [of "e_tr e" "loaded handle frame" att frame, OF this, of 0 "d\<lparr>send_q := q\<rparr>"]
  show ?thesis
    using send_package_waiting [OF assms(1-7)] by (fastforce simp: stop_waiting_def)
qed

theorem message_sent_at_most_three_times_witness:
  "\<exists>n d'. send_package (idle_env ENABLE_ADAS) (\<lambda>_. test_attempt) test_handle (idle_device\<lparr>send_q := [test_msg]\<rparr>) =
      Inr (Some (0, replicate n [0x7E, 1, 2, 3, 4, 0x7E], loaded test_handle [0x7E, 1, 2, 3, 4, 0x7E], d')) \<and>
    1 \<le> n \<and> n \<le> 3 \<and> send_q d' = [] \<and>
    (recv_ack d' = WAIT_MSG \<and> pkg_status d' = pkg_status (idle_device\<lparr>send_q := [test_msg]\<rparr>) \<or>
     n = 3 \<and> \<not> ps_mm_data_trans_waiting (pkg_status d'))"
  by (rule message_sent_at_most_three_times [where m = test_msg]) (simp_all add: test_facts)

text \<open>C23: A host that does not answer. From a state without a left-over acknowledgement, and when none
  arrives, the message is transmitted exactly three times and the upload in progress is given up: the
  queue has lost the message, no data of an upload is waited for any more, and nothing else changed.\<close>

theorem silent_host_three_transmissions:
  assumes "connect_status d" "send_q d = m # q" "data_node m" "q_buf m = Mem frame"
    and "pkg_ack_status (q_pkg m) = MSG_ACK_WAITING" "pkg_send_repeat (q_pkg m) = 0"
    and "handle_ok handle" "all_delivered (e_tr e) (length frame) att"
    and "\<forall>i. silent (att i)" "recv_ack d \<noteq> NOTICE_MSG"
  shows "send_package e att handle d =
    Inr (Some (0, [frame, frame, frame], loaded handle frame,
      d\<lparr>send_q := q, pkg_status := (pkg_status d)\<lparr>ps_mm_data_trans_waiting := False\<rparr>\<rparr>))"
proof -
  have snd: "\<exists>r ws. handle_snd (e_tr e) (loaded handle frame) (at_errno (att i)) (at_writes (att i)) = Some (r, frame, ws)"
    if "i < 3" for i
    using loaded_delivers [OF assms(7)] assms(8) that by (simp add: all_delivered_def)
  have "send_attempts (e_tr e) (loaded handle frame) att 0 (of_nat 0) (d\<lparr>send_q := q\<rparr>) =
      Some (replicate (3 - 0) frame, stop_waiting (d\<lparr>send_q := q\<rparr>))"
    by (rule send_attempts_silent [OF snd]) (use assms(9,10) in auto)
  then show ?thesis using send_package_waiting [OF assms(1-7)] by (simp add: numeral_eq_Suc stop_waiting_def)
qed

theorem silent_host_three_transmissions_witness:
  "send_package (idle_env ENABLE_ADAS) (\<lambda>_. test_attempt) test_handle
      (idle_device\<lparr>send_q := [test_msg], pkg_status := (pkg_status idle_device)\<lparr>ps_mm_data_trans_waiting := True\<rparr>\<rparr>) =
    Inr (Some (0, replicate 3 [0x7E, 1, 2, 3, 4, 0x7E], loaded test_handle [0x7E, 1, 2, 3, 4, 0x7E],
      idle_device\<lparr>send_q := [], pkg_status := (pkg_status idle_device)\<lparr>ps_mm_data_trans_waiting := False\<rparr>\<rparr>))"
proof -
  let ?d = "idle_device\<lparr>send_q := [test_msg], pkg_status := (pkg_status idle_device)\<lparr>ps_mm_data_trans_waiting := True\<rparr>\<rparr>"
  have "connect_status ?d" "recv_ack ?d \<noteq> NOTICE_MSG" by (simp_all add: idle_device_def)
  from silent_host_three_transmissions [where m = test_msg and e = "idle_env ENABLE_ADAS" and att = "\<lambda>_. test_attempt"
      and handle = test_handle, OF this(1) _ test_facts(3-6,1) _ _ this(2)]
  show ?thesis by (simp add: test_facts numeral_eq_Suc)
qed

text \<open>A left-over acknowledgement. \<open>send_package\<close> does not clear \<open>recv_ack\<close> before it transmits.
  When it is still \<open>NOTICE_MSG\<close> from an earlier message (acknowledged twice, or as its last wait
  timed out), the next message is transmitted once and taken as acknowledged, even if the host is
  silent.\<close>

theorem stale_ack_accepted:
  assumes "connect_status d" "send_q d = m # q" "data_node m" "q_buf m = Mem frame"
    and "pkg_ack_status (q_pkg m) = MSG_ACK_WAITING" "pkg_send_repeat (q_pkg m) = 0"
    and "handle_ok handle" "all_delivered (e_tr e) (length frame) att"
    and "\<forall>i. silent (att i)"
  shows "send_package e att handle (notice_ack_msg d) =
    Inr (Some (0, [frame], loaded handle frame, d\<lparr>recv_ack := WAIT_MSG, send_q := q\<rparr>))"
proof -
  obtain r ws where w: "handle_snd (e_tr e) (loaded handle frame) (at_errno (att 0)) (at_writes (att 0)) = Some (r, frame, ws)"
    using loaded_delivers [OF assms(7)] assms(8) by (fastforce simp: all_delivered_def)
  have wait: "wait_ack (at_wakes (att 0)) (ack_before (att 0) (recv_ack ((notice_ack_msg d)\<lparr>send_q := q\<rparr>))) = (None, NOTICE_MSG)"
    by (simp add: ack_before_def notice_ack_msg_def)
  show ?thesis
    using send_package_waiting [of "notice_ack_msg d" m q frame handle e att] assms
      send_attempts_step [where att = att and i = 0, OF w _ wait]
    by (simp add: notice_ack_msg_def)
qed

theorem stale_ack_accepted_witness:
  "send_package (idle_env ENABLE_ADAS) (\<lambda>_. test_attempt) test_handle
      (notice_ack_msg (idle_device\<lparr>send_q := [test_msg]\<rparr>)) =
    Inr (Some (0, [[0x7E, 1, 2, 3, 4, 0x7E]], loaded test_handle [0x7E, 1, 2, 3, 4, 0x7E],
      idle_device\<lparr>recv_ack := WAIT_MSG, send_q := []\<rparr>))"
  using stale_ack_accepted [where m = test_msg and d = "idle_device\<lparr>send_q := [test_msg]\<rparr>"
      and e = "idle_env ENABLE_ADAS" and att = "\<lambda>_. test_attempt" and handle = test_handle, OF test_facts(7) _ test_facts(3-6,1)]
  by (simp add: test_facts)

text \<open>C13: From the sender's queue to the host's decoder. A message queued on a connected device is
  taken by the next turn of the sending thread, and a host that runs the same decoder gets its
  frame, whole and with the right checksum, one to three times and nothing else; a reply, which asks for
  no acknowledgement, exactly once.\<close>

theorem queued_message_reaches_host:
  assumes "connect_status d" "send_q d = []" "e_malloc1 e" "e_malloc2 e" "handle_ok handle"
    and "16 + 2 * length payload \<le> PTR_QUEUE_BUF_SIZE"
    and "all_delivered (e_tr e) (length (transmit (build_frame (e_build e) (send_serial cmd d) cmd payload))) att"
    and "decoder_idle dec" "9 + length payload \<le> msglen" "9 + length payload \<le> length (rcv_msg dec)"
  shows "\<exists>n wires h' d' dec'.
    pthread_process_send e att handle (snd (message_queue_send e cmd payload d)) = Inr (Some (0, wires, h', d')) \<and>
    feed msglen (concat wires) dec =
      Inr (replicate n (build_frame (e_build e) (send_serial cmd d) cmd payload), dec') \<and>
    1 \<le> n \<and> n \<le> 3 \<and> (\<not> MasterIsMe cmd \<longrightarrow> n = 1) \<and> send_q d' = []"
  using assms by (rule queued_delivered)

theorem queued_message_reaches_host_witness:
  "\<exists>n wires h' d' dec'.
    pthread_process_send (idle_env ENABLE_ADAS) (\<lambda>_. test_attempt) test_handle
      (snd (message_queue_send (idle_env ENABLE_ADAS) SAMPLE_CMD_SET_PARAM [0x7E] idle_device)) =
        Inr (Some (0, wires, h', d')) \<and>
    feed 100 (concat wires) (fresh_decoder 50) =
      Inr (replicate n (build_frame (e_build (idle_env ENABLE_ADAS))
        (send_serial SAMPLE_CMD_SET_PARAM idle_device) SAMPLE_CMD_SET_PARAM [0x7E]), dec') \<and>
    1 \<le> n \<and> n \<le> 3 \<and> (\<not> MasterIsMe SAMPLE_CMD_SET_PARAM \<longrightarrow> n = 1) \<and> send_q d' = []"
proof (rule queued_message_reaches_host)
  show "all_delivered (e_tr (idle_env ENABLE_ADAS)) (length (transmit (build_frame (e_build (idle_env ENABLE_ADAS))
      (send_serial SAMPLE_CMD_SET_PARAM idle_device) SAMPLE_CMD_SET_PARAM [0x7E]))) (\<lambda>_. test_attempt)"
    by (rule test_facts(8)) (rule order_trans [OF length_transmit_build_frame(2)], simp)
qed (simp_all add: test_facts idle_device_def idle_env_def size_defs)

section \<open>The receive thread\<close>

text \<open>C24: What a successful connect does. With at most one message in the queue the upload state is reset,
  the message is dropped, the connection is marked and the only message left is the status report;
  with more than one the reset of the queue uses a block it has freed.\<close>

theorem connect_resets_session:
  assumes "\<forall>n \<in> set (send_q d). data_node n" "e_malloc1 e" "e_malloc2 e"
  shows "if length (send_q d) \<le> 1
    then \<exists>d' m. on_connected e d = Inr d' \<and> connect_status d' \<and> send_q d' = [m] \<and>
           pkg_cmd (q_pkg m) = SAMPLE_CMD_UPLOAD_STATUS \<and> pkg_ack_status (q_pkg m) = MSG_ACK_WAITING \<and>
           \<not> ps_mm_data_trans_waiting (pkg_status d') \<and> d_paras d' = d_paras d \<and> d_rx d' = d_rx d
    else on_connected e d = Inl Use_after_free"
proof -
  have clear: "clear_queue (e_stack e) (send_q d) = (if length (send_q d) \<le> 1 then Inr [] else Inl Use_after_free)"
    unfolding clear_queue_def by (rule clear_queue_loop_data) (use assms(1) in simp_all)
  define d1 where "d1 = (send_stat_pkg_init d)\<lparr>send_q := [], connect_status := True\<rparr>"
  have len: "16 + 2 * length (ModuleStatus_bytes working_status) \<le> PTR_QUEUE_BUF_SIZE"
    by (simp add: ModuleStatus_bytes_def size_defs)
  have q: "send_q (auto_send_work_status e d1) = [queued_msg e SAMPLE_CMD_UPLOAD_STATUS (ModuleStatus_bytes working_status) d1]"
    unfolding auto_send_work_status_def using queued_alone(1) [OF _ assms(2,3) len, of d1] by (simp add: d1_def)
  have "on_connected e d = (if length (send_q d) \<le> 1 then Inr (auto_send_work_status e d1) else Inl Use_after_free)"
    by (simp add: on_connected_def do_stat_reset_def send_stat_pkg_init_def process_socket_status_def clear d1_def Let_def)
  then show ?thesis
    using q by (simp add: auto_send_work_status_def d1_def send_stat_pkg_init_def)
      (simp add: queued_msg_def Let_def MasterIsMe_def)
qed

theorem connect_resets_session_witness:
  "\<exists>d' m. on_connected (idle_env ENABLE_ADAS) (idle_device\<lparr>send_q := [test_msg]\<rparr>) = Inr d' \<and> connect_status d' \<and>
     send_q d' = [m] \<and> pkg_cmd (q_pkg m) = SAMPLE_CMD_UPLOAD_STATUS \<and> pkg_ack_status (q_pkg m) = MSG_ACK_WAITING \<and>
     \<not> ps_mm_data_trans_waiting (pkg_status d') \<and> d_paras d' = d_paras (idle_device\<lparr>send_q := [test_msg]\<rparr>) \<and>
     d_rx d' = d_rx (idle_device\<lparr>send_q := [test_msg]\<rparr>)"
  using connect_resets_session [of "idle_device\<lparr>send_q := [test_msg]\<rparr>" "idle_env ENABLE_ADAS"]
  by (simp add: test_facts idle_env_def)

text \<open>C25: A connection the host closes. The receive thread closes the socket and goes back to creating one,
  but the connection stays marked, so the sending thread takes the next message from the queue,
  whether or not it asks for an acknowledgement, and gives it to the closed socket. However often it
  tries, at most three times, and whatever the error of a write is, as long as it is not one that the write
  is repeated for: the message is gone from the queue, not a byte of it was sent, and the connection is
  still marked, ready to lose the message behind it.\<close>

theorem message_lost_after_disconnect:
  assumes "r_phase s = R_serve" "\<not> r_force_exit s" "e_tr e = TCP_INTERFACE" "connect_status (r_dev s)"
    "\<not> exited (r_dev s)" "0 < d_fd (r_dev s)"
    and "send_q (r_dev s) = m # q" "data_node m" "q_buf m = Mem frame" "frame \<noteq> []"
    and "pkg_ack_status (q_pkg m) \<in> {MSG_ACK_READY, MSG_ACK_WAITING}" "pkg_send_repeat (q_pkg m) = 0"
    and "handle_ok handle" "\<forall>i < 3. \<exists>x. at_writes (att i) = [Write_error x] \<and> x \<notin> {EINTR, EAGAIN}"
    and s': "s' = s\<lparr>r_dev := (r_dev s)\<lparr>d_closed := d_fd (r_dev s) # d_closed (r_dev s)\<rparr>,
       r_sock := Closed, r_phase := R_init\<rparr>"
  shows "recv_step e s (Inr s') \<and>
    (\<exists>n d'. send_package e att handle (r_dev s') = Inr (Some (0, replicate n [], loaded handle frame, d')) \<and>
       1 \<le> n \<and> n \<le> 3 \<and> send_q d' = q \<and> connect_status d')"
proof
  have close: "handle_close (r_dev s) = r_dev s'" using assms(6) by (simp add: handle_close_def s')
  show "recv_step e s (Inr s')"
    using recv_step.serve [OF assms(1,2), of e "Select_ready (Bytes [])"] assms(3,5)
    by (simp add: handle_rcv_def tcp_rcv_def close) (simp add: s')
  have snd: "\<exists>r ws. handle_snd (e_tr e) (loaded handle frame) (at_errno (att i)) (at_writes (att i)) = Some (r, [], ws)"
    if "i < 3" for i
    using assms(3,10,13,14) that by (fastforce simp: handle_snd_def tcp_snd_def loaded_def handle_ok_def)
  have d: "connect_status (r_dev s')" "send_q (r_dev s') = m # q" using assms(4,7) by (simp_all add: s')
  show "\<exists>n d'. send_package e att handle (r_dev s') = Inr (Some (0, replicate n [], loaded handle frame, d')) \<and>
       1 \<le> n \<and> n \<le> 3 \<and> send_q d' = q \<and> connect_status d'"
  proof (cases "pkg_ack_status (q_pkg m) = MSG_ACK_READY")
    case True
    obtain r ws where "handle_snd (e_tr e) (loaded handle frame) (at_errno (att 0)) (at_writes (att 0)) = Some (r, [], ws)"
      using snd [of 0] by auto
    then show ?thesis
      using send_package_ready [OF d assms(8,9) True assms(13)] d(1) by (intro exI [of _ 1] exI) auto
  next
    case False
    then have "pkg_ack_status (q_pkg m) = MSG_ACK_WAITING" using assms(11) by simp
    from send_package_waiting [OF d assms(8,9) this assms(12,13)] show ?thesis
      using send_attempts_delivered [of "e_tr e" "loaded handle frame" att "[]", OF snd, of 0 "(r_dev s')\<lparr>send_q := q\<rparr>"] d(1)
      by (fastforce simp: stop_waiting_def)
  qed
qed

theorem message_lost_after_disconnect_witness:
  "recv_step (idle_env ENABLE_ADAS) \<lparr>r_phase = R_serve, r_sock = Connected, r_force_exit = False,
        r_dev = idle_device\<lparr>send_q := [test_msg]\<rparr>\<rparr>
      (Inr \<lparr>r_phase = R_init, r_sock = Closed, r_force_exit = False,
        r_dev = idle_device\<lparr>send_q := [test_msg], d_closed := [3]\<rparr>\<rparr>) \<and>
    (\<exists>n d'. send_package (idle_env ENABLE_ADAS) (\<lambda>_. test_attempt\<lparr>at_writes := [Write_error EBADF]\<rparr>) test_handle
        (idle_device\<lparr>send_q := [test_msg], d_closed := [3]\<rparr>) =
      Inr (Some (0, replicate n [], loaded test_handle [0x7E, 1, 2, 3, 4, 0x7E], d')) \<and> 1 \<le> n \<and> n \<le> 3 \<and>
      send_q d' = [] \<and> connect_status d')"
proof -
  let ?d = "idle_device\<lparr>send_q := [test_msg]\<rparr>"
  let ?s = "\<lparr>r_phase = R_serve, r_sock = Connected, r_force_exit = False, r_dev = ?d\<rparr>"
  have d: "e_tr (idle_env ENABLE_ADAS) = TCP_INTERFACE" "connect_status ?d" "\<not> exited ?d" "0 < d_fd ?d" "d_fd ?d = 3" "d_closed ?d = []"
    by (simp_all add: idle_env_def idle_device_def)
  show ?thesis
    using message_lost_after_disconnect [where s = ?s and e = "idle_env ENABLE_ADAS" and m = test_msg and q = "[]"
        and att = "\<lambda>_. test_attempt\<lparr>at_writes := [Write_error EBADF]\<rparr>" and handle = test_handle
        and frame = "[0x7E, 1, 2, 3, 4, 0x7E]"
        and s' = "?s\<lparr>r_phase := R_init, r_sock := Closed, r_dev := ?d\<lparr>d_closed := [3]\<rparr>\<rparr>"]
    using d by (simp add: test_facts)
qed

end
