(* ===== verification/Media.thy ===== *)
theory Media
  imports CommandProps
begin

text \<open>
  The media recorder, \<open>rb_rw.cpp\<close>: the thread \<open>pthread_save_media\<close>, which takes the descriptors
  the alerts queue and hands each to a task, the tasks themselves (\<open>store_jpeg\<close>,
  \<open>record_video_media\<close>), and the reconfiguration of the cameras when the parameters change.

  The ring buffer of pictures, the camera service and the thread pool are libraries. What the ring
  buffer delivers to one reader is the list of the results of its read requests (\<open>None\<close> when a
  request finds no frame); a loop over it that has not ended when the list does is the value
  \<open>None\<close>. The calls of the camera service are recorded in the order they are made, and so are the
  tasks handed to the pool.
\<close>

section \<open>Pictures\<close>

record rb_frame =
  fr_pts :: int
  fr_data :: "u8 list"

text \<open>A read request, repeated at most \<open>repeat_times\<close> times.\<close>

fun request_jpeg_frame :: "nat \<Rightarrow> rb_frame option list \<Rightarrow> (rb_frame option \<times> rb_frame option list) option" where
  "request_jpeg_frame n [] = None"
| "request_jpeg_frame n (Some f # rs) = Some (Some f, rs)"
| "request_jpeg_frame 0 (None # rs) = Some (None, rs)"
| "request_jpeg_frame (Suc n) (None # rs) = request_jpeg_frame n rs"

lemma request_jpeg_frame_shorter: "request_jpeg_frame n rs = Some (f, rs') \<Longrightarrow> length rs' < length rs"
  by (induction n rs arbitrary: f rs' rule: request_jpeg_frame.induct) force+

definition write_one_jpeg :: "env \<Rightarrow> InfoForStore \<Rightarrow> rb_frame \<Rightarrow> nat \<Rightarrow> device \<Rightarrow> device outcome" where
  "write_one_jpeg e mm pFrame index d =
     (if index \<ge> length (st_photo_id mm) then Inl Overrun_photo_id
      else let filepath = mmid_to_filename (e_build e) (st_photo_id mm ! index);
               (rc, fs) = write_file (e_fs e) filepath (fr_data pFrame) (d_files d)
           in Inr (d\<lparr>d_files := fs\<rparr>))"

definition photo_interval :: "InfoForStore \<Rightarrow> int" where
  "photo_interval mm = uint (st_photo_time_period mm) * 100 * 1000"

text \<open>The \<open>do ... while\<close> loop. A request that finds no frame goes on to the test of the loop, so the
  body runs at least once whatever \<open>photo_num\<close> is.\<close>

function store_jpeg_loop ::
  "env \<Rightarrow> InfoForStore \<Rightarrow> nat \<Rightarrow> int \<Rightarrow> rb_frame option list \<Rightarrow> device \<Rightarrow> device outcome option" where
  "store_jpeg_loop e mm jpeg_index old_pts rs d =
     (case request_jpeg_frame 0 rs of
        None \<Rightarrow> None
      | Some (None, rs') \<Rightarrow>
          (if jpeg_index < unat (st_photo_num mm) then store_jpeg_loop e mm jpeg_index old_pts rs' d
           else Some (Inr d))
      | Some (Some pFrame, rs') \<Rightarrow>
          (if fr_pts pFrame > old_pts + photo_interval mm then
             case write_one_jpeg e mm pFrame jpeg_index d of
               Inl x \<Rightarrow> Some (Inl x)
             | Inr d \<Rightarrow>
                 (if jpeg_index + 1 < unat (st_photo_num mm)
                  then store_jpeg_loop e mm (jpeg_index + 1) (fr_pts pFrame) rs' d else Some (Inr d))
           else if jpeg_index < unat (st_photo_num mm) then store_jpeg_loop e mm jpeg_index old_pts rs' d
           else Some (Inr d)))"
  by pat_completeness auto
termination
  by (relation "measure (\<lambda>(e, mm, j, t, rs, d). length rs)") (auto dest: request_jpeg_frame_shorter)

declare store_jpeg_loop.simps [simp del]

definition store_jpeg :: "env \<Rightarrow> InfoForStore \<Rightarrow> rb_frame option list \<Rightarrow> device \<Rightarrow> (u32 \<times> device) outcome option" where
  "store_jpeg e mm rs d =
     (if st_photo_enable mm = 0 then Some (Inr (0, d))
      else map_option (\<lambda>m. bindE m (\<lambda>d.
             Inr (word_of_int (photo_interval mm) * (word_of_int (uint (st_photo_num mm) - 1)), d)))
        (store_jpeg_loop e mm 0 0 rs d))"

text \<open>\<open>store_jpegs\<close> has the same body over a copy of the descriptor.\<close>

definition store_jpegs :: "env \<Rightarrow> InfoForStore \<Rightarrow> rb_frame option list \<Rightarrow> device \<Rightarrow> (u32 \<times> device) outcome option" where
  "store_jpegs e mm rs d =
     (if st_photo_enable mm = 0 then Some (Inr (0, d))
      else map_option (\<lambda>m. bindE m (\<lambda>d.
             Inr (word_of_int (photo_interval mm) * (word_of_int (uint (st_photo_num mm) - 1)), d)))
        (store_jpeg_loop e mm 0 0 rs d))"

section \<open>Videos\<close>

datatype camera = ADAS_CAMERA | DMS_CAMERA

text \<open>A call of \<open>ma_api_record_write_mp4\<close>.\<close>

record mp4_request =
  rq_camera :: camera
  rq_user :: string
  rq_file :: string
  rq_seek :: int
  rq_time :: int

text \<open>The user name is an entry of a table; \<open>None\<close> is the position behind its end.\<close>

definition record_video_media :: "env \<Rightarrow> string option \<Rightarrow> camera \<Rightarrow> InfoForStore \<Rightarrow> mp4_request list outcome" where
  "record_video_media e user camera_dev info =
     (if st_video_enable info = 0 then Inr []
      else case user of
          None \<Rightarrow> Inl Overrun_user
        | Some name \<Rightarrow>
            Inr [\<lparr>rq_camera = camera_dev, rq_user = name,
                  rq_file = mmid_to_filename (e_build e) (st_video_id info ! 0),
                  rq_seek = 0 - uint (st_video_time info), rq_time = 2 * uint (st_video_time info)\<rparr>])"

definition record_mm_info ::
  "env \<Rightarrow> rb_frame option list \<Rightarrow> string option \<Rightarrow> camera \<Rightarrow> InfoForStore \<Rightarrow> device
     \<Rightarrow> (mp4_request list \<times> device) outcome option" where
  "record_mm_info e rs user camera_dev info d =
     map_option (\<lambda>m. bindE m (\<lambda>(take_time, d).
       bindE (record_video_media e user camera_dev info) (\<lambda>reqs. Inr (reqs, d)))) (store_jpeg e info rs d)"

section \<open>Which task records an alert\<close>

definition dms_alert_type_to_index :: "u8 \<Rightarrow> nat" where
  "dms_alert_type_to_index type =
     (if type = DMS_FATIGUE_WARN then 0 else if type = DMS_CALLING_WARN then 1
      else if type = DMS_SMOKING_WARN then 2 else if type = DMS_DISTRACT_WARN then 3
      else if type = DMS_ABNORMAL_WARN then 4
      else if type = DMS_DRIVER_CHANGE \<or> type = DMS_SANPSHOT_EVENT then 5 else 0)"

definition adas_alert_type_to_index :: "u8 \<Rightarrow> nat" where
  "adas_alert_type_to_index type =
     (if type = SB_WARN_TYPE_FCW then 0 else if type = SB_WARN_TYPE_LDW then 1
      else if type = SB_WARN_TYPE_HW then 2 else if type = SB_WARN_TYPE_SNAP then 3 else 0)"

definition adas_video_user :: "string list" where
  "adas_video_user = [''adas_fcw_video'', ''adas_ldw_video'', ''adas_hw_video'']"
definition dms_video_user :: "string list" where
  "dms_video_user = [''dms_fatigue_video'', ''dms_calling_video'', ''dms_smoking_video'',
     ''dms_distract_video'', ''dms_absence_video'']"
definition related_dms_user :: "string list" where
  "related_dms_user = [''fcw_related_video'', ''ldw_related_video'', ''hw_related_video'']"
definition related_adas_user :: "string list" where
  "related_adas_user = [''fatigue_related_video'', ''calling_related_video'', ''smoking_related_video'',
     ''distract_related_video'', ''absence_related_video'']"

definition entry :: "'a list \<Rightarrow> nat \<Rightarrow> 'a option" where
  "entry xs i = (if i < length xs then Some (xs ! i) else None)"

text \<open>A closure given to the pool. \<open>Unset_closure\<close> is the slot of \<open>cls\<close> that the snapshot branch
  hands over without having filled it.\<close>

datatype task =
    Record_mm_info nat "string option" camera InfoForStore
  | Record_video_media "string option" camera InfoForStore
  | Unset_closure

text \<open>The body of the loop for one descriptor: the reader \<open>store_jpegs\<close> is called on first, if it is,
  and the task.\<close>

definition save_media_task :: "build \<Rightarrow> InfoForStore \<Rightarrow> nat option \<times> task" where
  "save_media_task b mm =
     (case b of
        ENABLE_ADAS \<Rightarrow>
          (let user_index = adas_alert_type_to_index (st_warn_type mm) in
           if st_get_another_camera_video mm = 0 then
             if user_index = unat SB_WARN_TYPE_SNAP then (Some user_index, Unset_closure)
             else (None, Record_mm_info user_index (entry adas_video_user user_index) ADAS_CAMERA mm)
           else (None, Record_video_media (entry related_dms_user user_index) DMS_CAMERA mm))
      | ENABLE_DMS \<Rightarrow>
          (let user_index = dms_alert_type_to_index (st_warn_type mm) in
           if st_get_another_camera_video mm = 0 then
             if user_index = unat DMS_SANPSHOT_EVENT then (Some user_index, Unset_closure)
             else (None, Record_mm_info user_index (entry dms_video_user user_index) DMS_CAMERA mm)
           else (None, Record_video_media (entry related_adas_user user_index) ADAS_CAMERA mm)))"

section \<open>Camera configuration\<close>

datatype camera_call =
    record_stop camera
  | record_configure camera int int u32
  | record_start camera
  | jpeg_enc_stop camera
  | jpeg_enc_configure camera int int u8 int
  | jpeg_enc_start camera

definition dms_reslution :: "(int \<times> int) list" where
  "dms_reslution = [(352, 288), (704, 288), (704, 576), (960, 576), (1280, 720), (1920, 1080)]"
definition adas_reslution :: "(int \<times> int) list" where
  "adas_reslution = [(352, 288), (704, 288), (704, 576), (960, 576), (640, 480), (1280, 720), (1920, 1080)]"
definition image_reslution :: "(int \<times> int) list" where
  "image_reslution = [(352, 288), (704, 288), (704, 576), (640, 480), (1280, 720), (1920, 1080)]"

text \<open>The static \<open>s_type\<close> of a configuration function.\<close>

record resolution_statics =
  s_type_V :: nat
  s_type_I :: nat

definition in_table :: "nat \<Rightarrow> 'a list \<Rightarrow> bool" where
  "in_table i xs \<longleftrightarrow> 0 < i \<and> i \<le> length xs"

definition config_adas_video_resolution ::
  "device \<Rightarrow> resolution_statics \<Rightarrow> camera_call list \<times> resolution_statics" where
  "config_adas_video_resolution d st =
     (let para = adas_para (d_paras d); fps = jpeg_coder_fps (d_config d);
          adasCodeRate = adasBitRate (d_config d);
          index1 = unat (video_Resolution para); index2 = unat (image_Resolution para);
          calls1 = (if s_type_V st \<noteq> index1 \<and> in_table index1 adas_reslution
            then [record_stop ADAS_CAMERA,
                  record_configure ADAS_CAMERA (fst (adas_reslution ! (index1 - 1)))
                    (snd (adas_reslution ! (index1 - 1))) (adasCodeRate ! (index1 - 1) * 1024),
                  record_start ADAS_CAMERA]
            else []);
          calls2 = (if s_type_I st \<noteq> index2 \<and> in_table index2 image_reslution
            then [jpeg_enc_stop ADAS_CAMERA,
                  jpeg_enc_configure ADAS_CAMERA (fst (image_reslution ! (index2 - 1)))
                    (snd (image_reslution ! (index2 - 1))) fps 50,
                  jpeg_enc_start ADAS_CAMERA]
            else []);
          st = (if in_table index1 adas_reslution then st\<lparr>s_type_V := index1\<rparr> else st);
          st = (if in_table index2 image_reslution then st\<lparr>s_type_I := index2\<rparr> else st)
      in (calls1 @ calls2, st))"

definition config_dms_video_resolution ::
  "device \<Rightarrow> resolution_statics \<Rightarrow> camera_call list \<times> resolution_statics" where
  "config_dms_video_resolution d st =
     (let para = dms_para (d_paras d); fps = jpeg_coder_fps (d_config d);
          dmsCodeRate = dmsBitRate (d_config d);
          index1 = unat (video_Resolution para); index2 = unat (image_Resolution para);
          calls1 = (if s_type_V st \<noteq> index1 \<and> in_table index1 dms_reslution
            then [record_stop DMS_CAMERA,
                  record_configure DMS_CAMERA (fst (dms_reslution ! (index1 - 1)))
                    (snd (dms_reslution ! (index1 - 1))) (dmsCodeRate ! (index1 - 1) * 1024),
                  record_start DMS_CAMERA]
            else []);
          calls2 = (if s_type_I st \<noteq> index2 \<and> in_table index2 image_reslution
            then [jpeg_enc_stop DMS_CAMERA,
                  jpeg_enc_configure DMS_CAMERA (fst (image_reslution ! (index2 - 1)))
                    (snd (image_reslution ! (index2 - 1))) fps 50,
                  jpeg_enc_start DMS_CAMERA]
            else []);
          st = (if in_table index1 dms_reslution then st\<lparr>s_type_V := index1\<rparr> else st);
          st = (if in_table index2 image_reslution then st\<lparr>s_type_I := index2\<rparr> else st)
      in (calls1 @ calls2, st))"

definition config_video_resolution ::
  "build \<Rightarrow> device \<Rightarrow> resolution_statics \<Rightarrow> camera_call list \<times> resolution_statics" where
  "config_video_resolution b d st =
     (case b of ENABLE_ADAS \<Rightarrow> config_adas_video_resolution d st
      | ENABLE_DMS \<Rightarrow> config_dms_video_resolution d st)"

section \<open>The recording thread\<close>

record save_media =
  sm_dev :: device
  sm_type :: resolution_statics
  sm_calls :: "camera_call list"
  sm_task_index :: nat
  sm_tasks :: "task list"

text \<open>Before its loop the thread opens its camera, configures it and registers the users of its videos,
  a video of length zero for each: its own users and those the process of the other device uses for
  the related videos.\<close>

definition register_users :: "camera \<Rightarrow> string \<Rightarrow> string list \<Rightarrow> mp4_request list" where
  "register_users camera_dev path users = map (\<lambda>i. \<lparr>rq_camera = camera_dev, rq_user = users ! i,
     rq_file = path @ format_010u (of_nat i), rq_seek = 0, rq_time = 0\<rparr>) [0..<length users]"

definition save_media_users :: "build \<Rightarrow> mp4_request list" where
  "save_media_users b = (case b of
     ENABLE_ADAS \<Rightarrow> register_users ADAS_CAMERA ''/data/adas_video_user'' adas_video_user @
       register_users ADAS_CAMERA ''/data/adas_related_user'' related_adas_user
   | ENABLE_DMS \<Rightarrow> register_users DMS_CAMERA ''/data/dms_video_user'' dms_video_user @
       register_users DMS_CAMERA ''/data/dms_related_user'' related_dms_user)"

definition save_media_start :: "env \<Rightarrow> device \<Rightarrow> save_media \<times> mp4_request list" where
  "save_media_start e d =
     (let (calls, st) = config_video_resolution (e_build e) d \<lparr>s_type_V = 0, s_type_I = 0\<rparr>
      in (\<lparr>sm_dev = d, sm_type = st, sm_calls = calls, sm_task_index = 0, sm_tasks = []\<rparr>,
          save_media_users (e_build e)))"

text \<open>One turn of the loop of \<open>pthread_save_media\<close>. With an empty queue the cameras are
  configured; else the next descriptor becomes a task.\<close>

definition pthread_save_media :: "env \<Rightarrow> save_media \<Rightarrow> save_media outcome" where
  "pthread_save_media e s =
     bindE (pull_mm_queue (e_stack e) (image_q (sm_dev s))) (\<lambda>r.
       case r of
         None \<Rightarrow>
           (let (calls, st) = config_video_resolution (e_build e) (sm_dev s) (sm_type s)
            in Inr (s\<lparr>sm_calls := sm_calls s @ calls, sm_type := st\<rparr>))
       | Some (mm, q) \<Rightarrow>
           Inr (s\<lparr>sm_dev := (sm_dev s)\<lparr>image_q := q\<rparr>,
                  sm_tasks := sm_tasks s @ [snd (save_media_task (e_build e) mm)],
                  sm_task_index := sm_task_index s mod 8 + 1\<rparr>))"

section \<open>Media found at the start\<close>

text \<open>\<open>strncmp(literal, file_type, strlen(literal))\<close>\<close>

definition get_mm_type :: "string \<Rightarrow> u8 option" where
  "get_mm_type file_type =
     (if take 3 file_type = ''jpg'' then Some MM_PHOTO
      else if take 3 file_type = ''wav'' then Some MM_AUDIO
      else if take 3 file_type = ''mp4'' then Some MM_VIDEO else None)"

text \<open>The loop of \<open>parse_filename\<close> over the characters of a name: the two arrays of 32 characters
  and which of them is being filled.\<close>

fun split_filename :: "string \<Rightarrow> bool \<Rightarrow> nat \<Rightarrow> string \<Rightarrow> string \<Rightarrow> (string \<times> string) outcome" where
  "split_filename [] in_type j mm_id file_type = Inr (mm_id, file_type)"
| "split_filename (c # cs) in_type j mm_id file_type =
     (if c = CHR ''.'' then split_filename cs True 0 mm_id file_type
      else if j \<ge> 32 then Inl Overrun_filename
      else if in_type then split_filename cs in_type (j + 1) mm_id (file_type[j := c])
      else split_filename cs in_type (j + 1) (mm_id[j := c]) file_type)"

definition c_string :: "string \<Rightarrow> string" where
  "c_string s = takeWhile (\<lambda>c. c \<noteq> CHR 0x00) s"

text \<open>\<open>strtol\<close> reads behind the end of an array that has no terminator and digits up to its end.\<close>

definition strtol_runs_off :: "string \<Rightarrow> bool" where
  "strtol_runs_off arr \<longleftrightarrow> CHR 0x00 \<notin> set arr \<and>
     (let s = dropWhile is_space arr;
          t = (if s \<noteq> [] \<and> (hd s = CHR ''-'' \<or> hd s = CHR ''+'') then tl s else s)
      in list_all is_digit t)"

definition parse_filename :: "MmInfo_node \<Rightarrow> string \<Rightarrow> MmInfo_node list \<Rightarrow> MmInfo_node list outcome" where
  "parse_filename stack_node filename ns =
     bindE (split_filename filename False 0 (replicate 32 (CHR 0x00)) (replicate 32 (CHR 0x00)))
       (\<lambda>(mm_id, file_type).
          case get_mm_type (c_string file_type) of
            None \<Rightarrow> Inr ns
          | Some type \<Rightarrow>
              if strtol_runs_off mm_id then Inl Overrun_filename
              else Inr (insert_mm_resouce (stack_node\<lparr>node_mm_type := type,
                     node_mm_id := word_of_int (strtol10 (c_string mm_id))\<rparr>) ns))"

fun traverse_directory :: "MmInfo_node \<Rightarrow> string list \<Rightarrow> MmInfo_node list \<Rightarrow> MmInfo_node list outcome" where
  "traverse_directory stack_node [] ns = Inr ns"
| "traverse_directory stack_node (name # names) ns =
     (if take 1 name = ''.'' then traverse_directory stack_node names ns
      else if take 2 name = ''..'' then traverse_directory stack_node names ns
      else bindE (parse_filename stack_node name ns) (traverse_directory stack_node names))"

definition read_local_file_to_list ::
  "MmInfo_node \<Rightarrow> string list option \<Rightarrow> MmInfo_node list \<Rightarrow> (int \<times> MmInfo_node list) outcome" where
  "read_local_file_to_list stack_node entries ns =
     (case entries of None \<Rightarrow> Inr (- 1, ns)
      | Some names \<Rightarrow> bindE (traverse_directory stack_node names ns) (\<lambda>ns. Inr (0, ns)))"

end
