(* ===== verification/MediaProps.thy ===== *)
theory MediaProps
  imports Media
begin

text \<open>
  The properties of the media recorder: which pictures of the stream become the photos of an alert
  and under which names, that the task made of a descriptor stays within the tables of user names,
  that the cameras are configured once per change of the parameters, and that the photos an alert
  announces to the host are the files a later request finds.
\<close>

section \<open>The photos of the stream\<close>

text \<open>The specification: the first \<open>n\<close> frames, each more than \<open>k\<close> after the one before.\<close>

fun pick_frames :: "int \<Rightarrow> int \<Rightarrow> nat \<Rightarrow> rb_frame option list \<Rightarrow> rb_frame list" where
  "pick_frames k old 0 rs = []"
| "pick_frames k old (Suc n) [] = []"
| "pick_frames k old (Suc n) (None # rs) = pick_frames k old (Suc n) rs"
| "pick_frames k old (Suc n) (Some f # rs) =
     (if fr_pts f > old + k then f # pick_frames k (fr_pts f) n rs else pick_frames k old (Suc n) rs)"

definition save_photos :: "build \<Rightarrow> (u32 \<times> rb_frame) list \<Rightarrow> files \<Rightarrow> files" where
  "save_photos b ps fs = fold (\<lambda>(i, f) fs. fs(mmid_to_filename b i \<mapsto> fr_data f)) ps fs"

lemma save_photos_simps [simp]:
  "save_photos b [] fs = fs"
  "save_photos b ((i, f) # ps) fs = save_photos b ps (fs(mmid_to_filename b i \<mapsto> fr_data f))"
  by (simp_all add: save_photos_def)

text \<open>A file system that takes every picture of the stream.\<close>

definition room_for :: "fsenv \<Rightarrow> rb_frame option list \<Rightarrow> bool" where
  "room_for fe rs \<longleftrightarrow> (\<forall>p. fs_open fe p) \<and> (\<forall>f. Some f \<in> set rs \<longrightarrow> length (fr_data f) \<le> fs_room fe)"

lemma request_0 [simp]: "request_jpeg_frame 0 (r # rs) = Some (r, rs)"
  by (cases r) auto

lemma write_one_jpeg_ok:
  assumes "index < length (st_photo_id mm)" "room_for (e_fs e) rs" "Some f \<in> set rs"
  shows "write_one_jpeg e mm f index d =
    Inr (d\<lparr>d_files := (d_files d)(mmid_to_filename (e_build e) (st_photo_id mm ! index) \<mapsto> fr_data f)\<rparr>)"
  using assms by (auto simp: write_one_jpeg_def write_file_def room_for_def not_less)

lemma room_for_Cons: "room_for fe (r # rs) \<Longrightarrow> room_for fe rs"
  by (simp add: room_for_def)

lemma store_jpeg_loop_photos:
  assumes "room_for (e_fs e) rs" "j < n" "n = unat (st_photo_num mm)" "n \<le> length (st_photo_id mm)"
    "length (pick_frames (photo_interval mm) old (n - j) rs) = n - j"
  shows "store_jpeg_loop e mm j old rs d = Some (Inr (d\<lparr>d_files := save_photos (e_build e)
    (zip (drop j (take n (st_photo_id mm))) (pick_frames (photo_interval mm) old (n - j) rs)) (d_files d)\<rparr>))"
  using assms
proof (induction rs arbitrary: j old d)
  case Nil
  then obtain m where "n - j = Suc m" by (metis Suc_diff_Suc)
  with Nil show ?case by simp
next
  case (Cons r rs)
  let ?k = "photo_interval mm"
  have m: "n - j = Suc (n - Suc j)" using Cons.prems by simp
  have drop: "drop j (take n (st_photo_id mm)) = st_photo_id mm ! j # drop (Suc j) (take n (st_photo_id mm))"
    using Cons.prems by (simp flip: Cons_nth_drop_Suc)
  note room = room_for_Cons [OF Cons.prems(1)]
  consider (skip) "r = None" | (early) f where "r = Some f" "\<not> fr_pts f > old + ?k"
    | (photo) f where "r = Some f" "fr_pts f > old + ?k"
    by (cases r) auto
  then show ?case
  proof cases
    case photo
    define F where "F = (d_files d)(mmid_to_filename (e_build e) (st_photo_id mm ! j) \<mapsto> fr_data f)"
    let ?d = "d\<lparr>d_files := F\<rparr>"
    have wr: "write_one_jpeg e mm f j d = Inr ?d"
      using write_one_jpeg_ok [of j mm e "r # rs" f d] Cons.prems photo by (simp add: F_def)
    show ?thesis
    proof (cases "Suc j < n")
      case True
      then show ?thesis
        using Cons.IH [OF room True Cons.prems(3,4), of "fr_pts f" ?d] Cons.prems photo wr m drop
        by (subst store_jpeg_loop.simps) (simp add: F_def [symmetric])
    next
      case False
      then have "n - j = Suc 0" using Cons.prems by simp
      then show ?thesis using Cons.prems photo wr drop False
        by (subst store_jpeg_loop.simps) (simp add: F_def [symmetric])
    qed
  qed (use Cons.IH [OF room] Cons.prems m in \<open>subst store_jpeg_loop.simps, simp\<close>)+
qed

lemma save_photos_other:
  "p \<notin> (\<lambda>x. mmid_to_filename b (fst x)) ` set ps \<Longrightarrow> save_photos b ps fs p = fs p"
  by (induction ps arbitrary: fs) auto

lemma save_photos_nth:
  assumes "distinct ids" "length ids = length ps" "i < length ps"
  shows "save_photos b (zip ids ps) fs (mmid_to_filename b (ids ! i)) = Some (fr_data (ps ! i))"
  using assms
proof (induction ids arbitrary: ps fs i)
  case (Cons x ids)
  then obtain f ps' where ps: "ps = f # ps'" by (cases ps) auto
  show ?case
  proof (cases i)
    case 0
    have "mmid_to_filename b x \<notin> (\<lambda>y. mmid_to_filename b (fst y)) ` set (zip ids ps')"
      using Cons.prems mmid_to_filename_inj by (fastforce dest: set_zip_leftD)
    then show ?thesis using 0 ps by (simp add: save_photos_other)
  next
    case (Suc k)
    then show ?thesis using Cons ps by simp
  qed
qed simp

lemma pick_frames_spaced:
  "Suc i < length (pick_frames k old n rs) \<Longrightarrow>
   fr_pts (pick_frames k old n rs ! Suc i) > fr_pts (pick_frames k old n rs ! i) + k"
proof (induction k old n rs arbitrary: i rule: pick_frames.induct)
  case (4 k old n f rs)
  have first: "xs \<noteq> [] \<Longrightarrow> xs = pick_frames k p m rs \<Longrightarrow> fr_pts (hd xs) > p + k" for xs p m
    by (induction k p m rs arbitrary: xs rule: pick_frames.induct) (auto split: if_splits)
  show ?case
    using 4 first [of "pick_frames k (fr_pts f) n rs" "fr_pts f" n]
    by (cases i) (auto simp: hd_conv_nth split: if_splits)
qed auto

section \<open>From the alert to the task\<close>

text \<open>The descriptor an alert queues for this camera.\<close>

definition alert_descriptor :: "u32 \<Rightarrow> InfoForStore \<Rightarrow> InfoForStore" where
  "alert_descriptor s mm =
     (let n = photo_count mm;
          mm = (if st_photo_enable mm \<noteq> 0
                then mm\<lparr>st_photo_id := mm_ids s n @ drop n (st_photo_id mm)\<rparr> else mm);
          mm = (if st_video_enable mm \<noteq> 0
                then mm\<lparr>st_video_id := (st_video_id mm)[0 := s + of_nat n + 1]\<rparr> else mm)
      in mm\<lparr>st_get_another_camera_video := 0\<rparr>)"

lemma alert_descriptor_simps [simp]:
  "st_photo_enable (alert_descriptor s mm) = st_photo_enable mm"
  "st_photo_num (alert_descriptor s mm) = st_photo_num mm"
  "st_video_enable (alert_descriptor s mm) = st_video_enable mm"
  "st_warn_type (alert_descriptor s mm) = st_warn_type mm"
  "photo_interval (alert_descriptor s mm) = photo_interval mm"
  "st_get_another_camera_video (alert_descriptor s mm) = 0"
  "st_photo_enable mm \<noteq> 0 \<Longrightarrow> st_photo_id (alert_descriptor s mm) = mm_ids s (photo_count mm) @ drop (photo_count mm) (st_photo_id mm)"
  by (simp_all add: alert_descriptor_def photo_interval_def Let_def)

lemma image_q_record_media:
  "image_q (record_media e mm d) = push_mm_queue (e_tr e) (e_malloc1 e) (e_stack e) mm (image_q d)"
  by (simp add: record_media_def)

lemma push_mm_queue_serial: "push_mm_queue RS232_INTERFACE m stk mm q = q"
  by (simp add: push_mm_queue_def)

lemma push_mm_queue_room:
  "length q < PTR_QUEUE_BUF_CNT \<Longrightarrow>
   push_mm_queue TCP_INTERFACE True stk mm q = q @ [stk\<lparr>q_buf := Null, q_len := 0, q_mm := mm\<rparr>]"
  by (simp add: push_mm_queue_def ptr_queue_push_Null)

lemma push_mm_queue_extends: "\<exists>q'. push_mm_queue TCP_INTERFACE True stk mm q = q @ q'"
  by (cases "length q = PTR_QUEUE_BUF_CNT") (auto simp: push_mm_queue_def ptr_queue_push_def Let_def)

lemma alert_media_image_q:
  assumes "photo_count mm \<le> WARN_SNAP_NUM_MAX" "alert_media e mm d = Inr (ms, d')"
    and "push = push_mm_queue (e_tr e) (e_malloc1 e) (e_stack e)"
  shows "\<exists>mm2. image_q d' = (if st_video_enable mm = 0 then push (alert_descriptor (s_mm_id d) mm) (image_q d)
    else push mm2 (push (alert_descriptor (s_mm_id d) mm) (image_q d)))"
proof -
  have photos: "photo_count mm = (if st_photo_enable mm = 0 then 0 else unat (st_photo_num mm))"
    by (simp add: photo_count_def)
  show ?thesis
    using assms(1,2) unfolding assms(3)
    by (cases "st_video_enable mm = 0"; cases "st_photo_enable mm = 0")
      (auto simp: alert_media_def add_photos_eq add_video_def get_mm_ids Let_def image_q_record_media
        mm_ids_def [of _ "Suc 0"] alert_descriptor_def photos)
qed

lemma alert_media_queued:
  assumes "photo_count mm \<le> WARN_SNAP_NUM_MAX"
  shows "\<exists>d'. alert_media e mm d = Inr (frame_media (s_mm_id d) mm, d') \<and>
    (e_tr e = RS232_INTERFACE \<longrightarrow> image_q d' = image_q d) \<and>
    (e_tr e = TCP_INTERFACE \<and> e_malloc1 e \<and> length (image_q d) < PTR_QUEUE_BUF_CNT \<longrightarrow>
       (\<exists>nd q. image_q d' = image_q d @ nd # q \<and> q_buf nd = Null \<and> q_mm nd = alert_descriptor (s_mm_id d) mm))"
proof -
  obtain d' where d': "alert_media e mm d = Inr (frame_media (s_mm_id d) mm, d')"
    using alert_media_eq [OF assms, of e d] by auto
  define push where "push = push_mm_queue (e_tr e) (e_malloc1 e) (e_stack e)"
  obtain mm2 where q: "image_q d' = (if st_video_enable mm = 0 then push (alert_descriptor (s_mm_id d) mm) (image_q d)
      else push mm2 (push (alert_descriptor (s_mm_id d) mm) (image_q d)))"
    using alert_media_image_q [OF assms d' push_def] by blast
  have "image_q d' = image_q d" if "e_tr e = RS232_INTERFACE"
    using that by (simp add: q push_def push_mm_queue_serial)
  moreover have "\<exists>nd q. image_q d' = image_q d @ nd # q \<and> q_buf nd = Null \<and> q_mm nd = alert_descriptor (s_mm_id d) mm"
    if "e_tr e = TCP_INTERFACE" "e_malloc1 e" "length (image_q d) < PTR_QUEUE_BUF_CNT"
    using push_mm_queue_extends [of "e_stack e" mm2 "push (alert_descriptor (s_mm_id d) mm) (image_q d)"] that
    by (auto simp: q push_def push_mm_queue_room)
  ultimately show ?thesis using d' by blast
qed

text \<open>The two kinds of alert frame: the media of the frame an alert makes.\<close>

definition dms_alert_type :: "u8 \<Rightarrow> bool" where
  "dms_alert_type type \<longleftrightarrow> type = DMS_FATIGUE_WARN \<or> type = DMS_CALLING_WARN \<or> type = DMS_SMOKING_WARN
     \<or> type = DMS_DISTRACT_WARN \<or> type = DMS_ABNORMAL_WARN"

definition dms_store :: "u8 \<Rightarrow> device \<Rightarrow> InfoForStore" where
  "dms_store type d =
     (get_dms_Info_for_store (dms_para (d_paras d)) type InfoForStore_zero)\<lparr>st_warn_type := type\<rparr>"

lemma build_adas_media:
  assumes "alert_type type" "flag \<noteq> SB_WARN_STATUS_END" "length (frame_media (s_mm_id d) (adas_store type d)) \<le> 20"
    "alert_media e (adas_store type d) (d\<lparr>s_warning_id := s_warning_id d + 1\<rparr>) = Inr (frame_media (s_mm_id d) (adas_store type d), d1)"
  shows "\<exists>f' d'. build_adas_warn_frame e type flag f d = Inr (f', d') \<and>
    aw_mm f' = frame_media (s_mm_id d) (adas_store type d) \<and> image_q d' = image_q d1"
  using assms unfolding alert_type_def
  by (auto simp: build_adas_warn_frame_def get_warning_id Let_def adas_store_def [symmetric])

lemma build_dms_media:
  assumes "dms_alert_type type" "flag \<noteq> SB_WARN_STATUS_BEGIN"
    "alert_media e (dms_store type d) (d\<lparr>s_warning_id := s_warning_id d + 1\<rparr>) = Inr (ms, d1)"
  shows "\<exists>f' d'. build_dms_warn_frame e type flag f d = Inr (f', d') \<and> dw_mm f' = ms \<and> image_q d' = image_q d1"
  using assms unfolding dms_alert_type_def
  by (auto simp: build_dms_warn_frame_def get_warning_id Let_def dms_store_def [symmetric])

text \<open>The recording thread takes the descriptors one by one.\<close>

primrec save_media_turns :: "env \<Rightarrow> nat \<Rightarrow> save_media \<Rightarrow> save_media outcome" where
  "save_media_turns e 0 s = Inr s"
| "save_media_turns e (Suc n) s = bindE (pthread_save_media e s) (save_media_turns e n)"

lemma save_media_turns_tasks:
  assumes "\<forall>nd \<in> set q. q_buf nd = Null" "image_q (sm_dev s) = q @ q'"
  shows "\<exists>s'. save_media_turns e (length q) s = Inr s' \<and>
    sm_tasks s' = sm_tasks s @ map (\<lambda>nd. snd (save_media_task (e_build e) (q_mm nd))) q"
  using assms
proof (induction q arbitrary: s)
  case (Cons nd q)
  then have turn: "pthread_save_media e s = Inr (s\<lparr>sm_dev := (sm_dev s)\<lparr>image_q := q @ q'\<rparr>,
      sm_tasks := sm_tasks s @ [snd (save_media_task (e_build e) (q_mm nd))], sm_task_index := sm_task_index s mod 8 + 1\<rparr>)"
    by (simp add: pthread_save_media_def pull_mm_queue_Cons)
  show ?case
    using Cons.IH [of "s\<lparr>sm_dev := (sm_dev s)\<lparr>image_q := q @ q'\<rparr>,
      sm_tasks := sm_tasks s @ [snd (save_media_task (e_build e) (q_mm nd))], sm_task_index := sm_task_index s mod 8 + 1\<rparr>"]
      Cons.prems(1) by (simp add: turn)
qed simp

lemma distinct_mm_ids: "n \<le> 2 ^ 32 \<Longrightarrow> distinct (mm_ids s n)"
  by (auto simp: mm_ids_def distinct_map inj_on_def word_of_nat_eq_iff take_bit_nat_eq_self)

lemma store_jpeg_photos:
  assumes "st_photo_enable mm \<noteq> 0" "n = unat (st_photo_num mm)" "0 < n" "n \<le> length (st_photo_id mm)"
    "room_for (e_fs e) rs" "length (pick_frames (photo_interval mm) 0 n rs) = n"
  shows "\<exists>t. store_jpeg e mm rs d = Some (Inr (t, d\<lparr>d_files := save_photos (e_build e)
    (zip (take n (st_photo_id mm)) (pick_frames (photo_interval mm) 0 n rs)) (d_files d)\<rparr>))"
  using assms store_jpeg_loop_photos [of e rs 0 n mm 0 d] by (simp add: store_jpeg_def)

definition own_camera :: "build \<Rightarrow> camera" where
  "own_camera b = (case b of ENABLE_ADAS \<Rightarrow> ADAS_CAMERA | ENABLE_DMS \<Rightarrow> DMS_CAMERA)"

lemma alert_task:
  assumes "case b of ENABLE_ADAS \<Rightarrow> alert_type (st_warn_type mm) | ENABLE_DMS \<Rightarrow> dms_alert_type (st_warn_type mm)"
    "st_get_another_camera_video mm = 0"
  shows "\<exists>i user. snd (save_media_task b mm) = Record_mm_info i (Some user) (own_camera b) mm"
proof (cases b)
  case ENABLE_ADAS
  then show ?thesis
    using assms by (auto simp: save_media_task_def adas_alert_type_to_index_def alert_type_def entry_def
        adas_video_user_def own_camera_def Let_def)
next
  case ENABLE_DMS
  then show ?thesis
    using assms by (auto simp: save_media_task_def dms_alert_type_to_index_def dms_alert_type_def entry_def
        dms_video_user_def own_camera_def Let_def)
qed

text \<open>The task of an alert leaves, for each photo of the frame, its picture where a request looks for it.\<close>

lemma task_saves_photos:
  assumes "st_photo_enable mm \<noteq> 0" "n = unat (st_photo_num mm)" "0 < n" "n < 10"
    and "room_for (e_fs e) rs" "ps = pick_frames (photo_interval mm) 0 n rs" "length ps = n"
  shows "\<exists>reqs d'. record_mm_info e rs (Some user) camera (alert_descriptor s mm) d = Some (Inr (reqs, d')) \<and>
    (\<forall>k < n. mmh_type (frame_media s mm ! k) = MM_PHOTO \<and>
       d_files d' (mmid_to_filename (e_build e) (htonl (mmh_id (frame_media s mm ! k)))) = Some (fr_data (ps ! k)))"
proof -
  have count: "photo_count mm = n" using assms by (simp add: photo_count_def)
  let ?F = "save_photos (e_build e) (zip (mm_ids s n) ps) (d_files d)"
  obtain t where "store_jpeg e (alert_descriptor s mm) rs d = Some (Inr (t, d\<lparr>d_files := ?F\<rparr>))"
    using store_jpeg_photos [of "alert_descriptor s mm" n e rs d] assms count by auto
  then obtain reqs where "record_mm_info e rs (Some user) camera (alert_descriptor s mm) d = Some (Inr (reqs, d\<lparr>d_files := ?F\<rparr>))"
    by (cases "st_video_enable mm = 0") (auto simp: record_mm_info_def record_video_media_def)
  moreover have "?F (mmid_to_filename (e_build e) (mm_ids s n ! k)) = Some (fr_data (ps ! k))" if "k < n" for k
    by (rule save_photos_nth) (use assms that distinct_mm_ids [of n s] in auto)
  ultimately show ?thesis
    by (auto simp: frame_media_def count nth_append mm_photo_def Let_def)
qed

lemma recording_alert:
  assumes alert: "case e_build e of
      ENABLE_ADAS \<Rightarrow> flag \<noteq> SB_WARN_STATUS_END \<and> (\<exists>p. p = adas_para (d_paras d) \<and> (type, photos, interval) \<in>
        {(SB_WARN_TYPE_FCW, FCW_photo_num p, FCW_photo_time_period p),
         (SB_WARN_TYPE_LDW, LDW_photo_num p, LDW_photo_time_period p),
         (SB_WARN_TYPE_HW, HW_photo_num p, HW_photo_time_period p),
         (SB_WARN_TYPE_PCW, PCW_photo_num p, PCW_photo_time_period p),
         (SB_WARN_TYPE_FLC, FLC_photo_num p, FLC_photo_time_period p)})
    | ENABLE_DMS \<Rightarrow> flag \<noteq> SB_WARN_STATUS_BEGIN \<and> (\<exists>p. p = dms_para (d_paras d) \<and> (type, photos, interval) \<in>
        {(DMS_FATIGUE_WARN, FatigueDriv_PhotoNum p, FatigueDriv_PhotoInterval p),
         (DMS_CALLING_WARN, CallingDriv_PhotoNum p, CallingDriv_PhotoInterval p),
         (DMS_SMOKING_WARN, SmokingDriv_PhotoNum p, SmokingDriv_PhotoInterval p),
         (DMS_DISTRACT_WARN, DistractionDriv_PhotoNum p, DistractionDriv_PhotoInterval p),
         (DMS_ABNORMAL_WARN, AbnormalDriv_PhotoNum p, AbnormalDriv_PhotoInterval p)})"
    and n: "n = unat photos" "0 < n" "n < 10"
    and mm: "mm = (case e_build e of ENABLE_ADAS \<Rightarrow> adas_store type d | ENABLE_DMS \<Rightarrow> dms_store type d)"
  shows "st_photo_enable mm \<noteq> 0" "st_photo_num mm = photos" "photo_interval mm = uint interval * 100 * 1000" "photo_count mm = n"
    and "st_warn_type mm = type"
    and "case e_build e of ENABLE_ADAS \<Rightarrow> alert_type type | ENABLE_DMS \<Rightarrow> dms_alert_type type"
proof -
  note defs = mm adas_store_def dms_store_def get_adas_Info_for_store_def get_dms_Info_for_store_def Let_def
    InfoForStore_zero_def WARN_SNAP_NUM_MAX_def photo_interval_def
  from alert consider "e_build e = ENABLE_ADAS" "type = SB_WARN_TYPE_FCW" "photos = FCW_photo_num (adas_para (d_paras d))" "interval = FCW_photo_time_period (adas_para (d_paras d))"
    | "e_build e = ENABLE_ADAS" "type = SB_WARN_TYPE_LDW" "photos = LDW_photo_num (adas_para (d_paras d))" "interval = LDW_photo_time_period (adas_para (d_paras d))"
    | "e_build e = ENABLE_ADAS" "type = SB_WARN_TYPE_HW" "photos = HW_photo_num (adas_para (d_paras d))" "interval = HW_photo_time_period (adas_para (d_paras d))"
    | "e_build e = ENABLE_ADAS" "type = SB_WARN_TYPE_PCW" "photos = PCW_photo_num (adas_para (d_paras d))" "interval = PCW_photo_time_period (adas_para (d_paras d))"
    | "e_build e = ENABLE_ADAS" "type = SB_WARN_TYPE_FLC" "photos = FLC_photo_num (adas_para (d_paras d))" "interval = FLC_photo_time_period (adas_para (d_paras d))"
    | "e_build e = ENABLE_DMS" "type = DMS_FATIGUE_WARN" "photos = FatigueDriv_PhotoNum (dms_para (d_paras d))" "interval = FatigueDriv_PhotoInterval (dms_para (d_paras d))"
    | "e_build e = ENABLE_DMS" "type = DMS_CALLING_WARN" "photos = CallingDriv_PhotoNum (dms_para (d_paras d))" "interval = CallingDriv_PhotoInterval (dms_para (d_paras d))"
    | "e_build e = ENABLE_DMS" "type = DMS_SMOKING_WARN" "photos = SmokingDriv_PhotoNum (dms_para (d_paras d))" "interval = SmokingDriv_PhotoInterval (dms_para (d_paras d))"
    | "e_build e = ENABLE_DMS" "type = DMS_DISTRACT_WARN" "photos = DistractionDriv_PhotoNum (dms_para (d_paras d))" "interval = DistractionDriv_PhotoInterval (dms_para (d_paras d))"
    | "e_build e = ENABLE_DMS" "type = DMS_ABNORMAL_WARN" "photos = AbnormalDriv_PhotoNum (dms_para (d_paras d))" "interval = AbnormalDriv_PhotoInterval (dms_para (d_paras d))"
    by (cases "e_build e") auto
  note cases = this
  have photos: "photos \<noteq> 0" "unat photos < 10" using n by auto
  show "case e_build e of ENABLE_ADAS \<Rightarrow> alert_type type | ENABLE_DMS \<Rightarrow> dms_alert_type type"
    by (cases rule: cases) (simp_all add: alert_type_def dms_alert_type_def)
  show "st_warn_type mm = type"
    by (cases "e_build e") (simp_all add: mm adas_store_def dms_store_def)
  show en: "st_photo_enable mm \<noteq> 0"
    using photos by (cases rule: cases) (simp_all add: defs)
  show num: "st_photo_num mm = photos"
    by (cases rule: cases) (simp_all add: defs)
  show "photo_interval mm = uint interval * 100 * 1000"
    by (cases rule: cases) (simp_all add: defs)
  show "photo_count mm = n"
    using en num n by (simp add: photo_count_def)
qed

section \<open>Concrete inputs\<close>

definition two_photos :: InfoForStore where
  "two_photos = InfoForStore_zero\<lparr>st_photo_enable := 1, st_photo_num := 2, st_photo_id := [5, 6] @ replicate 8 0\<rparr>"

definition three_frames :: "rb_frame option list" where
  "three_frames = [None, Some \<lparr>fr_pts = 100000000, fr_data = [1]\<rparr>, Some \<lparr>fr_pts = 200000000, fr_data = [2]\<rparr>,
     Some \<lparr>fr_pts = 300000000, fr_data = [3]\<rparr>]"

definition idle_recorder :: save_media where
  "idle_recorder = \<lparr>sm_dev = idle_device, sm_type = \<lparr>s_type_V = 0, s_type_I = 0\<rparr>, sm_calls = [], sm_task_index = 0,
     sm_tasks = []\<rparr>"

lemma room_for_three_frames: "room_for (e_fs (idle_env b)) three_frames"
  by (auto simp: room_for_def three_frames_def idle_env_def)

section \<open>Properties\<close>

text \<open>C18: The photos of a descriptor. When the stream has enough pictures, \<open>store_jpeg\<close> ends and saves
  exactly \<open>photo_num\<close> of them, the \<open>i\<close>-th under the name of the \<open>i\<close>-th photo id: the first that
  are each more than the photo interval later than the one before. No other file changes.\<close>

theorem photos_saved:
  assumes "st_photo_enable mm \<noteq> 0" "n = unat (st_photo_num mm)" "0 < n" "n \<le> length (st_photo_id mm)"
    and "distinct (take n (st_photo_id mm))" "room_for (e_fs e) rs"
    and "length (pick_frames (photo_interval mm) 0 n rs) = n"
  shows "\<exists>t fs. store_jpeg e mm rs d = Some (Inr (t, d\<lparr>d_files := fs\<rparr>)) \<and>
    (\<forall>i < n. fs (mmid_to_filename (e_build e) (st_photo_id mm ! i)) =
       Some (fr_data (pick_frames (photo_interval mm) 0 n rs ! i))) \<and>
    (\<forall>p. p \<notin> mmid_to_filename (e_build e) ` set (take n (st_photo_id mm)) \<longrightarrow> fs p = d_files d p) \<and>
    (\<forall>i. Suc i < n \<longrightarrow> fr_pts (pick_frames (photo_interval mm) 0 n rs ! Suc i) >
       fr_pts (pick_frames (photo_interval mm) 0 n rs ! i) + photo_interval mm)"
proof -
  let ?ps = "pick_frames (photo_interval mm) 0 n rs"
  let ?fs = "save_photos (e_build e) (zip (take n (st_photo_id mm)) ?ps) (d_files d)"
  obtain t where "store_jpeg e mm rs d = Some (Inr (t, d\<lparr>d_files := ?fs\<rparr>))"
    using store_jpeg_photos [OF assms(1-4,6,7), of d] by blast
  moreover have "?fs (mmid_to_filename (e_build e) (st_photo_id mm ! i)) = Some (fr_data (?ps ! i))" if "i < n" for i
    using save_photos_nth [of "take n (st_photo_id mm)" ?ps i "e_build e" "d_files d"] assms(4,5,7) that by simp
  moreover have "?fs p = d_files d p" if "p \<notin> mmid_to_filename (e_build e) ` set (take n (st_photo_id mm))" for p
    by (rule save_photos_other) (use that in \<open>auto dest: set_zip_leftD\<close>)
  moreover have "fr_pts (?ps ! Suc i) > fr_pts (?ps ! i) + photo_interval mm" if "Suc i < n" for i
    using pick_frames_spaced [of i "photo_interval mm" 0 n rs] assms(7) that by simp
  ultimately show ?thesis by (intro exI [of _ t] exI [of _ ?fs]) blast
qed

theorem photos_saved_witness:
  "\<exists>t fs. store_jpeg (idle_env ENABLE_ADAS) two_photos three_frames idle_device = Some (Inr (t, idle_device\<lparr>d_files := fs\<rparr>)) \<and>
    (\<forall>i < 2. fs (mmid_to_filename ENABLE_ADAS (st_photo_id two_photos ! i)) = Some ([[1], [2]] ! i))"
proof -
  have n: "unat (st_photo_num two_photos) = 2" "st_photo_id two_photos = [5, 6] @ replicate 8 0"
      "st_photo_enable two_photos \<noteq> 0" by (simp_all add: two_photos_def)
  have ps: "pick_frames (photo_interval two_photos) 0 2 three_frames =
      [\<lparr>fr_pts = 100000000, fr_data = [1]\<rparr>, \<lparr>fr_pts = 200000000, fr_data = [2]\<rparr>]"
    by (simp add: three_frames_def photo_interval_def two_photos_def InfoForStore_zero_def numeral_2_eq_2)
  have b: "e_build (idle_env ENABLE_ADAS) = ENABLE_ADAS" by (simp add: idle_env_def)
  obtain t fs where "store_jpeg (idle_env ENABLE_ADAS) two_photos three_frames idle_device = Some (Inr (t, idle_device\<lparr>d_files := fs\<rparr>))"
    and fs: "\<forall>i < 2. fs (mmid_to_filename ENABLE_ADAS (st_photo_id two_photos ! i)) =
       Some (fr_data (pick_frames (photo_interval two_photos) 0 2 three_frames ! i))"
    using photos_saved [of two_photos 2 "idle_env ENABLE_ADAS" three_frames idle_device] n ps room_for_three_frames b
    by auto
  moreover have "fr_data (pick_frames (photo_interval two_photos) 0 2 three_frames ! i) = [[1], [2]] ! i" if "i < 2" for i
    using that unfolding ps by (auto simp: less_2_cases_iff)
  ultimately show ?thesis by auto
qed

text \<open>A descriptor that asks for no photo but has photos enabled, as a snapshot with a photo number of
  zero is, still saves one picture: the loop tests the number after its body. The picture is saved under
  the first id of the descriptor, which no statement has set.\<close>

theorem zero_photos_saves_one:
  assumes "st_photo_enable mm \<noteq> 0" "st_photo_num mm = 0" "st_photo_id mm \<noteq> []"
    and "room_for (e_fs e) (Some f # rs)" "fr_pts f > photo_interval mm"
  shows "\<exists>t. store_jpeg e mm (Some f # rs) d = Some (Inr (t, d\<lparr>d_files :=
    (d_files d)(mmid_to_filename (e_build e) (st_photo_id mm ! 0) \<mapsto> fr_data f)\<rparr>))"
  using assms write_one_jpeg_ok [of 0 mm e "Some f # rs" f d]
  by (simp add: store_jpeg_def store_jpeg_loop.simps [of e mm 0 0])

theorem zero_photos_saves_one_witness:
  "\<exists>t. store_jpeg (idle_env ENABLE_DMS) (get_dms_Info_for_store ((dms_para boot_paras)\<lparr>photo_num := 0, photo_time_period := 0\<rparr>)
      DMS_SANPSHOT_EVENT InfoForStore_zero) [Some \<lparr>fr_pts = 7, fr_data = [9]\<rparr>] idle_device =
    Some (Inr (t, idle_device\<lparr>d_files := (d_files idle_device)(''/data/snap/dms/0000000000'' \<mapsto> [9])\<rparr>))"
proof -
  have "mmid_to_filename ENABLE_DMS 0 = ''/data/snap/dms/0000000000''"
    by code_simp
  then show ?thesis
    using zero_photos_saves_one [of "get_dms_Info_for_store ((dms_para boot_paras)\<lparr>photo_num := 0, photo_time_period := 0\<rparr>)
      DMS_SANPSHOT_EVENT InfoForStore_zero" "idle_env ENABLE_DMS" "\<lparr>fr_pts = 7, fr_data = [9]\<rparr>" "[]" idle_device]
    by (simp add: get_dms_Info_for_store_def InfoForStore_zero_def room_for_def idle_env_def photo_interval_def
        WARN_SNAP_NUM_MAX_def Let_def)
qed

text \<open>Every task stays within the tables of user names. For a descriptor the alert code makes, of
  either device and any type, the task is a filled closure and its video part finds its user: the
  types without a user of their own have no video.\<close>

theorem task_user_in_table:
  assumes "mm' = (case b of ENABLE_ADAS \<Rightarrow> get_adas_Info_for_store apara type InfoForStore_zero
                  | ENABLE_DMS \<Rightarrow> get_dms_Info_for_store dpara type InfoForStore_zero)"
    and "st_warn_type mm = type" "st_video_enable mm = st_video_enable mm'"
  shows "case snd (save_media_task b mm) of
      Record_mm_info i user camera info \<Rightarrow> \<exists>reqs. record_video_media e user camera info = Inr reqs
    | Record_video_media user camera info \<Rightarrow> \<exists>reqs. record_video_media e user camera info = Inr reqs
    | Unset_closure \<Rightarrow> False"
proof (cases b)
  case ENABLE_ADAS
  then show ?thesis
    using assms by (auto simp: save_media_task_def adas_alert_type_to_index_def record_video_media_def entry_def
        get_adas_Info_for_store_def InfoForStore_zero_def adas_video_user_def related_dms_user_def Let_def)
next
  case ENABLE_DMS
  then show ?thesis
    using assms by (auto simp: save_media_task_def dms_alert_type_to_index_def record_video_media_def entry_def
        get_dms_Info_for_store_def InfoForStore_zero_def dms_video_user_def related_adas_user_def Let_def)
qed

theorem task_user_in_table_witness:
  "case snd (save_media_task ENABLE_ADAS (get_adas_Info_for_store (adas_para boot_paras) SB_WARN_TYPE_SNAP InfoForStore_zero)) of
      Record_mm_info i user camera info \<Rightarrow> \<exists>reqs. record_video_media (idle_env ENABLE_ADAS) user camera info = Inr reqs
    | Record_video_media user camera info \<Rightarrow> \<exists>reqs. record_video_media (idle_env ENABLE_ADAS) user camera info = Inr reqs
    | Unset_closure \<Rightarrow> False"
  by (rule task_user_in_table [where apara = "adas_para boot_paras" and type = SB_WARN_TYPE_SNAP
        and mm' = "get_adas_Info_for_store (adas_para boot_paras) SB_WARN_TYPE_SNAP InfoForStore_zero"])
    (simp_all add: get_adas_Info_for_store_def Let_def)

text \<open>Every video a task asks for names a user that was registered for that camera: by the own process
  for its own videos, by the process of the other device for the related ones.\<close>

theorem video_users_registered:
  assumes "snd (save_media_task b mm) = Record_mm_info i user camera info \<or>
      snd (save_media_task b mm) = Record_video_media user camera info"
    and "record_video_media e user camera info = Inr reqs" "r \<in> set reqs"
  shows "\<exists>q \<in> set (save_media_users (if st_get_another_camera_video mm = 0 then b
      else case b of ENABLE_ADAS \<Rightarrow> ENABLE_DMS | ENABLE_DMS \<Rightarrow> ENABLE_ADAS)).
      rq_camera q = rq_camera r \<and> rq_user q = rq_user r"
proof -
  have reg: "\<exists>q \<in> set (register_users c path users). rq_camera q = c \<and> rq_user q = name"
    if "entry users j = Some name" for c path users j name
    using that by (auto simp: register_users_def entry_def split: if_splits)
  obtain name where name: "user = Some name" "r = \<lparr>rq_camera = camera, rq_user = name,
      rq_file = mmid_to_filename (e_build e) (st_video_id info ! 0),
      rq_seek = 0 - uint (st_video_time info), rq_time = 2 * uint (st_video_time info)\<rparr>"
    using assms(2,3) by (auto simp: record_video_media_def split: if_splits option.splits)
  then show ?thesis
    using assms(1) by (cases b) (auto simp: save_media_task_def save_media_users_def Let_def split: if_splits dest!: sym [of "Some _"]
        dest: reg [where c = ADAS_CAMERA] reg [where c = DMS_CAMERA])
qed

theorem video_users_registered_witness:
  "\<exists>q \<in> set (save_media_users ENABLE_DMS). rq_camera q = DMS_CAMERA \<and> rq_user q = ''ldw_related_video''"
  using video_users_registered [of ENABLE_ADAS "InfoForStore_zero\<lparr>st_warn_type := SB_WARN_TYPE_LDW, st_video_enable := 1,
      st_video_time := 5, st_get_another_camera_video := 1\<rparr>" 0 "Some ''ldw_related_video''" DMS_CAMERA
      "InfoForStore_zero\<lparr>st_warn_type := SB_WARN_TYPE_LDW, st_video_enable := 1, st_video_time := 5,
        st_get_another_camera_video := 1\<rparr>" "idle_env ENABLE_ADAS"]
  by (force simp add: save_media_task_def adas_alert_type_to_index_def entry_def related_dms_user_def record_video_media_def)

text \<open>C14: The photos an alert announces are the pictures the host can fetch. For each recording alert of
  either device, with a photo number from one to nine: the media of its frame begin with that many photos.
  Over the serial line nothing is recorded. Over TCP, when the queue of the recording thread has room, the
  descriptor is queued behind the ones that are there; after the thread has taken those and this one, its
  last task is that of this alert. Whenever that task runs, and the stream has enough pictures, it
  ends, and for each photo of the frame the file that a request for its id looks up holds the
  picture of that number: the first pictures of the stream that are the photo interval apart. The
  request gets the size of the picture.\<close>

theorem announced_photos_found:
  assumes alert: "case e_build e of
      ENABLE_ADAS \<Rightarrow> flag \<noteq> SB_WARN_STATUS_END \<and> (\<exists>p. p = adas_para (d_paras d) \<and> (type, photos, interval) \<in>
        {(SB_WARN_TYPE_FCW, FCW_photo_num p, FCW_photo_time_period p),
         (SB_WARN_TYPE_LDW, LDW_photo_num p, LDW_photo_time_period p),
         (SB_WARN_TYPE_HW, HW_photo_num p, HW_photo_time_period p),
         (SB_WARN_TYPE_PCW, PCW_photo_num p, PCW_photo_time_period p),
         (SB_WARN_TYPE_FLC, FLC_photo_num p, FLC_photo_time_period p)})
    | ENABLE_DMS \<Rightarrow> flag \<noteq> SB_WARN_STATUS_BEGIN \<and> (\<exists>p. p = dms_para (d_paras d) \<and> (type, photos, interval) \<in>
        {(DMS_FATIGUE_WARN, FatigueDriv_PhotoNum p, FatigueDriv_PhotoInterval p),
         (DMS_CALLING_WARN, CallingDriv_PhotoNum p, CallingDriv_PhotoInterval p),
         (DMS_SMOKING_WARN, SmokingDriv_PhotoNum p, SmokingDriv_PhotoInterval p),
         (DMS_DISTRACT_WARN, DistractionDriv_PhotoNum p, DistractionDriv_PhotoInterval p),
         (DMS_ABNORMAL_WARN, AbnormalDriv_PhotoNum p, AbnormalDriv_PhotoInterval p)})"
    and n: "n = unat photos" "0 < n" "n < 10"
    and queue: "mm_queue_ok (image_q d)" "length (image_q d) < PTR_QUEUE_BUF_CNT" "e_malloc1 e"
    and stream: "e_build e' = e_build e" "room_for (e_fs e') rs" "ps = pick_frames (uint interval * 100 * 1000) 0 n rs"
      "length ps = n" "\<forall>k < n. length (fr_data (ps ! k)) < 2 ^ 31"
  shows "\<exists>media d'.
    (case e_build e of ENABLE_ADAS \<Rightarrow> \<exists>f'. build_adas_warn_frame e type flag f d = Inr (f', d') \<and> media = aw_mm f'
     | ENABLE_DMS \<Rightarrow> \<exists>g'. build_dms_warn_frame e type flag g d = Inr (g', d') \<and> media = dw_mm g') \<and>
    n \<le> length media \<and> (\<forall>k < n. mmh_type (media ! k) = MM_PHOTO) \<and>
    (e_tr e = RS232_INTERFACE \<longrightarrow> image_q d' = image_q d) \<and>
    (e_tr e = TCP_INTERFACE \<longrightarrow>
      (\<exists>s' tasks i user mm. save_media_turns e (length (image_q d) + 1) (s\<lparr>sm_dev := d'\<rparr>) = Inr s' \<and>
        sm_tasks s' = sm_tasks s @ tasks @ [Record_mm_info i user (own_camera (e_build e)) mm] \<and>
        length tasks = length (image_q d) \<and>
        (\<forall>d2. \<exists>reqs d3. record_mm_info e' rs user (own_camera (e_build e)) mm d2 = Some (Inr (reqs, d3)) \<and>
          (\<forall>k < n. \<exists>d4. find_local_image_name e' (htonl (mmh_id (media ! k))) d3 = (int (length (fr_data (ps ! k))), d4) \<and>
            d_files d4 (ps_filepath (pkg_status d4)) = Some (fr_data (ps ! k))))))"
proof -
  define mm where "mm = (case e_build e of ENABLE_ADAS \<Rightarrow> adas_store type d | ENABLE_DMS \<Rightarrow> dms_store type d)"
  define media where "media = frame_media (s_mm_id d) mm"
  note mm = recording_alert [OF alert n mm_def]
  have len: "photo_count mm \<le> WARN_SNAP_NUM_MAX" "length media \<le> 20" "n \<le> length media"
    using mm(4) n(3) length_frame_media [of "s_mm_id d" mm] by (simp_all add: WARN_SNAP_NUM_MAX_def media_def frame_media_def Let_def)
  obtain d1 where d1: "alert_media e mm (d\<lparr>s_warning_id := s_warning_id d + 1\<rparr>) = Inr (media, d1)"
    and serial: "e_tr e = RS232_INTERFACE \<longrightarrow> image_q d1 = image_q d"
    and tcp: "e_tr e = TCP_INTERFACE \<longrightarrow>
       (\<exists>nd q. image_q d1 = image_q d @ nd # q \<and> q_buf nd = Null \<and> q_mm nd = alert_descriptor (s_mm_id d) mm)"
    using alert_media_queued [OF len(1), of e "d\<lparr>s_warning_id := s_warning_id d + 1\<rparr>"] queue(2,3) by (auto simp: media_def)
  obtain d' where frame: "case e_build e of
        ENABLE_ADAS \<Rightarrow> \<exists>f'. build_adas_warn_frame e type flag f d = Inr (f', d') \<and> media = aw_mm f'
      | ENABLE_DMS \<Rightarrow> \<exists>g'. build_dms_warn_frame e type flag g d = Inr (g', d') \<and> media = dw_mm g'"
    and image_q: "image_q d' = image_q d1"
    using build_adas_media [of type flag d e d1 f] build_dms_media [of type flag e d media d1 g] alert mm(6) d1 len(2)
    by (cases "e_build e") (fastforce simp: mm_def media_def)+
  have saved: "\<exists>reqs d3. record_mm_info e' rs (Some user) camera (alert_descriptor (s_mm_id d) mm) d2 = Some (Inr (reqs, d3)) \<and>
      (\<forall>k < n. mmh_type (media ! k) = MM_PHOTO \<and>
        d_files d3 (mmid_to_filename (e_build e') (htonl (mmh_id (media ! k)))) = Some (fr_data (ps ! k)))" for user camera d2
    using task_saves_photos [where s = "s_mm_id d" and user = user and camera = camera and d = d2,
        OF mm(1) _ n(2,3) stream(2) _ stream(4)] mm(2,3) n(1) stream(3) unfolding media_def by auto
  have found: "\<exists>d4. find_local_image_name e' i d3 = (int (length c), d4) \<and> d_files d4 (ps_filepath (pkg_status d4)) = Some c"
    if "d_files d3 (mmid_to_filename (e_build e') i) = Some c" "length c < 2 ^ 31" for i d3 c
    using that by (simp add: find_local_image_name_def GetFileSize_def set_filepath_def int32_id Let_def)
  obtain i user where task: "snd (save_media_task (e_build e) (alert_descriptor (s_mm_id d) mm)) =
      Record_mm_info i (Some user) (own_camera (e_build e)) (alert_descriptor (s_mm_id d) mm)"
    using alert_task [where b = "e_build e" and mm = "alert_descriptor (s_mm_id d) mm"] mm(5,6)
    by (auto simp del: split_paired_Ex cong del: build.case_cong_weak split: build.splits)
  have turns: "\<exists>s' tasks. save_media_turns e (length (image_q d) + 1) (s\<lparr>sm_dev := d'\<rparr>) = Inr s' \<and>
      sm_tasks s' = sm_tasks s @ tasks @ [Record_mm_info i (Some user) (own_camera (e_build e)) (alert_descriptor (s_mm_id d) mm)] \<and>
      length tasks = length (image_q d)" if tr: "e_tr e = TCP_INTERFACE"
  proof -
    obtain nd q where nd: "image_q d1 = image_q d @ nd # q" "q_buf nd = Null" "q_mm nd = alert_descriptor (s_mm_id d) mm"
      using tcp tr by auto
    then show ?thesis
      using save_media_turns_tasks [of "image_q d @ [nd]" "s\<lparr>sm_dev := d'\<rparr>" q e] queue(1) image_q task
      by (fastforce simp: mm_queue_ok_def)
  qed
  show ?thesis
  proof (intro exI [of _ media] exI [of _ d'] conjI impI)
    show "\<forall>k < n. mmh_type (media ! k) = MM_PHOTO" using saved by blast
    show "\<exists>s' tasks i user mm. save_media_turns e (length (image_q d) + 1) (s\<lparr>sm_dev := d'\<rparr>) = Inr s' \<and>
        sm_tasks s' = sm_tasks s @ tasks @ [Record_mm_info i user (own_camera (e_build e)) mm] \<and>
        length tasks = length (image_q d) \<and>
        (\<forall>d2. \<exists>reqs d3. record_mm_info e' rs user (own_camera (e_build e)) mm d2 = Some (Inr (reqs, d3)) \<and>
          (\<forall>k < n. \<exists>d4. find_local_image_name e' (htonl (mmh_id (media ! k))) d3 = (int (length (fr_data (ps ! k))), d4) \<and>
            d_files d4 (ps_filepath (pkg_status d4)) = Some (fr_data (ps ! k))))"
      if "e_tr e = TCP_INTERFACE"
      using turns [OF that] saved found stream(5) by meson
  qed (use frame len serial image_q in simp_all)
qed

theorem announced_photos_found_witness:
  "\<exists>media f' d' s' tasks i user mm reqs d3.
    build_adas_warn_frame (idle_env ENABLE_ADAS) SB_WARN_TYPE_HW SB_WARN_STATUS_BEGIN (e_aframe (idle_env ENABLE_ADAS))
      (idle_device\<lparr>image_q := [blank_node\<lparr>q_len := 0, q_buf := Null\<rparr>]\<rparr>) = Inr (f', d') \<and> media = aw_mm f' \<and>
    save_media_turns (idle_env ENABLE_ADAS) 2 (idle_recorder\<lparr>sm_dev := d'\<rparr>) = Inr s' \<and>
    sm_tasks s' = sm_tasks idle_recorder @ tasks @ [Record_mm_info i user ADAS_CAMERA mm] \<and>
    record_mm_info (idle_env ENABLE_ADAS) three_frames user ADAS_CAMERA mm (sm_dev s') = Some (Inr (reqs, d3)) \<and>
    (\<forall>k < 3. \<exists>d4. find_local_image_name (idle_env ENABLE_ADAS) (htonl (mmh_id (media ! k))) d3 = (1, d4) \<and>
       d_files d4 (ps_filepath (pkg_status d4)) = Some [of_nat (k + 1)])"
proof -
  let ?e = "idle_env ENABLE_ADAS" and ?d = "idle_device\<lparr>image_q := [blank_node\<lparr>q_len := 0, q_buf := Null\<rparr>]\<rparr>"
  let ?p = "adas_para (d_paras ?d)"
  let ?ps = "pick_frames (uint (HW_photo_time_period ?p) * 100 * 1000) 0 3 three_frames"
  have e: "e_build ?e = ENABLE_ADAS" "e_tr ?e = TCP_INTERFACE" "e_malloc1 ?e" by (simp_all add: idle_env_def)
  have p: "HW_photo_num ?p = 3" "uint (HW_photo_time_period ?p) < 1000"
    by (simp_all add: idle_device_def boot_paras_def adas_default_def)
  then have ps: "?ps = [\<lparr>fr_pts = 100000000, fr_data = [1]\<rparr>, \<lparr>fr_pts = 200000000, fr_data = [2]\<rparr>,
      \<lparr>fr_pts = 300000000, fr_data = [3]\<rparr>]"
    by (simp add: three_frames_def numeral_3_eq_3)
  have queue: "mm_queue_ok (image_q ?d)" "length (image_q ?d) < PTR_QUEUE_BUF_CNT" "length (image_q ?d) + 1 = 2"
    by (simp_all add: mm_queue_ok_def queue_ok_def PTR_QUEUE_BUF_CNT_def)
  have alert: "case e_build ?e of
      ENABLE_ADAS \<Rightarrow> SB_WARN_STATUS_BEGIN \<noteq> SB_WARN_STATUS_END \<and>
        (\<exists>p. p = ?p \<and> (SB_WARN_TYPE_HW, HW_photo_num ?p, HW_photo_time_period ?p) \<in>
        {(SB_WARN_TYPE_FCW, FCW_photo_num p, FCW_photo_time_period p),
         (SB_WARN_TYPE_LDW, LDW_photo_num p, LDW_photo_time_period p),
         (SB_WARN_TYPE_HW, HW_photo_num p, HW_photo_time_period p),
         (SB_WARN_TYPE_PCW, PCW_photo_num p, PCW_photo_time_period p),
         (SB_WARN_TYPE_FLC, FLC_photo_num p, FLC_photo_time_period p)})
    | ENABLE_DMS \<Rightarrow> SB_WARN_STATUS_BEGIN \<noteq> SB_WARN_STATUS_BEGIN \<and> (\<exists>p. p = dms_para (d_paras ?d) \<and>
        (SB_WARN_TYPE_HW, HW_photo_num ?p, HW_photo_time_period ?p) \<in>
        {(DMS_FATIGUE_WARN, FatigueDriv_PhotoNum p, FatigueDriv_PhotoInterval p),
         (DMS_CALLING_WARN, CallingDriv_PhotoNum p, CallingDriv_PhotoInterval p),
         (DMS_SMOKING_WARN, SmokingDriv_PhotoNum p, SmokingDriv_PhotoInterval p),
         (DMS_DISTRACT_WARN, DistractionDriv_PhotoNum p, DistractionDriv_PhotoInterval p),
         (DMS_ABNORMAL_WARN, AbnormalDriv_PhotoNum p, AbnormalDriv_PhotoInterval p)})"
    by (simp add: e(1))
  have n: "3 = unat (HW_photo_num ?p)" and len: "length ?ps = 3" unfolding p ps by simp_all
  have small: "\<forall>k < 3. length (fr_data (?ps ! k)) < 2 ^ 31" "\<forall>k < 3. fr_data (?ps ! k) = [of_nat (k + 1)]"
    unfolding ps by (auto simp: numeral_3_eq_3 less_Suc_eq)
  have "\<exists>media d'. (case e_build ?e of ENABLE_ADAS \<Rightarrow> \<exists>f'. build_adas_warn_frame ?e SB_WARN_TYPE_HW SB_WARN_STATUS_BEGIN (e_aframe ?e) ?d = Inr (f', d') \<and> media = aw_mm f'
     | ENABLE_DMS \<Rightarrow> \<exists>g'. build_dms_warn_frame ?e SB_WARN_TYPE_HW SB_WARN_STATUS_BEGIN (e_dframe ?e) ?d = Inr (g', d') \<and> media = dw_mm g') \<and>
    3 \<le> length media \<and> (\<forall>k < 3. mmh_type (media ! k) = MM_PHOTO) \<and>
    (e_tr ?e = RS232_INTERFACE \<longrightarrow> image_q d' = image_q ?d) \<and>
    (e_tr ?e = TCP_INTERFACE \<longrightarrow>
      (\<exists>s' tasks i user mm. save_media_turns ?e (length (image_q ?d) + 1) (idle_recorder\<lparr>sm_dev := d'\<rparr>) = Inr s' \<and>
        sm_tasks s' = sm_tasks idle_recorder @ tasks @ [Record_mm_info i user (own_camera (e_build ?e)) mm] \<and>
        length tasks = length (image_q ?d) \<and>
        (\<forall>d2. \<exists>reqs d3. record_mm_info ?e three_frames user (own_camera (e_build ?e)) mm d2 = Some (Inr (reqs, d3)) \<and>
          (\<forall>k < 3. \<exists>d4. find_local_image_name ?e (htonl (mmh_id (media ! k))) d3 = (int (length (fr_data (?ps ! k))), d4) \<and>
            d_files d4 (ps_filepath (pkg_status d4)) = Some (fr_data (?ps ! k))))))"
    by (rule announced_photos_found [OF alert n _ _ queue(1,2) e(3) refl room_for_three_frames refl len small(1)]) simp_all
  then show ?thesis
    using small(2) by (simp add: e own_camera_def numeral_2_eq_2 del: save_media_turns.simps) blast
qed

text \<open>The cameras follow the parameters. A turn of the recording thread with an empty queue configures
  video and pictures exactly when the parameter has a value of the table that differs from the one last
  configured; the next turn with the same parameters makes no call, and a value outside the table is
  ignored.\<close>

theorem cameras_follow_parameters:
  assumes "image_q (sm_dev s) = []"
  shows "\<exists>s' calls. pthread_save_media e s = Inr s' \<and> sm_calls s' = sm_calls s @ calls \<and> sm_dev s' = sm_dev s \<and>
    pthread_save_media e s' = Inr s' \<and>
    (let (v, p, table, camera) = (case e_build e of
            ENABLE_ADAS \<Rightarrow> (unat (video_Resolution (adas_para (d_paras (sm_dev s)))),
              unat (image_Resolution (adas_para (d_paras (sm_dev s)))), adas_reslution, ADAS_CAMERA)
          | ENABLE_DMS \<Rightarrow> (unat (video_Resolution (dms_para (d_paras (sm_dev s)))),
              unat (image_Resolution (dms_para (d_paras (sm_dev s)))), dms_reslution, DMS_CAMERA))
     in (record_start camera \<in> set calls \<longleftrightarrow> in_table v table \<and> s_type_V (sm_type s) \<noteq> v) \<and>
        (jpeg_enc_start camera \<in> set calls \<longleftrightarrow> in_table p image_reslution \<and> s_type_I (sm_type s) \<noteq> p) \<and>
        (in_table v table \<longrightarrow> s_type_V (sm_type s') = v) \<and> (in_table p image_reslution \<longrightarrow> s_type_I (sm_type s') = p))"
  using assms
  by (cases "e_build e"; simp add: pthread_save_media_def pull_mm_queue_Nil config_video_resolution_def
      config_adas_video_resolution_def config_dms_video_resolution_def Let_def; blast)

theorem cameras_follow_parameters_witness:
  "\<exists>s' calls. pthread_save_media (idle_env ENABLE_DMS) idle_recorder = Inr s' \<and>
    sm_calls s' = sm_calls idle_recorder @ calls \<and> pthread_save_media (idle_env ENABLE_DMS) s' = Inr s' \<and>
    (record_start DMS_CAMERA \<in> set calls \<longleftrightarrow>
       in_table (unat (video_Resolution (dms_para (d_paras (sm_dev idle_recorder))))) dms_reslution \<and>
       s_type_V (sm_type idle_recorder) \<noteq> unat (video_Resolution (dms_para (d_paras (sm_dev idle_recorder)))))"
  using cameras_follow_parameters [of idle_recorder "idle_env ENABLE_DMS"]
  by (simp add: idle_recorder_def idle_device_def idle_env_def) blast

end
