(* ===== verification/Wsi.thy ===== *)
theory Wsi
  imports AlertProps
begin

text \<open>
  The websocket client of \<open>wsi.cpp\<close>: the subscription to the alert topics, the interpretation of the
  messages the algorithm process sends, and the reconnects. The websocket library and msgpack are
  libraries: a received message is what \<open>msgpack_unpack\<close> makes of it, what \<open>msgpack_pack\<close>
  makes of a map of strings is the argument \<open>pack\<close>, and the callback gets the reason the websocket
  library gives and returns what it asks of the library.

  A string object is a pointer and a size; the comparisons of the keys ignore the size, so the object
  has the bytes of memory from the pointer on. All the scalar types read the same member of the
  union.
\<close>

section \<open>Messages\<close>

datatype msgpack_object =
    MP_SCALAR "64 word"
  | MP_BIN "u8 list"
  | MP_STR nat "u8 list"
  | MP_MAP "(msgpack_object \<times> msgpack_object) list"
  | MP_UNKNOWN

datatype data_type = NO_TYPE | CAN_DATA | CAN_SOURCE | CAN_TIME | CAN_TOPIC

record WsiFrame =
  wf_warning :: "u8 list"
  wf_source :: "u8 list"
  wf_time :: "64 word"
  wf_topic :: "u8 list"

definition WsiFrame_zero :: WsiFrame where
  "WsiFrame_zero = \<lparr>wf_warning = replicate 8 0, wf_source = replicate 20 0, wf_time = 0, wf_topic = replicate 20 0\<rparr>"

definition bytes_of :: "string \<Rightarrow> u8 list" where
  "bytes_of s = map of_char s"

text \<open>\<open>strncmp(ptr, literal, strlen(literal)) == 0\<close>\<close>

definition starts_with :: "string \<Rightarrow> u8 list \<Rightarrow> bool" where
  "starts_with lit mem \<longleftrightarrow> take (length lit) mem = bytes_of lit"

text \<open>\<open>memcpy(dst, src, size > sizeof(dst) ? sizeof(dst) : size)\<close>\<close>

definition memcpy_upto :: "u8 list \<Rightarrow> u8 list \<Rightarrow> u8 list" where
  "memcpy_upto dst src = take (length dst) src @ drop (length src) dst"

definition key_type :: "u8 list \<Rightarrow> data_type \<Rightarrow> data_type" where
  "key_type mem t =
     (if starts_with ''data'' mem then CAN_DATA else if starts_with ''source'' mem then CAN_SOURCE
      else if starts_with ''time'' mem then CAN_TIME else if starts_with ''topic'' mem then CAN_TOPIC else t)"

text \<open>The frame pointer \<open>can\<close> is null (\<open>None\<close>) for a key; \<open>data_type\<close> is the static variable.\<close>

definition with_can :: "WsiFrame option \<Rightarrow> (WsiFrame \<Rightarrow> WsiFrame) \<Rightarrow> WsiFrame option outcome" where
  "with_can can g = (case can of None \<Rightarrow> Inl Null_pointer | Some f \<Rightarrow> Inr (Some (g f)))"

function (sequential) msgpack_object_get ::
  "msgpack_object \<Rightarrow> WsiFrame option \<Rightarrow> data_type \<Rightarrow> (WsiFrame option \<times> data_type) outcome"
and msgpack_map_get ::
  "(msgpack_object \<times> msgpack_object) list \<Rightarrow> WsiFrame option \<Rightarrow> data_type \<Rightarrow> (WsiFrame option \<times> data_type) outcome" where
  "msgpack_object_get (MP_SCALAR u64) can t =
     (if t = CAN_TIME then bindE (with_can can (\<lambda>f. f\<lparr>wf_time := u64\<rparr>)) (\<lambda>can. Inr (can, NO_TYPE))
      else Inr (can, t))"
| "msgpack_object_get (MP_BIN bin) can t =
     (if t = CAN_DATA
      then bindE (with_can can (\<lambda>f. f\<lparr>wf_warning := memcpy_upto (wf_warning f) bin\<rparr>)) (\<lambda>can. Inr (can, NO_TYPE))
      else Inr (can, t))"
| "msgpack_object_get (MP_STR sz mem) can t =
     (if t = CAN_SOURCE
      then bindE (with_can can (\<lambda>f. f\<lparr>wf_source := memcpy_upto (wf_source f) (take sz mem)\<rparr>)) (\<lambda>can. Inr (can, NO_TYPE))
      else if t = CAN_TOPIC
      then bindE (with_can can (\<lambda>f. f\<lparr>wf_topic := memcpy_upto (wf_topic f) (take sz mem)\<rparr>)) (\<lambda>can. Inr (can, NO_TYPE))
      else Inr (can, key_type mem t))"
| "msgpack_object_get (MP_MAP kvs) can t = msgpack_map_get kvs can t"
| "msgpack_object_get MP_UNKNOWN can t = Inr (can, t)"
| "msgpack_map_get [] can t = Inr (can, t)"
| "msgpack_map_get ((k, v) # kvs) can t =
     bindE (msgpack_object_get k None t) (\<lambda>(_, t).
     bindE (msgpack_object_get v can t) (\<lambda>(can, t). msgpack_map_get kvs can t))"
  by pat_completeness auto
termination
  by (relation "measure (case_sum (\<lambda>(obj, can, t). size obj)
      (\<lambda>(kvs, can, t). size_list (size_prod size size) kvs))") auto

definition MESSAGE_CAN700 :: string where "MESSAGE_CAN700 = ''output.can.0x700''"
definition MESSAGE_CAN760 :: string where "MESSAGE_CAN760 = ''output.can.0x760''"
definition DMS_ALERT_0X100 :: string where "DMS_ALERT_0X100 = ''dms.alert.0x100''"

text \<open>\<open>msgpack_unpack\<close> writes the object only when the bytes begin with a whole one. Its result is not looked
  at: of bytes that do not, such as a part of a message, the uninitialised \<open>deserialized\<close> is interpreted.\<close>

datatype unpacked = UNPACKED msgpack_object | UNPACK_FAILED

definition unpack_wsi_msg :: "env \<Rightarrow> unpacked \<Rightarrow> data_type \<Rightarrow> device \<Rightarrow> (data_type \<times> device) outcome" where
  "unpack_wsi_msg e msg t d =
     bindE (case msg of UNPACKED deserialized \<Rightarrow> msgpack_object_get deserialized (Some WsiFrame_zero) t
            | UNPACK_FAILED \<Rightarrow> Inl Uninitialised_read) (\<lambda>(can, t).
       case can of None \<Rightarrow> Inl Null_pointer | Some can \<Rightarrow>
         (case e_build e of
            ENABLE_ADAS \<Rightarrow>
              (if starts_with MESSAGE_CAN700 (wf_topic can)
               then bindE (deal_wsi_adas_can700 e (wf_warning can) d) (\<lambda>d. Inr (t, d))
               else if starts_with MESSAGE_CAN760 (wf_topic can)
               then Inr (t, deal_wsi_adas_can760 (wf_warning can) d)
               else Inr (t, d))
          | ENABLE_DMS \<Rightarrow> bindE (deal_wsi_dms_info e (wf_warning can) d) (\<lambda>d. Inr (t, d))))"

section \<open>Subscription\<close>

definition pack_wsi_msg :: "((string \<times> string) list \<Rightarrow> u8 list) \<Rightarrow> nat \<Rightarrow> string \<Rightarrow> u8 list" where
  "pack_wsi_msg pack len name =
     take len (pack [(''topic'', ''subscribe''), (''source'', ''client-name''), (''data'', name)])"

datatype lws_reason =
    LWS_CALLBACK_CLIENT_ESTABLISHED
  | LWS_CALLBACK_CLOSED
  | LWS_CALLBACK_CLIENT_RECEIVE unpacked
  | LWS_CALLBACK_CLIENT_CONNECTION_ERROR
  | LWS_CALLBACK_CLIENT_CONFIRM_EXTENSION_SUPPORTED string
  | LWS_CALLBACK_RECEIVE_CLIENT_HTTP bool
  | LWS_CALLBACK_CLIENT_WRITEABLE
  | LWS_CALLBACK_WSI_DESTROY
  | LWS_CALLBACK_OTHER

text \<open>What the callback asks of the library.\<close>

datatype lws_action = lws_callback_on_writable | lws_write "u8 list"

record wsi_client =
  ws_data_type :: data_type
  ws_msg_send_index :: nat
  wsi_dumb :: bool            \<comment> \<open>\<^verbatim>\<open>wsi_dumb != NULL\<close>\<close>
  rl_dumb :: u32
  ws_dev :: device

definition LWS_WRITE_BUF_LEN :: nat where "LWS_WRITE_BUF_LEN = 512"

text \<open>The enumeration \<open>Subscribe_Msg\<close>: the topics with the indices from 1 on, and
  \<open>MESSAGE_INDEX_MAX\<close> behind them.\<close>

definition topics :: "build \<Rightarrow> string list" where
  "topics b = (case b of ENABLE_ADAS \<Rightarrow> [MESSAGE_CAN700, MESSAGE_CAN760] | ENABLE_DMS \<Rightarrow> [DMS_ALERT_0X100])"

definition MESSAGE_INDEX_MAX :: "build \<Rightarrow> nat" where
  "MESSAGE_INDEX_MAX b = length (topics b) + 1"

definition client_writeable ::
  "env \<Rightarrow> ((string \<times> string) list \<Rightarrow> u8 list) \<Rightarrow> wsi_client \<Rightarrow> lws_action list \<times> wsi_client" where
  "client_writeable e pack c =
     (let i = ws_msg_send_index c in
      if 0 < i \<and> i < MESSAGE_INDEX_MAX (e_build e) then
        let datacmd = pack_wsi_msg pack 512 (topics (e_build e) ! (i - 1));
            writes = (if length datacmd < LWS_WRITE_BUF_LEN \<and> length datacmd > 0 then [lws_write datacmd] else [])
        in (writes @ [lws_callback_on_writable], c\<lparr>ws_msg_send_index := i + 1\<rparr>)
      else if i < MESSAGE_INDEX_MAX (e_build e) then ([], c\<lparr>ws_msg_send_index := i + 1\<rparr>)
      else ([], c))"

definition callback_lws_communicate ::
  "env \<Rightarrow> ((string \<times> string) list \<Rightarrow> u8 list) \<Rightarrow> lws_reason \<Rightarrow> wsi_client
     \<Rightarrow> (int \<times> lws_action list \<times> wsi_client) outcome" where
  "callback_lws_communicate e pack reason c =
     (case reason of
        LWS_CALLBACK_CLIENT_ESTABLISHED \<Rightarrow> Inr (0, [lws_callback_on_writable], c)
      | LWS_CALLBACK_CLOSED \<Rightarrow> Inr (0, [], c\<lparr>ws_msg_send_index := 0, wsi_dumb := False\<rparr>)
      | LWS_CALLBACK_CLIENT_RECEIVE msg \<Rightarrow>
          bindE (unpack_wsi_msg e msg (ws_data_type c) (ws_dev c)) (\<lambda>(t, d).
            Inr (0, [], c\<lparr>ws_data_type := t, ws_dev := d\<rparr>))
      | LWS_CALLBACK_CLIENT_CONNECTION_ERROR \<Rightarrow> Inr (0, [], c\<lparr>wsi_dumb := False\<rparr>)
      | LWS_CALLBACK_CLIENT_CONFIRM_EXTENSION_SUPPORTED s \<Rightarrow>
          Inr (if s = ''x-webkit-deflate-frame'' \<or> s = ''deflate-frame'' then 1 else 0, [], c)
      | LWS_CALLBACK_RECEIVE_CLIENT_HTTP ok \<Rightarrow> Inr (if ok then 0 else - 1, [], c)
      | LWS_CALLBACK_CLIENT_WRITEABLE \<Rightarrow> (let (acts, c) = client_writeable e pack c in Inr (0, acts, c))
      | LWS_CALLBACK_WSI_DESTROY \<Rightarrow> Inr (0, [], c\<lparr>ws_msg_send_index := 0, wsi_dumb := False\<rparr>)
      | LWS_CALLBACK_OTHER \<Rightarrow> Inr (0, [], c))"

section \<open>Reconnects\<close>

definition ratelimit_connects :: "int \<Rightarrow> u32 \<Rightarrow> u32 \<Rightarrow> bool \<times> u32" where
  "ratelimit_connects now last_t secs =
     (if now - uint last_t < uint secs then (False, last_t) else (True, word_of_int now))"

text \<open>One turn of \<open>pthread_websocket_client\<close>: whether it connects, then the callbacks that
  \<open>lws_service\<close> makes. \<open>created\<close> says whether the library set \<open>wsi_dumb\<close> to a new connection.\<close>

definition websocket_connect :: "int \<Rightarrow> bool \<Rightarrow> wsi_client \<Rightarrow> bool \<times> wsi_client" where
  "websocket_connect now created c =
     (if wsi_dumb c then (False, c)
      else let (ret, last_t) = ratelimit_connects now (rl_dumb c) 2;
               c = c\<lparr>rl_dumb := last_t\<rparr>
           in if ret then (True, c\<lparr>wsi_dumb := created\<rparr>) else (False, c))"

fun lws_service ::
  "env \<Rightarrow> ((string \<times> string) list \<Rightarrow> u8 list) \<Rightarrow> lws_reason list \<Rightarrow> wsi_client
     \<Rightarrow> (lws_action list \<times> wsi_client) outcome" where
  "lws_service e pack [] c = Inr ([], c)"
| "lws_service e pack (r # rs) c =
     bindE (callback_lws_communicate e pack r c) (\<lambda>(ret, acts, c).
     bindE (lws_service e pack rs c) (\<lambda>(acts', c). Inr (acts @ acts', c)))"

text \<open>What the client asks the library to connect to; nothing without a context.\<close>

record connect_info =
  ci_address :: string
  ci_port :: int
  ci_path :: string
  ci_host :: string
  ci_origin :: string
  ci_ssl_connection :: int
  ci_ietf_version :: int

definition websocket_info :: "build \<Rightarrow> bool \<Rightarrow> connect_info option" where
  "websocket_info b context_ok =
     (let address = ''127.0.0.1'';
          port = (case b of ENABLE_ADAS \<Rightarrow> 24012 | ENABLE_DMS \<Rightarrow> 24011)
      in if \<not> context_ok then None
         else Some \<lparr>ci_address = address, ci_port = port, ci_path = ''./'', ci_host = address, ci_origin = address,
                    ci_ssl_connection = 0, ci_ietf_version = - 1\<rparr>)"

definition pthread_websocket_client ::
  "env \<Rightarrow> ((string \<times> string) list \<Rightarrow> u8 list) \<Rightarrow> bool \<Rightarrow> lws_reason list \<Rightarrow> wsi_client
     \<Rightarrow> (bool \<times> lws_action list \<times> wsi_client) outcome" where
  "pthread_websocket_client e pack created reasons c =
     (let (connecting, c) = websocket_connect (e_now e) created c
      in bindE (lws_service e pack reasons c) (\<lambda>(acts, c). Inr (connecting, acts, c)))"

end
