(* ===== verification/WsiProps.thy ===== *)
theory WsiProps
  imports Wsi "HOL-Library.Multiset"
begin

text \<open>
  The properties of the websocket client: a message whose values have the types of their keys fills
  the frame and reaches the handler of its topic, a value of another type makes the next key write
  through a null pointer, the topics are subscribed once each per connection, and connection
  attempts are at least two seconds apart.
\<close>

section \<open>Well-typed messages\<close>

fun entry_ok :: "msgpack_object \<times> msgpack_object \<Rightarrow> bool" where
  "entry_ok (MP_STR sz mem, v) =
     (case key_type mem NO_TYPE of
        CAN_DATA \<Rightarrow> (\<exists>bin. v = MP_BIN bin)
      | CAN_SOURCE \<Rightarrow> (\<exists>n s. v = MP_STR n s)
      | CAN_TIME \<Rightarrow> (\<exists>u. v = MP_SCALAR u)
      | CAN_TOPIC \<Rightarrow> (\<exists>n s. v = MP_STR n s)
      | NO_TYPE \<Rightarrow> (\<exists>u. v = MP_SCALAR u) \<or> (\<exists>bin. v = MP_BIN bin))"
| "entry_ok (k, v) = False"

fun set_entry :: "msgpack_object \<times> msgpack_object \<Rightarrow> WsiFrame \<Rightarrow> WsiFrame" where
  "set_entry (MP_STR sz mem, v) f =
     (case (key_type mem NO_TYPE, v) of
        (CAN_DATA, MP_BIN bin) \<Rightarrow> f\<lparr>wf_warning := memcpy_upto (wf_warning f) bin\<rparr>
      | (CAN_SOURCE, MP_STR n s) \<Rightarrow> f\<lparr>wf_source := memcpy_upto (wf_source f) (take n s)\<rparr>
      | (CAN_TIME, MP_SCALAR u) \<Rightarrow> f\<lparr>wf_time := u\<rparr>
      | (CAN_TOPIC, MP_STR n s) \<Rightarrow> f\<lparr>wf_topic := memcpy_upto (wf_topic f) (take n s)\<rparr>
      | _ \<Rightarrow> f)"
| "set_entry (k, v) f = f"

lemma msgpack_map_get_ok:
  "\<forall>kv \<in> set kvs. entry_ok kv \<Longrightarrow> msgpack_map_get kvs (Some f) NO_TYPE = Inr (Some (fold set_entry kvs f), NO_TYPE)"
proof (induction kvs arbitrary: f)
  case (Cons kv kvs)
  obtain k v where kv: "kv = (k, v)" by fastforce
  with Cons.prems obtain sz mem where k: "k = MP_STR sz mem" by (cases k) auto
  have "bindE (msgpack_object_get k None NO_TYPE) (\<lambda>(_, t). msgpack_object_get v (Some f) t) =
      Inr (Some (set_entry kv f), NO_TYPE)"
    using Cons.prems kv k by (cases "key_type mem NO_TYPE") (auto simp: with_can_def)
  then show ?case
    using Cons.IH [of "set_entry kv f"] Cons.prems kv
    by (auto simp: bindE_Inr_iff split: prod.splits)
qed simp

section \<open>Subscription\<close>

text \<open>The request for a topic.\<close>

definition subscribe_msg :: "((string \<times> string) list \<Rightarrow> u8 list) \<Rightarrow> string \<Rightarrow> u8 list" where
  "subscribe_msg pack name = pack [(''topic'', ''subscribe''), (''source'', ''client-name''), (''data'', name)]"

definition requests :: "((string \<times> string) list \<Rightarrow> u8 list) \<Rightarrow> string list \<Rightarrow> lws_action list" where
  "requests pack ts = concat (map (\<lambda>name. [lws_write (subscribe_msg pack name), lws_callback_on_writable]) ts)"

definition pack_ok :: "((string \<times> string) list \<Rightarrow> u8 list) \<Rightarrow> build \<Rightarrow> bool" where
  "pack_ok pack b \<longleftrightarrow> (\<forall>name \<in> set (topics b). 0 < length (subscribe_msg pack name) \<and> length (subscribe_msg pack name) < 512)"

lemma writeable_rest:
  assumes "pack_ok pack (e_build e)" "0 < ws_msg_send_index c" "ws_msg_send_index c \<le> MESSAGE_INDEX_MAX (e_build e)"
    "MESSAGE_INDEX_MAX (e_build e) - ws_msg_send_index c \<le> n"
  shows "lws_service e pack (replicate n LWS_CALLBACK_CLIENT_WRITEABLE) c =
    Inr (requests pack (drop (ws_msg_send_index c - 1) (topics (e_build e))),
         c\<lparr>ws_msg_send_index := MESSAGE_INDEX_MAX (e_build e)\<rparr>)"
  using assms(2-)
proof (induction n arbitrary: c)
  case 0
  then show ?case by (simp add: MESSAGE_INDEX_MAX_def requests_def)
next
  case (Suc n)
  let ?i = "ws_msg_send_index c"
  show ?case
  proof (cases "?i = MESSAGE_INDEX_MAX (e_build e)")
    case True
    then show ?thesis
      using Suc by (simp add: callback_lws_communicate_def client_writeable_def MESSAGE_INDEX_MAX_def requests_def)
  next
    case False
    then have lt: "?i - 1 < length (topics (e_build e))" and i: "?i < MESSAGE_INDEX_MAX (e_build e)"
      using Suc.prems by (auto simp: MESSAGE_INDEX_MAX_def)
    let ?t = "topics (e_build e) ! (?i - 1)"
    have t: "length (subscribe_msg pack ?t) < 512" "0 < length (subscribe_msg pack ?t)"
      using assms(1) lt by (auto simp: pack_ok_def)
    have drop: "drop (?i - Suc 0) (topics (e_build e)) = ?t # drop ?i (topics (e_build e))"
      using Cons_nth_drop_Suc [OF lt] Suc.prems(1) by simp
    have "client_writeable e pack c =
        ([lws_write (subscribe_msg pack ?t), lws_callback_on_writable], c\<lparr>ws_msg_send_index := ?i + 1\<rparr>)"
      using t i Suc.prems(1)
      by (simp add: client_writeable_def pack_wsi_msg_def LWS_WRITE_BUF_LEN_def Let_def flip: subscribe_msg_def)
    then show ?thesis
      using Suc.IH [of "c\<lparr>ws_msg_send_index := ?i + 1\<rparr>"] Suc.prems i
      by (simp add: callback_lws_communicate_def drop requests_def)
  qed
qed

section \<open>Properties\<close>

text \<open>The four entries of a message. The strings of the keys and of the topic are followed in memory by
  other bytes: a string object is not terminated.\<close>

definition wsi_entries ::
  "string \<Rightarrow> nat \<Rightarrow> u8 list \<Rightarrow> 64 word \<Rightarrow> u8 list \<Rightarrow> u8 list list \<Rightarrow> (msgpack_object \<times> msgpack_object) list" where
  "wsi_entries topic n src time bin rest =
     [(MP_STR 5 (bytes_of ''topic'' @ rest ! 0), MP_STR (length topic) (bytes_of topic @ rest ! 4)),
      (MP_STR 6 (bytes_of ''source'' @ rest ! 1), MP_STR n src),
      (MP_STR 4 (bytes_of ''time'' @ rest ! 2), MP_SCALAR time),
      (MP_STR 4 (bytes_of ''data'' @ rest ! 3), MP_BIN bin)]"

lemma key_types:
  "key_type (bytes_of ''topic'' @ r) NO_TYPE = CAN_TOPIC" "key_type (bytes_of ''source'' @ r) NO_TYPE = CAN_SOURCE"
  "key_type (bytes_of ''time'' @ r) NO_TYPE = CAN_TIME" "key_type (bytes_of ''data'' @ r) NO_TYPE = CAN_DATA"
  by (simp_all add: key_type_def starts_with_def bytes_of_def)

lemma wsi_entries_ok: "kv \<in> set (wsi_entries topic n src time bin rest) \<Longrightarrow> entry_ok kv"
  by (auto simp: wsi_entries_def key_types)

lemma wsi_entries_commute:
  "\<lbrakk>kv \<in> set (wsi_entries topic n src time bin rest); kv' \<in> set (wsi_entries topic n src time bin rest)\<rbrakk>
   \<Longrightarrow> set_entry kv \<circ> set_entry kv' = set_entry kv' \<circ> set_entry kv"
  by (auto simp: wsi_entries_def key_types fun_eq_iff)

lemma wsi_entries_frame:
  assumes "mset kvs = mset (wsi_entries topic n src time bin rest)"
  shows "fold set_entry kvs WsiFrame_zero =
    \<lparr>wf_warning = memcpy_upto (replicate 8 0) bin,
     wf_source = memcpy_upto (replicate 20 0) (take n src),
     wf_time = time, wf_topic = memcpy_upto (replicate 20 0) (bytes_of topic)\<rparr>"
proof -
  have set: "set kvs = set (wsi_entries topic n src time bin rest)" using assms by (rule mset_eq_setD)
  have "fold set_entry kvs = fold set_entry (wsi_entries topic n src time bin rest)"
    by (rule fold_multiset_equiv [OF _ assms]) (simp add: set wsi_entries_commute)
  then show ?thesis
    by (simp add: wsi_entries_def key_types WsiFrame_zero_def) (simp add: bytes_of_def)
qed

lemma memcpy_zeros: "memcpy_upto (replicate n 0) src = take n (src @ replicate n 0)"
  by (simp add: memcpy_upto_def)

lemma bytes_of_eq: "bytes_of s = bytes_of t \<longleftrightarrow> s = t"
proof -
  have "unat (of_nat (of_char c) :: u8) = of_char c" for c
    by (subst unat_of_nat) simp
  then have "unat (of_char c :: u8) = of_char c" for c by (simp only: of_nat_of_char)
  then have "inj (of_char :: char \<Rightarrow> u8)"
    by (metis injI of_char_eq_iff)
  then show ?thesis unfolding bytes_of_def by (rule inj_map_eq_map)
qed

text \<open>A topic is recognised by its first bytes; the zeros behind a short one do not look like a topic.\<close>

lemma starts_with_topic:
  assumes "length lit \<le> 20" "CHR 0x00 \<notin> set lit"
  shows "starts_with lit (memcpy_upto (replicate 20 0) (bytes_of topic)) \<longleftrightarrow> take (length lit) topic = lit"
proof -
  have zeros: "replicate 20 0 = bytes_of (replicate 20 (CHR 0x00))"
    by (simp add: bytes_of_def)
  have "take (length lit) (take 20 (bytes_of topic @ bytes_of z)) = bytes_of (take (length lit) (topic @ z))" for z
    using assms(1) by (simp add: bytes_of_def take_map min_def del: take_append flip: map_append)
  then have "take (length lit) (take 20 (bytes_of topic @ replicate 20 0)) =
      bytes_of (take (length lit) (topic @ replicate 20 (CHR 0x00)))"
    unfolding zeros .
  then have "starts_with lit (memcpy_upto (replicate 20 0) (bytes_of topic)) \<longleftrightarrow>
      take (length lit) (topic @ replicate 20 (CHR 0x00)) = lit"
    unfolding starts_with_def memcpy_zeros bytes_of_eq by (simp only: bytes_of_eq)
  also have "\<dots> \<longleftrightarrow> take (length lit) topic = lit"
  proof (cases "length lit \<le> length topic")
    case False
    then have "CHR 0x00 \<in> set (take (length lit) (topic @ replicate 20 (CHR 0x00)))"
      by simp
    moreover have "take (length lit) topic \<noteq> lit" using False by (auto dest: arg_cong [of _ _ length])
    ultimately show ?thesis using assms(2) by metis
  qed simp
  finally show ?thesis .
qed

text \<open>C16: A message from the algorithm process. It is a map with the entries topic, source, time and data, in
  any order. The handler of its topic gets the first eight bytes of the data, shorter data with zeros
  behind it: in the ADAS build the topics that begin with output.can.0x700 and output.can.0x760 have a
  handler, and a message of another topic changes nothing; the DMS build hands on every message. The kind
  of value the interpreter waits for is none again, ready for the next message.\<close>

theorem message_reaches_handler:
  assumes "mset kvs = mset
     [(MP_STR 5 (map of_char ''topic'' @ r1), MP_STR (length topic) (map of_char topic @ r2)),
      (MP_STR 6 (map of_char ''source'' @ r3), MP_STR n src),
      (MP_STR 4 (map of_char ''time'' @ r4), MP_SCALAR time),
      (MP_STR 4 (map of_char ''data'' @ r5), MP_BIN bin)]"
    and alert: "alert = take 8 (bin @ replicate 8 0)"
  shows "(e_build e = ENABLE_ADAS \<and> take 16 topic = ''output.can.0x700'' \<longrightarrow>
      unpack_wsi_msg e (UNPACKED (MP_MAP kvs)) NO_TYPE d =
        bindE (deal_wsi_adas_can700 e alert d) (\<lambda>d'. Inr (NO_TYPE, d'))) \<and>
    (e_build e = ENABLE_ADAS \<and> take 16 topic = ''output.can.0x760'' \<longrightarrow>
      unpack_wsi_msg e (UNPACKED (MP_MAP kvs)) NO_TYPE d = Inr (NO_TYPE, deal_wsi_adas_can760 alert d)) \<and>
    (e_build e = ENABLE_ADAS \<and> take 16 topic \<notin> {''output.can.0x700'', ''output.can.0x760''} \<longrightarrow>
      unpack_wsi_msg e (UNPACKED (MP_MAP kvs)) NO_TYPE d = Inr (NO_TYPE, d)) \<and>
    (e_build e = ENABLE_DMS \<longrightarrow>
      unpack_wsi_msg e (UNPACKED (MP_MAP kvs)) NO_TYPE d =
        bindE (deal_wsi_dms_info e alert d) (\<lambda>d'. Inr (NO_TYPE, d')))"
proof -
  define fr where "fr = fold set_entry kvs WsiFrame_zero"
  have entries: "mset kvs = mset (wsi_entries topic n src time bin [r1, r3, r4, r5, r2])"
    unfolding assms(1) by (simp add: wsi_entries_def bytes_of_def)
  have "\<forall>kv \<in> set kvs. entry_ok kv"
    using mset_eq_setD [OF entries] wsi_entries_ok by auto
  then have get: "msgpack_object_get (MP_MAP kvs) (Some WsiFrame_zero) NO_TYPE = Inr (Some fr, NO_TYPE)"
    by (simp add: msgpack_map_get_ok fr_def)
  have warning: "wf_warning fr = alert"
    by (simp add: fr_def wsi_entries_frame [OF entries] memcpy_zeros alert)
  have topics: "starts_with MESSAGE_CAN700 (wf_topic fr) \<longleftrightarrow> take 16 topic = ''output.can.0x700''"
    "starts_with MESSAGE_CAN760 (wf_topic fr) \<longleftrightarrow> take 16 topic = ''output.can.0x760''"
    using starts_with_topic [of MESSAGE_CAN700 topic] starts_with_topic [of MESSAGE_CAN760 topic]
    by (simp_all add: fr_def wsi_entries_frame [OF entries] MESSAGE_CAN700_def MESSAGE_CAN760_def numeral_eq_Suc)
  show ?thesis
    unfolding unpack_wsi_msg_def unpacked.case get bindE_simps prod.case option.case topics warning
    by (simp cong: if_cong)
qed

theorem message_reaches_handler_witness:
  "unpack_wsi_msg (idle_env ENABLE_ADAS)
     (UNPACKED (MP_MAP [(MP_STR 6 (map of_char ''source''), MP_STR 3 (map of_char ''can'')),
        (MP_STR 5 (map of_char ''topic''), MP_STR 16 (map of_char ''output.can.0x760'')),
        (MP_STR 4 (map of_char ''time''), MP_SCALAR 7),
        (MP_STR 4 (map of_char ''data''), MP_BIN [1, 2, 3, 4, 5, 6])])) NO_TYPE idle_device =
   Inr (NO_TYPE, deal_wsi_adas_can760 [1, 2, 3, 4, 5, 6, 0, 0] idle_device)"
proof -
  let ?kvs = "[(MP_STR 6 (map of_char ''source''), MP_STR 3 (map of_char ''can'')),
        (MP_STR 5 (map of_char ''topic''), MP_STR 16 (map of_char ''output.can.0x760'')),
        (MP_STR 4 (map of_char ''time''), MP_SCALAR 7), (MP_STR 4 (map of_char ''data''), MP_BIN [1, 2, 3, 4, 5, 6])]"
  have kvs: "mset ?kvs = mset
     [(MP_STR 5 (map of_char ''topic'' @ []), MP_STR (length ''output.can.0x760'') (map of_char ''output.can.0x760'' @ [])),
      (MP_STR 6 (map of_char ''source'' @ []), MP_STR 3 (map of_char ''can'')),
      (MP_STR 4 (map of_char ''time'' @ []), MP_SCALAR 7), (MP_STR 4 (map of_char ''data'' @ []), MP_BIN [1, 2, 3, 4, 5, 6])]"
    by (simp add: add_mset_commute)
  have topic: "e_build (idle_env ENABLE_ADAS) = ENABLE_ADAS \<and> take 16 ''output.can.0x760'' = ''output.can.0x760''"
    by (simp add: idle_env_def)
  have alert: "[1, 2, 3, 4, 5, 6, 0, 0] = take 8 ([1, 2, 3, 4, 5, 6] @ replicate 8 (0 :: u8))"
    by (simp add: numeral_eq_Suc)
  show ?thesis
    using message_reaches_handler [OF kvs alert, of "idle_env ENABLE_ADAS" idle_device] topic by blast
qed

text \<open>A message that crashes the client. The interpreter remembers the kind of value the last key
  announced until a value of the right type comes. With a value of another type it takes the next key for
  the value, and a key is interpreted with a null frame pointer: the copy writes through it.\<close>

theorem mistyped_value_crashes:
  assumes "key_type mem NO_TYPE = CAN_SOURCE \<or> key_type mem NO_TYPE = CAN_TOPIC"
  shows "unpack_wsi_msg e (UNPACKED (MP_MAP ((MP_STR n mem, MP_SCALAR u) # (MP_STR m key, v) # kvs))) NO_TYPE d = Inl Null_pointer"
  using assms by (auto simp: unpack_wsi_msg_def with_can_def)

theorem mistyped_value_crashes_witness:
  "unpack_wsi_msg (idle_env ENABLE_ADAS) (UNPACKED (MP_MAP [(MP_STR 6 (bytes_of ''source''), MP_SCALAR 1),
     (MP_STR 4 (bytes_of ''data''), MP_BIN [1])])) NO_TYPE idle_device = Inl Null_pointer"
  by (rule mistyped_value_crashes) (simp add: key_type_def starts_with_def bytes_of_def)

text \<open>Subscription. On a new connection the first writeable callback only counts; the following ones
  send the request of each topic once and in order, asking for the next callback, and then nothing more.
  After the connection is closed the client starts over.\<close>

theorem topics_subscribed_once:
  assumes "pack_ok pack (e_build e)" "ws_msg_send_index c = 0" "length (topics (e_build e)) < n"
  shows "\<exists>c'. lws_service e pack (replicate n LWS_CALLBACK_CLIENT_WRITEABLE) c = Inr (requests pack (topics (e_build e)), c') \<and>
    lws_service e pack (LWS_CALLBACK_CLOSED # replicate n LWS_CALLBACK_CLIENT_WRITEABLE) c' =
      Inr (requests pack (topics (e_build e)), c'\<lparr>wsi_dumb := False\<rparr>)"
proof -
  obtain m where n: "n = Suc m" using assms(3) by (cases n) auto
  have run: "lws_service e pack (replicate n LWS_CALLBACK_CLIENT_WRITEABLE) c0 =
      Inr (requests pack (topics (e_build e)), c0\<lparr>ws_msg_send_index := MESSAGE_INDEX_MAX (e_build e)\<rparr>)"
    if "ws_msg_send_index c0 = 0" for c0
    using that writeable_rest [OF assms(1), of "c0\<lparr>ws_msg_send_index := 1\<rparr>" m] assms(3) n
    by (simp add: callback_lws_communicate_def client_writeable_def MESSAGE_INDEX_MAX_def)
  show ?thesis
    using run [OF assms(2)] run [of "c\<lparr>ws_msg_send_index := 0, wsi_dumb := False\<rparr>"]
    by (simp add: callback_lws_communicate_def)
qed

theorem topics_subscribed_once_witness:
  "\<exists>c'. lws_service (idle_env ENABLE_ADAS) (\<lambda>kvs. bytes_of (concat (map snd kvs))) (replicate 3 LWS_CALLBACK_CLIENT_WRITEABLE)
      \<lparr>ws_data_type = NO_TYPE, ws_msg_send_index = 0, wsi_dumb = True, rl_dumb = 0, ws_dev = idle_device\<rparr> =
    Inr (requests (\<lambda>kvs. bytes_of (concat (map snd kvs))) (topics ENABLE_ADAS), c')"
  using topics_subscribed_once [of "\<lambda>kvs. bytes_of (concat (map snd kvs))" "idle_env ENABLE_ADAS"
      "\<lparr>ws_data_type = NO_TYPE, ws_msg_send_index = 0, wsi_dumb = True, rl_dumb = 0, ws_dev = idle_device\<rparr>" 3]
  by (auto simp: pack_ok_def subscribe_msg_def bytes_of_def topics_def idle_env_def MESSAGE_CAN700_def MESSAGE_CAN760_def)

text \<open>Connection attempts are at least two seconds apart, as long as the monotonic clock fits 32 bits.\<close>

lemma connects_spaced:
  assumes "websocket_connect t created c = (True, c')" "websocket_connect t' created' (c'\<lparr>wsi_dumb := False\<rparr>) = (True, c'')"
    and "0 \<le> t" "t < 2 ^ 32"
  shows "t' \<ge> t + 2"
  using assms
  by (auto simp: websocket_connect_def ratelimit_connects_def uint_word_of_int split: if_splits)

end
