(* ===== verification/Config.thy ===== *)
theory Config
  imports Media Complex_Main
begin

text \<open>
  The configuration file and the start of the program: \<open>set_local_config_default\<close>,
  \<open>local_config_init\<close> with its JSON readers and \<open>main\<close> of \<open>wsi.cpp\<close>, and \<open>global_var_init\<close> of
  \<open>process.cpp\<close>. The JSON library is a parameter, \<open>parse\<close>: it gives the document of a text, or
  \<open>None\<close> for a syntax error. Asserts are compiled in (no build file defines \<open>NDEBUG\<close>), so a member
  that is missing or of another type is the fault \<open>Assert_failed\<close>.
\<close>

section \<open>JSON values\<close>

datatype json =
    JString string
  | JUint nat
  | JNegative int
  | JReal rat
  | JBool bool
  | JNull
  | JArray "json list"
  | JObject "(string \<times> json) list"

definition member :: "json \<Rightarrow> string \<Rightarrow> json outcome" where
  "member v key =
     (case v of JObject kvs \<Rightarrow> (case map_of kvs key of Some x \<Rightarrow> Inr x | None \<Rightarrow> Inl Assert_failed)
      | _ \<Rightarrow> Inl Assert_failed)"

text \<open>\<open>assert(val[key].IsString())\<close> and the like, followed by the access.\<close>

definition get_string :: "json \<Rightarrow> string \<Rightarrow> string outcome" where
  "get_string v key = bindE (member v key) (\<lambda>x. case x of JString s \<Rightarrow> Inr s | _ \<Rightarrow> Inl Assert_failed)"

definition get_uint :: "json \<Rightarrow> string \<Rightarrow> nat outcome" where
  "get_uint v key = bindE (member v key) (\<lambda>x. case x of
     JUint n \<Rightarrow> if n < 2 ^ 32 then Inr n else Inl Assert_failed | _ \<Rightarrow> Inl Assert_failed)"

definition get_bool :: "json \<Rightarrow> string \<Rightarrow> bool outcome" where
  "get_bool v key = bindE (member v key) (\<lambda>x. case x of JBool b \<Rightarrow> Inr b | _ \<Rightarrow> Inl Assert_failed)"

definition get_array :: "json \<Rightarrow> string \<Rightarrow> json list outcome" where
  "get_array v key = bindE (member v key) (\<lambda>x. case x of JArray xs \<Rightarrow> Inr xs | _ \<Rightarrow> Inl Assert_failed)"

definition get_int :: "json \<Rightarrow> int outcome" where
  "get_int v = (case v of JUint n \<Rightarrow> if n < 2 ^ 31 then Inr (int n) else Inl Assert_failed
     | JNegative i \<Rightarrow> if - (2 ^ 31) \<le> i \<and> i < 0 then Inr i else Inl Assert_failed | _ \<Rightarrow> Inl Assert_failed)"

text \<open>\<open>snprintf(dst, 32, "%s", s)\<close>: the text the array holds afterwards.\<close>

definition snprintf32 :: "string \<Rightarrow> string" where
  "snprintf32 s = take 31 (c_string s)"

section \<open>The configuration\<close>

definition get_server_config :: "json \<Rightarrow> LocalConfig \<Rightarrow> LocalConfig outcome" where
  "get_server_config val config =
     bindE (get_string val ''ip'') (\<lambda>ip.
     bindE (get_uint val ''port'') (\<lambda>port.
     Inr (config\<lparr>serverip := snprintf32 ip, serverport := of_nat port\<rparr>)))"

definition get_client_config :: "json \<Rightarrow> LocalConfig \<Rightarrow> LocalConfig outcome" where
  "get_client_config val config =
     bindE (get_string val ''ip'') (\<lambda>ip.
     bindE (get_uint val ''port'') (\<lambda>port.
     bindE (get_string val ''device'') (\<lambda>dev.
     Inr (config\<lparr>clientip := snprintf32 ip, clientport := of_nat port, netdev_name := snprintf32 dev\<rparr>))))"

definition get_tty_config :: "json \<Rightarrow> LocalConfig \<Rightarrow> LocalConfig outcome" where
  "get_tty_config val config =
     bindE (get_string val ''tty_name'') (\<lambda>name.
     bindE (get_uint val ''baudrate'') (\<lambda>baud.
     bindE (get_uint val ''bits'') (\<lambda>bits.
     bindE (get_uint val ''stopbit'') (\<lambda>stop.
     bindE (get_string val ''parity'') (\<lambda>par.
     Inr (config\<lparr>tty_name := snprintf32 name, baudrate := sint (of_nat baud :: u32),
            databits := sint (of_nat bits :: u32), stopbit := sint (of_nat stop :: u32),
            parity := snprintf32 par\<rparr>))))))"

text \<open>The loop that copies an array of numbers into a table of fixed size.\<close>

fun copy_rates :: "nat \<Rightarrow> json list \<Rightarrow> u32 list \<Rightarrow> u32 list outcome" where
  "copy_rates i [] table = Inr table"
| "copy_rates i (v # vs) table =
     bindE (get_int v) (\<lambda>n.
       if i < length table then copy_rates (i + 1) vs (table[i := word_of_int n]) else Inl Overrun_bitrate)"

definition flag :: "bool \<Rightarrow> u8" where "flag b = (if b then 1 else 0)"

definition get_alert_para :: "json \<Rightarrow> LocalConfig \<Rightarrow> LocalConfig outcome" where
  "get_alert_para val config =
     bindE (get_bool val ''speed_filter_enable'') (\<lambda>sf.
     bindE (get_uint val ''jpeg_fps'') (\<lambda>fps.
     bindE (get_bool val ''record_speed'') (\<lambda>rs.
     bindE (get_uint val ''record_period'') (\<lambda>rp.
     bindE (get_uint val ''alert_time_filter'') (\<lambda>atf.
     bindE (get_bool val ''use_heart'') (\<lambda>uh.
     bindE (get_uint val ''check_heart_period'') (\<lambda>chp.
     bindE (get_array val ''adasBitRate'') (\<lambda>ars.
     bindE (copy_rates 0 ars (adasBitRate config)) (\<lambda>adas.
     bindE (get_array val ''dmsBitRate'') (\<lambda>drs.
     bindE (copy_rates 0 drs (dmsBitRate config)) (\<lambda>dms.
     Inr (config\<lparr>speed_filter_enable := flag sf, jpeg_coder_fps := of_nat fps, record_speed_enable := flag rs,
            record_period := of_nat rp, alert_time_filter := of_nat atf, use_heart := flag uh,
            check_heart_period := of_nat chp, adasBitRate := adas, dmsBitRate := dms\<rparr>))))))))))))"

definition parse_prot_json :: "(string \<Rightarrow> json option) \<Rightarrow> string \<Rightarrow> LocalConfig \<Rightarrow> (int \<times> LocalConfig) outcome" where
  "parse_prot_json parse buffer config =
     (case parse buffer of
        None \<Rightarrow> Inr (1, config)
      | Some document \<Rightarrow>
          bindE (member document ''server'') (\<lambda>server.
          bindE (member document ''client'') (\<lambda>client.
          bindE (member document ''alert_para'') (\<lambda>alert.
          bindE (member document ''tty'') (\<lambda>tty.
          bindE (get_server_config server config) (\<lambda>config.
          bindE (get_client_config client config) (\<lambda>config.
          bindE (get_alert_para alert config) (\<lambda>config.
          bindE (get_tty_config tty config) (\<lambda>config. Inr (0, config))))))))))"

text \<open>\<open>local_config_init\<close> reads the whole file into a buffer of 1024 characters and puts a
  terminator behind it.\<close>

definition local_config_init ::
  "(string \<Rightarrow> json option) \<Rightarrow> string option \<Rightarrow> LocalConfig \<Rightarrow> (int \<times> LocalConfig) outcome" where
  "local_config_init parse content config =
     (case content of
        None \<Rightarrow> Inr (- 1, config)
      | Some text \<Rightarrow>
          (if length text \<ge> 1024 then Inl Overrun_json
           else bindE (parse_prot_json parse (c_string text) config) (\<lambda>(ret, config).
                  Inr (if ret \<noteq> 0 then - 1 else 0, config))))"

definition adasCodeRate :: "u32 list" where "adasCodeRate = [250, 500, 800, 1024, 800, 1024, 2048]"
definition dmsCodeRate :: "u32 list" where "dmsCodeRate = [250, 500, 800, 1024, 1024, 2048]"

definition set_local_config_default :: "LocalConfig \<Rightarrow> LocalConfig" where
  "set_local_config_default config = config\<lparr>serverport := 8888, serverip := snprintf32 ''192.168.100.100'',
     clientip := snprintf32 ''192.168.100.211'', netdev_name := snprintf32 ''eth0'', jpeg_coder_fps := 5,
     speed_filter_enable := 1, record_speed_enable := 1, record_period := 30, alert_time_filter := 10,
     use_heart := 1, check_heart_period := 90, adasBitRate := adasCodeRate, dmsBitRate := dmsCodeRate,
     tty_name := snprintf32 ''/dev/ttySC0'', baudrate := 115200, parity := snprintf32 ''NONE'', stopbit := 1,
     databits := 8\<rparr>"

section \<open>Start\<close>

text \<open>\<open>memset(&g_configini, 0, sizeof(g_configini))\<close>\<close>

definition zero_config :: LocalConfig where
  "zero_config = \<lparr>usingParaFile = 0, serverip = [], serverport = 0, clientip = [], clientport = 0,
     netdev_name = [], tty_name = [], baudrate = 0, parity = [], databits = 0, stopbit = 0,
     jpeg_coder_fps = 0, speed_filter_enable = 0, alert_time_filter = 0, record_speed_enable = 0,
     record_period = 0, use_heart = 0, check_heart_period = 0, adasBitRate = replicate 7 0,
     dmsBitRate = replicate 6 0\<rparr>"

definition UPGRADE_FILE_PATH :: string where "UPGRADE_FILE_PATH = ''/mnt/obb/prot_upgrade/''"

definition create_snap_path :: "build \<Rightarrow> device \<Rightarrow> device" where
  "create_snap_path b d = system (''busybox mkdir -p '' @ SNAP_SHOT_JPEG_PATH b) d"

definition create_upgrade_dir :: "device \<Rightarrow> device" where
  "create_upgrade_dir d = system (''busybox mkdir -p '' @ UPGRADE_FILE_PATH) d"

text \<open>A file of the media directory that the pattern \<open>*\<close> of the shell stands for.\<close>

definition media_file :: "build \<Rightarrow> string \<Rightarrow> bool" where
  "media_file b p \<longleftrightarrow> (let dir = SNAP_SHOT_JPEG_PATH b; name = drop (length dir) p in
     take (length dir) p = dir \<and> name \<noteq> [] \<and> CHR ''/'' \<notin> set name \<and> hd name \<noteq> CHR ''.'')"

definition rm_mmFiles :: "build \<Rightarrow> device \<Rightarrow> device" where
  "rm_mmFiles b d =
     (let d = system (''busybox rm '' @ SNAP_SHOT_JPEG_PATH b @ ''*'') d
      in d\<lparr>d_files := (\<lambda>p. if media_file b p then None else d_files d p)\<rparr>)"

text \<open>\<open>prot_init_pre\<close>: the buffers of the handle, each allocation given by whether it succeeds.\<close>

definition prot_init_pre :: "bool \<Rightarrow> bool \<Rightarrow> bool \<Rightarrow> device \<Rightarrow> int \<times> device" where
  "prot_init_pre malloc1 malloc2 malloc3 d =
     (if \<not> malloc1 then (- 1, d) else if \<not> malloc2 then (- 1, d)
      else if \<not> malloc3 then (- 1, d)
      else (0, d\<lparr>d_rx := (d_rx d)\<lparr>rcv_msg := replicate DATA_BUF_SIZE 0\<rparr>\<rparr>))"

text \<open>\<open>entries\<close> is what reading the media directory gives, and \<open>log_opens\<close> whether the log file can be
  opened, without which the program exits. The return value of \<open>prot_init_pre\<close> is not used.\<close>

definition global_var_init ::
  "env \<Rightarrow> string list option \<Rightarrow> bool \<Rightarrow> bool \<times> bool \<times> bool \<Rightarrow> device \<Rightarrow> int \<times> device" where
  "global_var_init e entries log_opens mallocs d =
     (let d = d\<lparr>d_config := zero_config, send_data := 0\<rparr>;
          d = (case e_build e of
                 ENABLE_ADAS \<Rightarrow>
                   (let (ret, ps, fs) = read_local_adas_para_file (e_fs e) LOCAL_ADAS_PRAR_FILE (d_paras d) (d_files d)
                    in d\<lparr>d_paras := ps, d_files := fs\<rparr>)
               | ENABLE_DMS \<Rightarrow>
                   (let (ret, ps, fs) = read_local_dms_para_file (e_fs e) LOCAL_DMS_PRAR_FILE (d_paras d) (d_files d)
                    in d\<lparr>d_paras := ps, d_files := fs\<rparr>));
          d = create_upgrade_dir (create_snap_path (e_build e) d)
      in if \<not> log_opens then (0, d\<lparr>exited := True\<rparr>)
         else let d = d\<lparr>s_mm_id := getmmFileNumMax entries\<rparr>;
                  d = (if s_mm_id d = 0xFFFFFFFF then rm_mmFiles (e_build e) (d\<lparr>s_mm_id := 0\<rparr>) else d);
                  (m1, m2, m3) = mallocs
              in (0, snd (prot_init_pre m1 m2 m3 d)))"

text \<open>The options of \<open>main\<close>, in the order of the command line.\<close>

datatype opt = Opt_h | Opt_V | Opt_f "string option" | Opt_v

fun main_options :: "(string \<Rightarrow> json option) \<Rightarrow> opt list \<Rightarrow> device \<Rightarrow> device outcome" where
  "main_options parse [] d = Inr d"
| "main_options parse (op # ops) d =
     (if exited d then Inr d
      else case op of
          Opt_h \<Rightarrow> Inr (d\<lparr>exited := True\<rparr>)
        | Opt_v \<Rightarrow> Inr (d\<lparr>exited := True\<rparr>)
        | Opt_V \<Rightarrow> main_options parse ops d
        | Opt_f content \<Rightarrow>
            bindE (local_config_init parse content (d_config d)) (\<lambda>(ret, config).
              let d = d\<lparr>d_config := config\<rparr>
              in if ret \<noteq> 0 then Inr (d\<lparr>exited := True\<rparr>)
                 else main_options parse ops (d\<lparr>d_config := config\<lparr>usingParaFile := 1\<rparr>\<rparr>)))"

definition main_start ::
  "env \<Rightarrow> string list option \<Rightarrow> bool \<Rightarrow> bool \<times> bool \<times> bool \<Rightarrow> (string \<Rightarrow> json option) \<Rightarrow> opt list \<Rightarrow> device
     \<Rightarrow> device outcome" where
  "main_start e entries log_opens mallocs parse opts d =
     (let (ret, d) = global_var_init e entries log_opens mallocs d
      in if exited d then Inr d
         else bindE (main_options parse opts d) (\<lambda>d.
                if exited d then Inr d
                else if usingParaFile (d_config d) = 0
                then Inr (d\<lparr>d_config := set_local_config_default (d_config d)\<rparr>) else Inr d))"

end
