(* ===== verification/ConfigProps.thy ===== *)
theory ConfigProps
  imports Config MediaProps
begin

text \<open>
  The properties of the configuration and of the start: a configuration survives being printed as JSON
  and read back, a file or a table that is too long overruns its array, and after a start the media
  ids do not collide with files of an earlier run.
\<close>

section \<open>Printing a configuration\<close>

definition print_config :: "LocalConfig \<Rightarrow> json" where
  "print_config c = JObject
     [(''server'', JObject [(''ip'', JString (serverip c)), (''port'', JUint (unat (serverport c)))]),
      (''client'', JObject [(''ip'', JString (clientip c)), (''port'', JUint (unat (clientport c))),
         (''device'', JString (netdev_name c))]),
      (''alert_para'', JObject [(''speed_filter_enable'', JBool (speed_filter_enable c \<noteq> 0)),
         (''alert_time_filter'', JUint (unat (alert_time_filter c))), (''jpeg_fps'', JUint (unat (jpeg_coder_fps c))),
         (''record_speed'', JBool (record_speed_enable c \<noteq> 0)), (''record_period'', JUint (unat (record_period c))),
         (''use_heart'', JBool (use_heart c \<noteq> 0)), (''check_heart_period'', JUint (unat (check_heart_period c))),
         (''adasBitRate'', JArray (map (\<lambda>r. JUint (unat r)) (adasBitRate c))),
         (''dmsBitRate'', JArray (map (\<lambda>r. JUint (unat r)) (dmsBitRate c)))]),
      (''tty'', JObject [(''tty_name'', JString (tty_name c)), (''baudrate'', JUint (nat (baudrate c))),
         (''parity'', JString (parity c)), (''stopbit'', JUint (nat (stopbit c))), (''bits'', JUint (nat (databits c)))])]"

definition text_ok :: "string \<Rightarrow> bool" where
  "text_ok s \<longleftrightarrow> length s < 32 \<and> CHR 0x00 \<notin> set s"

definition config_ok :: "LocalConfig \<Rightarrow> bool" where
  "config_ok c \<longleftrightarrow> list_all text_ok [serverip c, clientip c, netdev_name c, tty_name c, parity c] \<and>
     list_all (\<lambda>i. 0 \<le> i \<and> i < 2 ^ 31) [baudrate c, databits c, stopbit c] \<and>
     list_all (\<lambda>f. f = 0 \<or> f = 1) [speed_filter_enable c, record_speed_enable c, use_heart c] \<and>
     length (adasBitRate c) = 7 \<and> length (dmsBitRate c) = 6 \<and>
     list_all (\<lambda>r. unat r < 2 ^ 31) (adasBitRate c) \<and> list_all (\<lambda>r. unat r < 2 ^ 31) (dmsBitRate c)"

lemma snprintf32_ok: "text_ok s \<Longrightarrow> snprintf32 s = s"
  unfolding text_ok_def snprintf32_def c_string_def by (subst takeWhile_eq_all_conv [THEN iffD2]) auto

lemma flag_ok: "f = 0 \<or> f = 1 \<Longrightarrow> flag (f \<noteq> 0) = f"
  by (auto simp: flag_def)

lemma word_lt32: "unat (x :: u8) < 4294967296" "unat (y :: u16) < 4294967296" "unat (z :: u32) < 4294967296"
  using unsigned_less [of x, where 'a = nat] unsigned_less [of y, where 'a = nat] unsigned_less [of z, where 'a = nat]
  by simp_all

lemma int_lt32: "i < 2147483648 \<Longrightarrow> nat i < 4294967296"
  by linarith

lemma sint_of_nat_nat: "0 \<le> i \<Longrightarrow> i < 2147483648 \<Longrightarrow> sint (word_of_int i :: u32) = i"
  by (simp add: sint_sbintrunc' signed_take_bit_int_eq_self)

lemma copy_rates_all:
  assumes "list_all (\<lambda>r. unat r < 2 ^ 31) rs" "i + length rs = length table"
  shows "copy_rates i (map (\<lambda>r. JUint (unat r)) rs) table = Inr (take i table @ rs)"
  using assms
proof (induction rs arbitrary: i table)
  case (Cons r rs)
  then show ?case
    using Cons.IH [of "Suc i" "table[i := r]"] by (simp add: get_int_def take_Suc_conv_app_nth take_update_swap list_update_append)
qed simp

lemma copy_rates_overrun:
  fixes rs :: "u32 list"
  assumes "list_all (\<lambda>r. unat r < 2 ^ 31) rs" "i \<le> length table" "i + length rs > length table"
  shows "copy_rates i (map (\<lambda>r. JUint (unat r)) rs) table = Inl Overrun_bitrate"
  using assms
proof (induction rs arbitrary: i table)
  case (Cons r rs)
  then show ?case
    using Cons.IH [of "Suc i" "table[i := r]"] by (auto simp: get_int_def)
qed simp

lemmas json_simps = member_def get_string_def get_uint_def get_bool_def get_array_def

section \<open>Ids after a start\<close>

lemma fold_max_ge:
  "m \<le> fold (\<lambda>name maxid. let tmpid = getFileId name in if maxid > tmpid then maxid else tmpid) names m \<and>
   (\<forall>name \<in> set names. getFileId name \<le>
      fold (\<lambda>name maxid. let tmpid = getFileId name in if maxid > tmpid then maxid else tmpid) names m)"
proof (induction names arbitrary: m)
  case (Cons name names)
  let ?m = "if m > getFileId name then m else getFileId name"
  have "m \<le> ?m" "getFileId name \<le> ?m" by auto
  then show ?case using Cons [of ?m] by (auto simp: Let_def intro: order_trans)
qed simp

lemma getmmFileNumMax_ge: "name \<in> set names \<Longrightarrow> getFileId name \<le> getmmFileNumMax (Some names)"
  using fold_max_ge [of 0 names] by (simp add: getmmFileNumMax_def)

lemma mm_ids_gt:
  assumes "i \<in> set (mm_ids s n)" "unat s + n < 2 ^ 32"
  shows "s < i"
proof -
  obtain k where k: "k < n" "i = s + of_nat (Suc k)" using assms(1) by (auto simp: mm_ids_def)
  then have "unat i = unat s + Suc k"
    using assms(2) by (simp add: unat_word_ariths unat_of_nat del: of_nat_Suc)
  then show ?thesis by (simp add: word_less_nat_alt)
qed

lemma main_options_s_mm_id: "main_options parse ops d = Inr d' \<Longrightarrow> s_mm_id d' = s_mm_id d"
proof (induction parse ops d rule: main_options.induct)
  case (2 parse op ops d)
  then show ?case by (cases op) (auto simp: bindE_Inr_iff Let_def split: if_splits)
qed simp

lemma global_var_init_s_mm_id:
  assumes "getmmFileNumMax entries \<noteq> 0xFFFFFFFF"
  shows "s_mm_id (snd (global_var_init e entries True mallocs d)) = getmmFileNumMax entries"
  using assms by (simp add: global_var_init_def prot_init_pre_def Let_def split_beta)

lemma main_start_s_mm_id:
  assumes "main_start e entries True mallocs parse opts d = Inr d'" "getmmFileNumMax entries \<noteq> 0xFFFFFFFF"
  shows "s_mm_id d' = getmmFileNumMax entries"
proof -
  obtain r d1 where init: "global_var_init e entries True mallocs d = (r, d1)" by fastforce
  then have "s_mm_id d1 = getmmFileNumMax entries" using global_var_init_s_mm_id [OF assms(2)] by (metis snd_conv)
  then show ?thesis
    using assms(1) init by (auto simp: main_start_def bindE_Inr_iff dest: main_options_s_mm_id split: if_splits)
qed

definition small_config :: LocalConfig where
  "small_config = set_local_config_default zero_config"

lemma config_ok_small: "config_ok small_config"
  by (simp add: small_config_def set_local_config_default_def config_ok_def text_ok_def snprintf32_def c_string_def
      adasCodeRate_def dmsCodeRate_def zero_config_def)

section \<open>Properties\<close>

text \<open>C37: The configuration file. Whatever the configuration before, reading the JSON text of a
  configuration gives back each of its settings: texts of up to 31 characters, the flags, the numbers and
  the two tables of bit rates.\<close>

theorem config_roundtrip:
  assumes "config_ok c" "parse (c_string content) = Some (print_config c)" "length content < 1024"
    and "length (adasBitRate c0) = 7" "length (dmsBitRate c0) = 6" "usingParaFile c0 = usingParaFile c"
  shows "local_config_init parse (Some content) c0 = Inr (0, c)"
proof -
  have adas: "copy_rates 0 (map (\<lambda>r. JUint (unat r)) (adasBitRate c)) (adasBitRate c0) = Inr (adasBitRate c)"
    and dms: "copy_rates 0 (map (\<lambda>r. JUint (unat r)) (dmsBitRate c)) (dmsBitRate c0) = Inr (dmsBitRate c)"
    using assms copy_rates_all by (simp_all add: config_ok_def)
  have "parse_prot_json parse (c_string content) c0 = Inr (0, c)"
    using assms adas dms
    by (simp add: parse_prot_json_def print_config_def json_simps get_server_config_def get_client_config_def
        get_alert_para_def get_tty_config_def config_ok_def snprintf32_ok flag_ok sint_of_nat_nat word_lt32 int_lt32)
  then show ?thesis using assms(3) by (simp add: local_config_init_def)
qed

theorem config_roundtrip_witness:
  "local_config_init (\<lambda>_. Some (print_config small_config)) (Some ''{}'') zero_config = Inr (0, small_config)"
  by (rule config_roundtrip)
    (simp_all add: config_ok_small, simp_all add: zero_config_def small_config_def set_local_config_default_def)

text \<open>A configuration file that overruns an array. The reader copies every number of the list of ADAS bit
  rates into a table of seven; an eighth one is written behind the table. A file of 1024 characters or
  more overruns the buffer it is read into, whatever it holds.\<close>

theorem config_file_overruns:
  assumes "config_ok c" "list_all (\<lambda>r. unat r < 2 ^ 31) rates" "7 < length rates"
    and "parse (c_string content) = Some (print_config (c\<lparr>adasBitRate := rates\<rparr>))" "length (adasBitRate c0) = 7"
  shows "local_config_init parse (Some content) c0 = Inl (if length content < 1024 then Overrun_bitrate else Overrun_json)"
proof -
  have "copy_rates 0 (map (\<lambda>r. JUint (unat r)) rates) (adasBitRate c0) = Inl Overrun_bitrate"
    using assms by (intro copy_rates_overrun) simp_all
  then have "parse_prot_json parse (c_string content) c0 = Inl Overrun_bitrate"
    using assms
    by (simp add: parse_prot_json_def print_config_def json_simps get_server_config_def get_client_config_def
        get_alert_para_def get_tty_config_def config_ok_def word_lt32 int_lt32)
  then show ?thesis by (simp add: local_config_init_def)
qed

theorem config_file_overruns_witness:
  "local_config_init (\<lambda>_. Some (print_config (small_config\<lparr>adasBitRate := replicate 8 250\<rparr>))) (Some ''{}'') zero_config =
     Inl Overrun_bitrate"
  using config_file_overruns [where c = small_config and rates = "replicate 8 250" and content = "''{}''" and c0 = zero_config
      and parse = "\<lambda>_. Some (print_config (small_config\<lparr>adasBitRate := replicate 8 250\<rparr>))"]
  by (simp add: config_ok_small list.pred_set) (simp add: zero_config_def)

text \<open>C38: Ids across a restart. After a start that found the media directory with the files \<open>names\<close>, none of
  the media ids given out next, up to the wrap at \<open>2^32\<close>, has the name of one of these files.\<close>

theorem restart_ids_fresh:
  assumes "main_start e (Some names) True mallocs parse opts d = Inr d'"
    and "getmmFileNumMax (Some names) \<noteq> 0xFFFFFFFF" "unat (s_mm_id d') + n < 2 ^ 32"
  shows "\<exists>ids d''. get_next_id MM_ID_MODE n d' = (0, ids, d'') \<and> length ids = n \<and> distinct ids \<and>
    (\<forall>i \<in> set ids. format_010u i \<notin> set names)"
proof -
  have "format_010u i \<notin> set names" if "i \<in> set (mm_ids (s_mm_id d') n)" for i
  proof
    assume "format_010u i \<in> set names"
    then have "i \<le> getmmFileNumMax (Some names)" using getmmFileNumMax_ge getFileId_format by metis
    moreover have "s_mm_id d' < i" by (rule mm_ids_gt [OF that assms(3)])
    ultimately show False using main_start_s_mm_id [OF assms(1,2)] by simp
  qed
  then show ?thesis using distinct_mm_ids [of n] assms(3) by (simp add: get_mm_ids)
qed

theorem restart_ids_fresh_witness:
  "\<exists>d' ids d''. main_start (idle_env ENABLE_ADAS) (Some [''0000000007'']) True (True, True, True) (\<lambda>_. None) [] idle_device = Inr d' \<and>
    get_next_id MM_ID_MODE 3 d' = (0, ids, d'') \<and> length ids = 3 \<and> distinct ids \<and>
    (\<forall>i \<in> set ids. format_010u i \<notin> set [''0000000007''])"
proof -
  have max: "getmmFileNumMax (Some [''0000000007'']) = 7" by code_simp
  have "exited (snd (global_var_init (idle_env ENABLE_ADAS) (Some [''0000000007'']) True (True, True, True) idle_device)) = False"
    using max by (simp add: global_var_init_def prot_init_pre_def idle_env_def idle_device_def create_upgrade_dir_def
        create_snap_path_def system_def remove_file_def Let_def split_beta)
  then have "\<exists>d'. main_start (idle_env ENABLE_ADAS) (Some [''0000000007'']) True (True, True, True) (\<lambda>_. None) [] idle_device = Inr d'"
    by (simp add: main_start_def split_beta Let_def)
  then obtain d' where d': "main_start (idle_env ENABLE_ADAS) (Some [''0000000007'']) True (True, True, True) (\<lambda>_. None) [] idle_device = Inr d'"
    by blast
  then have "s_mm_id d' = 7" using main_start_s_mm_id max by simp
  then show ?thesis using restart_ids_fresh [OF d', of 3] max d' by simp
qed

end
