(* ===== verification/Log.thy ===== *)
theory Log
  imports Commands
begin

text \<open>
  The log file and the clock: \<open>create_logfile\<close>, \<open>data_log_init\<close> and \<open>data_log\<close> of
  \<open>common.cpp\<close>, and in \<open>process.cpp\<close> the texts that are logged (\<open>record_alert_log\<close>,
  \<open>record_run_time\<close>, the speed, the transfers) and the part of \<open>global_var_init\<close> that opens the log.

  A log is the text on the disk and the text that is still in the buffer of the stream. The stream's
  own buffer is not bounded and writing to the disk does not fail: what the C library does then is not
  visible to the program, which ignores the results of \<open>fprintf\<close> and \<open>fflush\<close>.
\<close>

section \<open>The clock\<close>

text \<open>The members of \<open>struct tm\<close> that the program reads. \<open>localtime\<close> is the C library's; the year
  counts from 1900 and the month from 0.\<close>

record tm =
  tm_year :: nat
  tm_mon :: nat
  tm_mday :: nat
  tm_hour :: nat
  tm_min :: nat
  tm_sec :: nat

definition get_local_time :: "tm \<Rightarrow> u8 list" where
  "get_local_time p = [of_nat ((tm_year p + 1900) mod 100), of_nat (tm_mon p + 1), of_nat (tm_mday p),
     of_nat (tm_hour p), of_nat (tm_min p), of_nat (tm_sec p)]"

text \<open>The conversion \<open>%02d\<close> of \<open>printf\<close> and the ones of \<open>strftime\<close>.\<close>

definition format_02d :: "nat \<Rightarrow> string" where
  "format_02d n = (let s = decimal n in replicate (2 - length s) CHR ''0'' @ s)"

definition format_F :: "tm \<Rightarrow> string" where
  "format_F t = decimal (tm_year t + 1900) @ ''-'' @ format_02d (tm_mon t + 1) @ ''-'' @ format_02d (tm_mday t)"

definition format_T :: "tm \<Rightarrow> string" where
  "format_T t = format_02d (tm_hour t) @ '':'' @ format_02d (tm_min t) @ '':'' @ format_02d (tm_sec t)"

text \<open>\<open>strftime\<close> into a buffer of \<open>len\<close> bytes returns 0 when the text and its terminator do not
  fit; \<open>snprintf\<close> cuts the text off.\<close>

definition strftime :: "nat \<Rightarrow> string \<Rightarrow> string option" where
  "strftime len s = (if length s < len then Some s else None)"

definition snprintf :: "nat \<Rightarrow> string \<Rightarrow> string" where
  "snprintf len s = take (len - 1) s"

definition get_timestamp :: "nat \<Rightarrow> tm option \<Rightarrow> string option" where
  "get_timestamp len t = (case t of None \<Rightarrow> None | Some t \<Rightarrow> strftime len (format_F t @ '' '' @ format_T t))"

section \<open>The log file\<close>

record log_file =
  log_fp :: bool         \<comment> \<open>whether the stream is open\<close>
  log_disk :: string
  log_buffer :: string
  line_count :: int

definition create_logfile :: "bool \<Rightarrow> bool \<Rightarrow> log_file \<Rightarrow> log_file option" where
  "create_logfile opens trunc l =
     (if opens then Some (l\<lparr>log_fp := True, log_disk := (if trunc then [] else log_disk l)\<rparr>) else None)"

text \<open>\<open>None\<close> is the exit of the process.\<close>

definition data_log_init :: "bool \<Rightarrow> bool \<Rightarrow> log_file \<Rightarrow> log_file option" where
  "data_log_init opens trunc l = (if \<not> log_fp l then create_logfile opens trunc l else Some l)"

definition FLUSH_THRESHOLD :: int where "FLUSH_THRESHOLD = 1"

definition data_log :: "string \<Rightarrow> log_file \<Rightarrow> log_file" where
  "data_log log l =
     (let l = (if log_fp l then l\<lparr>log_buffer := log_buffer l @ log @ [CHR 0x0A]\<rparr> else l);
          l = l\<lparr>line_count := line_count l + 1\<rparr>
      in if FLUSH_THRESHOLD = line_count l
         then l\<lparr>log_disk := log_disk l @ log_buffer l, log_buffer := [], line_count := 0\<rparr>
         else l)"

text \<open>\<open>GetFileSize\<close> has the type \<open>int\<close>: of a size from two gigabytes on it keeps the low 32 bits.\<close>

definition log_size :: "log_file option \<Rightarrow> int" where
  "log_size l = (case l of None \<Rightarrow> - 1 | Some l \<Rightarrow> sint (word_of_nat (length (log_disk l)) :: u32))"

definition LOG_SIZE_1G :: int where "LOG_SIZE_1G = 100 * 1024 * 1024"

section \<open>What is logged\<close>

definition record_run_time :: "tm option \<Rightarrow> log_file \<Rightarrow> int \<times> log_file" where
  "record_run_time t l =
     (case t of None \<Rightarrow> (- 1, l)
      | Some t \<Rightarrow>
          (case strftime 200 (''run time: '' @ format_F t @ '' '' @ format_T t) of
             None \<Rightarrow> (- 1, l) | Some s \<Rightarrow> (0, data_log s l)))"

definition dms_alert_type_to_str :: "u8 \<Rightarrow> string" where
  "dms_alert_type_to_str type =
     (if type = DMS_FATIGUE_WARN then ''fatigue_warn'' else if type = DMS_CALLING_WARN then ''calling_warn''
      else if type = DMS_SMOKING_WARN then ''smoking_warn'' else if type = DMS_DISTRACT_WARN then ''distract_warn''
      else if type = DMS_ABNORMAL_WARN then ''absence_warn'' else if type = DMS_SANPSHOT_EVENT then ''dms_snap_warn''
      else if type = DMS_DRIVER_CHANGE then ''change_warn'' else ''default'')"

definition adas_alert_type_to_str :: "u8 \<Rightarrow> string" where
  "adas_alert_type_to_str type =
     (if type = SB_WARN_TYPE_FCW then ''FCW'' else if type = SB_WARN_TYPE_LDW then ''LDW''
      else if type = SB_WARN_TYPE_HW then ''HW'' else if type = SB_WARN_TYPE_PCW then ''PCW''
      else if type = SB_WARN_TYPE_FLC then ''FLC'' else if type = SB_WARN_TYPE_TSRW then ''TSRW''
      else if type = SB_WARN_TYPE_TSR then ''TSR'' else if type = SB_WARN_TYPE_SNAP then ''SNAP'' else ''default'')"

definition alert_status :: "string list" where "alert_status = [''trigger'', ''begin'', ''end'']"

text \<open>The status is an entry of a table of three; another flag would read behind it.\<close>

definition alert_line :: "build \<Rightarrow> u8 list \<Rightarrow> u8 \<Rightarrow> u8 \<Rightarrow> string" where
  "alert_line b time type flag =
     (let n = (\<lambda>i. format_02d (unat (time ! i)))
      in ''['' @ n 0 @ n 1 @ n 2 @ '' '' @ n 3 @ '':'' @ n 4 @ '':'' @ n 5 @ ''] warn_type:'' @
         (case b of ENABLE_ADAS \<Rightarrow> adas_alert_type_to_str type | ENABLE_DMS \<Rightarrow> dms_alert_type_to_str type) @
         '', status:'' @ alert_status ! unat flag)"

definition record_alert_log :: "build \<Rightarrow> u8 list \<Rightarrow> u8 \<Rightarrow> u8 \<Rightarrow> log_file \<Rightarrow> log_file outcome" where
  "record_alert_log b time type flag l =
     (if unat flag \<ge> length alert_status then Inl Overrun_status
      else Inr (data_log (snprintf 256 (alert_line b time type flag)) l))"

text \<open>The speed is logged by \<open>record_speed\<close> when its timer has run out; a time that cannot be
  formatted leaves the buffer uninitialised, which is the argument \<open>junk\<close>.\<close>

definition speed_log :: "string \<Rightarrow> tm option \<Rightarrow> device \<Rightarrow> log_file \<Rightarrow> log_file" where
  "speed_log junk t d l =
     (let carinfo = fst (can760_message_process (can760_msg d) READ_MSG d);
          time_str = (case get_timestamp 50 t of Some s \<Rightarrow> s | None \<Rightarrow> junk)
      in data_log (snprintf 200 (''['' @ time_str @ ''] speed: '' @ decimal (unat (can_speed carinfo)) @ '' km/h'')) l)"

definition log_find_file :: "string \<Rightarrow> nat \<Rightarrow> log_file \<Rightarrow> log_file" where
  "log_find_file filepath now = data_log (snprintf 256 (''try find file:'' @ filepath @ '' ['' @ decimal now @ '']''))"

definition log_transmit_start :: "string \<Rightarrow> log_file \<Rightarrow> log_file" where
  "log_transmit_start filepath = data_log (snprintf 256 (''transmit '' @ filepath @ '' start''))"

definition log_transmit_over :: "string \<Rightarrow> log_file \<Rightarrow> log_file" where
  "log_transmit_over filepath = data_log (snprintf 256 (''transmit file over:'' @ filepath))"

definition log_photo_saved :: "build \<Rightarrow> u32 \<Rightarrow> log_file \<Rightarrow> log_file" where
  "log_photo_saved b i = data_log (snprintf 256 (''Saving image file '' @ mmid_to_filename b i))"

text \<open>The part of \<open>global_var_init\<close> that opens the log, with the file that is on the disk.\<close>

definition log_start :: "bool \<Rightarrow> tm option \<Rightarrow> log_file option \<Rightarrow> log_file option" where
  "log_start opens t old =
     (let l = \<lparr>log_fp = False, log_disk = (case old of None \<Rightarrow> [] | Some l \<Rightarrow> log_disk l), log_buffer = [], line_count = 0\<rparr>;
          size = log_size old
      in map_option (\<lambda>l. snd (record_run_time t l))
           (if size > LOG_SIZE_1G then data_log_init opens True l else data_log_init opens False l))"

section \<open>Lemmas\<close>

lemma length_decimal: "n < 10 ^ k \<Longrightarrow> 0 < k \<Longrightarrow> length (decimal n) \<le> k"
proof (induction k arbitrary: n)
  case (Suc k)
  show ?case
  proof (cases "n < 10")
    case False
    then have "k \<noteq> 0" using Suc.prems(1) by (cases k) auto
    moreover have "n div 10 < 10 ^ k" using Suc.prems(1) by (simp add: div_less_iff_less_mult mult.commute)
    ultimately have "length (decimal (n div 10)) \<le> k" by (intro Suc.IH) simp_all
    then show ?thesis using False by (subst decimal.simps) simp
  qed (subst decimal.simps, simp)
qed simp

lemma length_format_02d: "n < 1000 \<Longrightarrow> length (format_02d n) \<le> 3"
  using length_decimal [of n 3] by (simp add: format_02d_def Let_def)

lemma snprintf_fits [simp]: "length s < n \<Longrightarrow> snprintf n s = s"
  by (simp add: snprintf_def)

lemma sint_of_size:
  assumes "n < 2 ^ 32"
  shows "sint (word_of_nat n :: u32) = (if n < 2 ^ 31 then int n else int n - 2 ^ 32)"
proof -
  have n: "uint (word_of_nat n :: u32) = int n" using assms by (simp add: uint_nat unat_of_nat)
  have "n div 2 ^ 31 < 2" using assms by (simp add: div_less_iff_less_mult)
  then have "bit n 31 \<longleftrightarrow> \<not> n < 2 ^ 31"
    using div_eq_0_iff [of n "2 ^ 31"] by (auto simp: bit_iff_odd less_2_cases_iff)
  then have "bit (int n) 31 \<longleftrightarrow> \<not> n < 2 ^ 31" by (simp add: bit_of_nat_iff_bit)
  then show ?thesis
    using assms unfolding sint_uint n
    by (simp add: signed_take_bit_eq_take_bit_minus take_bit_int_eq_self)
qed

lemma char_of_digits:
  "char_of (48 :: nat) = CHR ''0''" "char_of (49 :: nat) = CHR ''1''" "char_of (50 :: nat) = CHR ''2''"
  "char_of (51 :: nat) = CHR ''3''" "char_of (52 :: nat) = CHR ''4''" "char_of (53 :: nat) = CHR ''5''"
  "char_of (54 :: nat) = CHR ''6''" "char_of (55 :: nat) = CHR ''7''" "char_of (56 :: nat) = CHR ''8''"
  "char_of (57 :: nat) = CHR ''9''"
  by code_simp+

lemmas format_simps = format_F_def format_T_def format_02d_def decimal.simps digit_char_def char_of_digits Let_def

text \<open>What is logged stays behind what was there, and nothing waits in the buffer.\<close>

definition log_ready :: "log_file \<Rightarrow> bool" where
  "log_ready l \<longleftrightarrow> log_fp l \<and> log_buffer l = [] \<and> line_count l = 0"

lemma data_log_ready:
  "log_ready l \<Longrightarrow> data_log s l = l\<lparr>log_disk := log_disk l @ s @ [CHR 0x0A]\<rparr>"
  by (cases l) (simp add: log_ready_def data_log_def FLUSH_THRESHOLD_def)

lemma log_ready_data_log [simp]: "log_ready l \<Longrightarrow> log_ready (data_log s l)"
  by (simp add: data_log_ready) (simp add: log_ready_def)

lemma alert_line_short:
  assumes "unat flag < 3"
  shows "length (alert_line b time type flag) < 256"
proof -
  have n: "length (format_02d (unat (time ! i))) \<le> 3" for i
  proof -
    have "unat (time ! i) < 2 ^ LENGTH(8)" by (rule unsigned_less)
    then show ?thesis by (intro length_format_02d) simp
  qed
  have "length (alert_status ! unat flag) \<le> 7"
    using assms by (auto simp: alert_status_def less_Suc_eq numeral_3_eq_3)
  moreover have "length (adas_alert_type_to_str type) \<le> 7" "length (dms_alert_type_to_str type) \<le> 13"
    by (simp_all add: adas_alert_type_to_str_def dms_alert_type_to_str_def)
  ultimately show ?thesis
    using n [of 0] n [of 1] n [of 2] n [of 3] n [of 4] n [of 5] by (cases b) (simp_all add: alert_line_def Let_def)
qed

section \<open>Properties\<close>

text \<open>the log survives a crash. Whatever is logged, each line is on the disk, behind the lines that
  were there and in order, when \<open>data_log\<close> returns: nothing is left in the buffer of the stream.\<close>

theorem log_lines_on_disk:
  assumes "log_ready l"
  shows "log_disk (fold data_log ls l) = log_disk l @ concat (map (\<lambda>s. s @ [CHR 0x0A]) ls) \<and>
    log_ready (fold data_log ls l)"
  using assms
proof (induction ls arbitrary: l)
  case (Cons s ls)
  then show ?case using Cons.IH [OF log_ready_data_log [OF Cons.prems], of s] by (simp add: data_log_ready)
qed simp

theorem log_lines_on_disk_witness:
  "log_disk (fold data_log [''a'', ''b''] \<lparr>log_fp = True, log_disk = ''x'', log_buffer = [], line_count = 0\<rparr>) =
     ''x'' @ concat (map (\<lambda>s. s @ [CHR 0x0A]) [''a'', ''b''])"
  using log_lines_on_disk [of "\<lparr>log_fp = True, log_disk = ''x'', log_buffer = [], line_count = 0\<rparr>" "[''a'', ''b'']"]
  by (simp add: log_ready_def)

text \<open>C40: the log at the start. A log of more than a hundred megabytes is emptied, a smaller one is
  continued, and so is one between two and four gigabytes, whose size is a negative \<open>int\<close>. The first new
  line is the time of the start.\<close>

theorem log_restart:
  assumes "length (log_disk old) < 2 ^ 32" "tm_year t < 8100" "tm_mon t < 12" "tm_mday t < 32" "tm_hour t < 24"
    "tm_min t < 60" "tm_sec t < 61"
  shows "\<exists>l. log_start True (Some t) (Some old) = Some l \<and> log_ready l \<and>
    log_disk l = (if 100 * 1024 * 1024 < length (log_disk old) \<and> length (log_disk old) < 2 ^ 31 then [] else log_disk old) @
      ''run time: '' @ format_F t @ '' '' @ format_T t @ [CHR 0x0A]"
proof -
  let ?n = "length (log_disk old)"
  let ?line = "''run time: '' @ format_F t @ '' '' @ format_T t"
  have "length (decimal (tm_year t + 1900)) \<le> 5" using assms(2) by (intro length_decimal) simp_all
  then have line: "strftime 200 ?line = Some ?line"
    using length_format_02d [of "tm_mon t + 1"] length_format_02d [of "tm_mday t"] length_format_02d [of "tm_hour t"]
      length_format_02d [of "tm_min t"] length_format_02d [of "tm_sec t"] assms
    by (simp add: strftime_def format_F_def format_T_def)
  have "log_size (Some old) = (if ?n < 2 ^ 31 then int ?n else int ?n - 2 ^ 32)"
    using assms(1) by (simp add: log_size_def sint_of_size)
  then have "log_size (Some old) > LOG_SIZE_1G \<longleftrightarrow> 100 * 1024 * 1024 < ?n \<and> ?n < 2 ^ 31"
    using assms(1) by (auto simp: LOG_SIZE_1G_def)
  then show ?thesis
    using line by (auto simp: log_start_def data_log_init_def create_logfile_def record_run_time_def data_log_ready log_ready_def)
qed

theorem log_restart_witness:
  "\<exists>l. log_start True (Some \<lparr>tm_year = 124, tm_mon = 4, tm_mday = 6, tm_hour = 7, tm_min = 8, tm_sec = 9\<rparr>)
      (Some \<lparr>log_fp = False, log_disk = ''x'', log_buffer = [], line_count = 0\<rparr>) = Some l \<and> log_ready l \<and>
    log_disk l = ''xrun time: 2024-05-06 07:08:09'' @ [CHR 0x0A]"
  using log_restart [of "\<lparr>log_fp = False, log_disk = ''x'', log_buffer = [], line_count = 0\<rparr>"
      "\<lparr>tm_year = 124, tm_mon = 4, tm_mday = 6, tm_hour = 7, tm_min = 8, tm_sec = 9\<rparr>"]
  by (simp add: format_simps)

text \<open>the line of an alert. For the three status flags of the protocol the line is logged whole, none
  of it is cut off by the 256 bytes of the buffer; any other flag reads behind the table of names.\<close>

theorem alert_logged:
  assumes "log_ready l"
  shows "if flag \<in> {SB_WARN_STATUS_NONE, SB_WARN_STATUS_BEGIN, SB_WARN_STATUS_END}
    then record_alert_log b time type flag l = Inr (l\<lparr>log_disk := log_disk l @ alert_line b time type flag @ [CHR 0x0A]\<rparr>)
    else record_alert_log b time type flag l = Inl Overrun_status"
proof -
  have "unat flag < 3 \<longleftrightarrow> flag \<in> {SB_WARN_STATUS_NONE, SB_WARN_STATUS_BEGIN, SB_WARN_STATUS_END}"
  proof -
    have "unat flag < 3 \<longleftrightarrow> unat flag = 0 \<or> unat flag = 1 \<or> unat flag = 2" by arith
    then show ?thesis by (simp add: word_unat_eq_iff)
  qed
  then show ?thesis
    using assms alert_line_short [of flag b time type]
    by (auto simp: record_alert_log_def data_log_ready alert_status_def not_less)
qed

theorem alert_logged_witness:
  "record_alert_log ENABLE_ADAS [24, 5, 6, 7, 8, 9] SB_WARN_TYPE_FCW SB_WARN_STATUS_BEGIN
      \<lparr>log_fp = True, log_disk = [], log_buffer = [], line_count = 0\<rparr> =
   Inr \<lparr>log_fp = True, log_disk = ''[240506 07:08:09] warn_type:FCW, status:begin'' @ [CHR 0x0A], log_buffer = [], line_count = 0\<rparr>"
  using alert_logged [of "\<lparr>log_fp = True, log_disk = [], log_buffer = [], line_count = 0\<rparr>" SB_WARN_STATUS_BEGIN
      ENABLE_ADAS "[24, 5, 6, 7, 8, 9]" SB_WARN_TYPE_FCW]
  by (simp add: log_ready_def alert_line_def adas_alert_type_to_str_def alert_status_def format_simps)

end
