(* ===== verification/Teardown.thy ===== *)
theory Teardown
  imports Send
begin

text \<open>
  The life of the buffers of \<open>g_handle\<close>: \<open>prot_init_pre\<close> allocates them before any thread runs and
  \<open>handle_distroy\<close> frees them when the receive thread ends, while the sending thread still copies
  messages into one of them. What a buffer holds is in the decoder and in the sender's handle; here is
  only whether its block is allocated. Also the signal handler of \<open>wsi.cpp\<close>.
\<close>

datatype block = Unallocated | Allocated | Released

record handle_bufs =
  rcvData_s :: block
  rcvData :: block
  sndData_s :: block

text \<open>An allocation that fails frees the earlier ones and leaves their pointers in the handle; the caller
  ignores the result.\<close>

definition prot_init_bufs :: "bool \<Rightarrow> bool \<Rightarrow> bool \<Rightarrow> int \<times> handle_bufs" where
  "prot_init_bufs malloc1 malloc2 malloc3 =
     (let b = \<lparr>rcvData_s = Unallocated, rcvData = Unallocated, sndData_s = Unallocated\<rparr> in
      if \<not> malloc1 then (- 1, b)
      else let b = b\<lparr>rcvData_s := Allocated\<rparr> in
        if \<not> malloc2 then (- 1, b\<lparr>rcvData_s := Released\<rparr>)
        else let b = b\<lparr>rcvData := Allocated\<rparr> in
          if \<not> malloc3 then (- 1, b\<lparr>rcvData := Released, rcvData_s := Released\<rparr>)
          else (0, b\<lparr>sndData_s := Allocated\<rparr>))"

text \<open>\<open>if(p) free(p)\<close>\<close>

primrec free_block :: "block \<Rightarrow> block outcome" where
  "free_block Unallocated = Inr Unallocated"
| "free_block Allocated = Inr Released"
| "free_block Released = Inl Double_free"

definition handle_distroy :: "handle_bufs \<Rightarrow> handle_bufs outcome" where
  "handle_distroy b =
     bindE (free_block (rcvData_s b)) (\<lambda>p1.
     bindE (free_block (rcvData b)) (\<lambda>p2.
     bindE (free_block (sndData_s b)) (\<lambda>p3.
     Inr \<lparr>rcvData_s = p1, rcvData = p2, sndData_s = p3\<rparr>)))"

text \<open>The receive thread calls it in the step that ends it.\<close>

definition teardown :: "recv_thread \<Rightarrow> recv_thread \<Rightarrow> handle_bufs \<Rightarrow> handle_bufs outcome" where
  "teardown r r' b = (if r_phase r = R_out \<and> r_phase r' = R_end then handle_distroy b else Inr b)"

text \<open>A turn of the sending thread with its buffer: the message at the head of the queue of a connected
  device is copied into \<open>sndData_s\<close>.\<close>

definition sender_turn ::
  "handle_bufs \<Rightarrow> env \<Rightarrow> (nat \<Rightarrow> attempt) \<Rightarrow> prot_handle \<Rightarrow> device
     \<Rightarrow> (int \<times> u8 list list \<times> prot_handle \<times> device) option outcome" where
  "sender_turn b e att handle d =
     (if send_data d \<noteq> 0 \<and> connect_status d \<and> send_q d \<noteq> [] \<and> sndData_s b = Released then Inl Use_after_free
      else if send_data d \<noteq> 0 \<and> connect_status d \<and> send_q d \<noteq> [] \<and> sndData_s b = Unallocated then Inl Null_pointer
      else pthread_process_send e att handle d)"

section \<open>The interrupt\<close>

definition pthread_exit_notice :: "device \<Rightarrow> device" where
  "pthread_exit_notice d = notice_tcp_send_exit d"

definition sighandler :: "recv_thread \<Rightarrow> device \<Rightarrow> recv_thread \<times> device" where
  "sighandler r d = (r\<lparr>r_force_exit := True\<rparr>, pthread_exit_notice d)"

section \<open>Lemmas\<close>

definition bufs_ready :: "handle_bufs \<Rightarrow> bool" where
  "bufs_ready b \<longleftrightarrow> rcvData_s b = Allocated \<and> rcvData b = Allocated \<and> sndData_s b = Allocated"

lemma bufs_ready_init [simp]: "bufs_ready (snd (prot_init_bufs True True True))"
  by (simp add: bufs_ready_def prot_init_bufs_def)

lemma handle_distroy_ready:
  "bufs_ready b \<Longrightarrow> handle_distroy b = Inr \<lparr>rcvData_s = Released, rcvData = Released, sndData_s = Released\<rparr>"
  by (simp add: bufs_ready_def handle_distroy_def)

lemma sender_turn_ready: "bufs_ready b \<Longrightarrow> sender_turn b e att handle d = pthread_process_send e att handle d"
  by (simp add: bufs_ready_def sender_turn_def)

lemma sender_turn_cases:
  "sender_turn b e att handle d \<in> {Inl Use_after_free, Inl Null_pointer, pthread_process_send e att handle d}"
  by (simp add: sender_turn_def)

inductive_cases recv_step_ended: "recv_step e s m"

lemma ended_stays: "recv_step e s (Inr s') \<Longrightarrow> r_phase s = R_end \<Longrightarrow> r_phase s' = R_end"
  by (erule recv_step_ended) auto

section \<open>Properties\<close>

text \<open>what \<open>prot_init_pre\<close> leaves to \<open>handle_distroy\<close>. When all three allocations succeed, or the
  first one fails, each block is freed exactly once; when the second or the third fails, the handle
  keeps the pointers to the blocks already freed and freeing them again is the end.\<close>

theorem handle_freed_once:
  "if malloc1 \<and> (\<not> malloc2 \<or> \<not> malloc3) then handle_distroy (snd (prot_init_bufs malloc1 malloc2 malloc3)) = Inl Double_free
   else \<exists>b. handle_distroy (snd (prot_init_bufs malloc1 malloc2 malloc3)) = Inr b \<and>
     (malloc1 \<longrightarrow> rcvData_s b = Released \<and> rcvData b = Released \<and> sndData_s b = Released)"
  by (simp add: prot_init_bufs_def handle_distroy_def Let_def)

theorem handle_freed_once_witness: "handle_distroy (snd (prot_init_bufs True True False)) = Inl Double_free"
  using handle_freed_once [of True True False] by simp

end
