(* ===== verification/Encoder.thy ===== *)
theory Encoder
  imports Media Log
begin

text \<open>
  The pictures of \<open>rb_rw.cpp\<close> that the program encodes itself: \<open>encode_process\<close> takes the frames of
  the raw camera stream, puts the time and the position on them and writes them as JPEG to a stream of
  its own (\<open>pthread_encode_jpeg\<close>), and \<open>store_one_mp4\<close> makes a video from such a stream. The thread
  is compiled but \<open>main\<close> does not start it. Also here: how \<open>pthread_save_media\<close> opens its camera and its
  readers, and \<open>timeout_trigger\<close> of \<open>common.cpp\<close>.

  The ring buffers, the drawing and the JPEG encoder are libraries. What a reader of the raw stream gets
  is the list of the results of its read requests, as in \<open>Media\<close>; the writer's requests succeed or
  not; drawing a text and encoding a picture are functions. The header of a frame is declared by the ring
  buffer library: the model has the members the program reads and writes, its two counters as wide as the
  variables they are copied to and from.
\<close>

section \<open>Time\<close>

record timespec =
  tv_sec :: int
  tv_nsec :: int

definition milliseconds :: "timespec \<Rightarrow> int" where
  "milliseconds t = tv_sec t * 1000 + tv_nsec t div 1000000"

definition timeout_trigger :: "timespec \<Rightarrow> timespec \<Rightarrow> int \<Rightarrow> bool" where
  "timeout_trigger cur tv sec \<longleftrightarrow> milliseconds cur - milliseconds tv > sec * 1000"

section \<open>Frames\<close>

type_synonym u64 = "64 word"

record RBFrame =
  rbf_frameIdx :: u64
  rbf_frameNo :: u64
  rbf_VWidth :: int
  rbf_VHeight :: int
  rbf_time :: int
  rbf_pts :: int
  rbf_data :: "u8 list option"   \<comment> \<open>\<open>None\<close> for a null pointer\<close>

text \<open>What the libraries do with a picture: the result of the hardware encoder and the bytes it wrote,
  and the picture with a text at a position.\<close>

record codec =
  hw_jpeg_encode :: "u8 list \<Rightarrow> int \<Rightarrow> int \<Rightarrow> int \<Rightarrow> int \<Rightarrow> int \<Rightarrow> int \<times> u8 list"
  putText :: "u8 list \<Rightarrow> int \<Rightarrow> int \<Rightarrow> string \<Rightarrow> int \<times> int \<Rightarrow> u8 list"

text \<open>The statics of \<open>encode_process\<close> and \<open>EncodeRingBufWrite\<close>, and the frames written so far.\<close>

record encoder =
  framecnt_old :: u64
  mFrameIdx :: u64
  written :: "RBFrame list"

definition EncodeRingBufWrite ::
  "bool \<Rightarrow> timespec \<Rightarrow> u8 list \<Rightarrow> int \<Rightarrow> int \<Rightarrow> encoder \<Rightarrow> int \<times> encoder" where
  "EncodeRingBufWrite room t buf width height s =
     (if \<not> room then (- 1, s)
      else let idx = mFrameIdx s; s = s\<lparr>mFrameIdx := idx + 1\<rparr>;
               f = \<lparr>rbf_frameIdx = idx, rbf_frameNo = mFrameIdx s, rbf_VWidth = width, rbf_VHeight = height,
                    rbf_time = milliseconds t, rbf_pts = milliseconds t, rbf_data = Some buf\<rparr>
           in (0, s\<lparr>written := written s @ [f]\<rparr>))"

section \<open>Encoding one picture\<close>

text \<open>The vector is made with room for half a megabyte and then cut or filled up to the number of bytes
  the encoder reports; a negative number is an exception.\<close>

definition jpeg_encode :: "codec \<Rightarrow> u8 list \<Rightarrow> int \<Rightarrow> int \<Rightarrow> int \<Rightarrow> int \<Rightarrow> int \<Rightarrow> u8 list outcome" where
  "jpeg_encode c data cols rows out_cols out_rows quality =
     (let (bytes, out) = hw_jpeg_encode c data cols rows out_cols out_rows quality;
          jpg_vec = out @ drop (length out) (replicate (512 * 1024) 0)
      in if bytes < 0 then Inl Uncaught_exception
         else Inr (take (nat bytes) jpg_vec @ replicate (nat bytes - length jpg_vec) 0))"

definition GetTimestamp :: "tm \<Rightarrow> string" where
  "GetTimestamp t = (case strftime 80 (format_F t @ '' '' @ format_T t) of Some s \<Rightarrow> s | None \<Rightarrow> [])"

text \<open>\<open>"%.6f"\<close> of a whole number of millionths below \<open>2^32\<close>: the quotient's rounding error is far
  below half a millionth, so the conversion prints the number exactly.\<close>

definition format_6f :: "u32 \<Rightarrow> string" where
  "format_6f x = (let s = decimal (unat x mod 1000000)
     in decimal (unat x div 1000000) @ ''.'' @ replicate (6 - length s) CHR ''0'' @ s)"

definition get_latitude_info :: "nat \<Rightarrow> device \<Rightarrow> string" where
  "get_latitude_info len d =
     (let tmp = fst (RealTimeDdata_process (rt_msg d) READ_MSG d)
      in snprintf len (''BD:'' @ format_6f (htonl (rt_latitude tmp)) @ ''N,'' @ format_6f (htonl (rt_longitude tmp)) @ ''E''))"

definition get_latitude_msg :: "device \<Rightarrow> string" where
  "get_latitude_msg d = get_latitude_info 80 d"

text \<open>The loop that waits for a frame worth encoding: the frame, what is left to read and
  \<open>framecnt_old\<close>; \<open>None\<close> while there is none.\<close>

fun next_frame :: "RBFrame option list \<Rightarrow> u64 \<Rightarrow> (RBFrame \<times> RBFrame option list \<times> u64) option" where
  "next_frame [] old = None"
| "next_frame (None # rs) old = next_frame rs old"
| "next_frame (Some f # rs) old =
     (if rbf_data f = None \<or> rbf_VWidth f = 0 \<or> rbf_VHeight f = 0 then next_frame rs old
      else if rbf_frameNo f = old then next_frame rs old
      else if rbf_frameNo f mod 3 = 0 then next_frame rs (rbf_frameNo f)
      else Some (f, rs, rbf_frameNo f))"

lemma next_frame_shorter: "next_frame rs old = Some (f, rs', old') \<Longrightarrow> length rs' < length rs"
  by (induction rs old rule: next_frame.induct) (auto split: if_splits)

text \<open>What differs from one call to the next: whether the writer got room for its two frames, the clock,
  the time of day and the position.\<close>

record encode_turn =
  et_exit :: bool
  et_room :: "bool \<times> bool"
  et_now :: timespec
  et_tm :: tm
  et_dev :: device

definition draw_labels :: "codec \<Rightarrow> encode_turn \<Rightarrow> RBFrame \<Rightarrow> u8 list" where
  "draw_labels c t f =
     (let image = (case rbf_data f of Some bs \<Rightarrow> bs | None \<Rightarrow> []);
          image = putText c image (rbf_VWidth f) (rbf_VHeight f) (GetTimestamp (et_tm t)) (20, 60)
      in putText c image (rbf_VWidth f) (rbf_VHeight f) (get_latitude_msg (et_dev t)) (20, 120))"

definition encode_process ::
  "codec \<Rightarrow> encode_turn \<Rightarrow> int \<Rightarrow> int \<Rightarrow> int \<Rightarrow> RBFrame option list \<Rightarrow> encoder
     \<Rightarrow> (int \<times> RBFrame option list \<times> encoder) outcome option" where
  "encode_process c t quality width height rs s =
     (case next_frame rs (framecnt_old s) of
        None \<Rightarrow> None
      | Some (f, rs, old) \<Rightarrow> Some (
          let s = s\<lparr>framecnt_old := old\<rparr> in
          bindE (jpeg_encode c (draw_labels c t f) (rbf_VWidth f) (rbf_VHeight f) width height quality) (\<lambda>jpg_vec.
            let (r1, s) = EncodeRingBufWrite (fst (et_room t)) (et_now t) jpg_vec width height s;
                (r2, s) = EncodeRingBufWrite (snd (et_room t)) (et_now t) jpg_vec width height s
            in Inr (0, rs, s))))"

section \<open>The thread\<close>

record encode_thread =
  th_enc :: encoder
  th_cnt :: nat
  th_t :: timespec
  th_speeds :: "nat list"   \<comment> \<open>the counts it has printed\<close>

text \<open>The loop over its turns, until \<open>force_exit\<close> is seen or the thread waits for a frame.\<close>

fun pthread_encode_jpeg ::
  "codec \<Rightarrow> encode_turn list \<Rightarrow> RBFrame option list \<Rightarrow> encode_thread \<Rightarrow> encode_thread outcome" where
  "pthread_encode_jpeg c [] rs th = Inr th"
| "pthread_encode_jpeg c (t # ts) rs th =
     (if et_exit t then Inr th
      else case encode_process c t 50 704 576 rs (th_enc th) of
          None \<Rightarrow> Inr th
        | Some m \<Rightarrow> bindE m (\<lambda>(ret, rs, s).
            let th = th\<lparr>th_enc := s, th_cnt := (if ret = 0 then th_cnt th + 1 else th_cnt th)\<rparr>;
                th = (if timeout_trigger (et_now t) (th_t th) 2
                      then th\<lparr>th_t := et_now t, th_speeds := th_speeds th @ [th_cnt th], th_cnt := 0\<rparr> else th)
            in pthread_encode_jpeg c ts rs th))"

definition ConfigResolution :: "(int \<times> int) list" where
  "ConfigResolution = [(352, 288), (352, 288), (704, 288), (704, 576), (640, 480), (1280, 720), (1920, 1080)]"

definition GetConfigResolution :: "build \<Rightarrow> device \<Rightarrow> int \<times> int" where
  "GetConfigResolution b d =
     (case b of ENABLE_ADAS \<Rightarrow> ConfigResolution ! (unat (image_Resolution (adas_para (d_paras d))) mod 6)
      | ENABLE_DMS \<Rightarrow> ConfigResolution ! (unat (image_Resolution (dms_para (d_paras d))) mod 6))"

section \<open>A video from the encoded stream\<close>

definition ENCODE_FRAME_SPEED_MAX :: int where "ENCODE_FRAME_SPEED_MAX = 65"

text \<open>\<open>request_jpeg_frame\<close> over the frames of this stream.\<close>

fun request_frame :: "nat \<Rightarrow> RBFrame option list \<Rightarrow> (RBFrame option \<times> RBFrame option list) option" where
  "request_frame n [] = None"
| "request_frame n (Some f # rs) = Some (Some f, rs)"
| "request_frame 0 (None # rs) = Some (None, rs)"
| "request_frame (Suc n) (None # rs) = request_frame n rs"

definition frame_bytes_of :: "RBFrame \<Rightarrow> u8 list" where
  "frame_bytes_of f = (case rbf_data f of Some bs \<Rightarrow> bs | None \<Rightarrow> [])"

text \<open>\<open>while(framecnt--)\<close>: the pictures handed to the MP4 writer, until the stream has none.\<close>

fun mp4_frames :: "nat \<Rightarrow> RBFrame option list \<Rightarrow> u8 list list option" where
  "mp4_frames 0 rs = Some []"
| "mp4_frames (Suc n) rs =
     (case request_frame 10 rs of
        None \<Rightarrow> None
      | Some (None, rs) \<Rightarrow> Some []
      | Some (Some f, rs) \<Rightarrow> map_option (\<lambda>fs. frame_bytes_of f # fs) (mp4_frames n rs))"

text \<open>The time the function sleeps before it looks for the last frame.\<close>

definition mp4_wait_time :: "InfoForStore \<Rightarrow> u32 \<Rightarrow> u32" where
  "mp4_wait_time mm jpg_time = ucast (st_video_time mm) * 1000000 - jpg_time"

text \<open>What the MP4 writer makes of a rate, a size and pictures is \<open>mp4\<close>. The reads of the two seeks
  and of the loop follow each other in \<open>rs\<close>. The first component is the time slept.\<close>

definition store_one_mp4 ::
  "(int \<Rightarrow> int \<Rightarrow> int \<Rightarrow> u8 list list \<Rightarrow> u8 list) \<Rightarrow> MmInfo_node \<Rightarrow> env \<Rightarrow> RBFrame option list \<Rightarrow> InfoForStore \<Rightarrow> u32
     \<Rightarrow> device \<Rightarrow> (u32 \<times> device) outcome option" where
  "store_one_mp4 mp4 stack_node e rs mm jpg_time d =
     (if st_video_enable mm = 0 then Some (Inr (0, d))
      else let wait_time = mp4_wait_time mm jpg_time in
        (case request_frame 10 rs of
           None \<Rightarrow> None
         | Some (None, rs) \<Rightarrow> Some (Inr (wait_time, d))
         | Some (Some pEnd, rs) \<Rightarrow>
             (case request_frame 10 rs of
                None \<Rightarrow> None
              | Some (None, rs) \<Rightarrow> Some (Inr (wait_time, d))
              | Some (Some pBegin, rs) \<Rightarrow>
                  (let FrameNumEnd = ucast (rbf_frameNo pEnd) :: u32;
                       seektime = 2 * uint (st_video_time mm);
                       framecnt = ucast (ucast FrameNumEnd - rbf_frameNo pBegin) :: u32;
                       fps = uint framecnt div seektime
                   in if seektime = 0 then Some (Inl Division_by_zero)
                      else if fps > ENCODE_FRAME_SPEED_MAX \<or> fps < 0 then Some (Inr (wait_time, d))
                      else map_option (\<lambda>fs.
                        let path = mmid_to_filename (e_build e) (st_video_id mm ! 0);
                            out = take (fs_room (e_fs e)) (mp4 fps (rbf_VWidth pBegin) (rbf_VHeight pBegin) fs);
                            d = (if fs_open (e_fs e) path then d\<lparr>d_files := (d_files d)(path \<mapsto> out)\<rparr> else d);
                            node = stack_node\<lparr>node_warn_type := st_warn_type mm, node_mm_type := MM_VIDEO,
                                              node_mm_id := st_video_id mm ! 0\<rparr>
                        in Inr (wait_time, d\<lparr>mmlist := insert_mm_resouce node (mmlist d)\<rparr>))
                        (mp4_frames (unat framecnt) rs)))))"

section \<open>Opening the cameras\<close>

text \<open>The name and the size of a camera's ring buffer come from the camera library; \<open>strcpy\<close> puts the
  name and its terminator in an array of 50 bytes.\<close>

record ring_buffer =
  rb_name :: string
  rb_size :: int

datatype ma_rb_type = MA_RB_TYPE_ADAS_JPG | MA_RB_TYPE_DRIVER_JPG | MA_RB_TYPE_ADAS_RAW | MA_RB_TYPE_DRIVER_RAW

definition open_camera :: "(ma_rb_type \<Rightarrow> ring_buffer) \<Rightarrow> ma_rb_type \<Rightarrow> camera \<Rightarrow> (ring_buffer \<times> camera) outcome" where
  "open_camera ma type camera_dev =
     (if length (rb_name (ma type)) \<ge> 50 then Inl Overrun_rbname else Inr (ma type, camera_dev))"

definition open_adas_camera :: "(ma_rb_type \<Rightarrow> ring_buffer) \<Rightarrow> (ring_buffer \<times> camera) outcome" where
  "open_adas_camera ma = open_camera ma MA_RB_TYPE_ADAS_JPG ADAS_CAMERA"

definition open_dms_camera :: "(ma_rb_type \<Rightarrow> ring_buffer) \<Rightarrow> (ring_buffer \<times> camera) outcome" where
  "open_dms_camera ma = open_camera ma MA_RB_TYPE_DRIVER_JPG DMS_CAMERA"

definition adas_jpeg_user :: "string list" where
  "adas_jpeg_user = [''adas_fcw_jpeg'', ''adas_ldw_jpeg'', ''adas_hw_jpeg'', ''adas_snap_jpeg'']"
definition dms_jpeg_user :: "string list" where
  "dms_jpeg_user = [''dms_fatigue_jpeg'', ''dms_calling_jpeg'', ''dms_smoking_jpeg'', ''dms_distract_jpeg'',
     ''dms_absence_jpeg'', ''dms_snap_jpeg'']"

text \<open>The readers \<open>prb\<close> of \<open>pthread_save_media\<close>: user, buffer name and size of each.\<close>

definition save_media_readers :: "build \<Rightarrow> (ma_rb_type \<Rightarrow> ring_buffer) \<Rightarrow> (string \<times> string \<times> int) list outcome" where
  "save_media_readers b ma =
     (case b of
        ENABLE_ADAS \<Rightarrow> bindE (open_adas_camera ma) (\<lambda>(rb, cam). Inr (map (\<lambda>u. (u, rb_name rb, rb_size rb)) adas_jpeg_user))
      | ENABLE_DMS \<Rightarrow> bindE (open_dms_camera ma) (\<lambda>(rb, cam). Inr (map (\<lambda>u. (u, rb_name rb, rb_size rb)) dms_jpeg_user)))"

text \<open>What \<open>pthread_encode_jpeg\<close> opens before its loop: both cameras, and the ring buffers it reads from
  and writes to, each with its user, name and size. When it ends it deletes one of the two.\<close>

definition ADAS_JPEG_SIZE :: int where "ADAS_JPEG_SIZE = 32 * 1024 * 1024"
definition DMS_JPEG_SIZE :: int where "DMS_JPEG_SIZE = 16 * 1024 * 1024"

record encode_rings =
  er_cameras :: "camera list"
  er_reader :: "(string \<times> string \<times> int) option"
  er_writer :: "(string \<times> string \<times> int) option"

definition encode_setup :: "build \<Rightarrow> (ma_rb_type \<Rightarrow> ring_buffer) \<Rightarrow> encode_rings" where
  "encode_setup b ma =
     (case b of
        ENABLE_ADAS \<Rightarrow>
          (let rb = ma MA_RB_TYPE_ADAS_RAW
           in \<lparr>er_cameras = [ADAS_CAMERA, DMS_CAMERA], er_reader = Some (''adas_encode_jpeg'', rb_name rb, rb_size rb),
               er_writer = Some (''adas_producer'', ''adas_jpg'', ADAS_JPEG_SIZE)\<rparr>)
      | ENABLE_DMS \<Rightarrow>
          (let rb = ma MA_RB_TYPE_DRIVER_RAW
           in \<lparr>er_cameras = [ADAS_CAMERA, DMS_CAMERA], er_reader = Some (''dms_encode_jpeg'', rb_name rb, rb_size rb),
               er_writer = Some (''dms_producer'', ''dms_jpg'', DMS_JPEG_SIZE)\<rparr>))"

definition encode_end :: "build \<Rightarrow> encode_rings \<Rightarrow> encode_rings" where
  "encode_end b r = (case b of ENABLE_ADAS \<Rightarrow> r\<lparr>er_reader := None\<rparr> | ENABLE_DMS \<Rightarrow> r\<lparr>er_writer := None\<rparr>)"

lemma encode_end_leaves_one:
  "(er_reader (encode_end b (encode_setup b ma)) = None) \<noteq> (er_writer (encode_end b (encode_setup b ma)) = None)"
  by (simp add: encode_end_def encode_setup_def Let_def split: build.split)

text \<open>A trial recording.\<close>

definition test_record_video :: "camera_call list \<times> mp4_request list" where
  "test_record_video =
     ([record_configure ADAS_CAMERA 704 576 (1 * 1024 * 1024), record_start ADAS_CAMERA],
      [\<lparr>rq_camera = ADAS_CAMERA, rq_user = ''zhao'', rq_file = ''/data/0002'', rq_seek = - 2, rq_time = 4\<rparr>])"

text \<open>The names of the users fit in their arrays of 30 bytes, in both builds.\<close>

lemma user_names_fit:
  "\<forall>b. \<forall>u \<in> set (case b of ENABLE_ADAS \<Rightarrow> adas_video_user @ related_adas_user @ adas_jpeg_user
      | ENABLE_DMS \<Rightarrow> dms_video_user @ related_dms_user @ dms_jpeg_user). length u < 30"
  by code_simp

text \<open>The line \<open>record_video_media\<close> logs for the request it has made, whose result is \<open>ret\<close>.\<close>

definition format_d :: "int \<Rightarrow> string" where
  "format_d n = (if n < 0 then ''-'' @ decimal (nat (- n)) else decimal (nat n))"

definition log_video_write :: "build \<Rightarrow> camera \<Rightarrow> int \<Rightarrow> string \<Rightarrow> InfoForStore \<Rightarrow> log_file \<Rightarrow> log_file" where
  "log_video_write b camera_dev ret user info =
     (let file = mmid_to_filename b (st_video_id info ! 0);
          seektime = 0 - uint (st_video_time info);
          videotime = 2 * uint (st_video_time info);
          tail = '', file:'' @ file @ '', seek='' @ format_d seektime @ '', time='' @ format_d videotime
      in data_log (snprintf 256 (case camera_dev of
           ADAS_CAMERA \<Rightarrow> ''adas write ret ='' @ format_d ret @ '', user='' @ user @ tail
         | DMS_CAMERA \<Rightarrow> ''dms write ret = '' @ format_d ret @ '', user = '' @ user @ tail)))"

section \<open>Which frames are encoded\<close>

text \<open>The specification: of the frames the reader finds, those with a picture in them; of runs with the
  same number (the frame is read again while no newer one has come) the first; of these the ones whose
  number is not divisible by three.\<close>

definition has_picture :: "RBFrame \<Rightarrow> bool" where
  "has_picture f \<longleftrightarrow> rbf_data f \<noteq> None \<and> rbf_VWidth f \<noteq> 0 \<and> rbf_VHeight f \<noteq> 0"

fun new_frames :: "u64 \<Rightarrow> RBFrame list \<Rightarrow> RBFrame list" where
  "new_frames old [] = []"
| "new_frames old (f # fs) =
     (if rbf_frameNo f = old then new_frames old fs else f # new_frames (rbf_frameNo f) fs)"

definition pictures :: "RBFrame option list \<Rightarrow> RBFrame list" where
  "pictures rs = filter has_picture (map the (filter (\<lambda>r. r \<noteq> None) rs))"

definition chosen :: "u64 \<Rightarrow> RBFrame option list \<Rightarrow> RBFrame list" where
  "chosen old rs = filter (\<lambda>f. rbf_frameNo f mod 3 \<noteq> 0) (new_frames old (pictures rs))"

lemma pictures_simps [simp]:
  "pictures [] = []" "pictures (None # rs) = pictures rs"
  "pictures (Some f # rs) = (if has_picture f then f # pictures rs else pictures rs)"
  by (simp_all add: pictures_def)

lemma next_frame_chosen:
  "chosen old rs = (case next_frame rs old of None \<Rightarrow> [] | Some (f, rs', old') \<Rightarrow> f # chosen old' rs')"
  by (induction rs old rule: next_frame.induct) (auto simp: chosen_def has_picture_def)

section \<open>What is written\<close>

text \<open>An encoder that always answers with the picture it made, and a writer that has room.\<close>

definition encoder_works :: "codec \<Rightarrow> bool" where
  "encoder_works c \<longleftrightarrow> (\<forall>data w h ow oh q. 0 \<le> fst (hw_jpeg_encode c data w h ow oh q) \<and>
     length (snd (hw_jpeg_encode c data w h ow oh q)) = nat (fst (hw_jpeg_encode c data w h ow oh q)) \<and>
     length (snd (hw_jpeg_encode c data w h ow oh q)) \<le> 512 * 1024)"

definition turn_ok :: "encode_turn \<Rightarrow> bool" where
  "turn_ok t \<longleftrightarrow> \<not> et_exit t \<and> et_room t = (True, True) \<and> tm_year (et_tm t) < 8100 \<and> tm_mon (et_tm t) < 12 \<and>
     tm_mday (et_tm t) < 32 \<and> tm_hour (et_tm t) < 24 \<and> tm_min (et_tm t) < 60 \<and> tm_sec (et_tm t) < 61"

text \<open>The labels of a picture: the date and the time of day in the first line, the position of the last
  real-time message in the second.\<close>

definition time_label :: "tm \<Rightarrow> string" where
  "time_label t = decimal (tm_year t + 1900) @ ''-'' @ format_02d (tm_mon t + 1) @ ''-'' @ format_02d (tm_mday t) @ '' '' @
     format_02d (tm_hour t) @ '':'' @ format_02d (tm_min t) @ '':'' @ format_02d (tm_sec t)"

definition position_label :: "RealTimeData \<Rightarrow> string" where
  "position_label rt = ''BD:'' @ format_6f (htonl (rt_latitude rt)) @ ''N,'' @ format_6f (htonl (rt_longitude rt)) @ ''E''"

text \<open>The JPEG of a frame: its picture with both labels, encoded at 704 x 576.\<close>

definition jpeg_of :: "codec \<Rightarrow> encode_turn \<Rightarrow> RBFrame \<Rightarrow> u8 list" where
  "jpeg_of c t f =
     (let w = rbf_VWidth f; h = rbf_VHeight f;
          dated = putText c (the (rbf_data f)) w h (time_label (et_tm t)) (20, 60);
          labelled = putText c dated w h (position_label (rt_msg (et_dev t))) (20, 120)
      in snd (hw_jpeg_encode c labelled w h 704 576 50))"

text \<open>The two frames made of one picture, the first with the number \<open>n\<close>.\<close>

definition twice :: "codec \<Rightarrow> u64 \<Rightarrow> encode_turn \<times> RBFrame \<Rightarrow> RBFrame list" where
  "twice c n = (\<lambda>(t, f). map (\<lambda>i. \<lparr>rbf_frameIdx = i - 1, rbf_frameNo = i, rbf_VWidth = 704, rbf_VHeight = 576,
     rbf_time = milliseconds (et_now t), rbf_pts = milliseconds (et_now t), rbf_data = Some (jpeg_of c t f)\<rparr>) [n, n + 1])"

fun encoded :: "codec \<Rightarrow> u64 \<Rightarrow> (encode_turn \<times> RBFrame) list \<Rightarrow> RBFrame list" where
  "encoded c n [] = []"
| "encoded c n (x # xs) = twice c (n + 1) x @ encoded c (n + 2) xs"

lemma jpeg_encode_works:
  "encoder_works c \<Longrightarrow> jpeg_encode c data w h ow oh q = Inr (snd (hw_jpeg_encode c data w h ow oh q))"
  by (simp add: encoder_works_def jpeg_encode_def Let_def split_beta not_less [symmetric])

lemma time_drawn:
  assumes "turn_ok t"
  shows "GetTimestamp (et_tm t) = time_label (et_tm t)"
proof -
  have "length (decimal (tm_year (et_tm t) + 1900)) \<le> 5"
    using assms by (intro length_decimal) (simp_all add: turn_ok_def)
  then have "length (time_label (et_tm t)) < 80"
    using length_format_02d [of "tm_mon (et_tm t) + 1"] length_format_02d [of "tm_mday (et_tm t)"]
      length_format_02d [of "tm_hour (et_tm t)"] length_format_02d [of "tm_min (et_tm t)"]
      length_format_02d [of "tm_sec (et_tm t)"] assms
    by (simp add: time_label_def turn_ok_def)
  moreover have "format_F (et_tm t) @ '' '' @ format_T (et_tm t) = time_label (et_tm t)"
    by (simp add: format_F_def format_T_def time_label_def)
  ultimately show ?thesis by (simp only: GetTimestamp_def strftime_def if_True option.case)
qed

lemma length_format_6f: "length (format_6f x) \<le> 11"
proof -
  have "unat x < 2 ^ 32" using unsigned_less [of x] by simp
  then have "length (decimal (unat x div 1000000)) \<le> 4" "length (decimal (unat x mod 1000000)) \<le> 6"
    by (intro length_decimal; simp)+
  then show ?thesis by (simp add: format_6f_def Let_def)
qed

lemma position_drawn: "get_latitude_msg d = position_label (rt_msg d)"
proof -
  have "length (position_label (rt_msg d)) < 80"
    using length_format_6f [of "htonl (rt_latitude (rt_msg d))"] length_format_6f [of "htonl (rt_longitude (rt_msg d))"]
    by (simp add: position_label_def)
  then show ?thesis
    by (simp add: get_latitude_msg_def get_latitude_info_def RealTimeDdata_process_def position_label_def Let_def)
qed

lemma next_frame_picture: "next_frame rs old = Some (f, rs', old') \<Longrightarrow> \<exists>bs. rbf_data f = Some bs"
  by (induction rs old rule: next_frame.induct) (auto split: if_splits)

lemma encode_process_works:
  assumes "encoder_works c" "turn_ok t"
  shows "encode_process c t 50 704 576 rs s =
    map_option (\<lambda>(f, rs', old). Inr (0, rs', s\<lparr>framecnt_old := old, mFrameIdx := mFrameIdx s + 2,
      written := written s @ twice c (mFrameIdx s + 1) (t, f)\<rparr>)) (next_frame rs (framecnt_old s))"
proof (cases "next_frame rs (framecnt_old s)")
  case (Some x)
  obtain f rs' old where x: "x = (f, rs', old)" by (cases x)
  obtain bs where bs: "rbf_data f = Some bs" using next_frame_picture Some x by blast
  have "et_room t = (True, True)" using assms(2) by (simp add: turn_ok_def)
  then show ?thesis
    by (simp add: Some x encode_process_def jpeg_encode_works [OF assms(1)] EncodeRingBufWrite_def twice_def jpeg_of_def
        draw_labels_def bs time_drawn [OF assms(2)] position_drawn Let_def)
qed (simp add: encode_process_def)

lemma encode_thread_works:
  assumes "encoder_works c"
  shows "\<forall>t \<in> set ts. turn_ok t \<Longrightarrow>
    \<exists>th'. pthread_encode_jpeg c ts rs th = Inr th' \<and>
      written (th_enc th') = written (th_enc th) @
        encoded c (mFrameIdx (th_enc th)) (zip ts (chosen (framecnt_old (th_enc th)) rs))"
proof (induction ts arbitrary: rs th)
  case (Cons t ts)
  then have t: "turn_ok t" "\<not> et_exit t" by (auto simp: turn_ok_def)
  show ?case
  proof (cases "next_frame rs (framecnt_old (th_enc th))")
    case None
    then show ?thesis
      using t by (simp add: encode_process_works [OF assms] next_frame_chosen [of _ rs])
  next
    case (Some x)
    obtain f rs' old where x: "x = (f, rs', old)" by (cases x)
    let ?s = "(th_enc th)\<lparr>framecnt_old := old, mFrameIdx := mFrameIdx (th_enc th) + 2,
      written := written (th_enc th) @ twice c (mFrameIdx (th_enc th) + 1) (t, f)\<rparr>"
    have IH: "\<exists>th'. pthread_encode_jpeg c ts rs' th1 = Inr th' \<and> written (th_enc th') = written ?s @
        encoded c (mFrameIdx ?s) (zip ts (chosen (framecnt_old ?s) rs'))" if "th_enc th1 = ?s" for th1
      using Cons.IH [of rs' th1] Cons.prems that by simp
    show ?thesis
      using t Some x IH by (simp add: encode_process_works [OF assms] next_frame_chosen [of _ rs] Let_def)
  qed
qed simp

section \<open>Counting frames\<close>

lemma mp4_frames_read:
  "mp4_frames (length fs) (map Some fs @ rs) = Some (map frame_bytes_of fs)"
  by (induction fs) simp_all

lemma frame_count:
  fixes f :: u64
  shows "ucast (ucast (ucast (f + of_nat n) :: u32) - f) = (of_nat n :: u32)"
proof -
  have "take_bit 32 (take_bit 64 a + take_bit 64 b) = take_bit 32 (a + b)" for a b :: int
    using take_bit_add [of 32 "take_bit 64 a" "take_bit 64 b"] take_bit_add [of 32 a b] by simp
  then have add: "(ucast (a + b) :: u32) = ucast a + ucast b" for a b :: u64
    by transfer simp
  have sub: "(ucast (a - b) :: u32) = ucast a - ucast b" for a b :: u64
    using add [of "a - b" b] by simp
  have "(ucast (ucast w :: u64) :: u32) = w" "(ucast (of_nat n :: u64) :: u32) = of_nat n" for w :: u32
    by (transfer; simp add: min_def)+
  then show ?thesis by (simp add: sub add)
qed

section \<open>Properties\<close>

text \<open>C19: the encoder takes two of three frames. As long as the library encodes and the writer has room,
  the thread makes one JPEG of each frame that has a picture, is new and has a number not divisible by
  three, in order, and writes each twice. On the picture are, as \<open>jpeg_of\<close> spells out, the date and time
  of the turn in a first line and the position of the last real-time message in a second one; the numbers of
  the frames written go up by one without a gap.\<close>

theorem encodes_two_of_three:
  assumes "encoder_works c" "\<forall>t \<in> set ts. turn_ok t"
  shows "\<exists>th'. pthread_encode_jpeg c ts rs \<lparr>th_enc = \<lparr>framecnt_old = 0, mFrameIdx = 0, written = []\<rparr>, th_cnt = 0, th_t = t0, th_speeds = []\<rparr> = Inr th' \<and>
    written (th_enc th') = encoded c 0 (zip ts (chosen 0 rs)) \<and>
    map rbf_frameNo (written (th_enc th')) = map (\<lambda>i. of_nat (Suc i)) [0 ..< 2 * min (length ts) (length (chosen 0 rs))]"
proof -
  have numbers: "map rbf_frameNo (encoded c n xs) = map (\<lambda>i. n + of_nat (Suc i)) [0 ..< 2 * length xs]" for n xs
  proof (induction xs arbitrary: n)
    case (Cons x xs)
    have two: "map (\<lambda>i. n + of_nat (Suc i)) [0 ..< 2 + m] = [n + 1, n + 2] @ map (\<lambda>i. n + 2 + of_nat (Suc i)) [0 ..< m]" for m
      by (simp add: upt_conv_Cons map_Suc_upt [symmetric] add_ac del: upt_Suc)
    have len: "2 * length (x # xs) = 2 + 2 * length xs" by simp
    show ?case unfolding len two using Cons [of "n + 2"] by (simp add: twice_def split_beta add_ac)
  qed simp
  show ?thesis
    using encode_thread_works [OF assms, of rs "\<lparr>th_enc = \<lparr>framecnt_old = 0, mFrameIdx = 0, written = []\<rparr>, th_cnt = 0, th_t = t0, th_speeds = []\<rparr>"]
      numbers [of 0 "zip ts (chosen 0 rs)"] by auto
qed

definition plain_codec :: codec where
  "plain_codec = \<lparr>hw_jpeg_encode = \<lambda>data w h ow oh q. (int (length (take 100 data)), take 100 data),
     putText = \<lambda>image w h s p. image @ map of_char s\<rparr>"

definition raw_frame :: "u64 \<Rightarrow> RBFrame option" where
  "raw_frame i = Some \<lparr>rbf_frameIdx = i, rbf_frameNo = i, rbf_VWidth = 1, rbf_VHeight = 1, rbf_time = 0, rbf_pts = 0, rbf_data = Some [7]\<rparr>"

definition encode_now :: encode_turn where
  "encode_now = \<lparr>et_exit = False, et_room = (True, True), et_now = \<lparr>tv_sec = 5, tv_nsec = 0\<rparr>,
     et_tm = \<lparr>tm_year = 124, tm_mon = 4, tm_mday = 6, tm_hour = 7, tm_min = 8, tm_sec = 9\<rparr>, et_dev = idle_device\<rparr>"

theorem encodes_two_of_three_witness:
  "\<exists>th'. pthread_encode_jpeg plain_codec (replicate 3 encode_now) [raw_frame 1, raw_frame 1, None, raw_frame 2, raw_frame 3]
      \<lparr>th_enc = \<lparr>framecnt_old = 0, mFrameIdx = 0, written = []\<rparr>, th_cnt = 0, th_t = \<lparr>tv_sec = 4, tv_nsec = 0\<rparr>, th_speeds = []\<rparr> = Inr th' \<and>
    map rbf_frameNo (written (th_enc th')) = [1, 2, 3, 4]"
proof -
  have "encoder_works plain_codec" by (simp add: encoder_works_def plain_codec_def min_le_iff_disj)
  moreover have "\<forall>t \<in> set (replicate 3 encode_now). turn_ok t" by (simp add: turn_ok_def encode_now_def)
  moreover have "length (chosen 0 [raw_frame 1, raw_frame 1, None, raw_frame 2, raw_frame 3]) = 2"
    by (simp add: chosen_def raw_frame_def has_picture_def)
  moreover have "map (\<lambda>i. of_nat (Suc i)) [0 ..< 2 * min 3 2] = [1, 2, 3, 4 :: u64]" by (simp add: upt_rec)
  ultimately show ?thesis
    using encodes_two_of_three [of plain_codec "replicate 3 encode_now"
        "[raw_frame 1, raw_frame 1, None, raw_frame 2, raw_frame 3]" "\<lparr>tv_sec = 4, tv_nsec = 0\<rparr>"]
    by (metis length_replicate)
qed

text \<open>The sleep before a video is a difference of unsigned numbers. When taking the photos lasted longer
  than half the video, it wraps: the function sleeps for over an hour.\<close>

theorem mp4_wait_wraps:
  "uint (mp4_wait_time mm jpg_time) =
     (if uint jpg_time \<le> uint (st_video_time mm) * 1000000 then uint (st_video_time mm) * 1000000 - uint jpg_time
      else 2 ^ 32 - (uint jpg_time - uint (st_video_time mm) * 1000000))"
proof -
  have v: "uint (st_video_time mm) < 256" "0 \<le> uint (st_video_time mm)"
    using uint_lt2p [of "st_video_time mm"] by simp_all
  then have p: "uint (ucast (st_video_time mm) * 1000000 :: u32) = uint (st_video_time mm) * 1000000"
    by (simp add: uint_word_ariths unsigned_ucast_eq take_bit_int_eq_self)
  have "uint jpg_time < 2 ^ 32" "0 \<le> uint jpg_time" using uint_lt2p [of jpg_time] by simp_all
  then show ?thesis
    unfolding mp4_wait_time_def using v p by (simp add: uint_sub_if')
qed

text \<open>the resolution the parameters ask for. The codes from 1 to 5 give the size of the protocol's table;
  code 6, 1920 x 1080 in that table, and code 0 give 352 x 288, because the code is reduced modulo six.\<close>

theorem config_resolution_table:
  assumes "code = (case b of ENABLE_ADAS \<Rightarrow> image_Resolution (adas_para (d_paras d))
                   | ENABLE_DMS \<Rightarrow> image_Resolution (dms_para (d_paras d)))"
  shows "(code \<in> {0, 6} \<longrightarrow> GetConfigResolution b d = (352, 288)) \<and>
    (code \<in> {1, 2, 3, 4, 5} \<longrightarrow>
       GetConfigResolution b d = [(352, 288), (704, 288), (704, 576), (640, 480), (1280, 720)] ! (unat code - 1))"
  using assms by (cases b) (auto simp: GetConfigResolution_def ConfigResolution_def)

theorem config_resolution_table_witness:
  "GetConfigResolution ENABLE_ADAS (idle_device\<lparr>d_paras := (d_paras idle_device)\<lparr>adas_para :=
     (adas_para (d_paras idle_device))\<lparr>image_Resolution := 6\<rparr>\<rparr>\<rparr>) = (352, 288)"
  using config_resolution_table [OF refl, where b = ENABLE_ADAS and d = "idle_device\<lparr>d_paras := (d_paras idle_device)\<lparr>adas_para :=
     (adas_para (d_paras idle_device))\<lparr>image_Resolution := 6\<rparr>\<rparr>\<rparr>"] by simp

text \<open>a video made from the stream. With enough pictures read and a plausible rate the function
  saves, under the video id of the descriptor, the video of exactly the pictures between the frame at the
  seek position and the newest one, at the rate this number gives over twice the video time, and enters the
  video in the media list.\<close>

theorem mp4_of_stream:
  assumes "st_video_enable mm \<noteq> 0" "st_video_time mm \<noteq> 0" "rbf_frameNo f1 = rbf_frameNo f0 + of_nat (length fs)"
    and "int (length fs) < 66 * (2 * uint (st_video_time mm))"
    and "fs_open (e_fs e) path" "path = mmid_to_filename (e_build e) (st_video_id mm ! 0)"
    and "video = mp4 (int (length fs) div (2 * uint (st_video_time mm))) (rbf_VWidth f0) (rbf_VHeight f0) (map frame_bytes_of fs)"
    and "length video \<le> fs_room (e_fs e)"
  shows "\<exists>d'. store_one_mp4 mp4 node e (map Some (f1 # f0 # fs)) mm t d = Some (Inr (mp4_wait_time mm t, d')) \<and>
    d_files d' = (d_files d)(path \<mapsto> video) \<and> find_mm_resource (st_video_id mm ! 0) (mmlist d') \<noteq> None"
proof -
  let ?v = "uint (st_video_time mm)"
  have v: "0 < ?v" "?v < 256" using assms(2) uint_lt2p [of "st_video_time mm"] by (simp_all add: word_neq_0_conv word_less_def)
  then have small: "length fs < 2 ^ 32" using assms(4) by simp
  have count: "ucast (ucast (ucast (rbf_frameNo f1) :: u32) - rbf_frameNo f0) = (of_nat (length fs) :: u32)"
    unfolding assms(3) by (rule frame_count)
  have cnt: "unat (of_nat (length fs) :: u32) = length fs" "uint (of_nat (length fs) :: u32) = int (length fs)"
    using small by (simp_all add: unat_of_nat uint_nat)
  have "2 * ?v * (int (length fs) div (2 * ?v)) < 2 * ?v * 66"
    using assms(4) v minus_mod_eq_mult_div [of "int (length fs)" "2 * ?v"] pos_mod_sign [of "2 * ?v" "int (length fs)"]
    by linarith
  then have "int (length fs) div (2 * ?v) < 66" using v by simp
  then have fps: "int (length fs) div (2 * ?v) \<le> 65" "0 \<le> int (length fs) div (2 * ?v)"
    using v by (simp_all add: pos_imp_zdiv_nonneg_iff)
  have "find_mm_resource i (insert_mm_resouce m ns) \<noteq> None" if "node_mm_id m = i" for i m ns
    using that unfolding insert_mm_resouce_def by (induction ns) simp_all
  moreover have "\<not> (int (length fs) div (2 * ?v) > ENCODE_FRAME_SPEED_MAX \<or> int (length fs) div (2 * ?v) < 0)" "2 * ?v \<noteq> 0"
    using fps v by (simp_all add: ENCODE_FRAME_SPEED_MAX_def)
  ultimately show ?thesis
    using assms(1,5,6,8) mp4_frames_read [of fs "[]"]
    by (simp add: store_one_mp4_def Let_def count cnt assms(7))
qed

theorem mp4_of_stream_witness:
  "\<exists>d'. store_one_mp4 (\<lambda>fps w h fs. concat fs) (sample_node 9) (idle_env ENABLE_ADAS)
      [raw_frame 3, raw_frame 1, raw_frame 2, raw_frame 3] (InfoForStore_zero\<lparr>st_video_enable := 1, st_video_time := 1\<rparr>) 0 idle_device =
      Some (Inr (mp4_wait_time (InfoForStore_zero\<lparr>st_video_enable := 1, st_video_time := 1\<rparr>) 0, d')) \<and>
    d_files d' = (d_files idle_device)(mmid_to_filename ENABLE_ADAS 0 \<mapsto> [7, 7])"
proof -
  let ?f = "\<lambda>i. the (raw_frame i)" and ?mm = "InfoForStore_zero\<lparr>st_video_enable := 1, st_video_time := 1\<rparr>"
  have map: "[raw_frame 3, raw_frame 1, raw_frame 2, raw_frame 3] = map Some (?f 3 # ?f 1 # [?f 2, ?f 3])"
    by (simp add: raw_frame_def)
  have "\<exists>d'. store_one_mp4 (\<lambda>fps w h fs. concat fs) (sample_node 9) (idle_env ENABLE_ADAS)
      (map Some (?f 3 # ?f 1 # [?f 2, ?f 3])) ?mm 0 idle_device = Some (Inr (mp4_wait_time ?mm 0, d')) \<and>
    d_files d' = (d_files idle_device)(mmid_to_filename ENABLE_ADAS 0 \<mapsto> [7, 7]) \<and>
    find_mm_resource (st_video_id ?mm ! 0) (mmlist d') \<noteq> None"
    by (rule mp4_of_stream) (simp_all add: raw_frame_def frame_bytes_of_def InfoForStore_zero_def idle_env_def)
  then show ?thesis unfolding map by blast
qed

end
