(* ===== verification/DmsJson.thy ===== *)
theory DmsJson
  imports Wsi Config
begin

text \<open>
  The newer interface to the driver monitor in \<open>wsi.cpp\<close>: \<open>msgpack_object_dms_get\<close> takes the JSON
  text out of a message, \<open>dms_parse_data_json\<close> makes two CAN frames of it. Both are compiled; the
  function that would call them is not.

  A number with a fraction is a JSON double. The model has its value as a rational number, and what the
  processor makes of the exact result of an addition or multiplication is the argument \<open>rnd\<close>; where a
  property needs it, \<open>rnd\<close> is monotone and leaves whole numbers up to \<open>2^53\<close> as they are, which
  IEEE 754 double arithmetic does. A conversion to an unsigned byte cuts off the fraction; that of a
  number which does not fit is undefined.
\<close>

section \<open>The data of a message\<close>

text \<open>The interpreter of \<open>Wsi\<close>, except that the data go to a buffer of the caller: \<open>buf\<close> with the
  room \<open>buflen\<close>, which becomes the number of bytes copied.\<close>

record dms_get =
  dg_can :: "WsiFrame option"
  dg_type :: data_type
  dg_buf :: "u8 list"
  dg_len :: nat

definition set_can :: "dms_get \<Rightarrow> (WsiFrame \<Rightarrow> WsiFrame) \<Rightarrow> dms_get outcome" where
  "set_can s g = bindE (with_can (dg_can s) g) (\<lambda>can. Inr (s\<lparr>dg_can := can, dg_type := NO_TYPE\<rparr>))"

definition copy_data :: "u8 list \<Rightarrow> dms_get \<Rightarrow> dms_get" where
  "copy_data bin s =
     (let n = (if length bin > dg_len s then dg_len s else length bin)
      in s\<lparr>dg_type := NO_TYPE, dg_len := n, dg_buf := take n bin @ drop n (dg_buf s)\<rparr>)"

function (sequential) msgpack_object_dms_get :: "msgpack_object \<Rightarrow> dms_get \<Rightarrow> dms_get outcome"
and msgpack_map_dms_get :: "(msgpack_object \<times> msgpack_object) list \<Rightarrow> dms_get \<Rightarrow> dms_get outcome" where
  "msgpack_object_dms_get (MP_SCALAR u64) s =
     (if dg_type s = CAN_TIME then set_can s (\<lambda>f. f\<lparr>wf_time := u64\<rparr>) else Inr s)"
| "msgpack_object_dms_get (MP_BIN bin) s = (if dg_type s = CAN_DATA then Inr (copy_data bin s) else Inr s)"
| "msgpack_object_dms_get (MP_STR sz mem) s =
     (if dg_type s = CAN_SOURCE then set_can s (\<lambda>f. f\<lparr>wf_source := memcpy_upto (wf_source f) (take sz mem)\<rparr>)
      else if dg_type s = CAN_TOPIC then set_can s (\<lambda>f. f\<lparr>wf_topic := memcpy_upto (wf_topic f) (take sz mem)\<rparr>)
      else Inr (s\<lparr>dg_type := key_type mem (dg_type s)\<rparr>))"
| "msgpack_object_dms_get (MP_MAP kvs) s = msgpack_map_dms_get kvs s"
| "msgpack_object_dms_get MP_UNKNOWN s = Inr s"
| "msgpack_map_dms_get [] s = Inr s"
| "msgpack_map_dms_get ((k, v) # kvs) s =
     bindE (msgpack_object_dms_get k (s\<lparr>dg_can := None\<rparr>)) (\<lambda>s'.
     bindE (msgpack_object_dms_get v (s'\<lparr>dg_can := dg_can s\<rparr>)) (\<lambda>s''. msgpack_map_dms_get kvs s''))"
  by pat_completeness auto
termination
  by (relation "measure (case_sum (\<lambda>(obj, s). size obj) (\<lambda>(kvs, s). size_list (size_prod size size) kvs))") auto

section \<open>The CAN frames\<close>

record DmsCan778 =
  Left_Eyelid_fraction :: u8
  Right_Eyelid_fraction :: u8
  Head_Yaw :: u8
  Head_Pitch :: u8
  Head_Roll :: u8
  tag_778 :: u8
  reserved_778 :: "u8 list"

text \<open>The eight alerts are fields of two bits, the first in the lowest bits of its byte.\<close>

record DmsCan779 =
  Eye_Closure_Warning :: "2 word"
  Yawn_warning :: "2 word"
  Look_around_warning :: "2 word"
  Look_up_warning :: "2 word"
  Look_down_warning :: "2 word"
  Phone_call_warning :: "2 word"
  Smoking_warning :: "2 word"
  Absence_warning :: "2 word"
  tag_779 :: u8
  reserved_779 :: "u8 list"

record DmsCanFrame =
  can_779_valid :: bool
  can_778_valid :: bool
  can_779 :: DmsCan779
  can_778 :: DmsCan778

text \<open>The statics of \<open>dms_parse_data_json\<close>.\<close>

record dms_tags =
  s_frame_tag_778 :: u32
  s_frame_tag_779 :: u32

section \<open>Reading the document\<close>

definition get_double :: "json \<Rightarrow> string \<Rightarrow> rat outcome" where
  "get_double v key = bindE (member v key) (\<lambda>x. case x of JReal r \<Rightarrow> Inr r | _ \<Rightarrow> Inl Assert_failed)"

definition get_dms_alert :: "json \<Rightarrow> (2 word) outcome" where
  "get_dms_alert val =
     bindE (get_double val ''score'') (\<lambda>score.
     bindE (get_bool val ''alerting'') (\<lambda>alerting.
     Inr (if score = 0 then 0 else if alerting then 2 else 1)))"

definition trunc :: "rat \<Rightarrow> int" where
  "trunc x = (if 0 \<le> x then \<lfloor>x\<rfloor> else \<lceil>x\<rceil>)"

definition to_uint8 :: "rat \<Rightarrow> u8 outcome" where
  "to_uint8 x = (if 0 \<le> trunc x \<and> trunc x \<le> 255 then Inr (word_of_int (trunc x)) else Inl Bad_conversion)"

definition get_dms_pose :: "(rat \<Rightarrow> rat) \<Rightarrow> json \<Rightarrow> (u8 \<times> u8 \<times> u8) outcome" where
  "get_dms_pose rnd val =
     bindE (get_double val ''yaw'') (\<lambda>y. bindE (to_uint8 (rnd (y + 127))) (\<lambda>yaw.
     bindE (get_double val ''pitch'') (\<lambda>p. bindE (to_uint8 (rnd (p + 127))) (\<lambda>pitch.
     bindE (get_double val ''roll'') (\<lambda>r. bindE (to_uint8 (rnd (r + 127))) (\<lambda>roll.
     Inr (yaw, pitch, roll)))))))"

definition alert_members :: "string list" where
  "alert_members = [''eye_alert'', ''yawn_alert'', ''look_around_alert'', ''look_up_alert'', ''look_down_alert'',
     ''phone_alert'', ''smoking_alert'', ''absence_alert'']"

definition member_alert :: "json \<Rightarrow> string \<Rightarrow> (2 word) outcome" where
  "member_alert document key = bindE (member document key) get_dms_alert"

fun have_members :: "json \<Rightarrow> string list \<Rightarrow> unit outcome" where
  "have_members document [] = Inr ()"
| "have_members document (k # ks) = bindE (member document k) (\<lambda>_. have_members document ks)"

definition parse_can_779 :: "json \<Rightarrow> dms_tags \<Rightarrow> DmsCanFrame \<Rightarrow> (dms_tags \<times> DmsCanFrame) outcome" where
  "parse_can_779 document st f =
     bindE (member_alert document ''eye_alert'') (\<lambda>eye.
     bindE (member_alert document ''yawn_alert'') (\<lambda>yawn.
     bindE (member_alert document ''look_around_alert'') (\<lambda>around.
     bindE (member_alert document ''look_up_alert'') (\<lambda>upw.
     bindE (member_alert document ''look_down_alert'') (\<lambda>down.
     bindE (member_alert document ''phone_alert'') (\<lambda>phone.
     bindE (member_alert document ''smoking_alert'') (\<lambda>smoking.
     bindE (member_alert document ''absence_alert'') (\<lambda>absent.
     Inr (st\<lparr>s_frame_tag_779 := s_frame_tag_779 st + 1\<rparr>,
          f\<lparr>can_779 := \<lparr>Eye_Closure_Warning = eye, Yawn_warning = yawn, Look_around_warning = around,
              Look_up_warning = upw, Look_down_warning = down, Phone_call_warning = phone, Smoking_warning = smoking,
              Absence_warning = absent, tag_779 = ucast (s_frame_tag_779 st AND 0xFF), reserved_779 = replicate 5 0\<rparr>,
            can_779_valid := True\<rparr>)))))))))"

definition parse_can_778 :: "(rat \<Rightarrow> rat) \<Rightarrow> json \<Rightarrow> dms_tags \<Rightarrow> DmsCanFrame \<Rightarrow> (dms_tags \<times> DmsCanFrame) outcome" where
  "parse_can_778 rnd document st f =
     bindE (get_double document ''left_eye_open_faction'') (\<lambda>l. bindE (to_uint8 (rnd (l * 100))) (\<lambda>left.
     bindE (get_double document ''right_eye_open_faction'') (\<lambda>r. bindE (to_uint8 (rnd (r * 100))) (\<lambda>right.
     bindE (member document ''intrinsic_pose'') (\<lambda>pose.
     bindE (have_members pose [''yaw'', ''pitch'', ''roll'']) (\<lambda>_.
     bindE (get_dms_pose rnd pose) (\<lambda>(yaw, pitch, roll).
     Inr (st\<lparr>s_frame_tag_778 := s_frame_tag_778 st + 1\<rparr>,
          f\<lparr>can_778 := \<lparr>Left_Eyelid_fraction = left, Right_Eyelid_fraction = right, Head_Yaw = yaw, Head_Pitch = pitch,
              Head_Roll = roll, tag_778 = ucast (s_frame_tag_778 st AND 0xFF), reserved_778 = replicate 2 0\<rparr>,
            can_778_valid := True\<rparr>))))))))"

text \<open>\<open>parsed\<close> is the document of the buffer's text, \<open>None\<close> for a syntax error.\<close>

definition dms_parse_data_json ::
  "(rat \<Rightarrow> rat) \<Rightarrow> json option \<Rightarrow> dms_tags \<Rightarrow> DmsCanFrame \<Rightarrow> (int \<times> dms_tags \<times> DmsCanFrame) outcome" where
  "dms_parse_data_json rnd parsed st f =
     (case parsed of None \<Rightarrow> Inr (1, st, f)
      | Some document \<Rightarrow>
          bindE (have_members document alert_members) (\<lambda>_.
          bindE (parse_can_779 document st f) (\<lambda>(st, f).
          bindE (get_bool document ''face_detected'') (\<lambda>face.
          bindE (if face then parse_can_778 rnd document st f else Inr (st, f)) (\<lambda>(st, f).
          Inr (0, st, f))))))"

text \<open>The eight bytes of the two frames.\<close>

definition two_bits :: "2 word \<Rightarrow> 2 word \<Rightarrow> 2 word \<Rightarrow> 2 word \<Rightarrow> u8" where
  "two_bits a b c d = ucast a + ucast b * 4 + ucast c * 16 + ucast d * 64"

definition DmsCan779_bytes :: "DmsCan779 \<Rightarrow> u8 list" where
  "DmsCan779_bytes f =
     [two_bits (Eye_Closure_Warning f) (Yawn_warning f) (Look_around_warning f) (Look_up_warning f),
      two_bits (Look_down_warning f) (Phone_call_warning f) (Smoking_warning f) (Absence_warning f), tag_779 f] @ reserved_779 f"

definition DmsCan778_bytes :: "DmsCan778 \<Rightarrow> u8 list" where
  "DmsCan778_bytes f = [Left_Eyelid_fraction f, Right_Eyelid_fraction f, Head_Yaw f, Head_Pitch f, Head_Roll f, tag_778 f] @
     reserved_778 f"

section \<open>Lemmas\<close>

text \<open>A step of the interpreter writes within the room it was given.\<close>

definition inside :: "dms_get \<Rightarrow> dms_get \<Rightarrow> bool" where
  "inside s s' \<longleftrightarrow> dg_len s' \<le> dg_len s \<and> length (dg_buf s') = length (dg_buf s) \<and>
     drop (dg_len s) (dg_buf s') = drop (dg_len s) (dg_buf s)"

lemma inside_refl [simp]: "inside s s"
  by (simp add: inside_def)

lemma inside_trans: "inside s s' \<Longrightarrow> inside s' s'' \<Longrightarrow> inside s s''"
  by (auto simp: inside_def) (metis drop_drop le_add_diff_inverse2)

lemma inside_upd [simp]:
  "inside s (s'\<lparr>dg_can := c\<rparr>) = inside s s'" "inside (s\<lparr>dg_can := c\<rparr>) s' = inside s s'"
  "inside s (s'\<lparr>dg_type := t\<rparr>) = inside s s'"
  by (simp_all add: inside_def)

lemma inside_copy_data: "dg_len s \<le> length (dg_buf s) \<Longrightarrow> inside s (copy_data bin s)"
  by (simp add: inside_def copy_data_def Let_def)

lemma inside_len: "inside s s' \<Longrightarrow> dg_len s \<le> length (dg_buf s) \<Longrightarrow> dg_len s' \<le> length (dg_buf s')"
  by (simp add: inside_def)

text \<open>What the interpreter can come to: a null pointer, or a state whose buffer has been written within
  its room.\<close>

definition gets_inside :: "dms_get \<Rightarrow> dms_get outcome \<Rightarrow> bool" where
  "gets_inside s m \<longleftrightarrow> (case m of Inl x \<Rightarrow> x = Null_pointer | Inr s' \<Rightarrow> inside s s')"

lemma gets_inside_simps [simp]:
  "gets_inside s (Inr s') = inside s s'" "gets_inside s (Inl x) \<longleftrightarrow> x = Null_pointer"
  "gets_inside (s\<lparr>dg_can := c\<rparr>) m = gets_inside s m"
  by (simp_all add: gets_inside_def split: sum.split)

lemma gets_inside_bindE:
  "gets_inside s m \<Longrightarrow> (\<And>s'. inside s s' \<Longrightarrow> gets_inside s' (k s')) \<Longrightarrow> gets_inside s (bindE m k)"
  by (cases m) (fastforce simp: gets_inside_def intro: inside_trans split: sum.splits)+

lemma gets_inside_set_can: "gets_inside s (set_can s g)"
  by (simp add: set_can_def with_can_def split: option.split)

lemma gets_inside_get:
  "dg_len s \<le> length (dg_buf s) \<Longrightarrow> gets_inside s (msgpack_object_dms_get obj s)"
  "dg_len s \<le> length (dg_buf s) \<Longrightarrow> gets_inside s (msgpack_map_dms_get kvs s)"
proof (induction obj s and kvs s rule: msgpack_object_dms_get_msgpack_map_dms_get.induct)
  case (7 k v kvs s)
  note len = inside_len [OF _ 7(4)]
  show ?case
    unfolding msgpack_map_dms_get.simps
  proof (rule gets_inside_bindE)
    show "gets_inside s (msgpack_object_dms_get k (s\<lparr>dg_can := None\<rparr>))" using 7(1,4) by simp
  next
    fix s' assume s': "inside s s'"
    show "gets_inside s' (bindE (msgpack_object_dms_get v (s'\<lparr>dg_can := dg_can s\<rparr>)) (msgpack_map_dms_get kvs))"
    proof (rule gets_inside_bindE)
      show "gets_inside s' (msgpack_object_dms_get v (s'\<lparr>dg_can := dg_can s\<rparr>))" using 7(2) len [OF s'] by simp
    qed (use 7(3) s' inside_trans len in blast)
  qed
qed (auto simp: gets_inside_set_can inside_copy_data)

section \<open>The two-bit fields\<close>

lemma two_bit_word: "unat (w :: 2 word) < 4" "unat (ucast w :: u8) = unat w"
proof -
  have "unat w < 2 ^ LENGTH(2)" by (rule unsigned_less)
  then show "unat w < 4" by simp
  then show "unat (ucast w :: u8) = unat w"
    by (simp add: unsigned_ucast_eq take_bit_nat_eq_self)
qed

lemma unat_two_bits: "unat (two_bits a b c d) = unat a + 4 * unat b + 16 * unat c + 64 * unat d"
  using two_bit_word(1) [of a] two_bit_word(1) [of b] two_bit_word(1) [of c] two_bit_word(1) [of d]
  by (simp add: two_bits_def unat_word_ariths two_bit_word(2))

lemma unat_field: "unat (drop_bit n x AND 3 :: u8) = unat x div 2 ^ n mod 4"
proof -
  have "drop_bit n x AND 3 = take_bit 2 (drop_bit n x)" by (simp only: take_bit_eq_mask mask_numeral) simp
  then show ?thesis
    by (simp only: unsigned_take_bit_eq unat_drop_bit_eq) (simp add: take_bit_eq_mod drop_bit_eq_div)
qed

lemma two_bits_fields:
  "drop_bit 0 (two_bits a b c d) AND 3 = ucast a" "drop_bit 2 (two_bits a b c d) AND 3 = ucast b"
  "drop_bit 4 (two_bits a b c d) AND 3 = ucast c" "drop_bit 6 (two_bits a b c d) AND 3 = ucast d"
proof -
  have digits: "x div 2 ^ 0 mod 4 = p" "x div 2 ^ 2 mod 4 = q" "x div 2 ^ 4 mod 4 = r" "x div 2 ^ 6 mod 4 = s"
    if "x = p + 4 * q + 16 * r + 64 * s" "p < 4" "q < 4" "r < 4" "s < 4" for x p q r s :: nat
  proof -
    have base: "(u + 4 * v) mod 4 = u" "(u + 4 * v) div 4 = v" if "u < 4" for u v :: nat
      using that by simp_all
    have x: "x = p + 4 * (q + 4 * (r + 4 * s))" using that(1) by simp
    have "x div 2 ^ 2 = q + 4 * (r + 4 * s)" "x mod 4 = p"
      using base [OF that(2), of "q + 4 * (r + 4 * s)"] by (simp_all only: x) simp
    moreover have "(q + 4 * (r + 4 * s)) mod 4 = q" "(q + 4 * (r + 4 * s)) div 4 = r + 4 * s"
      "(r + 4 * s) mod 4 = r" "(r + 4 * s) div 4 = s"
      using base [OF that(3), of "r + 4 * s"] base [OF that(4), of s] by auto
    moreover have "x div 2 ^ 4 = x div 2 ^ 2 div 4" "x div 2 ^ 6 = x div 2 ^ 2 div 4 div 4" by (simp_all flip: div_mult2_eq)
    ultimately show "x div 2 ^ 0 mod 4 = p" "x div 2 ^ 2 mod 4 = q" "x div 2 ^ 4 mod 4 = r" "x div 2 ^ 6 mod 4 = s"
      using that(5) by simp_all
  qed
  note d = digits [OF unat_two_bits [of a b c d] two_bit_word(1) two_bit_word(1) two_bit_word(1) two_bit_word(1)]
  show "drop_bit 0 (two_bits a b c d) AND 3 = ucast a" "drop_bit 2 (two_bits a b c d) AND 3 = ucast b"
    "drop_bit 4 (two_bits a b c d) AND 3 = ucast c" "drop_bit 6 (two_bits a b c d) AND 3 = ucast d"
    by (simp_all only: word_unat_eq_iff unat_field two_bit_word(2) d)
qed

lemma have_members_ok: "\<forall>k \<in> set ks. \<exists>v. member document k = Inr v \<Longrightarrow> have_members document ks = Inr ()"
  by (induction ks) auto

section \<open>Properties\<close>

text \<open>the data of a message stay within the buffer. Whatever object msgpack has unpacked, well formed or
  not, the interpreter either writes through the null frame of a key or ends; and then it has written no
  byte of the buffer from its room on, and the length it reports is at most that room.\<close>

theorem dms_data_within_buffer:
  assumes "n \<le> length buf"
  shows "case msgpack_object_dms_get obj \<lparr>dg_can = can, dg_type = t, dg_buf = buf, dg_len = n\<rparr> of
      Inl x \<Rightarrow> x = Null_pointer
    | Inr s \<Rightarrow> dg_len s \<le> n \<and> length (dg_buf s) = length buf \<and> drop n (dg_buf s) = drop n buf"
  using gets_inside_get(1) [of "\<lparr>dg_can = can, dg_type = t, dg_buf = buf, dg_len = n\<rparr>" obj] assms
  by (auto simp: gets_inside_def inside_def split: sum.splits)

theorem dms_data_within_buffer_witness:
  "case msgpack_object_dms_get (MP_MAP [(MP_STR 4 (bytes_of ''data''), MP_BIN [1, 2, 3, 4])])
       \<lparr>dg_can = Some WsiFrame_zero, dg_type = NO_TYPE, dg_buf = [0, 0, 9], dg_len = 2\<rparr> of
      Inl x \<Rightarrow> x = Null_pointer
    | Inr s \<Rightarrow> dg_len s \<le> 2 \<and> length (dg_buf s) = length [0, 0, 9 :: u8] \<and> drop 2 (dg_buf s) = drop 2 [0, 0, 9]"
  by (rule dms_data_within_buffer) simp

text \<open>Double arithmetic as IEEE 754 documents it.\<close>

definition rounds :: "(rat \<Rightarrow> rat) \<Rightarrow> bool" where
  "rounds rnd \<longleftrightarrow> (\<forall>x y. x \<le> y \<longrightarrow> rnd x \<le> rnd y) \<and> (\<forall>k :: int. \<bar>k\<bar> \<le> 2 ^ 53 \<longrightarrow> rnd (of_int k) = of_int k)"

lemma to_uint8_fits: "0 \<le> x \<Longrightarrow> x \<le> 255 \<Longrightarrow> to_uint8 x = Inr (word_of_int \<lfloor>x\<rfloor>)"
  by (simp add: to_uint8_def trunc_def floor_le_iff)

lemma to_uint8_too_large: "x \<le> - 1 \<or> 256 \<le> x \<Longrightarrow> to_uint8 x = Inl Bad_conversion"
  by (auto simp: to_uint8_def trunc_def le_floor_iff ceiling_le_iff not_le less_ceiling_iff)

lemma rounds_between:
  assumes "rounds rnd" "of_int a \<le> x" "x \<le> of_int b" "\<bar>a\<bar> \<le> 2 ^ 53" "\<bar>b\<bar> \<le> 2 ^ 53"
  shows "of_int a \<le> rnd x" "rnd x \<le> of_int b"
  using assms unfolding rounds_def by metis+

lemma angle_byte:
  assumes "rounds rnd"
  shows "- 127 \<le> a \<Longrightarrow> a \<le> 128 \<Longrightarrow> to_uint8 (rnd (a + 127)) = Inr (word_of_int \<lfloor>rnd (a + 127)\<rfloor>)"
    and "a \<le> - 128 \<or> 129 \<le> a \<Longrightarrow> to_uint8 (rnd (a + 127)) = Inl Bad_conversion"
proof -
  assume "- 127 \<le> a" "a \<le> 128"
  then show "to_uint8 (rnd (a + 127)) = Inr (word_of_int \<lfloor>rnd (a + 127)\<rfloor>)"
    using rounds_between [OF assms, of 0 "a + 127" 255] by (intro to_uint8_fits) simp_all
next
  have exact: "rnd (of_int k) = of_int k" if "\<bar>k\<bar> \<le> 2 ^ 53" for k :: int
    using assms that by (simp add: rounds_def)
  have one: "rnd (- 1) = - 1" "rnd 256 = 256"
    using exact [of "- 1"] exact [of 256] by simp_all
  assume "a \<le> - 128 \<or> 129 \<le> a"
  then have "a + 127 \<le> - 1 \<or> 256 \<le> a + 127" by linarith
  then have "rnd (a + 127) \<le> - 1 \<or> 256 \<le> rnd (a + 127)"
    using assms one unfolding rounds_def by metis
  then show "to_uint8 (rnd (a + 127)) = Inl Bad_conversion" by (rule to_uint8_too_large)
qed

text \<open>the head pose in a byte. For angles from -127 to 128 degrees the three bytes are the angles plus 127
  without their fractions; an angle of -128 or less, or of 129 or more, is converted although it does
  not fit, which is undefined.\<close>

theorem pose_bytes:
  assumes "rounds rnd" "get_double val ''yaw'' = Inr y" "get_double val ''pitch'' = Inr p" "get_double val ''roll'' = Inr r"
  shows "((\<forall>a \<in> {y, p, r}. - 127 \<le> a \<and> a \<le> 128) \<longrightarrow>
      get_dms_pose rnd val = Inr (word_of_int \<lfloor>rnd (y + 127)\<rfloor>, word_of_int \<lfloor>rnd (p + 127)\<rfloor>, word_of_int \<lfloor>rnd (r + 127)\<rfloor>)) \<and>
    (y \<le> - 128 \<or> 129 \<le> y \<longrightarrow> get_dms_pose rnd val = Inl Bad_conversion)"
  using assms(2-4) angle_byte [OF assms(1)] by (auto simp: get_dms_pose_def)

theorem pose_bytes_witness:
  "get_dms_pose (\<lambda>x. x) (JObject [(''yaw'', JReal (- 1 / 2)), (''pitch'', JReal 3), (''roll'', JReal 4)]) = Inr (126, 130, 131)"
proof -
  have "rounds (\<lambda>x. x)" by (simp add: rounds_def)
  from pose_bytes [OF this, of "JObject [(''yaw'', JReal (- 1 / 2)), (''pitch'', JReal 3), (''roll'', JReal 4)]" "- 1 / 2" 3 4]
  moreover have "\<lfloor>253 / 2 :: rat\<rfloor> = 126" by (simp add: floor_eq_iff)
  ultimately show ?thesis by (simp add: get_double_def member_def)
qed

definition alert_level :: "rat \<times> bool \<Rightarrow> u8" where
  "alert_level = (\<lambda>(score, alerting). if score = 0 then 0 else if alerting then 2 else 1)"

definition has_alert :: "json \<Rightarrow> string \<Rightarrow> rat \<times> bool \<Rightarrow> bool" where
  "has_alert document key = (\<lambda>(score, alerting). \<exists>v. member document key = Inr v \<and>
     get_double v ''score'' = Inr score \<and> get_bool v ''alerting'' = Inr alerting)"

lemma member_alert_level:
  "has_alert document key x \<Longrightarrow> \<exists>w. member_alert document key = Inr w \<and> ucast w = alert_level x"
  by (cases x) (auto simp: has_alert_def member_alert_def get_dms_alert_def alert_level_def)

text \<open>C17: the alerts of a document. When the eight alert members have a score and a flag, and no face was
  detected, the 0x779 frame is valid and its eight two-bit fields, in the order of the members, say
  whether each alert was not detected (its score is zero), detected or alerting; its tag counts the
  frames, and the 0x778 frame is left as it was.\<close>

theorem alerts_in_frame:
  assumes "\<forall>i < 8. has_alert document (alert_members ! i) (al i)" "get_bool document ''face_detected'' = Inr False"
  shows "\<exists>f'. dms_parse_data_json rnd (Some document) st f =
      Inr (0, st\<lparr>s_frame_tag_779 := s_frame_tag_779 st + 1\<rparr>, f') \<and> can_779_valid f' \<and>
    (\<forall>i < 8. drop_bit (2 * (i mod 4)) (DmsCan779_bytes (can_779 f') ! (i div 4)) AND 3 = alert_level (al i)) \<and>
    DmsCan779_bytes (can_779 f') ! 2 = ucast (s_frame_tag_779 st) \<and>
    can_778_valid f' = can_778_valid f \<and> can_778 f' = can_778 f"
proof -
  have "\<exists>w. member_alert document (alert_members ! i) = Inr w \<and> ucast w = alert_level (al i)" if "i < 8" for i
    using member_alert_level assms(1) that by blast
  then obtain w where w: "\<And>i. i < 8 \<Longrightarrow> member_alert document (alert_members ! i) = Inr (w i) \<and> ucast (w i) = alert_level (al i)"
    by metis
  note eight = w [of 0] w [of 1] w [of 2] w [of 3] w [of 4] w [of 5] w [of 6] w [of 7]
  have members: "have_members document alert_members = Inr ()"
  proof (rule have_members_ok, rule ballI)
    fix k assume "k \<in> set alert_members"
    moreover have "length alert_members = 8" by (simp add: alert_members_def)
    ultimately obtain i where "i < 8" "alert_members ! i = k" by (auto simp: in_set_conv_nth)
    then show "\<exists>v. member document k = Inr v" using assms(1) by (auto simp: has_alert_def split_beta)
  qed
  have "ucast (x AND 0xFF :: u32) = (ucast x :: u8)" for x
  proof -
    have "x AND 0xFF = take_bit 8 x" by (simp add: take_bit_eq_mask mask_eq_exp_minus_1)
    then show ?thesis by (simp only:) (rule bit_word_eqI, simp add: bit_simps)
  qed
  moreover have "drop_bit (2 * (i mod 4)) (DmsCan779_bytes \<lparr>Eye_Closure_Warning = w 0, Yawn_warning = w 1,
      Look_around_warning = w 2, Look_up_warning = w 3, Look_down_warning = w 4, Phone_call_warning = w 5,
      Smoking_warning = w 6, Absence_warning = w 7, tag_779 = tg, reserved_779 = rs\<rparr> ! (i div 4)) AND 3 = ucast (w i)"
    if "i < 8" for i tg rs
  proof -
    consider "i = 0" | "i = 1" | "i = 2" | "i = 3" | "i = 4" | "i = 5" | "i = 6" | "i = 7" using \<open>i < 8\<close> by linarith
    then show ?thesis by cases (simp_all add: DmsCan779_bytes_def two_bits_fields [simplified] del: take_bit_word_eq_self)
  qed
  ultimately show ?thesis
    using members assms(2) eight w
    by (simp add: dms_parse_data_json_def parse_can_779_def alert_members_def DmsCan779_bytes_def)
qed

definition alarm :: json where
  "alarm = JObject [(''score'', JReal (1 / 2)), (''alerting'', JBool True)]"

definition alarm_document :: json where
  "alarm_document = JObject ((''face_detected'', JBool False) # map (\<lambda>k. (k, alarm)) alert_members)"

definition no_frame :: DmsCanFrame where
  "no_frame = \<lparr>can_779_valid = False, can_778_valid = False,
     can_779 = \<lparr>Eye_Closure_Warning = 0, Yawn_warning = 0, Look_around_warning = 0, Look_up_warning = 0, Look_down_warning = 0,
       Phone_call_warning = 0, Smoking_warning = 0, Absence_warning = 0, tag_779 = 0, reserved_779 = replicate 5 0\<rparr>,
     can_778 = \<lparr>Left_Eyelid_fraction = 0, Right_Eyelid_fraction = 0, Head_Yaw = 0, Head_Pitch = 0, Head_Roll = 0, tag_778 = 0,
       reserved_778 = replicate 2 0\<rparr>\<rparr>"

theorem alerts_in_frame_witness:
  "\<exists>f'. dms_parse_data_json (\<lambda>x. x) (Some alarm_document) \<lparr>s_frame_tag_778 = 0, s_frame_tag_779 = 44\<rparr> no_frame =
      Inr (0, \<lparr>s_frame_tag_778 = 0, s_frame_tag_779 = 45\<rparr>, f') \<and> can_779_valid f' \<and>
    (\<forall>i < 8. drop_bit (2 * (i mod 4)) (DmsCan779_bytes (can_779 f') ! (i div 4)) AND 3 = 2) \<and>
    DmsCan779_bytes (can_779 f') ! 2 = 44 \<and> \<not> can_778_valid f'"
proof -
  have "member alarm_document (alert_members ! i) = Inr alarm" if "i < 8" for i
  proof -
    consider "i = 0" | "i = 1" | "i = 2" | "i = 3" | "i = 4" | "i = 5" | "i = 6" | "i = 7" using \<open>i < 8\<close> by linarith
    then show ?thesis by cases (simp_all add: alarm_document_def alert_members_def member_def)
  qed
  then have alerts: "\<forall>i < 8. has_alert alarm_document (alert_members ! i) (1 / 2, True)"
    by (simp add: has_alert_def) (simp add: alarm_def get_double_def get_bool_def member_def)
  have face: "get_bool alarm_document ''face_detected'' = Inr False"
    by (simp add: alarm_document_def get_bool_def member_def)
  show ?thesis
    using alerts_in_frame [of alarm_document "\<lambda>_. (1 / 2, True)" "\<lambda>x. x" "\<lparr>s_frame_tag_778 = 0, s_frame_tag_779 = 44\<rparr>" no_frame,
        OF alerts face]
    by (auto simp: alert_level_def no_frame_def)
qed

end
