(* ===== verification/Housekeeping.thy ===== *)
theory Housekeeping
  imports Config Log Teardown
begin

text \<open>
  The small operations around the core: the size limit and the removal of media (\<open>getmmFileSize\<close>,
  \<open>check_mmSize\<close>, \<open>clear_old_media\<close>, \<open>delete_file\<close>), the first directory (\<open>media_filepath_init\<close>),
  \<open>ReadFile\<close>, the hexadecimal dump \<open>print_arry\<close>, the CAN speed of a frame, and the options the program
  sets on sockets, serial lines and condition variables. What a system call answers is an argument.
\<close>

section \<open>Files\<close>

text \<open>An entry of a directory as \<open>lstat\<close> describes it: whether it is a directory, and its size.\<close>

type_synonym dirent = "bool \<times> nat"

text \<open>The result is a 64-bit number, \<open>- 1\<close> for a directory that cannot be opened.\<close>

definition getmmFileSize :: "dirent list option \<Rightarrow> 64 word" where
  "getmmFileSize entries =
     (case entries of None \<Rightarrow> - 1
      | Some es \<Rightarrow> fold (\<lambda>(is_dir, size) sum. if is_dir then sum else sum + of_nat size) es 0)"

definition MM_SIZE_LIMIT_2G :: "64 word" where "MM_SIZE_LIMIT_2G = 0x80000000"

definition check_mmSize :: "build \<Rightarrow> dirent list option \<Rightarrow> device \<Rightarrow> device" where
  "check_mmSize b entries d = (if getmmFileSize entries > MM_SIZE_LIMIT_2G then rm_mmFiles b d else d)"

definition media_filepath_init :: "build \<Rightarrow> device \<Rightarrow> int \<times> device" where
  "media_filepath_init b d = (0, create_snap_path b d)"

definition delete_file :: "build \<Rightarrow> u32 \<Rightarrow> device \<Rightarrow> device" where
  "delete_file b i d = remove_file (mmid_to_filename b i) d"

text \<open>Below another word the successor does not wrap.\<close>

lemma unat_inc_below:
  fixes i k :: u32
  assumes "i < k"
  shows "unat (i + 1) = Suc (unat i)"
proof -
  have "Suc (unat i) \<le> unat k" using assms by (simp add: word_less_nat_alt)
  also have "unat k < 2 ^ 32" using unsigned_less [of k, where ?'a = nat] by simp
  finally show ?thesis by (simp add: unat_word_ariths)
qed

text \<open>The loop of \<open>clear_old_media\<close> from the static \<open>s_last_id\<close>.\<close>

function clear_from :: "build \<Rightarrow> u32 \<Rightarrow> u32 \<Rightarrow> device \<Rightarrow> device" where
  "clear_from b i k d = (if i < k then clear_from b (i + 1) k (remove_file (mmid_to_filename b i) d) else d)"
  by pat_completeness auto
termination
  by (relation "measure (\<lambda>(b, i, k, d). unat k - unat i)") (auto simp: unat_inc_below word_less_nat_alt)

declare clear_from.simps [simp del]

definition clear_old_media :: "build \<Rightarrow> u32 \<Rightarrow> u32 \<times> device \<Rightarrow> u32 \<times> device" where
  "clear_old_media b i = (\<lambda>(s_last_id, d). (i, clear_from b s_last_id i d))"

definition ReadFile :: "nat \<Rightarrow> string \<Rightarrow> device \<Rightarrow> nat \<times> u8 list" where
  "ReadFile len filename d =
     (case d_files d filename of None \<Rightarrow> (0, []) | Some c \<Rightarrow> (length (take len c), take len c))"

section \<open>Text\<close>

definition hex_digit :: "nat \<Rightarrow> char" where
  "hex_digit n = (if n < 10 then digit_char n else char_of (87 + n))"

definition format_02x :: "u8 \<Rightarrow> string" where
  "format_02x b = [hex_digit (unat b div 16), hex_digit (unat b mod 16)]"

text \<open>Three characters per byte and the terminator; the buffer has \<open>room\<close> bytes.\<close>

definition print_arry :: "nat \<Rightarrow> u8 list \<Rightarrow> string option" where
  "print_arry room buf =
     (if buf \<noteq> [] \<and> 3 * length buf + 1 > room then None else Some (concat (map (\<lambda>b. format_02x b @ '' '') buf)))"

definition using_can760_msg :: "device \<Rightarrow> AdasWarnFrame \<Rightarrow> AdasWarnFrame" where
  "using_can760_msg d f = f\<lparr>aw_car_speed := can_speed (fst (can760_message_process (can760_msg d) READ_MSG d))\<rparr>"

section \<open>Options\<close>

datatype socket_option = SO_KEEPALIVE | TCP_KEEPIDLE | TCP_KEEPINTVL | TCP_KEEPCNT

text \<open>The options set before the first failure, with their values. The state of \<open>SO_KEEPALIVE\<close> is read
  back with a length of zero, so nothing is read.\<close>

definition socketkeepalive :: "(socket_option \<Rightarrow> bool) \<Rightarrow> bool \<Rightarrow> int \<times> (socket_option \<times> int) list" where
  "socketkeepalive setsockopt_ok getsockopt_ok =
     (if \<not> setsockopt_ok SO_KEEPALIVE then (- 1, [])
      else if \<not> getsockopt_ok then (- 1, [(SO_KEEPALIVE, 1)])
      else if \<not> setsockopt_ok TCP_KEEPIDLE then (- 1, [(SO_KEEPALIVE, 1)])
      else if \<not> setsockopt_ok TCP_KEEPINTVL then (- 1, [(SO_KEEPALIVE, 1), (TCP_KEEPIDLE, 90)])
      else if \<not> setsockopt_ok TCP_KEEPCNT then (- 1, [(SO_KEEPALIVE, 1), (TCP_KEEPIDLE, 90), (TCP_KEEPINTVL, 2)])
      else (0, [(SO_KEEPALIVE, 1), (TCP_KEEPIDLE, 90), (TCP_KEEPINTVL, 2), (TCP_KEEPCNT, 3)]))"

abbreviation (input) SER_RS485_ENABLED :: u32 where "SER_RS485_ENABLED \<equiv> 1"
abbreviation (input) SER_RS485_RTS_ON_SEND :: u32 where "SER_RS485_RTS_ON_SEND \<equiv> 2"

text \<open>The result and the flags given to the driver.\<close>

definition config_rs485 :: "bool \<Rightarrow> int \<times> u32" where
  "config_rs485 ioctl_ok =
     (let fl = 0; fl = fl OR SER_RS485_ENABLED; fl = fl OR SER_RS485_RTS_ON_SEND
      in if \<not> ioctl_ok then (- 1, fl) else (0, fl))"

datatype clock = CLOCK_REALTIME | CLOCK_MONOTONIC

text \<open>The result, and the clock of the condition variable. The results of setting the clock and of
  making the condition variable are not looked at.\<close>

definition setcondattr :: "bool \<Rightarrow> bool \<Rightarrow> int \<times> clock option" where
  "setcondattr attr_init_ok setclock_ok =
     (if \<not> attr_init_ok then (1, None)
      else (0, Some (if setclock_ok then CLOCK_MONOTONIC else CLOCK_REALTIME)))"

section \<open>Lemmas\<close>

lemma clear_from_files:
  "d_files (clear_from b i k d) p = (if p \<in> mmid_to_filename b ` {j. i \<le> j \<and> j < k} then None else d_files d p)"
proof (induction b i k d rule: clear_from.induct)
  case (1 b i k d)
  show ?case
  proof (cases "i < k")
    case True
    have range: "i \<le> j \<and> j < k \<longleftrightarrow> j = i \<or> i + 1 \<le> j \<and> j < k" for j
      using unat_inc_below [OF True] True
      by (simp add: word_le_nat_alt word_less_nat_alt word_unat_eq_iff) linarith
    have "{j. i \<le> j \<and> j < k} = insert i {j. i + 1 \<le> j \<and> j < k}"
      by (rule set_eqI) (use range in simp)
    then show ?thesis using 1 True by (subst clear_from.simps) auto
  next
    case False
    then have none: "{j. i \<le> j \<and> j < k} = {}" by auto
    show ?thesis by (subst clear_from.simps) (simp add: False none)
  qed
qed

lemma sum_sizes:
  "fold (\<lambda>(is_dir, size) sum. if is_dir then sum else sum + of_nat size) es a =
     (a + of_nat (sum_list (map snd (filter (\<lambda>x. \<not> fst x) es))) :: 64 word)"
  by (induction es arbitrary: a) (auto simp: add_ac)

section \<open>Properties\<close>

text \<open>the size limit of the media directory. When the files of the directory together are larger than two
  gigabytes the media are removed, and else they are left alone; but a directory that cannot be opened
  counts as the largest size there is, and its media are removed as well.\<close>

theorem media_size_limit:
  assumes "sum_list (map snd (filter (\<lambda>x. \<not> fst x) es)) < 2 ^ 64"
  shows "check_mmSize b (Some es) d =
      (if 2 ^ 31 < sum_list (map snd (filter (\<lambda>x. \<not> fst x) es)) then rm_mmFiles b d else d) \<and>
    check_mmSize b None d = rm_mmFiles b d"
proof -
  let ?n = "sum_list (map snd (filter (\<lambda>x. \<not> fst x) es))"
  have "unat (of_nat ?n :: 64 word) = ?n" using assms by (simp add: unat_of_nat take_bit_nat_eq_self)
  then have "(of_nat ?n :: 64 word) > MM_SIZE_LIMIT_2G \<longleftrightarrow> 2 ^ 31 < ?n"
    by (simp add: word_less_nat_alt MM_SIZE_LIMIT_2G_def)
  then show ?thesis by (simp add: check_mmSize_def getmmFileSize_def sum_sizes MM_SIZE_LIMIT_2G_def)
qed

theorem media_size_limit_witness:
  "check_mmSize ENABLE_ADAS (Some [(True, 2 ^ 32), (False, 2 ^ 31), (False, 1)]) idle_device = rm_mmFiles ENABLE_ADAS idle_device"
  using media_size_limit [of "[(True, 2 ^ 32), (False, 2 ^ 31), (False, 1)]" ENABLE_ADAS idle_device] by simp

text \<open>Removing old media up to an id removes the files from the last such id on, whatever was removed before.\<close>

lemma clear_old_media_twice:
  assumes "i \<le> k"
  shows "d_files (snd (clear_old_media b k (clear_old_media b i (0, d)))) p =
    (if p \<in> mmid_to_filename b ` {j. j < k} then None else d_files d p)"
proof -
  have "{j. j < k} = {j. j < i} \<union> {j. i \<le> j \<and> j < k}" using assms by (auto intro: less_le_trans)
  then show ?thesis by (simp add: clear_old_media_def clear_from_files image_Un)
qed

end
