(* ===== verification/Printing.thy ===== *)
theory Printing
  imports Encoder Housekeeping
begin

text \<open>
  What the print functions of \<open>para.cpp\<close>, \<open>common.cpp\<close> and \<open>wsi.cpp\<close> write to the console: the two parameter
  structs, the configuration, the media list, a dump of a buffer, and the help text. A function that prints
  line by line is the list of its lines.
\<close>

section \<open>Lines\<close>

abbreviation (input) newline :: string where "newline \<equiv> [CHR 0x0A]"

definition line :: "string \<Rightarrow> string" where "line s = s @ newline"

text \<open>\<open>%d\<close> of an unsigned member of one or two bytes, which is promoted to \<open>int\<close>, and of one of four bytes, whose
  bits are taken for an \<open>int\<close>.\<close>

definition member_line :: "string \<Rightarrow> 'a::len word \<Rightarrow> string" where
  "member_line label w = line (label @ decimal (unat w))"

definition int_line :: "string \<Rightarrow> u32 \<Rightarrow> string" where
  "int_line label w = line (label @ format_d (sint w))"

section \<open>The parameters\<close>

definition print_adas_para :: "AdasParaSetting \<Rightarrow> string list" where
  "print_adas_para p = [line ''print adas para.................'',
     member_line ''adas_para->warning_speed_val       = '' (warning_speed_val p),
     member_line ''adas_para->warning_volume          = '' (warning_volume p),
     member_line ''adas_para->auto_photo_mode         = '' (auto_photo_mode p),
     member_line ''adas_para->auto_photo_time_period  = '' (auto_photo_time_period p),
     member_line ''adas_para->auto_photo_distance_peri= '' (auto_photo_distance_period p),
     member_line ''adas_para->photo_num               = '' (photo_num p),
     member_line ''adas_para->photo_time_period       = '' (photo_time_period p),
     member_line ''adas_para->image_Resolution        = '' (image_Resolution p),
     member_line ''adas_para->video_Resolution        = '' (video_Resolution p),
     member_line ''adas_para->obstacle_distance_thresh= '' (obstacle_distance_threshold p),
     member_line ''adas_para->obstacle_video_time     = '' (obstacle_video_time p),
     member_line ''adas_para->obstacle_photo_num      = '' (obstacle_photo_num p),
     member_line ''adas_para->obstacle_photo_time_peri= '' (obstacle_photo_time_period p),
     member_line ''adas_para->FLC_time_threshold      = '' (FLC_time_threshold p),
     member_line ''adas_para->FLC_times_threshold     = '' (FLC_times_threshold p),
     member_line ''adas_para->FLC_video_time          = '' (FLC_video_time p),
     member_line ''adas_para->FLC_photo_num           = '' (FLC_photo_num p),
     member_line ''adas_para->FLC_photo_time_period   = '' (FLC_photo_time_period p),
     member_line ''adas_para->LDW_video_time          = '' (LDW_video_time p),
     member_line ''adas_para->LDW_photo_num           = '' (LDW_photo_num p),
     member_line ''adas_para->LDW_photo_time_period   = '' (LDW_photo_time_period p),
     member_line ''adas_para->FCW_time_threshold      = '' (FCW_time_threshold p),
     member_line ''adas_para->FCW_video_time          = '' (FCW_video_time p),
     member_line ''adas_para->FCW_photo_num           = '' (FCW_photo_num p),
     member_line ''adas_para->FCW_photo_time_period   = '' (FCW_photo_time_period p),
     member_line ''adas_para->PCW_time_threshold      = '' (PCW_time_threshold p),
     member_line ''adas_para->PCW_video_time          = '' (PCW_video_time p),
     member_line ''adas_para->PCW_photo_num           = '' (PCW_photo_num p),
     member_line ''adas_para->PCW_photo_time_period   = '' (PCW_photo_time_period p),
     member_line ''adas_para->HW_time_threshold       = '' (HW_time_threshold p),
     member_line ''adas_para->HW_video_time           = '' (HW_video_time p),
     member_line ''adas_para->HW_photo_num            = '' (HW_photo_num p),
     member_line ''adas_para->HW_photo_time_period    = '' (HW_photo_time_period p),
     member_line ''adas_para->TSR_photo_num           = '' (TSR_photo_num p),
     member_line ''adas_para->TSR_photo_time_period   = '' (TSR_photo_time_period p)]"

definition print_dms_para :: "DmsParaSetting \<Rightarrow> string list" where
  "print_dms_para p = [line ''print dms para.................'',
     member_line ''dms_para->warning_speed_val             = '' (warning_speed_val p),
     member_line ''dms_para->warning_volume                = '' (warning_volume p),
     member_line ''dms_para->auto_photo_mode               = '' (auto_photo_mode p),
     member_line ''dms_para->auto_photo_time_period        = '' (auto_photo_time_period p),
     member_line ''dms_para->auto_photo_distance_period    = '' (auto_photo_distance_period p),
     member_line ''dms_para->photo_num                     = '' (photo_num p),
     member_line ''dms_para->photo_time_period             = '' (photo_time_period p),
     member_line ''dms_para->image_Resolution              = '' (image_Resolution p),
     member_line ''dms_para->video_Resolution              = '' (video_Resolution p),
     member_line ''dms_para->Smoke_TimeIntervalThreshold   = '' (Smoke_TimeIntervalThreshold p),
     member_line ''dms_para->Call_TimeIntervalThreshold    = '' (Call_TimeIntervalThreshold p),
     member_line ''dms_para->FatigueDriv_VideoTime         = '' (FatigueDriv_VideoTime p),
     member_line ''dms_para->FatigueDriv_PhotoNum          = '' (FatigueDriv_PhotoNum p),
     member_line ''dms_para->FatigueDriv_PhotoInterval     = '' (FatigueDriv_PhotoInterval p),
     member_line ''dms_para->FatigueDriv_resv              = '' (FatigueDriv_resv p),
     member_line ''dms_para->CallingDriv_VideoTime         = '' (CallingDriv_VideoTime p),
     member_line ''dms_para->CallingDriv_PhotoNum          = '' (CallingDriv_PhotoNum p),
     member_line ''dms_para->CallingDriv_PhotoInterval     = '' (CallingDriv_PhotoInterval p),
     member_line ''dms_para->SmokingDriv_VideoTime         = '' (SmokingDriv_VideoTime p),
     member_line ''dms_para->SmokingDriv_PhotoNum          = '' (SmokingDriv_PhotoNum p),
     member_line ''dms_para->SmokingDriv_PhotoInterval     = '' (SmokingDriv_PhotoInterval p),
     member_line ''dms_para->DistractionDriv_VideoTime        = '' (DistractionDriv_VideoTime p),
     member_line ''dms_para->DistractionDriv_PhotoNum         = '' (DistractionDriv_PhotoNum p),
     member_line ''dms_para->DistractionDriv_PhotoInterval    = '' (DistractionDriv_PhotoInterval p),
     member_line ''dms_para->AbnormalDriv_VideoTime     = '' (AbnormalDriv_VideoTime p),
     member_line ''dms_para->AbnormalDriv_PhotoNum      = '' (AbnormalDriv_PhotoNum p),
     member_line ''dms_para->AbnormalDriv_PhotoInterval = '' (AbnormalDriv_PhotoInterval p)]"

section \<open>The configuration\<close>

definition local_config_dump :: "LocalConfig \<Rightarrow> string list" where
  "local_config_dump c =
     [line ''***********Local config dump****************'',
      member_line ''usingParaFile: '' (usingParaFile c),
      line (''serverip: '' @ serverip c),
      member_line ''serverport: '' (serverport c),
      line (''clientip: '' @ clientip c),
      line (''client netdev_name: '' @ netdev_name c),
      line (''tty_name: '' @ tty_name c),
      line (''baudrate: '' @ format_d (baudrate c)),
      line (''parity: '' @ parity c),
      line (''stopbit: '' @ format_d (stopbit c)),
      line (''bits: '' @ format_d (databits c)),
      member_line ''jpeg_coder_fps : '' (jpeg_coder_fps c),
      member_line ''speed_filter_enable : '' (speed_filter_enable c),
      member_line ''alert_time_filter: '' (alert_time_filter c),
      member_line ''record_speed : '' (record_speed_enable c),
      int_line ''record_period : '' (record_period c),
      member_line ''use_heart : '' (use_heart c),
      int_line ''check_heart_period : '' (check_heart_period c),
      line ''adas bitRate:''] @
     map (int_line ''adasBitRate '') (adasBitRate c) @
     [line ''dms bitRate:''] @
     map (int_line ''dmsBitRate '') (dmsBitRate c) @
     [line ''***********Local config dump****************'']"

section \<open>The media list\<close>

definition display_mm_resource :: "MmInfo_node list \<Rightarrow> string list" where
  "display_mm_resource mms = concat (map (\<lambda>m.
     [int_line ''display list id = '' (node_mm_id m),
      line (''warn_type = '' @ decimal (unat (node_warn_type m)) @ '', mm_type='' @ decimal (unat (node_mm_type m)))]) mms)"

section \<open>A buffer\<close>

definition hex_byte :: "u8 \<Rightarrow> string" where
  "hex_byte b = ''0x'' @ format_02x b @ '' ''"

text \<open>The loop over the buffer from index \<open>i\<close> on; before every sixteenth byte but the first there is a line
  break.\<close>

fun printbuf_from :: "nat \<Rightarrow> u8 list \<Rightarrow> string" where
  "printbuf_from i [] = []"
| "printbuf_from i (b # bs) =
     (if i \<noteq> 0 \<and> i mod 16 = 0 then newline else []) @ hex_byte b @ printbuf_from (Suc i) bs"

definition printbuf :: "u8 list \<Rightarrow> string" where
  "printbuf buffer = printbuf_from 0 buffer @ newline"

section \<open>The help text\<close>

text \<open>\<open>%-10s\<close>\<close>

definition pad_right :: "nat \<Rightarrow> string \<Rightarrow> string" where
  "pad_right n s = s @ replicate (n - length s) CHR '' ''"

definition usage :: "string \<Rightarrow> string list" where
  "usage exe_name =
     [line (''Usage:'' @ exe_name @ '' <switches> [option]''),
      newline,
      line ''#Existing collector switches:'',
      line (pad_right 10 ''-h'' @ '' '' @ ''Show this help message''),
      line (pad_right 10 ''-f'' @ '' '' @ ''using para file''),
      line (pad_right 10 ''-v'' @ '' '' @ ''Show program version''),
      line (pad_right 10 ''-V <level>'' @ '' '' @ ''Set program verbose level''),
      newline]"

section \<open>The dump as rows\<close>

text \<open>The specification: rows of sixteen bytes, each with a line break behind it.\<close>

fun rows :: "nat \<Rightarrow> 'a list \<Rightarrow> 'a list list" where
  "rows n [] = []"
| "rows n (x # xs) = (if n = 0 then [x # xs] else take n (x # xs) # rows n (drop n (x # xs)))"

lemma printbuf_from_append:
  "printbuf_from i (xs @ ys) = printbuf_from i xs @ printbuf_from (i + length xs) ys"
  by (induction xs arbitrary: i) auto

lemma printbuf_from_within_row:
  "\<lbrakk>i mod 16 \<noteq> 0; i mod 16 + length bs \<le> 16\<rbrakk> \<Longrightarrow> printbuf_from i bs = concat (map hex_byte bs)"
proof (induction bs arbitrary: i)
  case (Cons b bs)
  show ?case
  proof (cases "bs = []")
    case False
    then have "i mod 16 < 15" using Cons.prems by (cases bs) auto
    then have "Suc i mod 16 = Suc (i mod 16)" by (simp add: mod_Suc)
    then show ?thesis using Cons by simp
  qed (use Cons.prems in simp)
qed simp

lemma printbuf_from_row:
  assumes "i mod 16 = 0" "row \<noteq> []" "length row \<le> 16"
  shows "printbuf_from i row = (if i \<noteq> 0 then newline else []) @ concat (map hex_byte row)"
proof -
  obtain b bs where row: "row = b # bs" using assms(2) by (cases row) auto
  have "Suc i mod 16 = 1" using assms(1) by (simp add: mod_Suc)
  then have "printbuf_from (Suc i) bs = concat (map hex_byte bs)"
    using assms(3) row by (intro printbuf_from_within_row) auto
  then show ?thesis using assms(1) row by simp
qed

definition row_lines :: "u8 list \<Rightarrow> string" where
  "row_lines bs = concat (map (\<lambda>r. concat (map hex_byte r) @ newline) (rows 16 bs))"

lemma row_lines_step:
  "bs \<noteq> [] \<Longrightarrow> row_lines bs = concat (map hex_byte (take 16 bs)) @ newline @ row_lines (drop 16 bs)"
  by (cases bs) (simp_all add: row_lines_def del: take_Suc_Cons drop_Suc_Cons take_Cons_numeral drop_Cons_numeral)

lemma printbuf_from_rows:
  "\<lbrakk>bs \<noteq> []; i mod 16 = 0\<rbrakk> \<Longrightarrow> printbuf_from i bs @ newline = (if i \<noteq> 0 then newline else []) @ row_lines bs"
proof (induction bs arbitrary: i rule: length_induct)
  case (1 bs)
  have split: "printbuf_from i bs = printbuf_from i (take 16 bs) @ printbuf_from (i + length (take 16 bs)) (drop 16 bs)"
    using printbuf_from_append [of i "take 16 bs" "drop 16 bs"] by simp
  have first: "printbuf_from i (take 16 bs) = (if i \<noteq> 0 then newline else []) @ concat (map hex_byte (take 16 bs))"
    using 1 by (intro printbuf_from_row) auto
  show ?case
  proof (cases "drop 16 bs = []")
    case True
    then show ?thesis using split first row_lines_step [OF "1.prems"(1)] by (simp add: row_lines_def)
  next
    case False
    then have len: "length (take 16 bs) = 16" by simp
    then have "printbuf_from (i + length (take 16 bs)) (drop 16 bs) @ newline = newline @ row_lines (drop 16 bs)"
      using 1 False by auto
    then show ?thesis using split first row_lines_step [OF "1.prems"(1)] by simp
  qed
qed

text \<open>\<open>printbuf\<close> writes the rows, and a single line break for an empty buffer.\<close>

lemma printbuf_rows: "printbuf bs = (if bs = [] then newline else row_lines bs)"
  using printbuf_from_rows [of bs 0] by (simp add: printbuf_def)

end
