(* ===== verification/System.thy ===== *)
theory System
  imports SendProps TransferProps ConfigProps WsiProps Teardown
begin

text \<open>
  The whole device: the threads of the program as steps on the state they share, in any order. The
  invariant says that the queues are within their bounds and own their blocks, that the fixed arrays
  keep their sizes, and that the stored parameters of the forward camera are in their ranges. Each
  operation keeps it; the lemmas are stated with the outcome of the operation, so that they compose
  along the handlers.
\<close>

section \<open>The invariant\<close>

definition rx_ok :: "decoder \<Rightarrow> bool" where
  "rx_ok rx \<longleftrightarrow> length (rcv_msg rx) = DATA_BUF_SIZE \<and> cnt rx \<le> DATA_BUF_SIZE \<and> (get_head rx \<longrightarrow> 0 < cnt rx)"

text \<open>A media descriptor whose photos have their ids in the array, and which asks for a video only if it is for
  one of the five alerts that record one.\<close>

definition mm_ok :: "InfoForStore \<Rightarrow> bool" where
  "mm_ok mm \<longleftrightarrow> length (st_photo_id mm) = WARN_SNAP_NUM_MAX \<and>
     (st_photo_enable mm \<noteq> 0 \<longrightarrow> unat (st_photo_num mm) \<le> WARN_SNAP_NUM_MAX) \<and>
     (st_video_enable mm \<noteq> 0 \<longrightarrow> st_warn_type mm \<in> {1, 2, 3, 4, 5})"

definition dev_inv :: "device \<Rightarrow> bool" where
  "dev_inv d \<longleftrightarrow> send_queue_ok (send_q d) \<and> mm_queue_ok (image_q d) \<and>
     (\<forall>n \<in> set (image_q d). mm_ok (q_mm n)) \<and> rx_ok (d_rx d) \<and> length (s_media_begin d) = 20 \<and> unat (s_media_num d) \<le> 20 \<and>
     unat (photo_num (adas_para (d_paras d))) \<le> WARN_SNAP_NUM_MAX"

text \<open>The fields the invariant does not speak of.\<close>

lemma dev_inv_upd [simp]:
  "dev_inv (d\<lparr>d_files := x1\<rparr>) = dev_inv d" "dev_inv (d\<lparr>d_config := x2\<rparr>) = dev_inv d"
  "dev_inv (d\<lparr>s_mm_id := x3\<rparr>) = dev_inv d" "dev_inv (d\<lparr>s_warning_id := x3\<rparr>) = dev_inv d"
  "dev_inv (d\<lparr>send_serial_num := x4\<rparr>) = dev_inv d" "dev_inv (d\<lparr>recv_serial_num := x4\<rparr>) = dev_inv d"
  "dev_inv (d\<lparr>s_index := x5\<rparr>) = dev_inv d" "dev_inv (d\<lparr>send_data := x6\<rparr>) = dev_inv d"
  "dev_inv (d\<lparr>recv_ack := x7\<rparr>) = dev_inv d" "dev_inv (d\<lparr>heart_beat_status := x8\<rparr>) = dev_inv d"
  "dev_inv (d\<lparr>connect_status := x8\<rparr>) = dev_inv d" "dev_inv (d\<lparr>hb_record_last := x9\<rparr>) = dev_inv d"
  "dev_inv (d\<lparr>hb_count := x3\<rparr>) = dev_inv d" "dev_inv (d\<lparr>speed_record_last := x9\<rparr>) = dev_inv d"
  "dev_inv (d\<lparr>rt_msg := x10\<rparr>) = dev_inv d" "dev_inv (d\<lparr>can760_msg := x11\<rparr>) = dev_inv d"
  "dev_inv (d\<lparr>pkg_status := x12\<rparr>) = dev_inv d" "dev_inv (d\<lparr>mmlist := x13\<rparr>) = dev_inv d"
  "dev_inv (d\<lparr>up := x14\<rparr>) = dev_inv d" "dev_inv (d\<lparr>can700 := x15\<rparr>) = dev_inv d"
  "dev_inv (d\<lparr>dms := x16\<rparr>) = dev_inv d" "dev_inv (d\<lparr>shell := x17\<rparr>) = dev_inv d"
  "dev_inv (d\<lparr>exited := x8\<rparr>) = dev_inv d" "dev_inv (d\<lparr>d_fd := x9\<rparr>) = dev_inv d"
  "dev_inv (d\<lparr>d_closed := x18\<rparr>) = dev_inv d"
  by (simp_all add: dev_inv_def)

section \<open>Operations that keep it\<close>

lemma send_queue_ok_message_queue_send:
  assumes "send_queue_ok (send_q d)"
  shows "send_queue_ok (send_q (snd (message_queue_send e cmd payload d)))"
proof -
  have "send_queue_ok (snd (ptr_queue_push m1 m2 (send_q d) (queued_msg e cmd payload d)))" for m1 m2
    using assms by (auto simp: ptr_queue_push_def send_queue_ok_def data_node_def Let_def)
  then show ?thesis by (simp add: message_queue_send_eq)
qed

lemma mm_queue_ok_push: "mm_queue_ok q \<Longrightarrow> mm_queue_ok (push_mm_queue tr m stk mm q)"
  by (auto simp: push_mm_queue_def ptr_queue_push_def mm_queue_ok_def queue_ok_def split: transport.split)

lemma push_mm_queue_descriptors: "q_mm ` set (push_mm_queue tr m stk mm q) \<subseteq> insert mm (q_mm ` set q)"
  by (auto simp: push_mm_queue_def ptr_queue_push_def split: transport.split)

lemma dev_inv_message_queue_send [simp]:
  "dev_inv d \<Longrightarrow> dev_inv (snd (message_queue_send e cmd payload d))"
  using send_queue_ok_message_queue_send [of d e cmd payload] by (simp add: dev_inv_def)

lemma dev_inv_do_serial_num [simp]: "dev_inv (snd (do_serial_num n m d)) = dev_inv d"
  by (simp add: do_serial_num_def Let_def split: serial_mode.split)

lemma dev_inv_remove_file [simp]: "dev_inv (remove_file p d) = dev_inv d"
  by (simp add: remove_file_def)

lemma dev_inv_clear_old_media [simp]: "dev_inv (clear_old_media_file b mm d) = dev_inv d"
  by (simp add: clear_old_media_file_def remove_old_def Let_def fold_frame [of dev_inv])

lemma dev_inv_record_media [simp]:
  assumes "dev_inv d" "mm_ok mm"
  shows "dev_inv (record_media e mm d)"
proof -
  define d1 where "d1 = clear_old_media_file (e_build e) mm d"
  have d1: "dev_inv d1" using assms(1) by (simp add: d1_def)
  then have "mm_queue_ok (image_q d1)" by (simp add: dev_inv_def)
  moreover have "dev_inv (d1\<lparr>image_q := q\<rparr>)"
    if "mm_queue_ok q" "q_mm ` set q \<subseteq> insert mm (q_mm ` set (image_q d1))" for q
    using d1 that assms(2) by (auto simp: dev_inv_def)
  ultimately show ?thesis
    unfolding record_media_def Let_def d1_def [symmetric] using push_mm_queue_descriptors mm_queue_ok_push by metis
qed

text \<open>An outcome all of whose results satisfy the property.\<close>

definition leads :: "('a \<Rightarrow> bool) \<Rightarrow> 'a outcome \<Rightarrow> bool" where
  "leads P m \<longleftrightarrow> (\<forall>x. m = Inr x \<longrightarrow> P x)"

lemma leads_simps [simp]: "leads P (Inr x) = P x" "leads P (Inl f)"
  by (simp_all add: leads_def)

named_theorems leads_intros \<open>the outcome of an operation keeps the invariant\<close>

lemma leads_bindE: "leads Q m \<Longrightarrow> (\<And>x. Q x \<Longrightarrow> leads P (k x)) \<Longrightarrow> leads P (bindE m k)"
  by (cases m) (auto simp: leads_def)

lemma leads_if [leads_intros]:
  "(c \<Longrightarrow> leads P a) \<Longrightarrow> (\<not> c \<Longrightarrow> leads P b) \<Longrightarrow> leads P (if c then a else b)"
  by simp

lemma leads_ok [leads_intros]: "P x \<Longrightarrow> leads P (Inr x)" "leads P (Inl f)"
  by simp_all

text \<open>The device is the last component of what an operation returns.\<close>

abbreviation inv2 :: "'a \<times> device \<Rightarrow> bool" where "inv2 \<equiv> \<lambda>x. dev_inv (snd x)"
abbreviation inv3 :: "'a \<times> 'b \<times> device \<Rightarrow> bool" where "inv3 \<equiv> \<lambda>x. dev_inv (snd (snd x))"
abbreviation inv4 :: "'a \<times> 'b \<times> 'c \<times> device \<Rightarrow> bool" where "inv4 \<equiv> \<lambda>x. dev_inv (snd (snd (snd x)))"

text \<open>Sequential composition, by the type of what the first operation returns.\<close>

lemma leads_seq [leads_intros]:
  "leads dev_inv m1 \<Longrightarrow> (\<And>d. dev_inv d \<Longrightarrow> leads P (k1 d)) \<Longrightarrow> leads P (bindE m1 k1)"
  "leads inv2 m2 \<Longrightarrow> (\<And>x. inv2 x \<Longrightarrow> leads P (k2 x)) \<Longrightarrow> leads P (bindE m2 k2)"
  "leads inv3 m3 \<Longrightarrow> (\<And>x. inv3 x \<Longrightarrow> leads P (k3 x)) \<Longrightarrow> leads P (bindE m3 k3)"
  "leads inv4 m4 \<Longrightarrow> (\<And>x. inv4 x \<Longrightarrow> leads P (k4 x)) \<Longrightarrow> leads P (bindE m4 k4)"
  using leads_bindE by blast+

lemma dev_inv_get_next_id [simp]: "dev_inv (snd (snd (get_next_id m n d))) = dev_inv d"
  by (simp add: get_next_id_def Let_def split_beta split: id_mode.split)

lemma leads_add_photos:
  assumes "dev_inv d" "length (st_photo_id mm) = WARN_SNAP_NUM_MAX" "st_video_enable mm \<noteq> 0 \<longrightarrow> st_warn_type mm \<in> {1, 2, 3, 4, 5}"
  shows "leads (\<lambda>x. mm_ok (fst x) \<and> inv3 x) (add_photos mm d)"
  unfolding add_photos_def Let_def split_beta
  by (intro leads_intros) (use assms in \<open>simp_all add: mm_ok_def get_mm_ids\<close>)

lemma dev_inv_add_video [simp]:
  "dev_inv (snd (snd (add_video mm d))) = dev_inv d" "mm_ok (fst (add_video mm d)) = mm_ok mm"
  unfolding add_video_def Let_def split_beta by (simp_all add: mm_ok_def)

lemma mm_ok_upd [simp]:
  "mm_ok (mm\<lparr>st_get_another_camera_video := x\<rparr>) = mm_ok mm"
  "mm_ok mm \<Longrightarrow> st_video_enable mm \<noteq> 0 \<Longrightarrow> mm_ok (mm\<lparr>st_get_another_camera_video := x, st_video_enable := v, st_photo_enable := 0\<rparr>)"
  by (simp_all add: mm_ok_def)

lemma leads_alert_media [leads_intros]:
  "dev_inv d \<Longrightarrow> length (st_photo_id mm) = WARN_SNAP_NUM_MAX \<Longrightarrow>
   st_video_enable mm \<noteq> 0 \<longrightarrow> st_warn_type mm \<in> {1, 2, 3, 4, 5} \<Longrightarrow> leads inv2 (alert_media e mm d)"
  unfolding alert_media_def Let_def split_beta
  by (intro leads_if leads_ok leads_bindE [OF leads_add_photos]) simp_all

lemma leads_snap_media [leads_intros]:
  "dev_inv d \<Longrightarrow> length (st_photo_id mm) = WARN_SNAP_NUM_MAX \<Longrightarrow>
   st_video_enable mm \<noteq> 0 \<longrightarrow> st_warn_type mm \<in> {1, 2, 3, 4, 5} \<Longrightarrow> leads inv2 (snap_media e mm d)"
  unfolding snap_media_def Let_def split_beta
  by (intro leads_if leads_ok leads_bindE [OF leads_add_photos]) simp_all

lemma length_Info_for_store [simp]:
  "length (st_photo_id (get_adas_Info_for_store p t mm)) = length (st_photo_id mm)"
  "length (st_photo_id (get_dms_Info_for_store q t mm)) = length (st_photo_id mm)"
  "length (st_photo_id InfoForStore_zero) = WARN_SNAP_NUM_MAX"
  by (simp_all add: get_adas_Info_for_store_def get_dms_Info_for_store_def Let_def InfoForStore_zero_def WARN_SNAP_NUM_MAX_def)

text \<open>The other types ask for no video.\<close>

lemma video_Info_for_store [simp]:
  "type \<notin> {1, 2, 3, 4, 5} \<Longrightarrow> st_video_enable (get_adas_Info_for_store p type InfoForStore_zero) = 0"
  "type \<notin> {1, 2, 3, 4, 5} \<Longrightarrow> st_video_enable (get_dms_Info_for_store q type InfoForStore_zero) = 0"
  by (simp_all add: get_adas_Info_for_store_def get_dms_Info_for_store_def InfoForStore_zero_def Let_def)

lemma dev_inv_remember:
  "dev_inv d \<Longrightarrow> length ms \<le> 20 \<Longrightarrow>
   dev_inv (d\<lparr>s_media_begin := ms @ drop (length ms) (s_media_begin d), s_media_num := of_nat (length ms)\<rparr>)"
  by (simp add: dev_inv_def unat_of_nat)

lemma leads_build_adas [leads_intros]: "dev_inv d \<Longrightarrow> leads inv2 (build_adas_warn_frame e type st f d)"
  unfolding build_adas_warn_frame_def Let_def split_beta
  by (intro leads_intros) (simp_all add: dev_inv_remember)

lemma leads_build_dms [leads_intros]: "dev_inv d \<Longrightarrow> leads inv2 (build_dms_warn_frame e type st f d)"
  unfolding build_dms_warn_frame_def Let_def split_beta by (intro leads_intros) simp_all

lemma dev_inv_send_warn [simp]:
  "dev_inv d \<Longrightarrow> dev_inv (send_adas_warn e f d)" "dev_inv d \<Longrightarrow> dev_inv (send_dms_warn e g d)"
  by (simp_all add: send_adas_warn_def send_dms_warn_def)

lemma leads_do_snap_shot [leads_intros]: "dev_inv d \<Longrightarrow> leads dev_inv (do_snap_shot e d)"
  unfolding do_snap_shot_def split_beta
  by (cases "e_build e", simp_all only: build.case) (intro leads_intros; simp)+

lemma leads_ldw_stage [leads_intros]: "dev_inv d \<Longrightarrow> leads inv3 (ldw_stage e can f d)"
  unfolding ldw_stage_def Let_def split_beta by (intro leads_intros) simp_all

lemma leads_fcw_stage [leads_intros]: "dev_inv d \<Longrightarrow> leads inv3 (fcw_stage e can f d)"
  unfolding fcw_stage_def Let_def split_beta by (intro leads_intros) simp_all

lemma leads_headway_stage [leads_intros]: "dev_inv d \<Longrightarrow> leads inv3 (headway_stage e can f d)"
  unfolding headway_stage_def Let_def split_beta by (intro leads_intros) simp_all

lemma leads_can700 [leads_intros]: "dev_inv d \<Longrightarrow> leads dev_inv (deal_wsi_adas_can700 e w d)"
  unfolding deal_wsi_adas_can700_def Let_def split_beta by (intro leads_intros) simp_all

lemma leads_dms_stage [leads_intros]: "dev_inv d \<Longrightarrow> leads inv4 (dms_stage e c t tm vt f d)"
  unfolding dms_stage_def Let_def split_beta by (intro leads_intros) simp_all

lemma leads_dms_five [leads_intros]: "dev_inv d \<Longrightarrow> leads inv3 (dms_five_alerts e cur lst d)"
  unfolding dms_five_alerts_def Let_def split_beta by (intro leads_intros) simp_all

lemma leads_dms_info [leads_intros]: "dev_inv d \<Longrightarrow> leads dev_inv (deal_wsi_dms_info e w d)"
  unfolding deal_wsi_dms_info_def Let_def split_beta by (intro leads_intros) simp_all

section \<open>Commands\<close>

lemma photo_num_write_dev_para:
  assumes "unat (photo_num (adas_para ps)) \<le> WARN_SNAP_NUM_MAX"
  shows "unat (photo_num (adas_para (write_dev_para in8 type ps))) \<le> WARN_SNAP_NUM_MAX"
proof -
  have "adas_para (write_dev_para in8 type ps) = adas_para ps \<or> adas_para_ok (adas_para (write_dev_para in8 type ps))"
    by (simp add: write_dev_para_def Let_def)
  moreover have "unat (photo_num p) \<le> WARN_SNAP_NUM_MAX" if "adas_para_ok p" for p
  proof -
    have "photo_num p \<le> 10" using that by (simp add: adas_para_ok_def base_para_ok_def in_range_def)
    then show ?thesis by (simp add: word_le_nat_alt WARN_SNAP_NUM_MAX_def)
  qed
  ultimately show ?thesis using assms by metis
qed

lemma dev_inv_write_dev_para [simp]: "dev_inv d \<Longrightarrow> dev_inv (d\<lparr>d_paras := write_dev_para in8 type (d_paras d)\<rparr>)"
  by (simp add: dev_inv_def photo_num_write_dev_para)

lemma dev_inv_set_filepath [simp]: "dev_inv (set_filepath p d) = dev_inv d"
  by (simp add: set_filepath_def)

lemma dev_inv_find_local_image_name [simp]: "dev_inv (snd (find_local_image_name e i d)) = dev_inv d"
  by (simp add: find_local_image_name_def Let_def)

lemma dev_inv_sample_send_image [simp]: "dev_inv d \<Longrightarrow> dev_inv (snd (sample_send_image e d))"
  by (simp add: sample_send_image_def Let_def split: option.split)

lemma dev_inv_cells [simp]:
  "dev_inv (notice_ack_msg d) = dev_inv d" "dev_inv (snd (heart_beat_process b m d)) = dev_inv d"
  "dev_inv (snd (process_socket_status b m d)) = dev_inv d"
  "dev_inv (snd (RealTimeDdata_process r m d)) = dev_inv d"
  "dev_inv (snd (can760_message_process c m d)) = dev_inv d"
  by (simp_all add: notice_ack_msg_def heart_beat_process_def process_socket_status_def RealTimeDdata_process_def
      can760_message_process_def split: cell_mode.split)

lemma dev_inv_system [simp]: "dev_inv (system c d) = dev_inv d"
  by (simp add: system_def Let_def)

lemma dev_inv_run_upgrade_script [simp]: "dev_inv (run_upgrade_script e d) = dev_inv d"
  by (simp add: run_upgrade_script_def Let_def)

lemma dev_inv_handle_close [simp]: "dev_inv (handle_close d) = dev_inv d"
  by (simp add: handle_close_def)

lemma dev_inv_upgrade_write [simp]: "dev_inv (snd (upgrade_write e off data d)) = dev_inv d"
  by (simp add: upgrade_write_def Let_def)

lemma dev_inv_upgrade_ack [simp]: "dev_inv d \<Longrightarrow> dev_inv (upgrade_ack e data d)"
  by (simp add: upgrade_ack_def)

lemma leads_recv_upgrade_data [leads_intros]:
  "dev_inv d \<Longrightarrow> leads dev_inv (recv_upgrade_data e pchar len n i d)"
  unfolding recv_upgrade_data_def Let_def split_beta by (intro leads_intros) simp_all

lemma leads_recv_upgrade_file [leads_intros]: "dev_inv d \<Longrightarrow> leads dev_inv (recv_upgrade_file e buf len d)"
  unfolding recv_upgrade_file_def Let_def split_beta by (intro leads_intros) simp_all

lemma dev_inv_handlers [simp]:
  assumes "dev_inv d"
  shows "dev_inv (write_RealTimeData buf len d)" "dev_inv (do_factory_reset e i d)"
    "dev_inv (recv_para_setting e buf len d)" "dev_inv (send_para_setting e buf len d)"
    "dev_inv (recv_warning_ack len d)" "dev_inv (recv_upload_status_cmd_ack len d)"
    "dev_inv (reply_work_status e len d)" "dev_inv (auto_send_work_status e d)"
    "dev_inv (send_snap_shot_ack e len d)" "dev_inv (snd (recv_ack_and_send_image e buf d))"
    "dev_inv (snd (snd (send_mm_req_ack e buf len d)))"
  using assms
  by (simp_all add: write_RealTimeData_def do_factory_reset_def set_AdasParaSetting_default_def
      set_DmsParaSetting_default_def recv_para_setting_def send_para_setting_def recv_warning_ack_def
      recv_upload_status_cmd_ack_def reply_work_status_def auto_send_work_status_def send_snap_shot_ack_def
      recv_ack_and_send_image_def send_mm_req_ack_def Let_def split_beta)

text \<open>A reply built in the receive buffer has no payload and fits.\<close>

lemma length_overwrite_reply:
  "16 \<le> length buf \<Longrightarrow> length (overwrite buf (fst (message_queue_send e cmd [] d))) = length buf"
  using length_transmit_build_frame(2) [of "e_build e" "send_serial cmd d" cmd "[]"]
  by (simp add: message_queue_send_eq overwrite_def)

lemma length_send_mm_req_ack:
  "16 \<le> length buf \<Longrightarrow> length (fst (snd (send_mm_req_ack e buf len d))) = length buf"
  by (simp add: send_mm_req_ack_def Let_def split_beta length_overwrite_reply)

lemma leads_sample_on_cmd:
  assumes "dev_inv d" "16 \<le> length buf"
  shows "leads (\<lambda>x. length (fst x) = length buf \<and> dev_inv (snd x)) (sample_on_cmd e buf len d)"
  unfolding sample_on_cmd_def Let_def split_beta
  by (intro leads_intros) (simp_all add: assms length_overwrite_reply length_send_mm_req_ack)

lemma leads_unescaple_msg: "rx_ok rx \<Longrightarrow> leads (\<lambda>x. rx_ok (snd x)) (unescaple_msg ch len rx)"
  by (auto simp: leads_def unescaple_msg_def put_msg_def rx_ok_def clear_frame_flag_def split: if_splits)

lemma dev_inv_rx: "dev_inv d \<Longrightarrow> rx_ok rx \<Longrightarrow> dev_inv (d\<lparr>d_rx := rx\<rparr>)"
  by (simp add: dev_inv_def)

lemma dev_inv_rcv_msg: "dev_inv d \<Longrightarrow> length buf = DATA_BUF_SIZE \<Longrightarrow> dev_inv (d\<lparr>d_rx := (d_rx d)\<lparr>rcv_msg := buf\<rparr>\<rparr>)"
  by (simp add: dev_inv_def rx_ok_def)

text \<open>One round of the loop of \<open>prot_parse\<close>.\<close>

definition parse_byte :: "env \<Rightarrow> u8 \<Rightarrow> device \<Rightarrow> device outcome" where
  "parse_byte e ch d = bindE (unescaple_msg ch SLIP_DATA_BUF_SIZE (d_rx d)) (\<lambda>(ret, rx).
     let d = d\<lparr>d_rx := rx\<rparr>; buf = rcv_msg rx in
     if ret > 0 \<and> sample_calc_sum buf ret = hdr_checksum (SBProtHeader_at buf)
     then bindE (sample_on_cmd e buf ret d) (\<lambda>(buf, d). Inr (d\<lparr>d_rx := (d_rx d)\<lparr>rcv_msg := buf\<rparr>\<rparr>))
     else Inr d)"

lemma prot_parse_Cons:
  "prot_parse e (ch # s) d = (if exited d then Inr d else bindE (parse_byte e ch d) (prot_parse e s))"
  unfolding parse_byte_def prot_parse.simps bindE_assoc Let_def case_prod_unfold by (rule refl)

lemma leads_parse_byte [leads_intros]:
  assumes "dev_inv d"
  shows "leads dev_inv (parse_byte e ch d)"
  unfolding parse_byte_def Let_def split_beta
proof (rule leads_bindE)
  show "leads (\<lambda>x. rx_ok (snd x)) (unescaple_msg ch SLIP_DATA_BUF_SIZE (d_rx d))"
    using assms by (intro leads_unescaple_msg) (simp add: dev_inv_def)
next
  fix x :: "nat \<times> decoder"
  assume rx: "rx_ok (snd x)"
  then have len: "length (rcv_msg (snd x)) = DATA_BUF_SIZE" by (simp add: rx_ok_def)
  have inv: "dev_inv (d\<lparr>d_rx := snd x\<rparr>)" using assms rx by (rule dev_inv_rx)
  have "leads dev_inv (bindE (sample_on_cmd e (rcv_msg (snd x)) n (d\<lparr>d_rx := snd x\<rparr>))
      (\<lambda>x. Inr ((snd x)\<lparr>d_rx := (d_rx (snd x))\<lparr>rcv_msg := fst x\<rparr>\<rparr>)))" for n
    by (rule leads_bindE [OF leads_sample_on_cmd [OF inv]])
      (simp_all add: len dev_inv_rcv_msg, simp add: size_defs)
  then show "leads dev_inv (if 0 < fst x \<and> sample_calc_sum (rcv_msg (snd x)) (fst x) = hdr_checksum (SBProtHeader_at (rcv_msg (snd x)))
      then bindE (sample_on_cmd e (rcv_msg (snd x)) (fst x) (d\<lparr>d_rx := snd x\<rparr>))
        (\<lambda>x. Inr ((snd x)\<lparr>d_rx := (d_rx (snd x))\<lparr>rcv_msg := fst x\<rparr>\<rparr>))
      else Inr (d\<lparr>d_rx := snd x\<rparr>))"
    using inv by simp
qed

lemma leads_prot_parse [leads_intros]: "dev_inv d \<Longrightarrow> leads dev_inv (prot_parse e s d)"
proof (induction s arbitrary: d)
  case (Cons ch s)
  then show ?case unfolding prot_parse_Cons by (intro leads_intros Cons.IH) simp_all
qed simp

lemma leads_handle_rcv [leads_intros]: "dev_inv d \<Longrightarrow> leads inv3 (handle_rcv e sel d)"
  unfolding handle_rcv_def tcp_rcv_def uart_rcv_def
  by (cases "e_tr e"; cases sel; simp split: read_result.split)
    (auto intro!: leads_intros)

section \<open>The other threads\<close>

lemma clear_queue_loop_empty: "clear_queue_loop header q = Inr q' \<Longrightarrow> q' = []"
proof (induction header q rule: clear_queue_loop.induct)
  case (1 header q)
  show ?case
  proof (cases "ptr_queue_pop q header")
    case (Inr r)
    obtain ret header' q1 where r: "r = (ret, header', q1)" by (cases r)
    show ?thesis
    proof (cases "ret = 0")
      case True
      then have "clear_queue_loop header' q1 = Inr q'" using 1(2) Inr r by simp
      then show ?thesis using 1(1) [OF Inr r [symmetric] refl True] by simp
    next
      case False
      then have "q1 = []" using Inr r by (auto simp: ptr_queue_pop_def Let_def split: list.splits cptr.splits if_splits)
      then show ?thesis using 1(2) Inr r False by simp
    qed
  qed (use 1(2) in simp)
qed

lemma leads_clear_queue: "leads (\<lambda>q. q = []) (clear_queue stk q)"
  unfolding leads_def clear_queue_def using clear_queue_loop_empty by blast

lemma leads_do_stat_reset [leads_intros]: "dev_inv d \<Longrightarrow> leads dev_inv (do_stat_reset e d)"
  unfolding do_stat_reset_def send_stat_pkg_init_def Let_def
  by (rule leads_bindE [OF leads_clear_queue]) (simp add: dev_inv_def send_queue_ok_def)

lemma leads_on_connected [leads_intros]: "dev_inv d \<Longrightarrow> leads dev_inv (on_connected e d)"
  unfolding on_connected_def by (intro leads_intros) simp_all

lemma dev_inv_timers [simp]:
  "dev_inv (tcp_socket_close d) = dev_inv d" "dev_inv (record_speed e d) = dev_inv d"
  "dev_inv (check_heart_beat e d) = dev_inv d"
  by (simp_all add: tcp_socket_close_def record_speed_def check_heart_beat_def Let_def split_beta)

lemma leads_snap_step [leads_intros]: "dev_inv d \<Longrightarrow> leads inv2 (pthread_snap_shot_step e l d)"
  unfolding pthread_snap_shot_step_def Let_def split_beta by (intro leads_intros) simp_all

lemma dev_inv_send_attempts:
  "send_attempts tr handle att i n d = Some (wires, d') \<Longrightarrow> dev_inv d' = dev_inv d"
proof (induction "3 - i" arbitrary: i n d wires)
  case 0
  then show ?case by (simp add: send_attempts.simps)
next
  case (Suc k)
  from Suc.prems Suc.hyps(2) show ?case
    by (subst (asm) send_attempts.simps)
      (auto simp: Let_def stop_waiting_def split: option.splits prod.splits if_splits dest!: Suc.hyps(1) [rotated])
qed

lemma send_package_safe:
  assumes "dev_inv d" "handle_ok handle"
  shows "\<exists>r. send_package e att handle d = Inr r \<and>
    (case r of None \<Rightarrow> True | Some (ret, wires, handle', d') \<Rightarrow> dev_inv d' \<and> handle_ok handle')"
proof (cases "connect_status d \<and> send_q d \<noteq> []")
  case False
  then show ?thesis
    using assms by (auto simp: send_package_def process_socket_status_def ptr_queue_pop_def)
next
  case True
  then obtain m q where q: "connect_status d" "send_q d = m # q" by (auto simp: neq_Nil_conv)
  with assms have m: "data_node m" and inv: "dev_inv (d\<lparr>send_q := q\<rparr>)"
    by (auto simp: dev_inv_def send_queue_ok_def)
  obtain frame where frame: "q_buf m = Mem frame" using m by (auto simp: data_node_def)
  note pop = pop_into_sndData [OF q(2) m frame assms(2)]
  have len: "length frame \<le> SLIP_DATA_BUF_SIZE"
    using m frame by (auto simp: data_node_def SLIP_DATA_BUF_SIZE_def)
  let ?h = "loaded handle frame"
  have h: "handle_ok ?h" using assms(2) len by (simp add: handle_ok_def loaded_def)
  have sent: "case send_attempts (e_tr e) ?h att 0 n (d\<lparr>send_q := q\<rparr>) of None \<Rightarrow> True
      | Some (wires, d') \<Rightarrow> dev_inv d'" for n
    using inv dev_inv_send_attempts [of "e_tr e" ?h att 0 n "d\<lparr>send_q := q\<rparr>"] by (auto split: option.split)
  show ?thesis
    using q(1) pop(1) [where e = e] pop(2) h inv sent [of "pkg_send_repeat (q_pkg m)"]
    by (auto simp: send_package_def process_socket_status_def loaded_def Let_def split: option.split)
qed

lemma leads_unpack_wsi_msg [leads_intros]:
  assumes "dev_inv d"
  shows "leads inv2 (unpack_wsi_msg e obj t d)"
proof -
  have "leads inv2 (bindE (deal_wsi_adas_can700 e w d) (\<lambda>d. Inr (t, d)))"
    "leads inv2 (bindE (deal_wsi_dms_info e w d) (\<lambda>d. Inr (t, d)))" for w t
    using assms by (auto intro!: leads_intros)
  then show ?thesis
    unfolding unpack_wsi_msg_def split_beta
    by (intro leads_bindE [where Q = "\<lambda>_. True"])
      (auto simp: leads_def [of "\<lambda>_. True"] deal_wsi_adas_can760_def assms split: option.split build.split)
qed

lemma write_one_jpeg_inv: "write_one_jpeg e mm f i d = Inr d' \<Longrightarrow> dev_inv d' = dev_inv d"
  by (auto simp: write_one_jpeg_def Let_def split_beta split: if_splits)

lemma store_jpeg_loop_inv:
  "store_jpeg_loop e mm j t rs d = Some (Inr d') \<Longrightarrow> dev_inv d' = dev_inv d"
proof (induction "length rs" arbitrary: j t rs d rule: less_induct)
  case less
  note loop = less.prems [unfolded store_jpeg_loop.simps [of e mm j t rs d]]
  obtain f rs' where r: "request_jpeg_frame 0 rs = Some (f, rs')" using loop by (auto split: option.splits)
  note IH = less.hyps [OF request_jpeg_frame_shorter [OF r]]
  show ?case
  proof (cases f)
    case None
    then show ?thesis using loop r IH by (simp split: if_splits)
  next
    case (Some pic)
    then show ?thesis
      using loop r IH by (simp split: if_splits sum.splits) (use write_one_jpeg_inv in metis)+
  qed
qed

section \<open>The whole program\<close>

text \<open>The shared device, and what each thread keeps for itself: the receive thread its phase and its
  socket, the sending thread the handle with the buffer it sends from, the snapshot thread its timers,
  the recording thread its tasks, the websocket thread the type of the last key it read; and whether the
  buffers of the handle, which these two threads share, are still allocated. The fields
  \<open>r_dev\<close> and \<open>sm_dev\<close> of two of these states are set to the shared device when the thread runs.\<close>

record sys =
  sy_dev :: device
  sy_recv :: recv_thread
  sy_snd :: prot_handle
  sy_snap :: snap_locals
  sy_save :: save_media
  sy_wsi :: data_type
  sy_bufs :: handle_bufs

text \<open>A step is one turn of one of the threads that \<open>main\<close> starts, or one half of a task of the recording
  thread, the photos or the video, or a task that was never set, which calls through a null pointer. The clock, the allocator and the other things \<open>env\<close> stands for may be different at each
  turn, the build and the transport are not. Nothing runs after the process has exited. An interrupt asks
  the threads to end; that one of them has a turn more than it really has then is harmless to what holds in
  every state.\<close>

inductive sys_step :: "build \<Rightarrow> transport \<Rightarrow> sys \<Rightarrow> sys outcome \<Rightarrow> bool" for b tr where
  receive: "\<not> exited (sy_dev s) \<Longrightarrow> e_build e = b \<Longrightarrow> e_tr e = tr \<Longrightarrow>
    recv_step e ((sy_recv s)\<lparr>r_dev := sy_dev s\<rparr>) m \<Longrightarrow>
    sys_step b tr s (bindE m (\<lambda>r. bindE (teardown (sy_recv s) r (sy_bufs s)) (\<lambda>bufs.
      Inr (s\<lparr>sy_recv := r, sy_dev := r_dev r, sy_bufs := bufs\<rparr>))))"
| send: "\<not> exited (sy_dev s) \<Longrightarrow> e_build e = b \<Longrightarrow> e_tr e = tr \<Longrightarrow>
    sys_step b tr s (bindE (sender_turn (sy_bufs s) e att (sy_snd s) (sy_dev s)) (\<lambda>r.
      case r of None \<Rightarrow> Inr s | Some (ret, wires, handle, d) \<Rightarrow> Inr (s\<lparr>sy_snd := handle, sy_dev := d\<rparr>)))"
| snap: "\<not> exited (sy_dev s) \<Longrightarrow> e_build e = b \<Longrightarrow> e_tr e = tr \<Longrightarrow>
    sys_step b tr s (bindE (pthread_snap_shot_step e (sy_snap s) (sy_dev s)) (\<lambda>(l, d).
      Inr (s\<lparr>sy_snap := l, sy_dev := d\<rparr>)))"
| recording: "\<not> exited (sy_dev s) \<Longrightarrow> e_build e = b \<Longrightarrow> e_tr e = tr \<Longrightarrow>
    sys_step b tr s (bindE (pthread_save_media e ((sy_save s)\<lparr>sm_dev := sy_dev s\<rparr>)) (\<lambda>r.
      Inr (s\<lparr>sy_save := r, sy_dev := sm_dev r\<rparr>)))"
| photos: "\<not> exited (sy_dev s) \<Longrightarrow> e_build e = b \<Longrightarrow> e_tr e = tr \<Longrightarrow>
    Record_mm_info i user camera mm \<in> set (sm_tasks (sy_save s)) \<Longrightarrow>
    store_jpeg e mm frames (sy_dev s) = Some m \<Longrightarrow>
    sys_step b tr s (bindE m (\<lambda>(t, d). Inr (s\<lparr>sy_dev := d\<rparr>)))"
| videos: "\<not> exited (sy_dev s) \<Longrightarrow> e_build e = b \<Longrightarrow> e_tr e = tr \<Longrightarrow>
    Record_mm_info i user camera mm \<in> set (sm_tasks (sy_save s)) \<or>
      Record_video_media user camera mm \<in> set (sm_tasks (sy_save s)) \<Longrightarrow>
    sys_step b tr s (bindE (record_video_media e user camera mm) (\<lambda>reqs. Inr s))"
| unset_task: "\<not> exited (sy_dev s) \<Longrightarrow> Unset_closure \<in> set (sm_tasks (sy_save s)) \<Longrightarrow>
    sys_step b tr s (Inl Null_pointer)"
| websocket: "\<not> exited (sy_dev s) \<Longrightarrow> e_build e = b \<Longrightarrow> e_tr e = tr \<Longrightarrow>
    sys_step b tr s (bindE (unpack_wsi_msg e obj (sy_wsi s) (sy_dev s)) (\<lambda>(t, d).
      Inr (s\<lparr>sy_wsi := t, sy_dev := d\<rparr>)))"
| interrupt: "\<not> exited (sy_dev s) \<Longrightarrow>
    sys_step b tr s (Inr (s\<lparr>sy_recv := fst (sighandler (sy_recv s) (sy_dev s)),
      sy_dev := snd (sighandler (sy_recv s) (sy_dev s))\<rparr>))"

inductive sys_reachable :: "build \<Rightarrow> transport \<Rightarrow> sys \<Rightarrow> sys \<Rightarrow> bool" for b tr s0 where
  init: "sys_reachable b tr s0 s0"
| step: "sys_reachable b tr s0 s \<Longrightarrow> sys_step b tr s (Inr s') \<Longrightarrow> sys_reachable b tr s0 s'"

primrec task_ok :: "task \<Rightarrow> bool" where
  "task_ok (Record_mm_info i user camera mm) \<longleftrightarrow> mm_ok mm \<and> (st_video_enable mm \<noteq> 0 \<longrightarrow> user \<noteq> None)"
| "task_ok (Record_video_media user camera mm) \<longleftrightarrow> mm_ok mm \<and> (st_video_enable mm \<noteq> 0 \<longrightarrow> user \<noteq> None)"
| "task_ok Unset_closure \<longleftrightarrow> False"

definition sys_inv :: "sys \<Rightarrow> bool" where
  "sys_inv s \<longleftrightarrow> dev_inv (sy_dev s) \<and> handle_ok (sy_snd s) \<and> list_all task_ok (sm_tasks (sy_save s)) \<and>
     (r_phase (sy_recv s) \<noteq> R_end \<longrightarrow> bufs_ready (sy_bufs s))"

lemma task_ok_save_media_task:
  assumes "mm_ok mm"
  shows "task_ok (snd (save_media_task b mm))"
proof -
  have index: "adas_alert_type_to_index t \<noteq> unat SB_WARN_TYPE_SNAP" "dms_alert_type_to_index t \<noteq> unat DMS_SANPSHOT_EVENT" for t
    by (simp_all add: adas_alert_type_to_index_def dms_alert_type_to_index_def)
  have user: "adas_alert_type_to_index t < 3" "dms_alert_type_to_index t < 5" if "t \<in> {1, 2, 3, 4, 5}" for t
    using that by (auto simp: adas_alert_type_to_index_def dms_alert_type_to_index_def)
  show ?thesis
    using assms user [of "st_warn_type mm"] index
    by (cases b) (auto simp: save_media_task_def Let_def entry_def mm_ok_def adas_video_user_def dms_video_user_def
        related_dms_user_def related_adas_user_def)
qed

lemma record_video_media_ok:
  "(st_video_enable mm \<noteq> 0 \<longrightarrow> user \<noteq> None) \<Longrightarrow> \<exists>reqs. record_video_media e user camera mm = Inr reqs"
  by (cases user) (simp_all add: record_video_media_def)

lemma save_media_safe:
  assumes "dev_inv (sm_dev s)" "list_all task_ok (sm_tasks s)"
  shows "\<exists>s'. pthread_save_media e s = Inr s' \<and> dev_inv (sm_dev s') \<and> list_all task_ok (sm_tasks s')"
proof (cases "image_q (sm_dev s)")
  case Nil
  then show ?thesis using assms by (simp add: pthread_save_media_def pull_mm_queue_Nil split_beta)
next
  case (Cons n q)
  with assms have "q_buf n = Null" "mm_ok (q_mm n)" "dev_inv ((sm_dev s)\<lparr>image_q := q\<rparr>)"
    by (auto simp: dev_inv_def mm_queue_ok_def queue_ok_def)
  with Cons assms(2) show ?thesis by (simp add: pthread_save_media_def pull_mm_queue_Cons task_ok_save_media_task)
qed

lemma recv_step_inv: "recv_step e s m \<Longrightarrow> dev_inv (r_dev s) \<Longrightarrow> leads (\<lambda>s. dev_inv (r_dev s)) m"
proof (induction rule: recv_step.induct)
  case (serve s sel)
  then show ?case
    unfolding split_beta by (intro leads_intros) simp_all
qed (auto intro!: leads_intros)

lemma process_send_safe:
  assumes "dev_inv d" "handle_ok handle"
  shows "\<exists>r. pthread_process_send e att handle d = Inr r \<and>
    (case r of None \<Rightarrow> True | Some (ret, wires, handle', d') \<Rightarrow> dev_inv d' \<and> handle_ok handle')"
  using assms send_package_safe [of "d\<lparr>send_data := send_data d - 1\<rparr>" handle e att]
  by (simp add: pthread_process_send_def)

lemma sys_step_inv:
  assumes "sys_step b tr s m" "sys_inv s"
  shows "leads sys_inv m"
  using assms
proof cases
  case (receive e m')
  let ?r = "(sy_recv s)\<lparr>r_dev := sy_dev s\<rparr>"
  have "leads (\<lambda>r. dev_inv (r_dev r) \<and> (r_phase (sy_recv s) = R_end \<longrightarrow> r_phase r = R_end)) m'"
    using recv_step_inv [OF receive(5)] ended_stays [of e ?r] receive(5) assms(2)
    by (auto simp: sys_inv_def leads_def)
  moreover have "leads sys_inv (bindE (teardown (sy_recv s) r (sy_bufs s)) (\<lambda>bufs.
      Inr (s\<lparr>sy_recv := r, sy_dev := r_dev r, sy_bufs := bufs\<rparr>)))"
    if "dev_inv (r_dev r)" "r_phase (sy_recv s) = R_end \<longrightarrow> r_phase r = R_end" for r
    using that assms(2) by (auto simp: teardown_def sys_inv_def handle_distroy_ready)
  ultimately show ?thesis unfolding receive(1) by (rule leads_bindE) auto
next
  case (send e att)
  obtain r where "pthread_process_send e att (sy_snd s) (sy_dev s) = Inr r"
    "case r of None \<Rightarrow> True | Some (ret, wires, handle', d') \<Rightarrow> dev_inv d' \<and> handle_ok handle'"
    using process_send_safe [of "sy_dev s" "sy_snd s" e att] assms(2) by (auto simp: sys_inv_def)
  then show ?thesis
    using assms(2) sender_turn_cases [of "sy_bufs s" e att "sy_snd s" "sy_dev s"]
    by (auto simp: send(1) sys_inv_def split: option.splits)
next
  case (snap e)
  then show ?thesis
    using assms(2) unfolding sys_inv_def snap(1) split_beta by (intro leads_intros) simp_all
next
  case (recording e)
  then show ?thesis
    using assms(2) save_media_safe [of "(sy_save s)\<lparr>sm_dev := sy_dev s\<rparr>" e] by (auto simp: sys_inv_def)
next
  case (photos e i user camera mm frames m')
  then show ?thesis
    using assms(2) by (cases m') (auto simp: sys_inv_def store_jpeg_def split: if_splits simp: bindE_Inr_iff dest!: store_jpeg_loop_inv)
next
  case (videos e i user camera mm)
  then show ?thesis
    using assms(2) by (auto simp: leads_def bindE_Inr_iff)
next
  case unset_task
  then show ?thesis by simp
next
  case (websocket e obj)
  then show ?thesis
    using assms(2) unfolding sys_inv_def websocket(1) split_beta by (intro leads_intros) simp_all
next
  case interrupt
  then show ?thesis
    using assms(2) by (simp add: sys_inv_def sighandler_def pthread_exit_notice_def notice_tcp_send_exit_def)
qed

lemma sys_reachable_inv: "sys_reachable b tr s0 s \<Longrightarrow> sys_inv s0 \<Longrightarrow> sys_inv s"
proof (induction rule: sys_reachable.induct)
  case (step s s')
  then show ?case using sys_step_inv [of b tr s "Inr s'"] by simp
qed

end
