(* ===== verification/SystemProps.thy ===== *)
theory SystemProps
  imports System
begin

text \<open>
  What holds of the whole program: the invariant from the start on, and which memory faults either
  build can run into at all.
\<close>

section \<open>The faults an operation can have\<close>

definition faults :: "fault set \<Rightarrow> 'a outcome \<Rightarrow> bool" where
  "faults F m \<longleftrightarrow> (\<forall>f. m = Inl f \<longrightarrow> f \<in> F)"

named_theorems fault_intros \<open>the faults of a computation, by its steps\<close>

lemma faults_simps [simp]: "faults F (Inr x)" "faults F (Inl f) \<longleftrightarrow> f \<in> F"
  by (simp_all add: faults_def)

lemma faults_bindE [fault_intros]:
  "faults F m \<Longrightarrow> (\<And>x. m = Inr x \<Longrightarrow> faults F (k x)) \<Longrightarrow> faults F (bindE m k)"
  by (cases m) auto

lemma faults_if [fault_intros]: "(c \<Longrightarrow> faults F a) \<Longrightarrow> (\<not> c \<Longrightarrow> faults F b) \<Longrightarrow> faults F (if c then a else b)"
  by simp

lemma safe_faults: "safe m \<Longrightarrow> faults F m"
  by (auto simp: safe_def)

lemma leadsD: "leads Q m \<Longrightarrow> m = Inr x \<Longrightarrow> Q x"
  by (simp add: leads_def)

text \<open>The flag of a head and the index go together, so the index is not negative.\<close>

lemma faults_unescaple_msg: "Overrun_rcvData \<in> F \<Longrightarrow> counted rx \<Longrightarrow> faults F (unescaple_msg ch n rx)"
  unfolding unescaple_msg_def put_msg_def counted_def by auto

lemma faults_recv_upgrade_file: "Negative_length \<in> F \<Longrightarrow> faults F (recv_upgrade_file e buf len d)"
  unfolding recv_upgrade_file_def recv_upgrade_data_def Let_def split_beta by simp

text \<open>The faults of the snapshots and alerts: the photo count of a driver monitor is not checked.\<close>

definition photo_faults :: "build \<Rightarrow> fault set" where
  "photo_faults b = (case b of ENABLE_ADAS \<Rightarrow> {} | ENABLE_DMS \<Rightarrow> {Overrun_photo_id})"

lemma photo_faults_simps [simp]:
  "photo_faults ENABLE_ADAS = {}" "photo_faults ENABLE_DMS = {Overrun_photo_id}"
  by (simp_all add: photo_faults_def)

lemma faults_add_photos: "Overrun_photo_id \<in> F \<Longrightarrow> faults F (add_photos mm d)"
  by (simp add: add_photos_eq)

lemma faults_build_dms_warn_frame [fault_intros]:
  "Overrun_photo_id \<in> F \<Longrightarrow> faults F (build_dms_warn_frame e type status f d)"
  unfolding build_dms_warn_frame_def alert_media_def snap_media_def Let_def split_beta
  by (intro fault_intros faults_add_photos) simp_all

lemma faults_do_snap_shot_dms:
  assumes "e_build e = ENABLE_DMS" "Overrun_photo_id \<in> F"
  shows "faults F (do_snap_shot e d)"
  unfolding do_snap_shot_def assms(1) build.case split_beta by (intro fault_intros) (simp_all add: assms)

lemma faults_do_snap_shot:
  assumes "dev_inv d" "photo_faults (e_build e) \<subseteq> F"
  shows "faults F (do_snap_shot e d)"
proof (cases "e_build e")
  case ENABLE_DMS
  with assms(2) show ?thesis by (intro faults_do_snap_shot_dms) simp_all
next
  case ENABLE_ADAS
  then show ?thesis
    using build_adas_snap [of d e "e_aframe e"] assms(1) by (auto simp: do_snap_shot_def dev_inv_def)
qed

lemma faults_sample_on_cmd:
  assumes "photo_faults (e_build e) \<subseteq> F" "dev_inv d" "Negative_length \<in> F"
  shows "faults F (sample_on_cmd e buf len d)"
  unfolding sample_on_cmd_def Let_def split_beta
  by (intro fault_intros faults_do_snap_shot) (simp_all add: assms faults_recv_upgrade_file)

lemma faults_parse_byte:
  assumes "photo_faults (e_build e) \<subseteq> F" "Negative_length \<in> F" "Overrun_rcvData \<in> F" "dev_inv d"
  shows "faults F (parse_byte e ch d)"
  unfolding parse_byte_def Let_def split_beta
proof (intro fault_intros faults_unescaple_msg)
  show "counted (d_rx d)" using assms(4) by (simp add: dev_inv_def rx_ok_def counted_def)
next
  fix x assume x: "unescaple_msg ch SLIP_DATA_BUF_SIZE (d_rx d) = Inr x"
  have "dev_inv (d\<lparr>d_rx := snd x\<rparr>)"
    using leadsD [OF leads_unescaple_msg x] assms(4) by (simp add: dev_inv_def)
  then show "faults F (sample_on_cmd e (rcv_msg (snd x)) (fst x) (d\<lparr>d_rx := snd x\<rparr>))"
    using assms by (intro faults_sample_on_cmd) simp_all
qed (use assms in simp_all)

lemma faults_prot_parse:
  assumes "photo_faults (e_build e) \<subseteq> F" "Negative_length \<in> F" "Overrun_rcvData \<in> F"
  shows "dev_inv d \<Longrightarrow> faults F (prot_parse e s d)"
proof (induction s arbitrary: d)
  case (Cons ch s)
  have "faults F (prot_parse e s d')" if "parse_byte e ch d = Inr d'" for d'
    using leadsD [OF leads_parse_byte [OF Cons.prems] that] by (rule Cons.IH)
  then show ?case
    unfolding prot_parse_Cons by (intro fault_intros faults_parse_byte) (simp_all add: assms Cons.prems)
qed simp

lemma faults_handle_rcv:
  assumes "photo_faults (e_build e) \<subseteq> F" "Negative_length \<in> F" "Overrun_rcvData \<in> F" "dev_inv d"
  shows "faults F (handle_rcv e sel d)"
proof -
  have "faults F (bindE (prot_parse e s d) (\<lambda>d. Inr (0 :: int, False, d)))" for s
    by (intro faults_bindE faults_prot_parse) (simp_all add: assms)
  then show ?thesis
    by (simp add: handle_rcv_def tcp_rcv_def uart_rcv_def split: transport.split select_result.split read_result.split)
qed

lemma faults_do_stat_reset:
  assumes "Use_after_free \<in> F" "dev_inv d"
  shows "faults F (do_stat_reset e d)"
proof -
  have "faults F (clear_queue (e_stack e) (send_q d))"
    using clear_queue_loop_data [of "send_q d"] assms by (simp add: clear_queue_def dev_inv_def send_queue_ok_def)
  then show ?thesis
    by (auto simp: do_stat_reset_def send_stat_pkg_init_def Let_def intro!: faults_bindE)
qed

text \<open>All that can go wrong in the receive thread: a frame longer than the buffer, an upgrade packet
  shorter than its header, and two messages in the queue when the connection is made.\<close>

lemma faults_recv_step:
  assumes "recv_step e s m" "photo_faults (e_build e) \<subseteq> F" "dev_inv (r_dev s)"
    "Negative_length \<in> F" "Overrun_rcvData \<in> F" "Use_after_free \<in> F"
  shows "faults F m"
  using assms(1)
  by cases (auto simp: on_connected_def intro!: faults_bindE faults_do_stat_reset faults_handle_rcv assms)

lemma faults_snap_step:
  assumes "photo_faults (e_build e) \<subseteq> F" "dev_inv d"
  shows "faults F (pthread_snap_shot_step e l d)"
  unfolding pthread_snap_shot_step_def Let_def split_beta
  by (intro fault_intros faults_do_snap_shot) (simp_all add: assms)

lemma faults_msgpack:
  assumes "Null_pointer \<in> F"
  shows "faults F (msgpack_object_get obj can t)" "faults F (msgpack_map_get kvs can t)"
proof (induction obj can t and kvs can t rule: msgpack_object_get_msgpack_map_get.induct)
  case (7 k v kvs can t)
  then show ?case
    unfolding msgpack_map_get.simps split_beta by (intro fault_intros) auto
qed (auto simp: with_can_def assms split: option.split)

lemma faults_deal_wsi_dms_info:
  assumes "e_build e = ENABLE_DMS" "Overrun_photo_id \<in> F"
  shows "faults F (deal_wsi_dms_info e w d)"
proof -
  have "faults F (dms_five_alerts e cur lst d)" for cur lst
    unfolding dms_five_alerts_def dms_stage_def Let_def split_beta by (intro fault_intros) (simp_all add: assms)
  then show ?thesis
    unfolding deal_wsi_dms_info_def Let_def split_beta
    by (intro fault_intros faults_do_snap_shot_dms) (simp_all add: assms)
qed

lemma faults_unpack_wsi_msg:
  assumes "photo_faults (e_build e) \<subseteq> F" "Null_pointer \<in> F" "Uninitialised_read \<in> F"
  shows "faults F (unpack_wsi_msg e obj t d)"
proof -
  have "safe (deal_wsi_adas_can700 e w d)" for w
    unfolding deal_wsi_adas_can700_def Let_def split_beta by (intro safe_intros)
  then have adas: "faults F (bindE (deal_wsi_adas_can700 e w d) (\<lambda>d. Inr (t, d)))" for w t
    by (intro faults_bindE) (simp_all add: safe_faults)
  have dms: "faults F (bindE (deal_wsi_dms_info e w d) (\<lambda>d. Inr (t, d)))" if "e_build e = ENABLE_DMS" for w t
    using assms that by (intro faults_bindE faults_deal_wsi_dms_info) simp_all
  show ?thesis
    unfolding unpack_wsi_msg_def split_beta
    by (intro faults_bindE; cases obj) (auto simp: assms adas dms faults_msgpack split: option.split build.split)
qed

lemma store_jpeg_loop_safe:
  assumes "length (st_photo_id mm) = WARN_SNAP_NUM_MAX" "unat (st_photo_num mm) \<le> WARN_SNAP_NUM_MAX"
  shows "j < WARN_SNAP_NUM_MAX \<Longrightarrow> store_jpeg_loop e mm j t rs d \<noteq> Some (Inl f)"
proof (induction "length rs" arbitrary: j t rs d rule: less_induct)
  case less
  show ?case
  proof (cases "request_jpeg_frame 0 rs")
    case (Some r)
    obtain p rs' where r: "r = (p, rs')" by (cases r)
    note IH = less.hyps [OF request_jpeg_frame_shorter [OF Some [unfolded r]]]
    obtain d' where "write_one_jpeg e mm q j d = Inr (d' q)" for q
      using less.prems assms(1) by (simp add: write_one_jpeg_def Let_def split_beta)
    then show ?thesis
      using less.prems assms(2) Some r IH by (subst store_jpeg_loop.simps) (auto split: option.split)
  qed (simp add: store_jpeg_loop.simps)
qed

lemma store_jpeg_safe:
  assumes "mm_ok mm" "store_jpeg e mm rs d = Some m"
  shows "faults F m"
proof (cases "st_photo_enable mm = 0")
  case False
  then obtain m' where m': "store_jpeg_loop e mm 0 0 rs d = Some m'"
    "m = bindE m' (\<lambda>d. Inr (word_of_int (photo_interval mm) * (word_of_int (uint (st_photo_num mm) - 1)), d))"
    using assms(2) by (auto simp: store_jpeg_def)
  have "m' \<noteq> Inl f" for f
    using store_jpeg_loop_safe [of mm 0 e 0 rs d f] assms(1) m'(1) False by (simp add: mm_ok_def WARN_SNAP_NUM_MAX_def)
  then show ?thesis using m'(2) by (cases m') auto
qed (use assms in \<open>auto simp: store_jpeg_def\<close>)

text \<open>Everything that can go wrong while the threads run.\<close>

definition program_faults :: "build \<Rightarrow> fault set" where
  "program_faults b = {Overrun_rcvData, Negative_length, Use_after_free, Null_pointer, Uninitialised_read} \<union> photo_faults b"

lemma faults_sys_step:
  assumes "sys_inv s" "sys_step b tr s m"
  shows "faults (program_faults b) m"
  using assms(2)
proof cases
  case (receive e m')
  then have "faults (program_faults b) m'"
    using assms(1) by (intro faults_recv_step [OF receive(5)]) (auto simp: sys_inv_def program_faults_def)
  moreover have "faults (program_faults b) (bindE (teardown (sy_recv s) r (sy_bufs s)) (\<lambda>bufs.
      Inr (s\<lparr>sy_recv := r, sy_dev := r_dev r, sy_bufs := bufs\<rparr>)))" for r
    using assms(1) by (simp add: teardown_def sys_inv_def handle_distroy_ready)
  ultimately show ?thesis unfolding receive(1) by (rule faults_bindE)
next
  case (send e att)
  then show ?thesis
    using assms(1) process_send_safe [of "sy_dev s" "sy_snd s" e att] sender_turn_cases [of "sy_bufs s" e att "sy_snd s" "sy_dev s"]
    by (auto simp: sys_inv_def program_faults_def split: option.splits)
next
  case (snap e)
  then show ?thesis
    using assms(1) unfolding snap(1) split_beta
    by (intro faults_bindE faults_snap_step) (auto simp: sys_inv_def program_faults_def)
next
  case (recording e)
  then show ?thesis
    using assms(1) save_media_safe [of "(sy_save s)\<lparr>sm_dev := sy_dev s\<rparr>" e] by (auto simp: sys_inv_def)
next
  case (photos e i user camera mm frames m')
  have "mm_ok mm" using assms(1) photos(5) by (auto simp: sys_inv_def list_all_iff)
  then have "faults {} m'" using photos(6) by (rule store_jpeg_safe)
  then show ?thesis by (cases m') (auto simp: photos(1))
next
  case (videos e i user camera mm)
  have "st_video_enable mm \<noteq> 0 \<longrightarrow> user \<noteq> None" using assms(1) videos(5) by (auto simp: sys_inv_def list_all_iff)
  then show ?thesis using record_video_media_ok [of mm user e camera] by (auto simp: videos(1))
next
  case unset_task
  then show ?thesis using assms(1) by (auto simp: sys_inv_def list_all_iff)
next
  case (websocket e obj)
  then show ?thesis
    using assms(1) unfolding websocket(1) split_beta
    by (intro faults_bindE faults_unpack_wsi_msg) (auto simp: sys_inv_def program_faults_def)
next
  case interrupt
  then show ?thesis by simp
qed

section \<open>The start\<close>

text \<open>The program's memory when \<open>main\<close> begins, with the files \<open>fs\<close> on the disk: the static variables
  are zero and no buffer has been allocated.\<close>

definition boot_device :: "files \<Rightarrow> device" where
  "boot_device fs = idle_device\<lparr>d_files := fs, connect_status := False, d_rx := fresh_decoder 0,
     d_paras := \<lparr>adas_para = AdasParaSetting_at (replicate 50 0), dms_para = DmsParaSetting_at (replicate 43 0)\<rparr>\<rparr>"

text \<open>The state in which \<open>main\<close> starts the threads. The sender's buffer is uninitialised memory.\<close>

definition boot_sys :: "env \<Rightarrow> int \<Rightarrow> u8 list \<Rightarrow> device \<Rightarrow> sys" where
  "boot_sys e fd buf d = \<lparr>sy_dev = d,
     sy_recv = \<lparr>r_phase = R_start, r_sock = No_socket, r_force_exit = False, r_dev = d\<rparr>,
     sy_snd = \<lparr>h_fd = fd, h_sndData_s = buf, h_sndlen = 0\<rparr>,
     sy_snap = \<lparr>mileage_last = 0, snap_last = 0\<rparr>,
     sy_save = fst (save_media_start e d),
     sy_wsi = NO_TYPE, sy_bufs = snd (prot_init_bufs True True True)\<rparr>"

lemma photo_num_read_para_files:
  assumes "unat (photo_num (adas_para ps)) \<le> WARN_SNAP_NUM_MAX"
  shows "unat (photo_num (adas_para (fst (snd (read_local_adas_para_file e f ps fs))))) \<le> WARN_SNAP_NUM_MAX"
    "unat (photo_num (adas_para (fst (snd (read_local_dms_para_file e f ps fs))))) \<le> WARN_SNAP_NUM_MAX"
  using assms
  by (simp_all add: read_local_adas_para_file_def read_local_dms_para_file_def set_AdasParaSetting_default_def
      set_DmsParaSetting_default_def Let_def photo_num_write_dev_para split: option.split)

lemma photo_num_boot: "unat (photo_num (adas_para (d_paras (boot_device fs)))) = 0"
  by (simp add: boot_device_def AdasParaSetting_at_def numeral_eq_Suc)

text \<open>The fields that creating directories and removing files leave alone.\<close>

lemma system_frame [simp]:
  "send_q (system c d) = send_q d" "image_q (system c d) = image_q d" "d_rx (system c d) = d_rx d"
  "s_media_begin (system c d) = s_media_begin d" "s_media_num (system c d) = s_media_num d"
  "d_paras (system c d) = d_paras d"
  by (simp_all add: system_def remove_file_def Let_def)

lemma dev_inv_global_var_init:
  "dev_inv (snd (global_var_init e entries True (True, True, True) (boot_device fs)))"
  using photo_num_boot [of fs] photo_num_read_para_files [of "d_paras (boot_device fs)"]
  by (simp add: global_var_init_def prot_init_pre_def dev_inv_def Let_def split_beta rm_mmFiles_def
      create_upgrade_dir_def create_snap_path_def split: build.split)
    (simp add: boot_device_def idle_device_def send_queue_ok_def mm_queue_ok_def rx_ok_def fresh_decoder_def)

lemma leads_main_options: "dev_inv d \<Longrightarrow> leads dev_inv (main_options parse ops d)"
proof (induction ops arbitrary: d)
  case (Cons op ops)
  then show ?case
    by (cases op; simp) (auto simp: Let_def leads_def [of "\<lambda>_. True"] intro!: leads_bindE [where Q = "\<lambda>_. True"])
qed simp

lemma leads_main_start:
  "leads dev_inv (main_start e entries True (True, True, True) parse opts (boot_device fs))"
  unfolding main_start_def Let_def split_beta
  by (intro leads_intros leads_main_options) (simp_all add: dev_inv_global_var_init)

lemma sys_inv_boot:
  "dev_inv d \<Longrightarrow> 0 \<le> fd \<Longrightarrow> length buf = SLIP_DATA_BUF_SIZE \<Longrightarrow> sys_inv (boot_sys e fd buf d)"
  by (simp add: sys_inv_def boot_sys_def handle_ok_def save_media_start_def split_beta)

text \<open>A start without options and without files, for the examples.\<close>

definition example_start :: "device outcome" where
  "example_start = main_start (idle_env ENABLE_ADAS) (Some []) True (True, True, True) (\<lambda>_. None) [] (boot_device Map.empty)"

lemma example_start_ok: "\<exists>d. example_start = Inr d \<and> \<not> exited d"
proof -
  have "\<not> exited (snd (global_var_init (idle_env ENABLE_ADAS) (Some []) True (True, True, True) (boot_device Map.empty)))"
    by (simp add: global_var_init_def idle_env_def prot_init_pre_def getmmFileNumMax_def create_upgrade_dir_def
        create_snap_path_def system_def remove_file_def boot_device_def idle_device_def Let_def split_beta)
  then show ?thesis by (auto simp: example_start_def main_start_def Let_def split_beta)
qed

section \<open>Properties\<close>

text \<open>C10: the invariant of the running program. Once \<open>main\<close> has got its buffers and started the
  threads, then whatever the host, the cameras and the algorithms send and however the turns of the
  threads interleave, as long as no memory fault has happened: both queues hold at most sixteen nodes,
  every message of the send queue owns a block of at most \<open>PTR_QUEUE_BUF_SIZE\<close> bytes, every media
  descriptor has an id for each of its photos, the decoder writes within its buffer and has read a head
  before it stores anything, and a snapshot of the forward camera asks for at most ten photos.\<close>

theorem program_invariant:
  assumes "main_start e entries True (True, True, True) parse opts (boot_device fs) = Inr d"
    "0 \<le> fd" "length buf = SLIP_DATA_BUF_SIZE"
    and "sys_reachable b tr (boot_sys e fd buf d) s"
  shows "dev_inv (sy_dev s)"
proof -
  have "sys_inv (boot_sys e fd buf d)"
    using leadsD [OF leads_main_start assms(1)] assms(2,3) by (rule sys_inv_boot)
  then show ?thesis using sys_reachable_inv [OF assms(4)] by (simp add: sys_inv_def)
qed

theorem program_invariant_witness:
  "\<exists>d s. example_start = Inr d \<and>
     sys_step ENABLE_ADAS RS232_INTERFACE (boot_sys (idle_env ENABLE_ADAS) 4 (replicate SLIP_DATA_BUF_SIZE 0) d) (Inr s) \<and> dev_inv (sy_dev s)"
proof -
  obtain d where d: "example_start = Inr d" "\<not> exited d" using example_start_ok by blast
  let ?s0 = "boot_sys (idle_env ENABLE_ADAS) 4 (replicate SLIP_DATA_BUF_SIZE 0) d"
  obtain s where s: "sys_step ENABLE_ADAS RS232_INTERFACE ?s0 (Inr s)"
    using sys_step.interrupt [of ?s0 ENABLE_ADAS RS232_INTERFACE] d(2) by (auto simp: boot_sys_def)
  have "dev_inv (sy_dev s)"
    using program_invariant [OF d(1) [unfolded example_start_def], of 4 "replicate SLIP_DATA_BUF_SIZE 0" ENABLE_ADAS RS232_INTERFACE s]
      sys_reachable.step [OF sys_reachable.init s] by simp
  with d s show ?thesis by blast
qed



text \<open>C12: a message after the connection could not be made again. The host closes the connection, and the
  socket for the next attempt cannot be created: the receive thread ends and frees the buffers of the
  handle. The descriptor is closed on both occasions, so the second time it closes whatever has got its number in
  between. The program goes on, and the connection stays marked, so the next turn of the sending thread
  copies the waiting message into a buffer that has been freed.\<close>

theorem sender_uses_freed_buffer:
  assumes "\<not> exited (sy_dev s)" "r_phase (sy_recv s) = R_serve" "\<not> r_force_exit (sy_recv s)" "bufs_ready (sy_bufs s)"
    "connect_status (sy_dev s)" "send_q (sy_dev s) \<noteq> []" "send_data (sy_dev s) \<noteq> 0"
  shows "\<exists>s'. sys_reachable b TCP_INTERFACE s s' \<and>
    sy_dev s' = (sy_dev s)\<lparr>d_closed := (if 0 < d_fd (sy_dev s) then [d_fd (sy_dev s), d_fd (sy_dev s)] else []) @ d_closed (sy_dev s)\<rparr> \<and>
    sys_step b TCP_INTERFACE s' (Inl Use_after_free)"
proof -
  let ?e = "(idle_env b)\<lparr>e_tr := TCP_INTERFACE\<rparr>"
  let ?d1 = "handle_close (sy_dev s)"
  let ?d2 = "handle_close ?d1"
  let ?r = "\<lambda>ph d. \<lparr>r_phase = ph, r_sock = Closed, r_force_exit = False, r_dev = d\<rparr>"
  let ?s = "\<lambda>ph d bufs. s\<lparr>sy_recv := ?r ph d, sy_dev := d, sy_bufs := bufs\<rparr>"
  let ?freed = "\<lparr>rcvData_s = Released, rcvData = Released, sndData_s = Released\<rparr>"
  have e: "e_build ?e = b" "e_tr ?e = TCP_INTERFACE" by (simp_all add: idle_env_def)
  obtain sock where r: "(sy_recv s)\<lparr>r_dev := sy_dev s\<rparr> = \<lparr>r_phase = R_serve, r_sock = sock, r_force_exit = False, r_dev = sy_dev s\<rparr>"
    using assms(2,3) by (cases "sy_recv s") simp
  have alive: "\<not> exited ?d1" "\<not> exited ?d2" "connect_status ?d2" "send_q ?d2 \<noteq> []" "send_data ?d2 \<noteq> 0"
    using assms(1,5-7) by (simp_all add: handle_close_def)
  have move: "sys_step b TCP_INTERFACE s0 (Inr (?s ph d bufs))"
    if "s0 = s \<and> bufs0 = sy_bufs s \<and> d0 = sy_dev s \<or> s0 = ?s ph0 d0 bufs0" and "\<not> exited d0"
      "recv_step ?e ((sy_recv s0)\<lparr>r_dev := d0\<rparr>) (Inr (?r ph d))" "teardown (sy_recv s0) (?r ph d) bufs0 = Inr bufs"
    for s0 ph0 d0 bufs0 ph d bufs
    using sys_step.receive [of s0 ?e b TCP_INTERFACE "Inr (?r ph d)"] that e by auto
  have 1: "sys_step b TCP_INTERFACE s (Inr (?s R_init ?d1 (sy_bufs s)))"
    using recv_step.serve [of "(sy_recv s)\<lparr>r_dev := sy_dev s\<rparr>" ?e "Select_ready (Bytes [])"] assms(1,2) alive(1)
    by (intro move [of s "sy_bufs s" "sy_dev s" R_serve]) (simp_all add: r e handle_rcv_def tcp_rcv_def teardown_def)
  have fd: "?d1\<lparr>d_fd := d_fd ?d1\<rparr> = ?d1" by simp
  have 2: "sys_step b TCP_INTERFACE (?s R_init ?d1 (sy_bufs s)) (Inr (?s R_out ?d1 (sy_bufs s)))"
    using recv_step.init_error [of "?r R_init ?d1" "d_fd ?d1" ?e] alive(1) fd
    by (intro move [OF disjI2 [OF refl]]) (simp_all add: teardown_def)
  have 3: "sys_step b TCP_INTERFACE (?s R_out ?d1 (sy_bufs s)) (Inr (?s R_end ?d2 ?freed))"
    using recv_step.finish [of "?r R_out ?d1" ?e] assms(4) alive(1)
    by (intro move [OF disjI2 [OF refl]]) (simp_all add: teardown_def handle_distroy_ready)
  have 4: "sys_step b TCP_INTERFACE (?s R_end ?d2 ?freed) (Inl Use_after_free)"
    using sys_step.send [of "?s R_end ?d2 ?freed" ?e b TCP_INTERFACE "\<lambda>_. test_attempt"] alive e
    by (simp add: sender_turn_def)
  have "sys_reachable b TCP_INTERFACE s (?s R_end ?d2 ?freed)"
    using sys_reachable.step [OF sys_reachable.step [OF sys_reachable.step [OF sys_reachable.init 1] 2] 3] .
  moreover have "?d2 = (sy_dev s)\<lparr>d_closed := (if 0 < d_fd (sy_dev s) then [d_fd (sy_dev s), d_fd (sy_dev s)] else []) @ d_closed (sy_dev s)\<rparr>"
    by (simp add: handle_close_def)
  ultimately show ?thesis using 4 by (intro exI [of _ "?s R_end ?d2 ?freed"]) simp
qed

definition serving :: sys where
  "serving = (boot_sys (idle_env ENABLE_ADAS) 4 (replicate SLIP_DATA_BUF_SIZE 0) idle_device)\<lparr>
     sy_recv := \<lparr>r_phase = R_serve, r_sock = Connected, r_force_exit = False, r_dev = idle_device\<rparr>,
     sy_dev := idle_device\<lparr>send_q := [test_msg], send_data := 1\<rparr>\<rparr>"

theorem sender_uses_freed_buffer_witness:
  "\<exists>s'. sys_reachable ENABLE_ADAS TCP_INTERFACE serving s' \<and> sy_dev s' = (sy_dev serving)\<lparr>d_closed := [3, 3]\<rparr> \<and>
     sys_step ENABLE_ADAS TCP_INTERFACE s' (Inl Use_after_free)"
proof -
  have "d_fd (sy_dev serving) = 3" "d_closed (sy_dev serving) = []"
    by (simp_all add: serving_def idle_device_def)
  moreover have "\<exists>s'. sys_reachable ENABLE_ADAS TCP_INTERFACE serving s' \<and>
      sy_dev s' = (sy_dev serving)\<lparr>d_closed := (if 0 < d_fd (sy_dev serving) then [d_fd (sy_dev serving), d_fd (sy_dev serving)] else []) @ d_closed (sy_dev serving)\<rparr> \<and>
      sys_step ENABLE_ADAS TCP_INTERFACE s' (Inl Use_after_free)"
    by (rule sender_uses_freed_buffer) (simp_all add: serving_def boot_sys_def idle_device_def)
  ultimately show ?thesis by simp
qed

end
