(* ===== verification/EndToEnd.thy ===== *)
theory EndToEnd
  imports SystemProps WsiProps
begin

text \<open>
  The components put together, from one end of the program to the other: a conversation with the host,
  from the bytes of its requests to the frames its decoder gets back, and an alert, from the message of
  the algorithm process to the report the host decodes.
\<close>

section \<open>A queued message and the fields it does not depend on\<close>

lemma message_queue_send_commute:
  "(snd (message_queue_send e cmd p d))\<lparr>d_rx := r\<rparr> = snd (message_queue_send e cmd p (d\<lparr>d_rx := r\<rparr>))"
  "(snd (message_queue_send e cmd p d))\<lparr>can700 := c\<rparr> = snd (message_queue_send e cmd p (d\<lparr>can700 := c\<rparr>))"
  by (simp_all add: message_queue_send_eq do_serial_num_def queued_msg_def send_serial_def Let_def)

lemma send_serial_reply: "\<not> MasterIsMe cmd \<Longrightarrow> send_serial cmd d = recv_serial_num d"
  by (simp add: send_serial_def do_serial_num_def)

lemma answer_paras: "d_paras d = d_paras d' \<Longrightarrow> answer e cmd len d = answer e cmd len d'"
  by (simp add: answer_def split: build.split)

lemma SBProtHeader_at_take: "8 \<le> n \<Longrightarrow> SBProtHeader_at (take n buf) = SBProtHeader_at buf"
  by (simp add: SBProtHeader_at_def u16_at_def)

section \<open>One request and its reply\<close>

text \<open>A device that can be talked to: the invariant, a connection, nothing queued and nothing half
  received.\<close>

definition at_rest :: "device \<Rightarrow> bool" where
  "at_rest d \<longleftrightarrow> dev_inv d \<and> connect_status d \<and> send_q d = [] \<and> \<not> exited d \<and> decoder_idle (d_rx d)"

text \<open>The request of a host: a frame without payload.\<close>

abbreviation request :: "build \<Rightarrow> u16 \<Rightarrow> u8 \<Rightarrow> u8 list" where
  "request b s cmd \<equiv> build_frame b s cmd []"

lemma reply_delivered:
  assumes "connect_status d" "send_q d = []" "e_malloc1 e" "e_malloc2 e" "handle_ok handle" "\<not> MasterIsMe cmd"
    and "16 + 2 * length payload \<le> PTR_QUEUE_BUF_SIZE"
    and "f = build_frame (e_build e) (recv_serial_num d) cmd payload"
    and "all_delivered (e_tr e') (length (transmit f)) att"
  shows "pthread_process_send e' att handle (snd (message_queue_send e cmd payload d)) =
    Inr (Some (0, [transmit f], loaded handle (transmit f),
      (snd (message_queue_send e cmd payload d))\<lparr>send_data := send_data d, send_q := []\<rparr>))"
proof -
  let ?d = "(snd (message_queue_send e cmd payload d))\<lparr>send_data := send_data d\<rparr>"
  let ?m = "queued_msg e cmd payload d"
  have m: "send_q ?d = [?m]" "data_node ?m" "q_buf ?m = Mem (transmit f)" "pkg_ack_status (q_pkg ?m) = MSG_ACK_READY"
    using queued_alone [OF assms(2,3,4,7)] assms(6)
    by (simp_all add: assms(8) send_serial_reply) (simp_all add: queued_msg_def Let_def)
  have "pthread_process_send e' att handle (snd (message_queue_send e cmd payload d)) = send_package e' att handle ?d"
    by (simp add: pthread_process_send_def message_queue_send_eq)
  moreover obtain r ws where "handle_snd (e_tr e') (loaded handle (transmit f)) (at_errno (att 0)) (at_writes (att 0)) =
      Some (r, transmit f, ws)"
    using loaded_delivers [OF assms(5)] assms(9) by (fastforce simp: all_delivered_def)
  ultimately show ?thesis
    using send_package_ready [OF _ m assms(5), where e = e' and att = att] assms(1) by simp
qed

text \<open>A frame of the host reaches the handler of its command: the bytes are at the start of the receive
  buffer, and of the device only the decoder has changed.\<close>

definition listening :: "device \<Rightarrow> bool" where
  "listening d \<longleftrightarrow> dev_inv d \<and> \<not> exited d \<and> decoder_idle (d_rx d)"

lemma frame_received:
  assumes "listening d" "9 + length payload \<le> DATA_BUF_SIZE" "f = build_frame b s cmd payload"
  shows "\<exists>r. prot_parse e (transmit f) d = run_frame e (rcv_msg r) (length f) (d\<lparr>d_rx := r\<rparr>) \<and>
    take (length f) (rcv_msg r) = f \<and> length (rcv_msg r) = DATA_BUF_SIZE \<and> listening (d\<lparr>d_rx := r\<rparr>) \<and>
    SBProtHeader_at (rcv_msg r) = SBProtHeader_at f"
proof -
  have f: "f = SAMPLE_PROT_MAGIC # frame_body b s cmd payload @ [SAMPLE_PROT_MAGIC]"
    by (simp add: assms(3) build_frame_body)
  have rx: "length (rcv_msg (d_rx d)) = DATA_BUF_SIZE" "decoder_idle (d_rx d)" "\<not> exited d"
    using assms(1) by (auto simp: listening_def dev_inv_def rx_ok_def)
  then have fits: "frame_fits SLIP_DATA_BUF_SIZE (d_rx d) (frame_body b s cmd payload)"
    using assms(2) by (simp add: frame_fits_def size_defs)
  obtain r where r: "decoder_idle r" "length (rcv_msg r) = length (rcv_msg (d_rx d))" "take (length f) (rcv_msg r) = f"
      "prot_parse e (transmit f) d = run_frame e (rcv_msg r) (length f) (d\<lparr>d_rx := r\<rparr>)"
    using prot_parse_frame [OF rx(2) fits rx(3) f, of e] build_frame_checksum [of b s cmd payload] unfolding assms(3) by auto
  have "SBProtHeader_at (rcv_msg r) = SBProtHeader_at f"
    using SBProtHeader_at_take [of "length f" "rcv_msg r"] r(3) assms(3) by simp
  then show ?thesis
    using r rx assms(1) by (intro exI [of _ r]) (auto simp: listening_def dev_inv_def rx_ok_def decoder_idle_def)
qed

lemma request_received:
  assumes "at_rest d" "answer e cmd 9 d = Some payload" "paras_wf (d_paras d)"
    and "concat cs = transmit (request (e_build e) s cmd)" "\<forall>c \<in> set cs. c \<noteq> [] \<and> length c \<le> SLIP_DATA_BUF_SIZE"
  shows "\<exists>d'. rcv_chunks e cs d = Inr (snd (message_queue_send e cmd payload d')) \<and> at_rest d' \<and>
    recv_serial_num d' = s \<and> d_paras d' = d_paras d"
proof -
  let ?f = "request (e_build e) s cmd"
  have "listening d" using assms(1) by (simp add: at_rest_def listening_def)
  then obtain r where r: "prot_parse e (transmit ?f) d = run_frame e (rcv_msg r) 9 (d\<lparr>d_rx := r\<rparr>)"
      "length (rcv_msg r) = DATA_BUF_SIZE" "listening (d\<lparr>d_rx := r\<rparr>)" "SBProtHeader_at (rcv_msg r) = SBProtHeader_at ?f"
    using frame_received [of d "[]" ?f "e_build e" s cmd e] by (auto simp: size_defs)
  let ?d = "snd (do_serial_num s RECORD_RECV_NUM (d\<lparr>d_rx := r\<rparr>))"
  have ans: "answer e cmd 9 (d\<lparr>d_rx := r\<rparr>) = Some payload" using assms(2) answer_paras [of "d\<lparr>d_rx := r\<rparr>" d e] by simp
  obtain buf where buf: "sample_on_cmd e (rcv_msg r) 9 (d\<lparr>d_rx := r\<rparr>) = Inr (buf, snd (message_queue_send e cmd payload ?d))"
    using sample_on_cmd_answer [of "rcv_msg r" e 9 "d\<lparr>d_rx := r\<rparr>" payload] ans by (auto simp: r(4) build_frame_header)
  have inv: "dev_inv (d\<lparr>d_rx := r\<rparr>)" using r(3) by (simp add: listening_def)
  have "length buf = length (rcv_msg r)"
    using leadsD [OF leads_sample_on_cmd [OF inv] buf] r(2) by (simp add: size_defs)
  then have "at_rest (?d\<lparr>d_rx := r\<lparr>rcv_msg := buf\<rparr>\<rparr>)"
    using assms(1) r(2,3)
    by (auto simp: at_rest_def listening_def dev_inv_def rx_ok_def decoder_idle_def do_serial_num_def Let_def)
  moreover have "rcv_chunks e cs d = Inr (snd (message_queue_send e cmd payload (?d\<lparr>d_rx := r\<lparr>rcv_msg := buf\<rparr>\<rparr>)))"
    using rcv_chunks_parse [OF assms(5), of e d] r(1)
    by (simp add: assms(4) run_frame_def buf message_queue_send_commute(1))
  ultimately show ?thesis
    by (intro exI [of _ "?d\<lparr>d_rx := r\<lparr>rcv_msg := buf\<rparr>\<rparr>"]) (simp add: do_serial_num_def Let_def)
qed

section \<open>A conversation\<close>

text \<open>One round: the receive thread is handed the bytes in the pieces the kernel has them in, then the
  sending thread has a turn. The result is what went over the wire, or \<open>None\<close> when the sender is
  blocked.\<close>

type_synonym exchange = "u8 list list \<times> (nat \<Rightarrow> attempt)"

definition exchange_step ::
  "env \<Rightarrow> exchange \<Rightarrow> prot_handle \<Rightarrow> device \<Rightarrow> (u8 list \<times> prot_handle \<times> device) option outcome" where
  "exchange_step e = (\<lambda>(cs, att) handle d.
     bindE (rcv_chunks e cs d) (\<lambda>d.
     bindE (pthread_process_send e att handle d) (\<lambda>r.
     Inr (map_option (\<lambda>(ret, wires, handle, d). (concat wires, handle, d)) r))))"

fun conversation ::
  "env \<Rightarrow> exchange list \<Rightarrow> prot_handle \<Rightarrow> device \<Rightarrow> (u8 list \<times> prot_handle \<times> device) option outcome" where
  "conversation e [] handle d = Inr (Some ([], handle, d))"
| "conversation e (x # xs) handle d =
     bindE (exchange_step e x handle d) (\<lambda>r. case r of
       None \<Rightarrow> Inr None
     | Some (wire, handle, d) \<Rightarrow>
         bindE (conversation e xs handle d) (\<lambda>r. Inr (map_option (\<lambda>(w, handle, d). (wire @ w, handle, d)) r)))"

text \<open>What the host says and what it expects to hear, with the parameters of the device \<open>d\<close>.\<close>

definition asks :: "env \<Rightarrow> u16 \<times> u8 \<Rightarrow> exchange \<Rightarrow> device \<Rightarrow> bool" where
  "asks e = (\<lambda>(s, cmd) (cs, att) d.
     concat cs = transmit (request (e_build e) s cmd) \<and> (\<forall>c \<in> set cs. c \<noteq> [] \<and> length c \<le> SLIP_DATA_BUF_SIZE) \<and>
     (\<exists>payload. answer e cmd 9 d = Some payload) \<and> all_delivered (e_tr e) PTR_QUEUE_BUF_SIZE att)"

definition expected_reply :: "env \<Rightarrow> device \<Rightarrow> u16 \<times> u8 \<Rightarrow> u8 list" where
  "expected_reply e d = (\<lambda>(s, cmd). build_frame (e_build e) s cmd (the (answer e cmd 9 d)))"

lemma takes_all_mono: "takes_all retry n ws \<Longrightarrow> m \<le> n \<Longrightarrow> takes_all retry m ws"
proof (induction retry n ws arbitrary: m rule: takes_all.induct)
  case (2 retry n k ws)
  then show ?case using diff_le_mono [OF 2(3), of k] by auto
qed auto

lemma exchange_step_asks:
  assumes "at_rest d" "paras_wf (d_paras d)" "e_malloc1 e" "e_malloc2 e" "handle_ok handle" "asks e q x d"
  shows "\<exists>h' d'. exchange_step e x handle d = Inr (Some (transmit (expected_reply e d q), h', d')) \<and>
    at_rest d' \<and> d_paras d' = d_paras d \<and> handle_ok h'"
proof -
  obtain s cmd cs att where q: "q = (s, cmd)" "x = (cs, att)" by fastforce
  obtain payload where a: "answer e cmd 9 d = Some payload" "concat cs = transmit (request (e_build e) s cmd)"
      "\<forall>c \<in> set cs. c \<noteq> [] \<and> length c \<le> SLIP_DATA_BUF_SIZE" "all_delivered (e_tr e) PTR_QUEUE_BUF_SIZE att"
    using assms(6) by (auto simp: asks_def q)
  note short = answer_reply [OF a(1) assms(2)]
  obtain d1 where d1: "rcv_chunks e cs d = Inr (snd (message_queue_send e cmd payload d1))" "at_rest d1"
      "recv_serial_num d1 = s" "d_paras d1 = d_paras d"
    using request_received [OF assms(1) a(1) assms(2) a(2,3)] by blast
  define f where "f = build_frame (e_build e) (recv_serial_num d1) cmd payload"
  have f: "f = expected_reply e d q" by (simp add: f_def expected_reply_def q a(1) d1(3))
  have len: "16 + 2 * length payload \<le> PTR_QUEUE_BUF_SIZE" using short(2) by (simp add: size_defs)
  have flen: "length (transmit f) \<le> PTR_QUEUE_BUF_SIZE"
    using length_transmit_build_frame(2) [of "e_build e" "recv_serial_num d1" cmd payload] len by (simp add: f_def)
  have sent: "all_delivered (e_tr e) (length (transmit f)) att"
    using a(4) flen takes_all_mono by (auto simp: all_delivered_def)
  let ?d = "(snd (message_queue_send e cmd payload d1))\<lparr>send_data := send_data d1, send_q := []\<rparr>"
  have "pthread_process_send e att handle (snd (message_queue_send e cmd payload d1)) =
      Inr (Some (0, [transmit f], loaded handle (transmit f), ?d))"
    using d1(2) by (intro reply_delivered [OF _ _ assms(3,4,5) short(1) len f_def sent]) (simp_all add: at_rest_def)
  moreover have "at_rest ?d" "d_paras ?d = d_paras d"
    using d1(2,4) dev_inv_message_queue_send [of d1 e cmd payload]
    by (simp_all add: at_rest_def) (simp add: dev_inv_def send_queue_ok_def)
  moreover have "handle_ok (loaded handle (transmit f))"
    using assms(5) flen by (simp add: handle_ok_def loaded_def size_defs)
  ultimately show ?thesis by (simp add: exchange_step_def q d1(1) f)
qed

lemma conversation_asks:
  assumes "paras_wf (d_paras d0)" "e_malloc1 e" "e_malloc2 e"
  shows "list_all2 (\<lambda>q x. asks e q x d0) qs xs \<Longrightarrow> at_rest d \<Longrightarrow> d_paras d = d_paras d0 \<Longrightarrow> handle_ok handle \<Longrightarrow>
    \<exists>h' d'. conversation e xs handle d =
      Inr (Some (concat (map (\<lambda>q. transmit (expected_reply e d0 q)) qs), h', d')) \<and> at_rest d' \<and> d_paras d' = d_paras d0"
proof (induction qs xs arbitrary: d handle rule: list_all2_induct)
  case (Cons q qs x xs)
  have "asks e q x d" "expected_reply e d q = expected_reply e d0 q"
    using Cons.hyps(1) answer_paras [OF Cons.prems(2), of e] by (simp_all add: asks_def expected_reply_def split_beta)
  then obtain h' d' where step: "exchange_step e x handle d = Inr (Some (transmit (expected_reply e d0 q), h', d'))"
      "at_rest d'" "d_paras d' = d_paras d0" "handle_ok h'"
    using exchange_step_asks [OF Cons.prems(1) _ assms(2,3) Cons.prems(3), of q x] assms(1) Cons.prems(2) by auto
  then show ?case using Cons.IH [OF step(2-4)] by auto
qed auto

section \<open>From the algorithm to the queue\<close>

text \<open>The fields of the device that sending depends on, which building a frame leaves alone.\<close>

definition same_link :: "device \<Rightarrow> device \<Rightarrow> bool" where
  "same_link d d' \<longleftrightarrow> send_q d' = send_q d \<and> connect_status d' = connect_status d \<and>
     send_serial_num d' = send_serial_num d \<and> g_last_warning_data (can700 d') = g_last_warning_data (can700 d)"

lemma same_link_self [simp]: "same_link d d"
  by (simp add: same_link_def)

lemma link_upd [simp]:
  "same_link d (d'\<lparr>s_mm_id := x\<rparr>) = same_link d d'" "same_link d (d'\<lparr>s_warning_id := x\<rparr>) = same_link d d'"
  by (simp_all add: same_link_def)

lemma link_remove_file [simp]: "same_link d (remove_file p d') = same_link d d'"
  by (simp add: same_link_def remove_file_def)

lemma link_remove_old [simp]: "same_link d (remove_old b i d') = same_link d d'"
  by (simp add: remove_old_def)

lemma link_record_media [simp]: "same_link d (record_media e mm d') = same_link d d'"
proof -
  have "same_link d (clear_old_media_file b mm d') = same_link d d'" for b
    by (simp add: clear_old_media_file_def Let_def fold_frame [of "same_link d"])
  then show ?thesis by (simp add: record_media_def Let_def) (simp add: same_link_def)
qed

lemma link_alert_media:
  "leads (\<lambda>x. same_link d (snd x)) (alert_media e mm d)"
  by (auto simp: leads_def alert_media_def add_photos_eq add_video_def get_mm_ids Let_def bindE_Inr_iff split: if_splits)

lemma alert_built:
  assumes "alert_type type"
  shows "\<exists>d'. build_adas_warn_frame e type SB_WARN_STATUS_NONE f d =
      Inr ((adas_head e type SB_WARN_STATUS_NONE f d)\<lparr>aw_mm := frame_media (s_mm_id d) (adas_store type d),
             aw_mm_num := of_nat (length (frame_media (s_mm_id d) (adas_store type d)))\<rparr>, d') \<and> same_link d d'"
proof -
  let ?d = "d\<lparr>s_warning_id := s_warning_id d + 1\<rparr>"
  obtain d' where d': "alert_media e (adas_store type d) ?d = Inr (frame_media (s_mm_id d) (adas_store type d), d')"
    using alert_media_eq [of "adas_store type d" e ?d] photo_count_alert [OF assms, of d] by auto
  then have "same_link d d'"
    using leadsD [OF link_alert_media d'] by (simp add: same_link_def)
  then show ?thesis
    using assms d' unfolding alert_type_def
    by (auto simp: build_adas_warn_frame_def get_warning_id adas_head_def Let_def adas_store_def [symmetric])
qed

text \<open>The report of a forward collision warning: what the caller's buffer held is kept where the builder
  writes nothing.\<close>

definition fcw_report :: "env \<Rightarrow> device \<Rightarrow> AdasWarnFrame" where
  "fcw_report e d = (adas_head e SB_WARN_TYPE_FCW SB_WARN_STATUS_NONE (e_aframe e) d)
     \<lparr>aw_mm := frame_media (s_mm_id d) (adas_store SB_WARN_TYPE_FCW d),
      aw_mm_num := of_nat (length (frame_media (s_mm_id d) (adas_store SB_WARN_TYPE_FCW d)))\<rparr>"

text \<open>A CAN message that asks for it: the warning has just come on, no lane departure is reported, the
  headway level is as it was, and neither filter holds it back.\<close>

definition fcw_rises :: "env \<Rightarrow> u8 list \<Rightarrow> device \<Rightarrow> bool" where
  "fcw_rises e w d \<longleftrightarrow> length w = 8 \<and> fcw_on w \<and> \<not> left_ldw w \<and> \<not> right_ldw w \<and>
     \<not> fcw_on (g_last_warning_data (can700 d)) \<and> \<not> fcw_on (g_last_trigger_warning (can700 d)) \<and>
     headway_warning_level (g_last_warning_data (can700 d)) = headway_warning_level w \<and>
     fst (filter_alert_by_time (e_now e) (fcw_alert (can700 d)) (filter_time (FCW_video_time (adas_para (d_paras d))) d)) \<and>
     filter_alert_by_speed d"

lemma fcw_masked:
  assumes "length w = 8" "fcw_on w"
  shows "fcw_on (map2 (AND) w all_warning_masks)" "fcw_on (map2 (AND) w trigger_warning_masks)"
    "map2 (AND) w trigger_warning_masks ! 4 \<noteq> 0"
proof -
  have bit: "bit (v AND 0x0E) 3 = bit v 3" for v :: u8
    by (simp add: bit_simps)
  show on: "fcw_on (map2 (AND) w all_warning_masks)" "fcw_on (map2 (AND) w trigger_warning_masks)"
    using assms by (simp_all add: fcw_on_def all_warning_masks_def trigger_warning_masks_def bit)
  then show "map2 (AND) w trigger_warning_masks ! 4 \<noteq> 0" by (auto simp: fcw_on_def)
qed

lemma filter_alert_by_speed_upd [simp]:
  "filter_alert_by_speed (d\<lparr>can700 := c\<rparr>) = filter_alert_by_speed d"
  by (simp add: filter_alert_by_speed_def RealTimeDdata_process_def Let_def)

lemma fcw_report_upd [simp]: "fcw_report e (d\<lparr>can700 := c\<rparr>) = fcw_report e d"
  by (simp add: fcw_report_def adas_head_def adas_store_def get_real_time_msg_def RealTimeDdata_process_def Let_def)

lemma can700_fcw:
  assumes "fcw_rises e w d"
  shows "\<exists>d'. deal_wsi_adas_can700 e w d =
      Inr (snd (message_queue_send e SAMPLE_CMD_WARNING_REPORT (AdasWarnFrame_bytes (fcw_report e d)) d')) \<and>
    send_q d' = send_q d \<and> connect_status d' = connect_status d \<and> send_serial_num d' = send_serial_num d"
proof -
  let ?c = "(can700 d)\<lparr>fcw_alert := e_now e\<rparr>"
  have t: "filter_alert_by_time (e_now e) (fcw_alert (can700 d)) (filter_time (FCW_video_time (adas_para (d_paras d))) d) =
      (True, e_now e)"
    using assms by (auto simp: fcw_rises_def filter_alert_by_time_def split: if_splits)
  obtain d' where d': "build_adas_warn_frame e SB_WARN_TYPE_FCW SB_WARN_STATUS_NONE (e_aframe e) (d\<lparr>can700 := ?c\<rparr>) =
      Inr (fcw_report e d, d')" "same_link (d\<lparr>can700 := ?c\<rparr>) d'"
    using alert_built [of SB_WARN_TYPE_FCW e "e_aframe e" "d\<lparr>can700 := ?c\<rparr>"] fcw_report_upd [of e ?c d]
    unfolding fcw_report_def [of e "d\<lparr>can700 := ?c\<rparr>"] by (auto simp: alert_type_def)
  let ?s = "send_adas_warn e (fcw_report e d) d'"
  have "fcw_report e d\<lparr>aw_sound_type := SB_WARN_TYPE_FCW\<rparr> = fcw_report e d"
    by (simp add: fcw_report_def adas_head_def get_real_time_msg_def Let_def)
  then have fcw: "fcw_stage e w (e_aframe e) d = Inr (False, fcw_report e d, ?s)"
    using assms d'(1) t by (simp add: fcw_stage_def fcw_rises_def Let_def)
  have ldw: "ldw_stage e w (e_aframe e) d = Inr (False, e_aframe e, d)"
    using assms by (simp add: ldw_stage_def fcw_rises_def)
  have hw: "headway_stage e w f ?s = Inr (False, f, ?s)" for f
    using assms d'(2) by (simp add: headway_stage_def fcw_rises_def same_link_def)
  have "map2 (AND) w all_warning_masks \<noteq> g_last_warning_data (can700 d)"
    "map2 (AND) w trigger_warning_masks \<noteq> g_last_trigger_warning (can700 d)"
    using assms fcw_masked [of w] by (auto simp: fcw_rises_def)
  then have "deal_wsi_adas_can700 e w d = Inr (?s\<lparr>can700 := (can700 ?s)\<lparr>g_last_can_msg := w,
      g_last_warning_data := map2 (AND) w all_warning_masks, g_last_trigger_warning := map2 (AND) w trigger_warning_masks\<rparr>\<rparr>)"
    using assms fcw_masked(3) [of w] ldw fcw hw by (simp add: deal_wsi_adas_can700_def fcw_rises_def)
  then show ?thesis
    using d'(2) by (auto simp: send_adas_warn_def message_queue_send_commute(2) same_link_def)
qed

lemma length_fcw_report:
  assumes "length (rt_time (rt_msg d)) = 6"
  shows "length (AdasWarnFrame_bytes (fcw_report e d)) \<le> 86"
proof -
  have "length (frame_media (s_mm_id d) (adas_store SB_WARN_TYPE_FCW d)) \<le> 11"
    using length_frame_media [of "s_mm_id d" "adas_store SB_WARN_TYPE_FCW d"] photo_count_alert [of SB_WARN_TYPE_FCW d]
    by (simp add: WARN_SNAP_NUM_MAX_def alert_type_def)
  then show ?thesis
    using assms by (simp add: fcw_report_def AdasWarnFrame_bytes_def adas_head_def get_real_time_msg_def
        RealTimeDdata_process_def Let_def)
qed

section \<open>Concrete inputs\<close>

lemma at_rest_idle: "at_rest idle_device"
  by (simp add: at_rest_def idle_device_def dev_inv_def send_queue_ok_def mm_queue_ok_def queue_ok_def rx_ok_def fresh_decoder_def
      decoder_idle_def boot_paras_def adas_default_def WARN_SNAP_NUM_MAX_def)

definition one_byte_chunks :: "u8 list \<Rightarrow> u8 list list" where
  "one_byte_chunks bs = map (\<lambda>b. [b]) bs"

definition test_sender :: attempt where
  "test_sender = \<lparr>at_writes = [Room 4, Write_error EAGAIN, Room PTR_QUEUE_BUF_SIZE], at_errno = EPIPE, at_acked = True,
     at_wakes = []\<rparr>"

lemma all_delivered_test_sender: "n \<le> PTR_QUEUE_BUF_SIZE \<Longrightarrow> all_delivered TCP_INTERFACE n (\<lambda>_. test_sender)"
  by (simp add: all_delivered_def test_sender_def retries_simps size_defs)

section \<open>A restart\<close>

text \<open>The options of the command line set the configuration and nothing else.\<close>

lemma main_options_keeps:
  "main_options parse ops d = Inr d' \<Longrightarrow> d_paras d' = d_paras d \<and> send_q d' = send_q d"
proof (induction parse ops d rule: main_options.induct)
  case (2 parse op ops d)
  then show ?case by (cases op) (auto simp: bindE_Inr_iff Let_def split: if_splits)
qed simp

lemma system_keeps [simp]:
  "d_paras (system cmd d) = d_paras d" "send_q (system cmd d) = send_q d" "exited (system cmd d) = exited d"
  by (simp_all add: system_def remove_file_def Let_def)

lemma global_var_init_keeps:
  assumes "e_build e = ENABLE_ADAS"
  shows "d_paras (snd (global_var_init e entries opens mallocs d)) =
      fst (snd (read_local_adas_para_file (e_fs e) LOCAL_ADAS_PRAR_FILE (d_paras d) (d_files d)))"
    "send_q (snd (global_var_init e entries opens mallocs d)) = send_q d"
  using assms by (simp_all add: global_var_init_def create_upgrade_dir_def create_snap_path_def rm_mmFiles_def
      prot_init_pre_def Let_def split_beta)

lemma global_var_init_exited: "exited (snd (global_var_init e entries True mallocs d)) = exited d"
  by (simp add: global_var_init_def create_upgrade_dir_def create_snap_path_def rm_mmFiles_def
      prot_init_pre_def Let_def split_beta split: build.split)

lemma main_start_runs: "\<not> exited d \<Longrightarrow> \<exists>d'. main_start e entries True mallocs parse [] d = Inr d'"
  by (simp add: main_start_def split_beta Let_def global_var_init_exited)

text \<open>A device started with a complete parameter file has the parameters of the file.\<close>

lemma main_start_paras:
  assumes "main_start e entries opens mallocs parse opts (boot_device fs) = Inr d'" "e_build e = ENABLE_ADAS"
    and "fs LOCAL_ADAS_PRAR_FILE = Some (AdasParaSetting_bytes p)" "adas_para_ok p" "AdasPara_wf p"
    "0xFF \<notin> set (a_reserve p)" "0xFF \<notin> set (a_reserve2 p)"
  shows "adas_para (d_paras d') = p \<and> send_q d' = []"
proof -
  let ?boot = "boot_device fs"
  have wf: "AdasPara_wf (adas_para (d_paras ?boot))" by (simp add: boot_device_def AdasPara.wf_dec)
  have "write_dev_para (AdasParaSetting_bytes p) SAMPLE_DEVICE_ID_ADAS (d_paras ?boot) = (d_paras ?boot)\<lparr>adas_para := p\<rparr>"
    using assms(4-7) wf by (simp add: write_dev_para_ADAS AdasPara.length_enc AdasPara.dec_enc_self merge_id_adas adas_para_check_id)
  then have "fst (snd (read_local_adas_para_file (e_fs e) LOCAL_ADAS_PRAR_FILE (d_paras ?boot) (d_files ?boot))) =
      (d_paras ?boot)\<lparr>adas_para := p\<rparr>"
    using assms(3,5) by (simp add: read_local_adas_para_file_def AdasPara.length_enc boot_device_def)
  then have "adas_para (d_paras (snd (global_var_init e entries opens mallocs ?boot))) = p"
      "send_q (snd (global_var_init e entries opens mallocs ?boot)) = []"
    using global_var_init_keeps [OF assms(2), of entries opens mallocs ?boot] by (simp_all add: boot_device_def idle_device_def)
  then show ?thesis
    using assms(1) by (auto simp: main_start_def split_beta bindE_Inr_iff dest!: main_options_keeps split: if_splits)
qed

section \<open>Properties\<close>

text \<open>C2: a conversation. The host asks any number of questions (query, device info, status,
  parameters), each in a frame of its own that the transport may deliver in any pieces, and after each the
  sending thread has a turn. Then every turn sends, the host's decoder gets exactly one reply per
  question, in order, each with the command and the serial number of its question and the answer the
  protocol specifies, and the device is ready for the next question with its parameters unchanged.\<close>

theorem conversation_answered:
  assumes "at_rest d" "paras_wf (d_paras d)" "e_malloc1 e" "e_malloc2 e" "handle_ok handle"
    and "list_all2 (\<lambda>q x. asks e q x d) qs xs"
    and "decoder_idle dec" "105 \<le> msglen" "105 \<le> length (rcv_msg dec)"
  shows "\<exists>wire h' d' dec'. conversation e xs handle d = Inr (Some (wire, h', d')) \<and>
    feed msglen wire dec = Inr (map (expected_reply e d) qs, dec') \<and> at_rest d' \<and> d_paras d' = d_paras d"
proof -
  obtain h' d' where run: "conversation e xs handle d =
      Inr (Some (concat (map (\<lambda>q. transmit (expected_reply e d q)) qs), h', d'))" "at_rest d'" "d_paras d' = d_paras d"
    using conversation_asks [OF assms(2-4,6,1) refl assms(5)] by blast
  have "whole_frame msglen dec (expected_reply e d q)" if "q \<in> set qs" for q
  proof -
    obtain i where "i < length qs" "qs ! i = q" using \<open>q \<in> set qs\<close> by (auto simp: in_set_conv_nth)
    then have "asks e q (xs ! i) d" using list_all2_nthD [OF assms(6)] by auto
    then have "length (the (answer e (snd q) 9 d)) \<le> 96"
      using answer_reply(2) [OF _ assms(2)] by (auto simp: asks_def split_beta)
    then show ?thesis
      using assms(8,9) by (auto simp: expected_reply_def split_beta intro!: whole_frame_build_frame)
  qed
  then obtain dec' where "feed msglen (concat (map transmit (map (expected_reply e d) qs))) dec =
      Inr (map (expected_reply e d) qs, dec')"
    using rx.decode_all [of dec "map (expected_reply e d) qs" msglen] assms(7) by auto
  then show ?thesis using run by (auto simp: comp_def)
qed

theorem conversation_answered_witness:
  "\<exists>wire h' d' dec'. conversation (idle_env ENABLE_ADAS)
      [(one_byte_chunks (transmit (request ENABLE_ADAS 1 SAMPLE_CMD_QUERY)), \<lambda>_. test_sender),
       ([transmit (request ENABLE_ADAS 2 SAMPLE_CMD_GET_PARAM)], \<lambda>_. test_sender)] test_handle idle_device =
        Inr (Some (wire, h', d')) \<and>
    feed 200 wire (fresh_decoder 200) = Inr (map (expected_reply (idle_env ENABLE_ADAS) idle_device)
      [(1, SAMPLE_CMD_QUERY), (2, SAMPLE_CMD_GET_PARAM)], dec') \<and> at_rest d' \<and> d_paras d' = d_paras idle_device"
proof -
  have chunks: "concat (one_byte_chunks bs) = bs" "\<forall>c \<in> set (one_byte_chunks bs). c \<noteq> [] \<and> length c \<le> SLIP_DATA_BUF_SIZE" for bs
    by (induction bs) (auto simp: one_byte_chunks_def size_defs)
  have one: "transmit (request ENABLE_ADAS s cmd) \<noteq> [] \<and> length (transmit (request ENABLE_ADAS s cmd)) \<le> SLIP_DATA_BUF_SIZE" for s cmd
    using length_transmit_build_frame [where payload = "[]" and b = ENABLE_ADAS and s = s and cmd = cmd] by (auto simp: size_defs)
  have tr: "e_tr (idle_env ENABLE_ADAS) = TCP_INTERFACE" "e_build (idle_env ENABLE_ADAS) = ENABLE_ADAS"
    by (simp_all add: idle_env_def)
  show ?thesis
    by (rule conversation_answered)
      (simp_all add: at_rest_idle asks_def chunks one tr all_delivered_test_sender answer_def test_facts(1),
       simp_all add: idle_device_def idle_env_def paras_wf_boot fresh_decoder_def decoder_idle_def)
qed

text \<open>C3: an alert from end to end. The algorithm process sends a CAN 0x700 message in which the
  forward collision warning has just come on. Then the message is unpacked, the report is queued, the
  sending thread's turn takes it to the transport, and the host's decoder gets the report, whole, one to
  three times and nothing else: the type of the alert, the next warning id, the position of the last
  real-time message and the ids of the photos and videos that are being recorded.\<close>

theorem alert_reaches_host:
  assumes "e_build e = ENABLE_ADAS" "\<forall>kv \<in> set kvs. entry_ok kv" "can = fold set_entry kvs WsiFrame_zero"
    and "starts_with MESSAGE_CAN700 (wf_topic can)" "fcw_rises e (wf_warning can) d" "length (rt_time (rt_msg d)) = 6"
    and "connect_status d" "send_q d = []" "e_malloc1 e" "e_malloc2 e" "handle_ok handle"
    and "all_delivered (e_tr e') 188 att"
    and "decoder_idle dec" "95 \<le> msglen" "95 \<le> length (rcv_msg dec)"
  shows "\<exists>d1 n wires h' d2 dec'. unpack_wsi_msg e (UNPACKED (MP_MAP kvs)) NO_TYPE d = Inr (NO_TYPE, d1) \<and>
    pthread_process_send e' att handle d1 = Inr (Some (0, wires, h', d2)) \<and> send_q d2 = [] \<and>
    feed msglen (concat wires) dec = Inr (replicate n (build_frame ENABLE_ADAS (send_serial SAMPLE_CMD_WARNING_REPORT d)
      SAMPLE_CMD_WARNING_REPORT (AdasWarnFrame_bytes (fcw_report e d))), dec') \<and> 1 \<le> n \<and> n \<le> 3"
proof -
  let ?p = "AdasWarnFrame_bytes (fcw_report e d)"
  obtain d' where d': "deal_wsi_adas_can700 e (wf_warning can) d =
      Inr (snd (message_queue_send e SAMPLE_CMD_WARNING_REPORT ?p d'))"
      "send_q d' = send_q d" "connect_status d' = connect_status d" "send_serial_num d' = send_serial_num d"
    using can700_fcw [OF assms(5)] by blast
  have unpack: "unpack_wsi_msg e (UNPACKED (MP_MAP kvs)) NO_TYPE d = Inr (NO_TYPE, snd (message_queue_send e SAMPLE_CMD_WARNING_REPORT ?p d'))"
    using msgpack_map_get_ok [OF assms(2), of WsiFrame_zero] assms(1,4) d'(1)
    by (simp add: unpack_wsi_msg_def assms(3) [symmetric])
  have serial: "send_serial SAMPLE_CMD_WARNING_REPORT d' = send_serial SAMPLE_CMD_WARNING_REPORT d"
    using d'(4) by (simp add: send_serial_def do_serial_num_def MasterIsMe_def Let_def)
  have len: "length ?p \<le> 86" by (rule length_fcw_report [OF assms(6)])
  have link: "connect_status d'" "send_q d' = []" using d'(2,3) assms(7,8) by simp_all
  have fits: "16 + 2 * length ?p \<le> PTR_QUEUE_BUF_SIZE" "9 + length ?p \<le> msglen" "9 + length ?p \<le> length (rcv_msg dec)"
    using len assms(14,15) by (simp_all add: size_defs)
  have sent: "all_delivered (e_tr e') (length (transmit (build_frame (e_build e)
      (send_serial SAMPLE_CMD_WARNING_REPORT d') SAMPLE_CMD_WARNING_REPORT ?p))) att"
    using length_transmit_build_frame(2) [of "e_build e" "send_serial SAMPLE_CMD_WARNING_REPORT d'" SAMPLE_CMD_WARNING_REPORT ?p]
      len assms(12) by (auto simp: all_delivered_def intro: takes_all_mono)
  obtain n wires h' d2 dec' where
    "pthread_process_send e' att handle (snd (message_queue_send e SAMPLE_CMD_WARNING_REPORT ?p d')) = Inr (Some (0, wires, h', d2))"
    "feed msglen (concat wires) dec = Inr (replicate n (build_frame (e_build e) (send_serial SAMPLE_CMD_WARNING_REPORT d')
       SAMPLE_CMD_WARNING_REPORT ?p), dec')" "1 \<le> n" "n \<le> 3" "send_q d2 = []"
    using queued_delivered [OF link assms(9,10,11) fits(1) sent assms(13) fits(2,3)] by blast
  then show ?thesis unfolding serial assms(1) using unpack by blast
qed

definition fcw_message :: "(msgpack_object \<times> msgpack_object) list" where
  "fcw_message = [(MP_STR 5 (bytes_of ''topic''), MP_STR 16 (bytes_of ''output.can.0x700'')),
     (MP_STR 4 (bytes_of ''data''), MP_BIN [0, 0, 0, 0, 8, 0, 0, 0])]"

theorem alert_reaches_host_witness:
  "\<exists>d1 n wires h' d2 dec'. unpack_wsi_msg (idle_env ENABLE_ADAS) (UNPACKED (MP_MAP fcw_message)) NO_TYPE idle_device = Inr (NO_TYPE, d1) \<and>
    pthread_process_send (idle_env ENABLE_ADAS) (\<lambda>_. test_sender) test_handle d1 = Inr (Some (0, wires, h', d2)) \<and> send_q d2 = [] \<and>
    feed 200 (concat wires) (fresh_decoder 200) = Inr (replicate n (build_frame ENABLE_ADAS (send_serial SAMPLE_CMD_WARNING_REPORT idle_device)
      SAMPLE_CMD_WARNING_REPORT (AdasWarnFrame_bytes (fcw_report (idle_env ENABLE_ADAS) idle_device))), dec') \<and> 1 \<le> n \<and> n \<le> 3"
proof -
  have keys: "key_type (bytes_of ''topic'') NO_TYPE = CAN_TOPIC" "key_type (bytes_of ''data'') NO_TYPE = CAN_DATA"
    by (simp_all add: key_type_def starts_with_def bytes_of_def)
  define fr where "fr = fold set_entry fcw_message WsiFrame_zero"
  have w: "wf_warning fr = [0, 0, 0, 0, 8, 0, 0, 0]" and topic: "take 16 (wf_topic fr) = bytes_of ''output.can.0x700''"
    by (simp_all add: fr_def fcw_message_def keys WsiFrame_zero_def memcpy_upto_def) (simp add: bytes_of_def)
  have "length MESSAGE_CAN700 = 16" by (simp add: MESSAGE_CAN700_def)
  then have t: "starts_with MESSAGE_CAN700 (wf_topic fr)"
    using topic by (simp add: starts_with_def) (simp add: MESSAGE_CAN700_def bytes_of_def)
  have rises: "fcw_rises (idle_env ENABLE_ADAS) (wf_warning fr) idle_device"
    by (simp add: w fcw_rises_def fcw_on_def left_ldw_def right_ldw_def headway_warning_level_def idle_device_def
        idle_env_def idle_config_def filter_alert_by_time_def filter_time_def filter_alert_by_speed_def boot_paras_def
        adas_default_def bit_simps)
  have "all_delivered (e_tr (idle_env ENABLE_ADAS)) 188 (\<lambda>_. test_sender)"
    by (simp add: idle_env_def all_delivered_test_sender size_defs)
  then show ?thesis
    by (intro alert_reaches_host [OF _ _ fr_def t rises])
      (simp_all add: fcw_message_def keys test_facts(1), simp_all add: idle_env_def idle_device_def no_time_def)
qed

text \<open>C9: parameters survive a restart. The host sets parameters in range; then the device loses its power
  and starts again with the files it left, whatever the media directory, the configuration and the other
  options are. The parameters are the ones the host has set, and a get command answers with the very
  bytes that were received before the restart.\<close>

theorem parameters_survive_restart:
  assumes "hdr_device_id (SBProtHeader_at buf) = SAMPLE_DEVICE_ID_ADAS" "58 \<le> length buf"
    "AdasParaSetting_at (drop 8 buf) = swap_adas p"
    "adas_para_ok p" "AdasPara_wf p" "0xFF \<notin> set (a_reserve p)" "0xFF \<notin> set (a_reserve2 p)"
    "AdasPara_wf (adas_para (d_paras d))" "fs_open (e_fs e) LOCAL_ADAS_PRAR_FILE" "50 \<le> fs_room (e_fs e)"
    and "main_start e' entries opens mallocs parse opts (boot_device (d_files (recv_para_setting e buf 59 d))) = Inr d'"
    and "e_build e' = ENABLE_ADAS" "e_malloc1 e'" "e_malloc2 e'"
    and "hdr_device_id (SBProtHeader_at buf2) = SAMPLE_DEVICE_ID_ADAS"
  shows "adas_para (d_paras d') = p \<and>
    (\<exists>n. send_q (send_para_setting e' buf2 9 d') = [n] \<and>
       q_buf n = Mem (transmit (build_frame ENABLE_ADAS (recv_serial_num d') SAMPLE_CMD_GET_PARAM (take 50 (drop 8 buf)))))"
proof -
  have "recv_para_setting e buf 59 d =
      snd (message_queue_send e SAMPLE_CMD_SET_PARAM [0] (d\<lparr>d_paras := (d_paras d)\<lparr>adas_para := p\<rparr>,
        d_files := (d_files d)(LOCAL_ADAS_PRAR_FILE \<mapsto> AdasParaSetting_bytes p)\<rparr>))"
    using assms(1,3-10) by (rule recv_para_setting_adas)
  then have "d_files (recv_para_setting e buf 59 d) LOCAL_ADAS_PRAR_FILE = Some (AdasParaSetting_bytes p)" by simp
  then have d': "adas_para (d_paras d') = p" "send_q d' = []"
    using main_start_paras [OF assms(11,12)] assms(4-7) by blast+
  have bytes: "AdasParaSetting_bytes (swap_adas p) = take 50 (drop 8 buf)"
    using AdasPara.enc_dec [of "drop 8 buf"] assms(2,3) by simp
  let ?reply = "take 50 (drop 8 buf)"
  have "send_para_setting e' buf2 9 d' = snd (message_queue_send e' SAMPLE_CMD_GET_PARAM ?reply d')"
    using assms(15) by (simp add: send_para_setting_def d'(1) bytes)
  moreover have "send_q (snd (message_queue_send e' SAMPLE_CMD_GET_PARAM ?reply d')) = [queued_msg e' SAMPLE_CMD_GET_PARAM ?reply d']"
    using assms(13,14) by (subst send_q_room) (simp_all add: size_defs d'(2) PTR_QUEUE_BUF_CNT_def)
  ultimately show ?thesis
    using d'(1) by (simp add: queued_msg_def assms(12) send_serial_reply MasterIsMe_def Let_def)
qed

theorem parameters_survive_restart_witness:
  "\<exists>d'. main_start (idle_env ENABLE_ADAS) (Some []) True (True, True, True) (\<lambda>_. None) []
       (boot_device (d_files (recv_para_setting (idle_env ENABLE_ADAS)
          ([0x7E, 0, 0, 1, 0x12, 0x34, 0x64, 0x35] @ AdasParaSetting_bytes (swap_adas (adas_default\<lparr>photo_num := 5\<rparr>)) @ [0x7E])
          59 idle_device))) = Inr d' \<and> adas_para (d_paras d') = adas_default\<lparr>photo_num := 5\<rparr>"
proof -
  let ?p = "adas_default\<lparr>photo_num := 5\<rparr>"
  let ?h = "[0x7E, 0, 0, 1, 0x12, 0x34, 0x64, 0x35] :: u8 list"
  let ?buf = "?h @ AdasParaSetting_bytes (swap_adas ?p) @ [0x7E]"
  let ?boot = "boot_device (d_files (recv_para_setting (idle_env ENABLE_ADAS) ?buf 59 idle_device))"
  have wf: "AdasPara_wf ?p" "AdasPara_wf (swap_adas ?p)" by (simp_all add: AdasPara_wf_def adas_default_def swap_adas_def)
  have at: "AdasParaSetting_at (drop 8 ?buf) = swap_adas ?p"
    using AdasPara.dec_enc [OF wf(2), of "[0x7E]"] by simp
  have id: "hdr_device_id (SBProtHeader_at ?buf) = SAMPLE_DEVICE_ID_ADAS" by (simp add: SBProtHeader_at_def nth_append)
  have len: "58 \<le> length ?buf" using AdasPara.length_enc [OF wf(2)] by simp
  have ok: "adas_para_ok ?p" using adas_default_ok by (simp add: adas_para_ok_def base_para_ok_def in_range_def)
  have resv: "0xFF \<notin> set (a_reserve ?p)" "0xFF \<notin> set (a_reserve2 ?p)" by (simp_all add: adas_default_def)
  have old: "AdasPara_wf (adas_para (d_paras idle_device))" by (simp add: idle_device_def boot_paras_def AdasPara_wf_default)
  have fs: "fs_open (e_fs (idle_env ENABLE_ADAS)) LOCAL_ADAS_PRAR_FILE" "50 \<le> fs_room (e_fs (idle_env ENABLE_ADAS))"
    and e: "e_build (idle_env ENABLE_ADAS) = ENABLE_ADAS" "e_malloc1 (idle_env ENABLE_ADAS)" "e_malloc2 (idle_env ENABLE_ADAS)"
    by (simp_all add: idle_env_def)
  have "\<not> exited (boot_device fs)" for fs by (simp add: boot_device_def idle_device_def)
  then obtain d' where d': "main_start (idle_env ENABLE_ADAS) (Some []) True (True, True, True) (\<lambda>_. None) [] ?boot = Inr d'"
    using main_start_runs by blast
  show ?thesis
    using parameters_survive_restart [OF id len at ok wf(1) resv old fs d' e id] d' by blast
qed

end
