(* ===== verification/Upload.thy ===== *)
theory Upload
  imports EndToEnd
begin

text \<open>
  A media file from the request of the host to the last acknowledgement, over the wire: the receive thread
  and the sending thread take turns, the host keeps the first copy of each packet and acknowledges what it
  gets, perhaps more than once. What the sender makes of the acknowledgements in time, one to three
  transmissions of each packet, is not restricted.
\<close>

section \<open>The host's side\<close>

definition host_request :: "build \<Rightarrow> u16 \<Rightarrow> u8 \<Rightarrow> u32 \<Rightarrow> u8 list" where
  "host_request b s ty i = build_frame b s SAMPLE_CMD_REQ_MM_DATA (SBMmHeader_bytes \<lparr>mmh_type = ty, mmh_id = htonl i\<rparr>)"

definition host_ack :: "build \<Rightarrow> u16 \<Rightarrow> u8 \<Rightarrow> u32 \<Rightarrow> u8 list \<Rightarrow> nat \<Rightarrow> u8 list" where
  "host_ack b s ty i c k = build_frame b s SAMPLE_CMD_UPLOAD_MM_DATA (MmAckInfo_bytes
     \<lparr>ai_req_type = ty, ai_mm_id = htonl i, ai_packet_total_num = htons (of_nat (packet_count c)),
      ai_packet_index = htons (of_nat k), ai_ack = 0\<rparr>)"

text \<open>The file as the host puts it together from the frames it decodes: of the packets the one with the next
  index, without the header and the packet header in front and the delimiter behind it.\<close>

fun host_file :: "nat \<Rightarrow> u8 list list \<Rightarrow> u8 list" where
  "host_file k [] = []"
| "host_file k (f # fs) =
     (if htons (pi_packet_index (MmPacketIndex_at (drop 8 f))) = of_nat k
      then drop 17 (butlast f) @ host_file (Suc k) fs else host_file k fs)"

text \<open>Acknowledgements in one go: the one for packet \<open>k\<close>, then any number of late ones for it or for
  packets before it.\<close>

definition ack_bytes :: "build \<Rightarrow> u8 \<Rightarrow> u32 \<Rightarrow> u8 list \<Rightarrow> (u16 \<times> nat) list \<Rightarrow> u8 list" where
  "ack_bytes b ty i c sks = concat (map (\<lambda>(s, k). transmit (host_ack b s ty i c k)) sks)"

definition acks :: "env \<Rightarrow> u8 \<Rightarrow> u32 \<Rightarrow> u8 list \<Rightarrow> nat \<Rightarrow> u8 list list \<Rightarrow> bool" where
  "acks e ty i c k cs \<longleftrightarrow> (\<exists>s late. concat cs = ack_bytes (e_build e) ty i c ((s, k) # late) \<and>
     (\<forall>(s, j) \<in> set late. j \<le> k)) \<and> (\<forall>x \<in> set cs. x \<noteq> [] \<and> length x \<le> SLIP_DATA_BUF_SIZE)"

section \<open>The state between the turns\<close>

definition linked :: "device \<Rightarrow> bool" where
  "linked d \<longleftrightarrow> listening d \<and> connect_status d \<and> length (send_q d) \<le> send_data d"

lemma length_push: "length (snd (ptr_queue_push m1 m2 p x)) \<le> Suc (length p)"
  by (simp add: ptr_queue_push_def Let_def split: cptr.split)

lemma keeps_queue_send [simp]:
  "connect_status (snd (message_queue_send e cmd payload d)) = connect_status d"
  "d_rx (snd (message_queue_send e cmd payload d)) = d_rx d"
  by (simp_all add: message_queue_send_eq do_serial_num_def Let_def)

lemma linked_queue_send [simp]: "linked d \<Longrightarrow> linked (snd (message_queue_send e cmd payload d))"
  using length_push [of "e_malloc1 e" "e_malloc2 e" "send_q d" "queued_msg e cmd payload d"]
  by (auto simp: linked_def listening_def) (simp add: message_queue_send_eq)

lemma linked_upd [simp]:
  "linked (d\<lparr>pkg_status := x\<rparr>) = linked d" "linked (d\<lparr>mmlist := y\<rparr>) = linked d"
  "linked (set_filepath p d) = linked d" "linked (notice_ack_msg d) = linked d"
  "linked (snd (do_serial_num s RECORD_RECV_NUM d)) = linked d"
  by (simp_all add: linked_def listening_def set_filepath_def notice_ack_msg_def do_serial_num_def Let_def)

lemma linked_sample_send_image [simp]: "linked d \<Longrightarrow> linked (snd (sample_send_image e d))"
  by (simp add: sample_send_image_def Let_def split: option.split)

lemma linked_recv_ack [simp]: "linked d \<Longrightarrow> linked (snd (recv_ack_and_send_image e buf d))"
  by (simp add: recv_ack_and_send_image_def Let_def)

lemma d_rx_upload [simp]:
  "d_rx (snd (sample_send_image e d)) = d_rx d" "d_rx (snd (recv_ack_and_send_image e buf d)) = d_rx d"
proof -
  show image: "d_rx (snd (sample_send_image e d)) = d_rx d" for d
    by (simp add: sample_send_image_def set_filepath_def Let_def split: option.split)
  show "d_rx (snd (recv_ack_and_send_image e buf d)) = d_rx d"
    by (simp add: recv_ack_and_send_image_def notice_ack_msg_def image Let_def)
qed

section \<open>A frame with a payload\<close>

lemma frame_payload:
  assumes "take (9 + length payload) buf = build_frame b s cmd payload"
  shows "\<exists>rest. drop 8 buf = payload @ rest"
proof -
  have "length (build_frame b s cmd payload) = 9 + length payload" by simp
  have "payload = bytes_at (take (9 + length payload) buf) 8 (length payload)"
    unfolding assms by (rule build_frame_payload [symmetric])
  also have "\<dots> = take (length payload) (drop 8 buf)" by (simp add: bytes_at_def drop_take)
  finally show ?thesis by (metis append_take_drop_id)
qed

text \<open>What an upload depends on.\<close>

definition same_upload :: "device \<Rightarrow> device \<Rightarrow> bool" where
  "same_upload d d' \<longleftrightarrow> send_q d' = send_q d \<and> pkg_status d' = pkg_status d \<and> d_files d' = d_files d \<and>
     recv_ack d' = recv_ack d"

lemma uploading_same: "same_upload d d' \<Longrightarrow> uploading e ty i c k d' = uploading e ty i c k d"
  by (simp add: same_upload_def uploading_def)

lemma frame_with_payload:
  fixes e :: env
  assumes "linked d" "9 + length payload \<le> DATA_BUF_SIZE" "f = build_frame (e_build e) s cmd payload"
  shows "\<exists>buf rest r. prot_parse e (transmit f) d = run_frame e buf (9 + length payload) (d\<lparr>d_rx := r\<rparr>) \<and>
    drop 8 buf = payload @ rest \<and> rcv_msg r = buf \<and> length buf = DATA_BUF_SIZE \<and> linked (d\<lparr>d_rx := r\<rparr>) \<and>
    SBProtHeader_at buf = SBProtHeader_at f"
proof -
  have flen: "length f = 9 + length payload" by (simp add: assms(3))
  obtain r where r: "prot_parse e (transmit f) d = run_frame e (rcv_msg r) (9 + length payload) (d\<lparr>d_rx := r\<rparr>)"
      "take (9 + length payload) (rcv_msg r) = f" "length (rcv_msg r) = DATA_BUF_SIZE" "listening (d\<lparr>d_rx := r\<rparr>)"
      "SBProtHeader_at (rcv_msg r) = SBProtHeader_at f"
    using frame_received [OF _ assms(2,3), of d e] assms(1) unfolding linked_def flen by auto
  obtain rest where "drop 8 (rcv_msg r) = payload @ rest" using frame_payload r(2) assms(3) by blast
  then show ?thesis using r assms(1) by (auto simp: linked_def)
qed

lemma rcv_msg_same: "d_rx d = r \<Longrightarrow> rcv_msg r = buf \<Longrightarrow> d\<lparr>d_rx := r\<lparr>rcv_msg := buf\<rparr>\<rparr> = d"
  by (cases d; cases r) simp

section \<open>Acknowledgements\<close>

lemma ack_parsed:
  assumes "linked d"
  shows "\<exists>buf d0. prot_parse e (transmit (host_ack (e_build e) s ty i c k)) d =
      Inr (snd (recv_ack_and_send_image e buf d0)) \<and> acks_packet k buf \<and> linked d0 \<and> same_upload d d0"
proof -
  let ?info = "\<lparr>ai_req_type = ty, ai_mm_id = htonl i, ai_packet_total_num = htons (of_nat (packet_count c)),
      ai_packet_index = htons (of_nat k), ai_ack = 0\<rparr>"
  let ?f = "host_ack (e_build e) s ty i c k"
  have "length (MmAckInfo_bytes ?info) = 10" by (rule MmAckInfo.length_enc) simp
  then obtain buf rest r where buf: "prot_parse e (transmit ?f) d = run_frame e buf 19 (d\<lparr>d_rx := r\<rparr>)"
      "drop 8 buf = MmAckInfo_bytes ?info @ rest" "rcv_msg r = buf" "linked (d\<lparr>d_rx := r\<rparr>)"
      "SBProtHeader_at buf = SBProtHeader_at ?f"
    using frame_with_payload [OF assms, of "MmAckInfo_bytes ?info" ?f e s SAMPLE_CMD_UPLOAD_MM_DATA]
    by (auto simp: host_ack_def size_defs)
  let ?d0 = "snd (do_serial_num s RECORD_RECV_NUM (d\<lparr>d_rx := r\<rparr>))"
  have h: "hdr_device_id (SBProtHeader_at buf) = own_device_id (e_build e)"
      "hdr_cmd (SBProtHeader_at buf) = SAMPLE_CMD_UPLOAD_MM_DATA" "hdr_serial_num (SBProtHeader_at buf) = htons s"
    by (simp_all add: buf(5) host_ack_def build_frame_header)
  have "d_rx (snd (recv_ack_and_send_image e buf ?d0)) = r" by (simp add: do_serial_num_def Let_def)
  then have same: "(snd (recv_ack_and_send_image e buf ?d0))\<lparr>d_rx := r\<lparr>rcv_msg := buf\<rparr>\<rparr> = snd (recv_ack_and_send_image e buf ?d0)"
    using buf(3) by (intro rcv_msg_same)
  have "prot_parse e (transmit ?f) d = Inr (snd (recv_ack_and_send_image e buf ?d0))"
    by (simp add: buf(1) run_frame_def sample_on_cmd_def h do_serial_num_frame same)
  moreover have "acks_packet k buf"
    using MmAckInfo.dec_enc [of ?info rest] by (simp add: acks_packet_def buf(2))
  moreover have "linked ?d0" using buf(4) by simp
  moreover have "same_upload d ?d0" by (simp add: same_upload_def do_serial_num_def Let_def)
  ultimately show ?thesis by blast
qed

lemma ack_next_parsed:
  assumes "linked d" "uploading e ty i c (Suc k) d" "Suc k < packet_count c" "uploadable c"
    "e_malloc1 e" "e_malloc2 e" "send_q d = []"
  shows "\<exists>d' m. prot_parse e (transmit (host_ack (e_build e) s ty i c k)) d = Inr d' \<and> linked d' \<and>
    uploading e ty i c (Suc (Suc k)) d' \<and> send_q d' = [m] \<and> carries e (packet ty i c (Suc k)) m"
proof -
  obtain buf d0 where d0: "prot_parse e (transmit (host_ack (e_build e) s ty i c k)) d = Inr (snd (recv_ack_and_send_image e buf d0))"
      "acks_packet k buf" "linked d0" "same_upload d d0"
    using ack_parsed [OF assms(1)] by blast
  then obtain d' m where d': "recv_ack_and_send_image e buf d0 = (0, d')" "uploading e ty i c (Suc (Suc k)) d'"
      "send_q d' = [m]" "carries e (packet ty i c (Suc k)) m"
    using recv_ack_next [of e ty i c k d0 buf] assms(2-7) uploading_same [OF d0(4)] by (auto simp: same_upload_def)
  then show ?thesis using d0(1) linked_recv_ack [OF d0(3), of e buf] by simp
qed

lemma late_acks_parsed:
  assumes "linked d" "uploading e ty i c m d" "m < 2 ^ 16" "\<forall>(s, j) \<in> set late. j + 1 < m"
  shows "\<exists>d'. prot_parse e (ack_bytes (e_build e) ty i c late) d = Inr d' \<and> linked d' \<and> same_upload d d'"
  using assms
proof (induction late arbitrary: d)
  case Nil
  then show ?case by (simp add: ack_bytes_def same_upload_def)
next
  case (Cons x late)
  obtain s j where x: "x = (s, j)" "j + 1 < m" using Cons.prems(4) by (cases x) auto
  obtain buf d0 where d0: "prot_parse e (transmit (host_ack (e_build e) s ty i c j)) d = Inr (snd (recv_ack_and_send_image e buf d0))"
      "acks_packet j buf" "linked d0" "same_upload d d0"
    using ack_parsed [OF Cons.prems(1)] by blast
  have up: "uploading e ty i c m d0" using uploading_same [OF d0(4)] Cons.prems(2) by simp
  then obtain d' where d': "prot_parse e (ack_bytes (e_build e) ty i c late) d0 = Inr d'" "linked d'" "same_upload d0 d'"
    using Cons.IH [OF d0(3) up Cons.prems(3)] Cons.prems(4) by auto
  have "prot_parse e (ack_bytes (e_build e) ty i c (x # late)) d = Inr d'"
    using d0(1) d'(1) recv_ack_again [OF up d0(2) x(2) Cons.prems(3)] by (simp add: ack_bytes_def x(1) host.parse_append)
  then show ?case using d'(2,3) d0(4) by (auto simp: same_upload_def)
qed

lemma acks_next:
  assumes "linked d" "uploading e ty i c (Suc k) d" "Suc k < packet_count c" "uploadable c"
    "e_malloc1 e" "e_malloc2 e" "send_q d = []" "acks e ty i c k cs"
  shows "\<exists>d' m. rcv_chunks e cs d = Inr d' \<and> linked d' \<and> uploading e ty i c (Suc (Suc k)) d' \<and>
    send_q d' = [m] \<and> carries e (packet ty i c (Suc k)) m"
proof -
  obtain s late where cs: "concat cs = ack_bytes (e_build e) ty i c ((s, k) # late)" "\<forall>(s, j) \<in> set late. j \<le> k"
      "\<forall>x \<in> set cs. x \<noteq> [] \<and> length x \<le> SLIP_DATA_BUF_SIZE"
    using assms(8) by (auto simp: acks_def)
  obtain d1 m where d1: "prot_parse e (transmit (host_ack (e_build e) s ty i c k)) d = Inr d1" "linked d1"
      "uploading e ty i c (Suc (Suc k)) d1" "send_q d1 = [m]" "carries e (packet ty i c (Suc k)) m"
    using ack_next_parsed [OF assms(1-7)] by blast
  obtain d' where "prot_parse e (ack_bytes (e_build e) ty i c late) d1 = Inr d'" "linked d'" "same_upload d1 d'"
    using late_acks_parsed [OF d1(2,3), of late] assms(3) packet_count_16 [OF assms(4)] cs(2) by fastforce
  then show ?thesis
    using d1 uploading_same [of d1 d'] rcv_chunks_parse [OF cs(3), of e d]
    by (auto simp: cs(1) ack_bytes_def host.parse_append same_upload_def)
qed

lemma acks_last:
  assumes "linked d" "uploading e ty i c (packet_count c) d" "uploadable c" "send_q d = []"
    "k + 1 = packet_count c" "acks e ty i c k cs"
  shows "\<exists>d'. rcv_chunks e cs d = Inr d' \<and> linked d' \<and> send_q d' = [] \<and> \<not> ps_mm_data_trans_waiting (pkg_status d')"
proof -
  obtain s late where cs: "concat cs = ack_bytes (e_build e) ty i c ((s, k) # late)" "\<forall>(s, j) \<in> set late. j \<le> k"
      "\<forall>x \<in> set cs. x \<noteq> [] \<and> length x \<le> SLIP_DATA_BUF_SIZE"
    using assms(6) by (auto simp: acks_def)
  have one: "\<exists>d'. prot_parse e (transmit (host_ack (e_build e) s ty i c j)) d = Inr d' \<and> linked d' \<and>
      uploading e ty i c (packet_count c) d' \<and> send_q d' = [] \<and>
      (j = k \<or> \<not> ps_mm_data_trans_waiting (pkg_status d) \<longrightarrow> \<not> ps_mm_data_trans_waiting (pkg_status d'))"
    if d: "linked d" "uploading e ty i c (packet_count c) d" "send_q d = []" and j: "j \<le> k" for d s j
  proof -
    obtain buf d0 where d0: "prot_parse e (transmit (host_ack (e_build e) s ty i c j)) d = Inr (snd (recv_ack_and_send_image e buf d0))"
        "acks_packet j buf" "linked d0" "same_upload d d0"
      using ack_parsed [OF d(1)] by blast
    have up: "uploading e ty i c (packet_count c) d0" using uploading_same [OF d0(4)] d(2) by simp
    show ?thesis
    proof (cases "j = k")
      case True
      then show ?thesis
        using recv_ack_last [of e ty i c k d0 buf] up d0 d(3) assms(3,5) linked_recv_ack [OF d0(3), of e buf]
        by (auto simp: same_upload_def)
    next
      case False
      then show ?thesis
        using recv_ack_again [OF up d0(2) _ packet_count_16 [OF assms(3)]] up d0 d(3) j assms(5) by (auto simp: same_upload_def)
    qed
  qed
  have all: "\<exists>d'. prot_parse e (ack_bytes (e_build e) ty i c late) d = Inr d' \<and> linked d' \<and> send_q d' = [] \<and>
      \<not> ps_mm_data_trans_waiting (pkg_status d')"
    if "linked d" "uploading e ty i c (packet_count c) d" "send_q d = []" "\<not> ps_mm_data_trans_waiting (pkg_status d)"
      "\<forall>(s, j) \<in> set late. j \<le> k" for d late
    using that
  proof (induction late arbitrary: d)
    case (Cons x late)
    obtain s j where x: "x = (s, j)" "j \<le> k" using Cons.prems(5) by (cases x) auto
    obtain d1 where "prot_parse e (transmit (host_ack (e_build e) s ty i c j)) d = Inr d1" "linked d1"
        "uploading e ty i c (packet_count c) d1" "send_q d1 = []" "\<not> ps_mm_data_trans_waiting (pkg_status d1)"
      using one [OF Cons.prems(1-3) x(2)] Cons.prems(4) by blast
    then show ?case using Cons.IH [of d1] Cons.prems(5) by (auto simp: ack_bytes_def x(1) host.parse_append)
  qed (simp add: ack_bytes_def)
  obtain d1 where d1: "prot_parse e (transmit (host_ack (e_build e) s ty i c k)) d = Inr d1" "linked d1"
      "uploading e ty i c (packet_count c) d1" "send_q d1 = []" "\<not> ps_mm_data_trans_waiting (pkg_status d1)"
    using one [OF assms(1,2,4), of k s] by blast
  then show ?thesis
    using all [OF d1(2-5) cs(2)] rcv_chunks_parse [OF cs(3), of e d] by (auto simp: cs(1) ack_bytes_def host.parse_append)
qed
section \<open>The request\<close>

lemma linked_send_mm_req_ack [simp]: "linked d \<Longrightarrow> linked (snd (snd (send_mm_req_ack e buf len d)))"
  by (simp add: send_mm_req_ack_def find_local_image_name_def Let_def split_beta)

lemma d_rx_send_mm_req_ack [simp]: "d_rx (snd (snd (send_mm_req_ack e buf len d))) = d_rx d"
  by (simp add: send_mm_req_ack_def find_local_image_name_def set_filepath_def Let_def split_beta)

lemma linked_rcv_msg:
  "linked d \<Longrightarrow> length buf = DATA_BUF_SIZE \<Longrightarrow> linked (d\<lparr>d_rx := (d_rx d)\<lparr>rcv_msg := buf\<rparr>\<rparr>)"
  by (auto simp: linked_def listening_def dev_inv_def rx_ok_def decoder_idle_def)

lemma request_parsed:
  assumes "linked d" "send_q d = []" "\<not> ps_mm_data_trans_waiting (pkg_status d)"
    "d_files d (mmid_to_filename (e_build e) i) = Some c" "uploadable c" "e_malloc1 e" "e_malloc2 e"
  shows "\<exists>d' d0 m. prot_parse e (transmit (host_request (e_build e) s ty i)) d = Inr d' \<and> linked d' \<and>
    uploading e ty i c (Suc 0) d' \<and> send_q d' = [queued_msg e SAMPLE_CMD_REQ_MM_DATA [] d0, m] \<and>
    carries e (packet ty i c 0) m \<and> send_serial SAMPLE_CMD_REQ_MM_DATA d0 = s \<and> 0 < packet_count c"
proof -
  let ?mm = "\<lparr>mmh_type = ty, mmh_id = htonl i\<rparr>"
  let ?f = "host_request (e_build e) s ty i"
  have "length (SBMmHeader_bytes ?mm) = 5" by (rule SBMmHeader.length_enc) simp
  then obtain buf rest r where buf: "prot_parse e (transmit ?f) d = run_frame e buf 14 (d\<lparr>d_rx := r\<rparr>)"
      "drop 8 buf = SBMmHeader_bytes ?mm @ rest" "rcv_msg r = buf" "length buf = DATA_BUF_SIZE" "linked (d\<lparr>d_rx := r\<rparr>)"
      "SBProtHeader_at buf = SBProtHeader_at ?f"
    using frame_with_payload [OF assms(1), of "SBMmHeader_bytes ?mm" ?f e s SAMPLE_CMD_REQ_MM_DATA]
    by (auto simp: host_request_def size_defs)
  let ?d = "snd (do_serial_num s RECORD_RECV_NUM (d\<lparr>d_rx := r\<rparr>))"
  have same: "same_upload d ?d" "recv_serial_num ?d = s" "d_rx ?d = r"
    by (simp_all add: same_upload_def do_serial_num_def Let_def)
  have h: "hdr_device_id (SBProtHeader_at buf) = own_device_id (e_build e)"
      "hdr_cmd (SBProtHeader_at buf) = SAMPLE_CMD_REQ_MM_DATA" "hdr_serial_num (SBProtHeader_at buf) = htons s"
    by (simp_all add: buf(6) host_request_def build_frame_header)
  have mm: "SBMmHeader_at (drop 8 buf) = ?mm" using SBMmHeader.dec_enc [of ?mm rest] by (simp add: buf(2))
  have served: "\<not> ps_mm_data_trans_waiting (pkg_status ?d)" "d_files ?d (mmid_to_filename (e_build e) i) = Some c"
    and empty: "send_q ?d = []"
    using assms(2-4) same(1) by (simp_all add: same_upload_def)
  obtain buf' d0 d1 m where d1: "send_mm_req_ack e buf 14 ?d = (0, buf', d1)" "uploading e ty i c (Suc 0) d1"
      "send_q d1 = [queued_msg e SAMPLE_CMD_REQ_MM_DATA [] d0, m]" "carries e (packet ty i c 0) m"
      "send_serial SAMPLE_CMD_REQ_MM_DATA d0 = s" "0 < packet_count c"
    using mm_req_served [OF h(2) mm served assms(5-7) empty] by (auto simp: same(2))
  have buf': "length buf' = DATA_BUF_SIZE"
    using length_send_mm_req_ack [of buf e 14 ?d] buf(4) d1(1) by (simp add: size_defs)
  let ?d' = "d1\<lparr>d_rx := r\<lparr>rcv_msg := buf'\<rparr>\<rparr>"
  have "prot_parse e (transmit ?f) d = Inr ?d'"
    using d1(1) d_rx_send_mm_req_ack [of e buf 14 ?d]
    by (simp add: buf(1) run_frame_def sample_on_cmd_def h same(3))
  moreover have "linked ?d'"
  proof -
    have "linked ?d" using buf(5) by simp
    then have "linked d1" using linked_send_mm_req_ack [of ?d e buf 14] d1(1) by simp
    moreover have "d_rx d1 = r" using d_rx_send_mm_req_ack [of e buf 14 ?d] d1(1) same(3) by simp
    ultimately show ?thesis using linked_rcv_msg [of d1 buf'] buf' by simp
  qed
  moreover have "uploading e ty i c (Suc 0) ?d'" using d1(2) by (simp add: uploading_def)
  ultimately show ?thesis using d1(3-6) by (intro exI [of _ ?d'] exI [of _ d0] exI [of _ m]) auto
qed

section \<open>The turns of the sender\<close>

text \<open>A device whose queue has lost its first message and whose state of waiting may have changed.\<close>

lemma linked_sent:
  assumes "linked d" "send_q d = m # q"
  shows "linked (d\<lparr>send_data := send_data d - 1, send_q := q\<rparr>)"
  using assms by (auto simp: linked_def listening_def dev_inv_def send_queue_ok_def)

lemma linked_ack_upd [simp]:
  "linked (d\<lparr>recv_ack := a\<rparr>) = linked d" "linked (stop_waiting d) = linked d"
  "send_q (stop_waiting d) = send_q d"
  by (simp_all add: linked_def listening_def stop_waiting_def)

lemma uploading_sent [simp]:
  "uploading e ty i c k (d\<lparr>recv_ack := a\<rparr>) = uploading e ty i c k d" "uploading e ty i c k (stop_waiting d) = uploading e ty i c k d"
  "uploading e ty i c k (d\<lparr>send_data := n\<rparr>) = uploading e ty i c k d"
  by (simp_all add: uploading_def stop_waiting_def)

text \<open>The copies of packet \<open>k\<close> the host gets.\<close>

definition copies :: "env \<Rightarrow> u8 \<Rightarrow> u32 \<Rightarrow> u8 list \<Rightarrow> nat \<Rightarrow> u8 list list \<Rightarrow> bool" where
  "copies e ty i c k fs \<longleftrightarrow> (\<exists>n s. fs = replicate n (build_frame (e_build e) s SAMPLE_CMD_UPLOAD_MM_DATA (packet ty i c k)) \<and>
     1 \<le> n \<and> n \<le> 3)"

lemma length_packet: "length (packet ty i c k) \<le> 9 + IMAGE_SIZE_PER_PACKET"
  using length_chunk [of c k] by (simp add: packet_def)

lemma delivered_mono: "all_delivered tr n att \<Longrightarrow> m \<le> n \<Longrightarrow> a < 3 \<Longrightarrow> takes_all (retries tr) m (at_writes (att a))"
  unfolding all_delivered_def by (blast intro: takes_all_mono)

lemma turn_start:
  assumes "linked d" "send_q d = m # q"
  shows "pthread_process_send e att handle d = send_package e att handle (d\<lparr>send_data := send_data d - 1\<rparr>)"
    "data_node m" "connect_status d"
  using assms by (auto simp: pthread_process_send_def linked_def listening_def dev_inv_def send_queue_ok_def)

lemma reply_turn:
  assumes "linked d" "send_q d = queued_msg e SAMPLE_CMD_REQ_MM_DATA [] d0 # q" "handle_ok handle"
    and "all_delivered (e_tr e) PTR_QUEUE_BUF_SIZE att" "uploading e ty i c k d"
  shows "\<exists>h' d'. pthread_process_send e att handle d =
      Inr (Some (0, [transmit (build_frame (e_build e) (send_serial SAMPLE_CMD_REQ_MM_DATA d0) SAMPLE_CMD_REQ_MM_DATA [])], h', d')) \<and>
    handle_ok h' \<and> linked d' \<and> send_q d' = q \<and> uploading e ty i c k d'"
proof -
  let ?m = "queued_msg e SAMPLE_CMD_REQ_MM_DATA [] d0"
  let ?w = "transmit (build_frame (e_build e) (send_serial SAMPLE_CMD_REQ_MM_DATA d0) SAMPLE_CMD_REQ_MM_DATA [])"
  let ?d = "d\<lparr>send_data := send_data d - 1\<rparr>"
  have len: "length ?w \<le> PTR_QUEUE_BUF_SIZE"
    using length_transmit_build_frame(2) [of "e_build e" "send_serial SAMPLE_CMD_REQ_MM_DATA d0" SAMPLE_CMD_REQ_MM_DATA "[]"]
    by (simp add: size_defs)
  then have "takes_all (retries (e_tr e)) (length ?w) (at_writes (att 0))"
    using delivered_mono [OF assms(4), of _ 0] by simp
  then obtain r ws where sent: "handle_snd (e_tr e) (loaded handle ?w) (at_errno (att 0)) (at_writes (att 0)) = Some (r, ?w, ws)"
    using loaded_delivers [OF assms(3)] by blast
  have "pkg_ack_status (q_pkg ?m) = MSG_ACK_READY" by (simp add: queued_msg_def MasterIsMe_def Let_def)
  then have "pthread_process_send e att handle d = Inr (Some (0, [?w], loaded handle ?w, ?d\<lparr>send_q := q\<rparr>))"
    using send_package_ready [of ?d ?m q ?w handle e att] turn_start [OF assms(1,2)] assms(2,3) sent by simp
  moreover have "handle_ok (loaded handle ?w)" using assms(3) len by (simp add: handle_ok_def loaded_def size_defs)
  moreover have "linked (?d\<lparr>send_q := q\<rparr>)" using linked_sent [OF assms(1,2)] .
  ultimately show ?thesis using assms(5) by simp
qed

lemma packet_turn:
  assumes "linked d" "send_q d = m # q" "carries e (packet ty i c j) m" "handle_ok handle"
    and "all_delivered (e_tr e) PTR_QUEUE_BUF_SIZE att" "uploading e ty i c k d"
  shows "\<exists>fs h' d'. pthread_process_send e att handle d = Inr (Some (0, map transmit fs, h', d')) \<and> copies e ty i c j fs \<and>
    handle_ok h' \<and> linked d' \<and> send_q d' = q \<and> uploading e ty i c k d'"
proof -
  obtain d0 where m: "m = queued_msg e SAMPLE_CMD_UPLOAD_MM_DATA (packet ty i c j) d0" using assms(3) by (auto simp: carries_def)
  define f where "f = build_frame (e_build e) (send_serial SAMPLE_CMD_UPLOAD_MM_DATA d0) SAMPLE_CMD_UPLOAD_MM_DATA (packet ty i c j)"
  let ?w = "transmit f"
  let ?d = "d\<lparr>send_data := send_data d - 1\<rparr>"
  have len: "length ?w \<le> PTR_QUEUE_BUF_SIZE"
    using length_transmit_build_frame(2) [of "e_build e" "send_serial SAMPLE_CMD_UPLOAD_MM_DATA d0" SAMPLE_CMD_UPLOAD_MM_DATA
        "packet ty i c j"] length_packet [of ty i c j]
    by (simp add: f_def size_defs)
  then have "takes_all (retries (e_tr e)) (length ?w) (at_writes (att a))" if "a < 3" for a
    using delivered_mono [OF assms(5)] that by simp
  then have "\<exists>r ws. handle_snd (e_tr e) (loaded handle ?w) (at_errno (att a)) (at_writes (att a)) = Some (r, ?w, ws)" if "a < 3" for a
    using loaded_delivers [OF assms(4)] that by blast
  from send_attempts_delivered [of "e_tr e" "loaded handle ?w" att ?w, OF this, of 0 "?d\<lparr>send_q := q\<rparr>"]
  obtain n d' where n: "send_attempts (e_tr e) (loaded handle ?w) att 0 0 (?d\<lparr>send_q := q\<rparr>) = Some (replicate n ?w, d')"
      "1 \<le> n" "n \<le> 3"
      "d' = ?d\<lparr>send_q := q\<rparr>\<lparr>recv_ack := WAIT_MSG\<rparr> \<or> (\<exists>ack. d' = stop_waiting (?d\<lparr>send_q := q\<rparr>\<lparr>recv_ack := ack\<rparr>))"
    by auto
  have "pkg_ack_status (q_pkg m) = MSG_ACK_WAITING" "pkg_send_repeat (q_pkg m) = 0" "q_buf m = Mem ?w"
    by (simp_all add: m f_def) (simp_all add: queued_msg_def MasterIsMe_def Let_def)
  then have "pthread_process_send e att handle d = Inr (Some (0, replicate n ?w, loaded handle ?w, d'))"
    using send_package_waiting [of ?d m q ?w handle e att] turn_start [OF assms(1,2)] assms(2,4) n(1) by simp
  moreover have "copies e ty i c j (replicate n f)" using n(2,3) by (auto simp: copies_def f_def)
  moreover have "handle_ok (loaded handle ?w)" using assms(4) len by (simp add: handle_ok_def loaded_def size_defs)
  moreover have "linked d'" "send_q d' = q" "uploading e ty i c k d'"
    using n(4) linked_sent [OF assms(1,2)] assms(6) by auto
  ultimately show ?thesis by (metis map_replicate)
qed

section \<open>The packets, one after the other\<close>

lemma packets_sent:
  assumes "uploadable c" "e_malloc1 e" "e_malloc2 e"
  shows "linked d \<Longrightarrow> uploading e ty i c (Suc k) d \<Longrightarrow> send_q d = [] \<Longrightarrow> handle_ok handle \<Longrightarrow> Suc k + length xs = packet_count c \<Longrightarrow>
    \<forall>j < length xs. acks e ty i c (k + j) (fst (xs ! j)) \<and> all_delivered (e_tr e) PTR_QUEUE_BUF_SIZE (snd (xs ! j)) \<Longrightarrow>
    \<exists>fss h' d'. conversation e xs handle d = Inr (Some (concat (map transmit (concat fss)), h', d')) \<and>
      list_all2 (copies e ty i c) [Suc k ..< packet_count c] fss \<and> linked d' \<and> uploading e ty i c (packet_count c) d' \<and> send_q d' = []"
proof (induction xs arbitrary: k d handle)
  case Nil
  then show ?case by (intro exI [of _ "[]"]) simp
next
  case (Cons x xs)
  obtain cs att where x: "x = (cs, att)" by fastforce
  have first: "acks e ty i c k cs" "all_delivered (e_tr e) PTR_QUEUE_BUF_SIZE att"
    using Cons.prems(6) x by (auto dest: spec [of _ 0])
  have rest: "\<forall>j < length xs. acks e ty i c (Suc k + j) (fst (xs ! j)) \<and> all_delivered (e_tr e) PTR_QUEUE_BUF_SIZE (snd (xs ! j))"
    using Cons.prems(6) by (auto dest: spec [of _ "Suc _"])
  have more: "Suc k < packet_count c" using Cons.prems(5) by simp
  obtain d1 m where d1: "rcv_chunks e cs d = Inr d1" "linked d1" "uploading e ty i c (Suc (Suc k)) d1" "send_q d1 = [m]"
      "carries e (packet ty i c (Suc k)) m"
    using acks_next [OF Cons.prems(1,2) more assms Cons.prems(3) first(1)] by blast
  obtain fs h1 d2 where d2: "pthread_process_send e att handle d1 = Inr (Some (0, map transmit fs, h1, d2))"
      "copies e ty i c (Suc k) fs" "handle_ok h1" "linked d2" "send_q d2 = []" "uploading e ty i c (Suc (Suc k)) d2"
    using packet_turn [OF d1(2,4,5) Cons.prems(4) first(2) d1(3)] by blast
  obtain fss h' d' where "conversation e xs h1 d2 = Inr (Some (concat (map transmit (concat fss)), h', d'))"
      "list_all2 (copies e ty i c) [Suc (Suc k) ..< packet_count c] fss" "linked d'" "uploading e ty i c (packet_count c) d'"
      "send_q d' = []"
    using Cons.IH [OF d2(4,6,5,3) _ rest] Cons.prems(5) by auto
  then show ?case
    using d1(1) d2(1,2) more
    by (intro exI [of _ "fs # fss"] exI [of _ h'] exI [of _ d'])
      (simp add: x exchange_step_def upt_conv_Cons [of "Suc k"])
qed

section \<open>What the host puts together\<close>

lemma packet_frame:
  assumes "f = build_frame b s cmd (packet ty i c k)"
  shows "htons (pi_packet_index (MmPacketIndex_at (drop 8 f))) = of_nat k" "drop 17 (butlast f) = chunk c k"
proof -
  let ?p = "packet ty i c k"
  let ?h = "\<lparr>pi_type = ty, pi_id = htonl i, pi_packet_total_num = htons (of_nat (packet_count c)), pi_packet_index = htons (of_nat k)\<rparr>"
  have flen: "length f = 9 + length ?p" by (simp add: assms)
  then obtain rest where "drop 8 f = MmPacketIndex_bytes ?h @ chunk c k @ rest"
    using frame_payload [of ?p f b s cmd] assms by (auto simp: packet_def)
  then show "htons (pi_packet_index (MmPacketIndex_at (drop 8 f))) = of_nat k"
    using MmPacketIndex.dec_enc [of ?h "chunk c k @ rest"] by simp
  have "drop 8 (butlast f) = bytes_at f 8 (length ?p)" by (simp add: butlast_conv_take flen bytes_at_def drop_take)
  also have "\<dots> = ?p" unfolding assms by (rule build_frame_payload)
  finally have "drop 9 (drop 8 (butlast f)) = drop 9 ?p" by simp
  then show "drop 17 (butlast f) = chunk c k" by (simp add: packet_def MmPacketIndex_bytes_def)
qed

text \<open>Further copies of packet \<open>k\<close> are not the packet that is looked for next.\<close>

lemma host_file_copies:
  assumes "copies e ty i c k fs" "Suc k < 2 ^ 16"
  shows "host_file k (fs @ gs) = chunk c k @ host_file (Suc k) gs"
proof -
  obtain n s where n: "fs = replicate (Suc n) (build_frame (e_build e) s SAMPLE_CMD_UPLOAD_MM_DATA (packet ty i c k))"
    using assms(1) unfolding copies_def by (metis Suc_le_D One_nat_def)
  let ?f = "build_frame (e_build e) s SAMPLE_CMD_UPLOAD_MM_DATA (packet ty i c k)"
  note f = packet_frame [OF refl, of "e_build e" s SAMPLE_CMD_UPLOAD_MM_DATA ty i c k]
  have "(of_nat k :: u16) \<noteq> of_nat (Suc k)"
    using assms(2) by (simp add: word_of_nat_eq_iff take_bit_nat_eq_self del: of_nat_Suc)
  then have "host_file (Suc k) (?f # hs) = host_file (Suc k) hs" for hs by (simp only: host_file.simps f if_False)
  then have "host_file (Suc k) (replicate m ?f @ gs) = host_file (Suc k) gs" for m by (induction m) simp_all
  then show ?thesis by (simp add: n f)
qed

lemma host_file_packets:
  "list_all2 (copies e ty i c) [k ..< n] fss \<Longrightarrow> n < 2 ^ 16 \<Longrightarrow> k \<le> n \<Longrightarrow>
   host_file k (concat fss) = concat (map (chunk c) [k ..< n])"
proof (induction "n - k" arbitrary: k fss)
  case (Suc m)
  then have k: "[k ..< n] = k # [Suc k ..< n]" by (simp add: upt_conv_Cons)
  obtain fs gss where "fss = fs # gss" "copies e ty i c k fs" "list_all2 (copies e ty i c) [Suc k ..< n] gss"
    using Suc.prems(1) by (auto simp: k list_all2_Cons1)
  then show ?case using Suc.hyps(1) [of "Suc k" gss] Suc.hyps(2) Suc.prems(2,3) host_file_copies by (simp add: k)
qed simp

section \<open>Properties\<close>

text \<open>C4: an upload from the request to the last acknowledgement. The host asks a device at rest for a file it has,
  not empty and a packet short of two gigabytes or smaller, as a larger size or offset is negative as an
  \<open>int\<close>, and acknowledges each packet it gets, perhaps several times or late; the transport may cut its bytes in
  any pieces. Then every turn of the sender sends, the decoder of the host gets the reply to the request
  and then one to three copies of each packet, the file put together from them is the file of the device,
  byte for byte, and afterwards the device is at rest and ready for another request. Neither lost
  acknowledgements nor the timeouts of the sender change the file.\<close>

theorem upload_reaches_host:
  assumes "at_rest d" "\<not> ps_mm_data_trans_waiting (pkg_status d)"
    and "d_files d (mmid_to_filename (e_build e) i) = Some c" "c \<noteq> []" "length c + IMAGE_SIZE_PER_PACKET \<le> 2 ^ 31"
    and "e_malloc1 e" "e_malloc2 e" "handle_ok handle"
    and "concat cs = transmit (host_request (e_build e) s ty i)" "\<forall>x \<in> set cs. x \<noteq> [] \<and> length x \<le> SLIP_DATA_BUF_SIZE"
    and "all_delivered (e_tr e) PTR_QUEUE_BUF_SIZE att" "all_delivered (e_tr e) PTR_QUEUE_BUF_SIZE att'"
    and "length xs + 1 = packet_count c"
    and "\<forall>k < length xs. acks e ty i c k (fst (xs ! k)) \<and> all_delivered (e_tr e) PTR_QUEUE_BUF_SIZE (snd (xs ! k))"
    and "acks e ty i c (length xs) cs'"
    and "decoder_idle dec" "18 + IMAGE_SIZE_PER_PACKET \<le> msglen" "18 + IMAGE_SIZE_PER_PACKET \<le> length (rcv_msg dec)"
  shows "\<exists>wire h' d1 d2 frames dec'. conversation e ((cs, att) # ([], att') # xs) handle d = Inr (Some (wire, h', d1)) \<and>
    rcv_chunks e cs' d1 = Inr d2 \<and> at_rest d2 \<and> \<not> ps_mm_data_trans_waiting (pkg_status d2) \<and>
    feed msglen wire dec = Inr (build_frame (e_build e) s SAMPLE_CMD_REQ_MM_DATA [] # frames, dec') \<and>
    host_file 0 frames = c"
proof -
  have up: "uploadable c" using assms(4,5) by (simp add: uploadable_def)
  have d: "linked d" "send_q d = []" using assms(1) by (simp_all add: at_rest_def linked_def listening_def)
  obtain dr d0 m where dr: "rcv_chunks e cs d = Inr dr" "linked dr" "uploading e ty i c (Suc 0) dr"
      "send_q dr = [queued_msg e SAMPLE_CMD_REQ_MM_DATA [] d0, m]" "carries e (packet ty i c 0) m"
      "send_serial SAMPLE_CMD_REQ_MM_DATA d0 = s"
    using request_parsed [OF d assms(2,3) up assms(6,7), of s ty] rcv_chunks_parse [OF assms(10), of e d] by (auto simp: assms(9))
  obtain h1 da where da: "pthread_process_send e att handle dr =
        Inr (Some (0, [transmit (build_frame (e_build e) s SAMPLE_CMD_REQ_MM_DATA [])], h1, da))"
      "handle_ok h1" "linked da" "send_q da = [m]" "uploading e ty i c (Suc 0) da"
    using reply_turn [OF dr(2,4) assms(8,11) dr(3)] dr(6) by blast
  obtain fs h2 db where db: "pthread_process_send e att' h1 da = Inr (Some (0, map transmit fs, h2, db))" "copies e ty i c 0 fs"
      "handle_ok h2" "linked db" "send_q db = []" "uploading e ty i c (Suc 0) db"
    using packet_turn [OF da(3,4) dr(5) da(2) assms(12) da(5)] by blast
  obtain fss h' d1 where d1: "conversation e xs h2 db = Inr (Some (concat (map transmit (concat fss)), h', d1))"
      "list_all2 (copies e ty i c) [Suc 0 ..< packet_count c] fss" "linked d1" "uploading e ty i c (packet_count c) d1" "send_q d1 = []"
    using packets_sent [OF up assms(6,7) db(4,6,5,3), of xs] assms(13,14) by auto
  obtain d2 where d2: "rcv_chunks e cs' d1 = Inr d2" "linked d2" "send_q d2 = []" "\<not> ps_mm_data_trans_waiting (pkg_status d2)"
    using acks_last [OF d1(3,4) up d1(5) assms(13,15)] by blast
  let ?frames = "concat (fs # fss)" and ?reply = "build_frame (e_build e) s SAMPLE_CMD_REQ_MM_DATA []"
  have all: "list_all2 (copies e ty i c) [0 ..< packet_count c] (fs # fss)"
    using d1(2) db(2) assms(13) by (simp add: upt_conv_Cons [of 0])
  have "whole_frame msglen dec f" if "f \<in> set (?reply # ?frames)" for f
  proof (cases "f = ?reply")
    case True
    then show ?thesis using assms(17,18) by (auto intro!: whole_frame_build_frame)
  next
    case False
    then have "f \<in> set (concat (fs # fss))" using that by simp
    then obtain gs where gs: "gs \<in> set (fs # fss)" "f \<in> set gs" unfolding set_concat by blast
    then obtain k where "copies e ty i c k gs" using all by (metis in_set_conv_nth list_all2_conv_all_nth)
    then obtain s' where "f = build_frame (e_build e) s' SAMPLE_CMD_UPLOAD_MM_DATA (packet ty i c k)"
      using gs(2) by (auto simp: copies_def)
    then show ?thesis using assms(17,18) length_packet [of ty i c k] by (auto intro!: whole_frame_build_frame)
  qed
  then obtain dec' where dec': "feed msglen (concat (map transmit (?reply # ?frames))) dec = Inr (?reply # ?frames, dec')"
    using rx.decode_all [of dec "?reply # ?frames" msglen] assms(16) by blast
  have conv: "conversation e ((cs, att) # ([], att') # xs) handle d = Inr (Some (concat (map transmit (?reply # ?frames)), h', d1))"
    using dr(1) da(1) db(1) d1(1) by (simp add: exchange_step_def)
  have "host_file 0 ?frames = c"
    using host_file_packets [OF all packet_count_16 [OF up]] concat_all_chunks [of c] by simp
  moreover have "at_rest d2" using d2(2,3) by (simp add: at_rest_def linked_def listening_def)
  ultimately show ?thesis using conv d2(1,4) dec' by blast
qed

theorem upload_reaches_host_witness:
  "\<exists>wire h' d1 d2 frames dec'. conversation (idle_env ENABLE_ADAS)
      [(one_byte_chunks (transmit (host_request ENABLE_ADAS 5 MM_PHOTO 7)), \<lambda>_. test_sender), ([], \<lambda>_. test_sender)] test_handle
      (idle_device\<lparr>d_files := [mmid_to_filename ENABLE_ADAS 7 \<mapsto> [1, 2, 3]]\<rparr>) = Inr (Some (wire, h', d1)) \<and>
    rcv_chunks (idle_env ENABLE_ADAS) [transmit (host_ack ENABLE_ADAS 6 MM_PHOTO 7 [1, 2, 3] 0)] d1 = Inr d2 \<and> at_rest d2 \<and>
    \<not> ps_mm_data_trans_waiting (pkg_status d2) \<and>
    feed PTR_QUEUE_BUF_SIZE wire (fresh_decoder PTR_QUEUE_BUF_SIZE) = Inr (build_frame ENABLE_ADAS 5 SAMPLE_CMD_REQ_MM_DATA [] # frames, dec') \<and>
    host_file 0 frames = [1, 2, 3]"
proof -
  let ?d = "idle_device\<lparr>d_files := [mmid_to_filename ENABLE_ADAS 7 \<mapsto> [1, 2, 3]]\<rparr>"
  let ?ack = "host_ack ENABLE_ADAS 6 MM_PHOTO 7 [1, 2, 3] 0"
  have e: "e_build (idle_env ENABLE_ADAS) = ENABLE_ADAS" "e_tr (idle_env ENABLE_ADAS) = TCP_INTERFACE"
      "e_malloc1 (idle_env ENABLE_ADAS)" "e_malloc2 (idle_env ENABLE_ADAS)" by (simp_all add: idle_env_def)
  have n: "packet_count [1, 2, 3 :: u8] = 1" by (simp add: packet_count_def IMAGE_SIZE_PER_PACKET_def)
  have rest: "at_rest ?d" using at_rest_idle by (simp add: at_rest_def)
  have idle: "\<not> ps_mm_data_trans_waiting (pkg_status ?d)" by (simp add: idle_device_def)
  have chunks: "concat (one_byte_chunks bs) = bs" "\<forall>x \<in> set (one_byte_chunks bs). x \<noteq> [] \<and> length x \<le> SLIP_DATA_BUF_SIZE" for bs
    by (simp_all add: one_byte_chunks_def size_defs)
  let ?info = "\<lparr>ai_req_type = MM_PHOTO, ai_mm_id = htonl 7, ai_packet_total_num = htons (of_nat (packet_count [1, 2, 3])),
      ai_packet_index = htons (of_nat 0), ai_ack = 0\<rparr>"
  have "length (MmAckInfo_bytes ?info) = 10" by (rule MmAckInfo.length_enc) simp
  then have len: "9 \<le> length (transmit ?ack)" "length (transmit ?ack) \<le> 36"
    using length_transmit_build_frame [where b = ENABLE_ADAS and s = 6 and cmd = SAMPLE_CMD_UPLOAD_MM_DATA and payload = "MmAckInfo_bytes ?info"]
    by (simp_all add: host_ack_def)
  then have "transmit ?ack \<noteq> []" by auto
  then have ack: "acks (idle_env ENABLE_ADAS) MM_PHOTO 7 [1, 2, 3] 0 [transmit ?ack]"
    unfolding acks_def e by (intro conjI exI [of _ 6] exI [of _ "[]"]) (use len in \<open>simp_all add: ack_bytes_def size_defs\<close>)
  have dec: "decoder_idle (fresh_decoder PTR_QUEUE_BUF_SIZE)" "18 + IMAGE_SIZE_PER_PACKET \<le> PTR_QUEUE_BUF_SIZE"
      "18 + IMAGE_SIZE_PER_PACKET \<le> length (rcv_msg (fresh_decoder PTR_QUEUE_BUF_SIZE))"
    by (simp_all add: fresh_decoder_def decoder_idle_def size_defs)
  note sent = all_delivered_test_sender [OF order_refl]
  show ?thesis
    by (rule upload_reaches_host [where e = "idle_env ENABLE_ADAS" and xs = "[]" and ty = MM_PHOTO and c = "[1, 2, 3]", unfolded e(1,2),
          OF rest idle _ _ _ e(3,4) test_facts(1) chunks(1) chunks(2) sent sent])
      (simp_all add: n ack dec size_defs fresh_decoder_def decoder_idle_def)
qed

end
