(* ===== verification/Spec2Isabelle.thy ===== *)
theory Spec2Isabelle
  imports Prelude Prot Queues Framing Para ParaMerge UpgradeScript Device Alerts AlertProps Commands CommandProps TransferProps
    Net Transport Send SendProps Media MediaProps Wsi WsiProps Config ConfigProps Log Teardown Encoder DmsJson
    Housekeeping Printing System SystemProps EndToEnd Upload
begin

text \<open>
  A verification of the protocol process of a driver assistance device (\<open>src/\<close>). The process runs
  on the device beside the vision algorithms. It takes alerts from them over a websocket, reports
  them to the host of the vehicle over TCP or RS232, records photos and videos for them and serves the
  host's commands: parameters, status, uploads of the recorded files, snapshots, factory reset and
  firmware upgrade. The same sources are built for the forward camera (\<open>ENABLE_ADAS\<close>) or the driver
  camera (\<open>ENABLE_DMS\<close>) and for either transport; both choices are fields of the record \<open>env\<close>.

  \<^bold>\<open>Parts of the program and the theories that model them\<close>

  \<^item> \<open>Prelude\<close>: outcomes with memory faults, byte order, byte images, shared lemmas and collections.
  \<^item> \<open>Prot\<close>: the constants and packed structs of \<open>prot.h\<close> and \<open>common.h\<close> with their memory images.
  \<^item> \<open>Queues\<close>: the pointer queue and the media list of \<open>common.cpp\<close>, \<open>clear_queue\<close>,
    \<open>push_mm_queue\<close> and \<open>pull_mm_queue\<close> of \<open>process.cpp\<close>. The locale \<open>bounded_fifo\<close> states what the
    users of a queue rely on; both queues interpret it.
  \<^item> \<open>Framing\<close>: \<open>sample_escaple_msg\<close>, \<open>unescaple_msg\<close> and \<open>sample_calc_sum\<close>, with the byte
    stuffing as specification.
  \<^item> \<open>Para\<close>, \<open>ParaMerge\<close>: \<open>para.cpp\<close>, the two parameter structs, their merge, checks, defaults and
    files. The locale \<open>packed_struct\<close> is interpreted for both.
  \<^item> \<open>UpgradeScript\<close>: what \<open>prot_upgrade.sh\<close>, which an upgrade runs, does to the files.
  \<^item> \<open>Device\<close>: the state the threads share, one field per global or static variable, with the id
    counters, serial numbers, status cells, file names and \<open>message_queue_send\<close>; and, for the
    connection, the descriptor in the handle and the descriptors that have been closed.
  \<^item> \<open>Alerts\<close>, \<open>AlertProps\<close>: the alert handlers, the filters, the warning frames, the snapshots, the
    retention of old files and the heart beat.
  \<^item> \<open>Commands\<close>, \<open>CommandProps\<close>, \<open>TransferProps\<close>: the handlers of the host's commands,
    \<open>sample_on_cmd\<close> and \<open>prot_parse\<close>; uploads and upgrades.
  \<^item> \<open>Net\<close>, \<open>Transport\<close>: \<open>net.cpp\<close> and \<open>uart.cpp\<close>, the sending and receiving functions (locales
    \<open>sender\<close> and \<open>stream_parser\<close>) and the opening of the transports.
  \<^item> \<open>Send\<close>, \<open>SendProps\<close>: \<open>send_package\<close> with its retransmissions, \<open>pthread_process_send\<close> and
    \<open>pthread_process_recv\<close>.
  \<^item> \<open>Teardown\<close>: the buffers of the handle from \<open>prot_init_pre\<close> to \<open>handle_distroy\<close>, and the interrupt.
  \<^item> \<open>Media\<close>, \<open>MediaProps\<close>: the recording thread of \<open>rb_rw.cpp\<close>.
  \<^item> \<open>Encoder\<close>: the thread that turns camera frames into JPEG frames, \<open>store_one_mp4\<close>, and the opening
    of the cameras. The thread is compiled, but \<open>main\<close> does not start it.
  \<^item> \<open>Log\<close>: the log file of \<open>common.cpp\<close> and the lines \<open>process.cpp\<close> writes to it.
  \<^item> \<open>Wsi\<close>, \<open>WsiProps\<close>: the websocket client of \<open>wsi.cpp\<close>.
  \<^item> \<open>DmsJson\<close>: the newer driver monitor interface of \<open>wsi.cpp\<close>, from the JSON text to the CAN frames.
  \<^item> \<open>Config\<close>, \<open>ConfigProps\<close>: the configuration file, \<open>global_var_init\<close> and \<open>main\<close>.
  \<^item> \<open>Housekeeping\<close>: the size limit of the media, their removal, socket, serial line and condition
    variable options, and the hexadecimal dump.
  \<^item> \<open>Printing\<close>: the lines the print functions of the parameters, the configuration, the media list and a
    buffer write, and the help text.
  \<^item> \<open>System\<close>, \<open>SystemProps\<close>: the threads together, as steps on the shared state.
  \<^item> \<open>EndToEnd\<close>: the components from one end to the other: a conversation, an alert, a restart.
  \<^item> \<open>Upload\<close>: a file upload over the wire, from the request of the host to its last acknowledgement,
    against a host that puts the packets together.

  \<^bold>\<open>What the lemmas show\<close>

  From the host's side: what the device queues is a frame the decoder accepts, however the stream is
  cut (\<open>Framing\<close>, \<open>Device\<close>, \<open>Net\<close>); a valid frame is dispatched exactly once, a query gets one reply,
  parameters that are set are read back (\<open>CommandProps\<close>); a message reaches the host one to three
  times, and is lost on a connection the host has closed (\<open>SendProps\<close>); a file is uploaded completely, and
  the first upgrade is written as sent and installed (\<open>TransferProps\<close>). A whole conversation is answered question by question, an alert arrives from the
  websocket message to the decoded report, and parameters survive a restart (\<open>EndToEnd\<close>). A host that
  acknowledges each packet of an upload ends with exactly the file (\<open>Upload\<close>). From the
  camera's side: the photos an alert announces are the files an upload
  finds (\<open>MediaProps\<close>), an alert message reaches its handler (\<open>WsiProps\<close>), ids are fresh after a
  restart (\<open>ConfigProps\<close>), two of three frames are encoded (\<open>Encoder\<close>), the alerts of a JSON document are
  the fields of its CAN frame (\<open>DmsJson\<close>). Of the whole: an invariant of all reachable states, and the
  memory faults each build can have, one of them the use of a buffer the receive thread has freed
  (\<open>SystemProps\<close>). Where the code does not do what it means to, a theorem says
  what it does instead, with the input that shows it.

  \<^bold>\<open>Modelling decisions\<close>

  \<^item> The target is a little-endian 64-bit ARM with unsigned \<open>char\<close> and a 64-bit \<open>time_t\<close>. Integers the
    code computes with are words of their width; buffer indices are \<open>nat\<close> where they cannot wrap and
    \<open>int\<close> where they can become negative. A file size or offset in an \<open>int\<close> is cut to 32 bits
    (\<open>int32\<close>), and signed arithmetic on it wraps.
  \<^item> A read or write outside an array, the use of a freed block, a null pointer and a failed assert are
    the values \<open>Inl\<close> of a fault. Asserts are compiled in. Nothing is claimed of the program after one.
  \<^item> What comes from outside is an argument: the clocks, whether \<open>malloc\<close> and file operations succeed,
    uninitialised locals, the outcomes of \<open>read\<close>, \<open>write\<close>, \<open>select\<close> and the waits. Where such a list
    of outcomes ends before a loop does, the thread is still waiting, which is \<open>None\<close>.
  \<^item> The loops are total functions with a measure: the length of the message, the room left, the number
    of outcomes, the three transmissions. No fuel is used.
  \<^item> The file system is a map from paths to contents; \<open>system\<close> records its commands, removes the files
    an \<open>rm\<close> names, and the upgrade command has the effect of the script in \<open>src/\<close>: the image is
    moved and unpacked, and the programs and configuration files in it are installed. What \<open>tar\<close> finds in
    the image and what the installer of algorithm packages does are arguments. The script installed on the
    device is taken to be that one.
  \<^item> An operation under a mutex is one step. In \<open>System\<close> a whole turn of a thread is one step: the
    variables a turn uses are its own, or cells under a mutex that it reads and writes as a whole, or
    queues.
  \<^item> libwebsockets, msgpack, rapidjson, the camera library and the ring buffer are not part of the
    sources; the definitions take what they deliver as arguments and return what they are asked. A
    websocket message unpacks to an object or it does not; the program does not ask which, and in the
    second case interprets an uninitialised object, which is a fault.
  \<^item> The allocations of one operation have the same outcome: \<open>e_malloc1\<close> says whether the first of a
    kind succeeds and \<open>e_malloc2\<close> whether the second does.

  \<^bold>\<open>Not modelled\<close>

  What prints the structures of the libraries and is never called: \<open>print_frame\<close>, \<open>read_pthread_num\<close>.
  The \<open>printf\<close> calls inside the handlers. What is not compiled:
  \<open>unpack_wsi_msg2\<close>, \<open>adas_parse_data_json\<close>, \<open>deal_wsi_dms_info2\<close>, \<open>push_mm_req_cmd_queue\<close>,
  \<open>pull_mm_req_cmd_queue\<close>, \<open>do_recv_msg\<close>, the earlier versions under \<open>#if 0\<close>. What is not under
  \<open>src/\<close>: the hardware encoder, the drawing of text and the MP4 writer are arguments. Writes to the
  log file are taken to succeed, and the log is a state of its own: its lines are given by the operations
  of \<open>Log\<close>, which the handlers of the other theories leave out. The join of the threads at the exit
  only waits.
\<close>

end
